(* ===== verification/Operator_Prelude.thy ===== *)
theory Operator_Prelude
  imports Main "HOL-Library.Sublist"
begin

text \<open>
  What every component of the operator's model shares: Go's error values, the result of a
  function that may fail or panic, the two sequencing operators that stand for
  \<open>if err != nil { return err }\<close>, and the loops that stop at the first error. The lemmas that
  carry later proofs are collected in \<open>result_simps\<close> (when a sequence of fallible calls
  succeeds, fails or panics) and \<open>loop_simps\<close>.
\<close>

named_theorems result_simps
named_theorems loop_simps

section \<open>Error values\<close>

text \<open>
  A Go \<open>error\<close> that the code can produce or pass on:
  \<^item> \<open>ErrNew s\<close>: \<open>errors.New(s)\<close>, or \<open>fmt.Errorf\<close> without \<open>%w\<close>, with its text;
  \<^item> \<open>ErrorfW s e\<close>: \<open>fmt.Errorf\<close> whose last verb is \<open>%w\<close>, with the text before it;
  \<^item> \<open>Wrapped s e\<close>: \<open>errors.Wrapf(e, ...)\<close> of \<open>github.com/pkg/errors\<close>, with the formatted message;
  \<^item> \<open>NotReady s\<close>: the type \<open>MetalLBResourcesNotReadyError\<close> of \<open>pkg/status\<close>;
  \<^item> \<open>EmbeddedFRRK8sSupportNotAvailable\<close>: the sentinel of \<open>controllers\<close>;
  \<^item> \<open>LibError f x\<close>: an error returned by the standard library or by a package that is not part
    of the repository, named by the call \<open>f\<close> and its argument \<open>x\<close>; its text is not modelled.
\<close>

datatype go_error =
    ErrNew string
  | ErrorfW string go_error
  | Wrapped string go_error
  | NotReady string
  | EmbeddedFRRK8sSupportNotAvailable
  | LibError string string

text \<open>\<open>errors.Is(err, EmbeddedFRRK8sSupportNotAvailable)\<close>: the chain of wrapped errors is walked.\<close>

fun is_embedded_not_available :: "go_error \<Rightarrow> bool" where
  "is_embedded_not_available EmbeddedFRRK8sSupportNotAvailable = True"
| "is_embedded_not_available (ErrorfW _ e) = is_embedded_not_available e"
| "is_embedded_not_available (Wrapped _ e) = is_embedded_not_available e"
| "is_embedded_not_available _ = False"

section \<open>Results\<close>

text \<open>
  \<open>go_error + 'a\<close> is the result of a Go function that returns \<open>(T, error)\<close> and never panics.
  An \<open>'a outcome\<close> also has the two ways a call may not return: a run-time panic, and a loop that
  runs forever.
\<close>

datatype 'a outcome = Ret 'a | Fail go_error | Panic | Hang

definition bindE :: "'e + 'a \<Rightarrow> ('a \<Rightarrow> 'e + 'b) \<Rightarrow> 'e + 'b" where
  "bindE m f = (case m of Inl e \<Rightarrow> Inl e | Inr x \<Rightarrow> f x)"

fun bindO :: "'a outcome \<Rightarrow> ('a \<Rightarrow> 'b outcome) \<Rightarrow> 'b outcome" where
  "bindO (Ret x) f = f x"
| "bindO (Fail e) f = Fail e"
| "bindO Panic f = Panic"
| "bindO Hang f = Hang"

fun outcome_of :: "go_error + 'a \<Rightarrow> 'a outcome" where
  "outcome_of (Inl e) = Fail e"
| "outcome_of (Inr x) = Ret x"

lemma bindE_simps [simp]:
  "bindE (Inl e) f = Inl e"
  "bindE (Inr x) f = f x"
  by (simp_all add: bindE_def)

lemma bindE_eq_Inr [result_simps]:
  "bindE m f = Inr y \<longleftrightarrow> (\<exists>x. m = Inr x \<and> f x = Inr y)"
  by (cases m) simp_all

lemma bindE_eq_Inl [result_simps]:
  "bindE m f = Inl e \<longleftrightarrow> m = Inl e \<or> (\<exists>x. m = Inr x \<and> f x = Inl e)"
  by (cases m) simp_all

lemma bindO_eq_Ret [result_simps]:
  "bindO m f = Ret y \<longleftrightarrow> (\<exists>x. m = Ret x \<and> f x = Ret y)"
  by (cases m) simp_all

lemma bindO_eq_Panic [result_simps]:
  "bindO m f = Panic \<longleftrightarrow> m = Panic \<or> (\<exists>x. m = Ret x \<and> f x = Panic)"
  by (cases m) simp_all

lemma bindO_eq_Hang [result_simps]:
  "bindO m f = Hang \<longleftrightarrow> m = Hang \<or> (\<exists>x. m = Ret x \<and> f x = Hang)"
  by (cases m) simp_all

lemma bindO_eq_Fail [result_simps]:
  "bindO m f = Fail e \<longleftrightarrow> m = Fail e \<or> (\<exists>x. m = Ret x \<and> f x = Fail e)"
  by (cases m) simp_all

lemma outcome_of_eq [result_simps]:
  "outcome_of m = Ret x \<longleftrightarrow> m = Inr x"
  "outcome_of m = Fail e \<longleftrightarrow> m = Inl e"
  "outcome_of m = Panic \<longleftrightarrow> False"
  "outcome_of m = Hang \<longleftrightarrow> False"
  by (cases m; simp)+

section \<open>Loops\<close>

text \<open>
  \<open>for _, x := range xs { y, err := f(x); if err != nil { return err }; ys = append(ys, y) }\<close>:
  the results in order, or the first call that does not return normally.
\<close>

fun mapO :: "('a \<Rightarrow> 'b outcome) \<Rightarrow> 'a list \<Rightarrow> 'b list outcome" where
  "mapO f [] = Ret []"
| "mapO f (x # xs) = bindO (f x) (\<lambda>y. bindO (mapO f xs) (\<lambda>ys. Ret (y # ys)))"

lemma mapO_eq_Ret [loop_simps]:
  "mapO f xs = Ret ys \<longleftrightarrow> list_all2 (\<lambda>x y. f x = Ret y) xs ys"
proof (induction xs arbitrary: ys)
  case Nil
  show ?case by auto
next
  case (Cons x xs)
  show ?case by (cases ys) (auto simp: bindO_eq_Ret Cons.IH)
qed

lemma mapO_total:
  "(\<And>x. x \<in> set xs \<Longrightarrow> \<exists>y. f x = Ret y) \<Longrightarrow> \<exists>ys. mapO f xs = Ret ys"
  by (induction xs) (fastforce simp: bindO_eq_Ret)+

lemma mapO_cong [fundef_cong]:
  "xs = ys \<Longrightarrow> (\<And>x. x \<in> set ys \<Longrightarrow> f x = g x) \<Longrightarrow> mapO f xs = mapO g ys"
  by (induction xs arbitrary: ys) auto

text \<open>
  The interface of a loop that checks its elements one after the other and returns the error of
  the first bad one: \<open>check\<close> is the body, \<open>loop\<close> the loop. Whoever provides such a loop gets
  what the validation proofs use: it passes exactly when every element does, and the error it
  returns is that of the first element that does not.
\<close>

locale first_error_loop =
  fixes check :: "'a \<Rightarrow> go_error option"
    and loop :: "'a list \<Rightarrow> go_error option"
  assumes loop_Nil: "loop [] = None"
    and loop_Cons: "loop (x # xs) = (case check x of None \<Rightarrow> loop xs | Some e \<Rightarrow> Some e)"
begin

lemma loop_None_iff: "loop xs = None \<longleftrightarrow> (\<forall>x\<in>set xs. check x = None)"
  by (induction xs) (auto simp: loop_Nil loop_Cons split: option.splits)

lemma loop_Some_iff:
  "loop xs = Some e \<longleftrightarrow>
     (\<exists>us x vs. xs = us @ x # vs \<and> (\<forall>u\<in>set us. check u = None) \<and> check x = Some e)"
  (is "_ = ?found xs")
proof (induction xs)
  case Nil
  show ?case by (simp add: loop_Nil)
next
  case (Cons x xs)
  show ?case
  proof (cases "check x")
    case None
    have "?found (x # xs) \<longleftrightarrow> ?found xs"
    proof
      assume "?found (x # xs)"
      then obtain us y vs where *: "x # xs = us @ y # vs" "\<forall>u\<in>set us. check u = None"
        "check y = Some e" by blast
      then show "?found xs" using None by (cases us) auto
    next
      assume "?found xs"
      then obtain us y vs where "xs = us @ y # vs" "\<forall>u\<in>set us. check u = None"
        "check y = Some e" by blast
      then have "x # xs = (x # us) @ y # vs \<and> (\<forall>u\<in>set (x # us). check u = None) \<and>
        check y = Some e" using None by simp
      then show "?found (x # xs)" by blast
    qed
    with None Cons.IH show ?thesis by (simp add: loop_Cons)
  next
    case (Some e')
    have "?found (x # xs) \<longleftrightarrow> e' = e"
    proof
      assume "?found (x # xs)"
      then obtain us y vs where "x # xs = us @ y # vs" "\<forall>u\<in>set us. check u = None"
        "check y = Some e" by blast
      then show "e' = e" using Some by (cases us) auto
    next
      assume "e' = e"
      with Some have "x # xs = [] @ x # xs \<and> (\<forall>u\<in>set []. check u = None) \<and> check x = Some e"
        by simp
      then show "?found (x # xs)" by blast
    qed
    with Some show ?thesis by (simp add: loop_Cons)
  qed
qed

lemma loop_append:
  "loop (xs @ ys) = (case loop xs of None \<Rightarrow> loop ys | Some e \<Rightarrow> Some e)"
  by (induction xs) (auto simp: loop_Nil loop_Cons split: option.splits)

lemma loop_cong_set: "set xs = set ys \<Longrightarrow> (loop xs = None) = (loop ys = None)"
  by (simp add: loop_None_iff)

end

section \<open>Maps\<close>

lemma map_add_dom_inter_empty:
  "k \<notin> dom n \<Longrightarrow> (m ++ n) k = m k"
  by (simp add: map_add_dom_app_simps(3))

end
