(* ===== verification/Go_Values.thy ===== *)
theory Go_Values
  imports Operator_Prelude
begin

text \<open>
  Dynamically typed Go values: what an \<open>interface{}\<close> holds in the chart values and in the content
  of an unstructured Kubernetes object. A Go map is a partial function from its keys, so two maps
  with the same entries are equal, as the order of a Go map is not observable.
\<close>

named_theorems nested_simps

section \<open>Values\<close>

text \<open>\<open>corev1.Toleration\<close>, with \<open>TolerationSeconds\<close> a pointer.\<close>

record toleration =
  Key :: string
  Operator :: string
  TolerationValue :: string
  Effect :: string
  TolerationSeconds :: "int option"

text \<open>
  \<open>GStr\<close> is a value of \<open>string\<close> or of a named string type, \<open>GInt\<close> of any integer type, \<open>GFloat\<close> of
  \<open>float64\<close>, named by its decimal text; the slices are told apart by their element type.
\<close>

datatype gval =
    GNil
  | GBool bool
  | GInt int
  | GFloat string
  | GStr string
  | GSlice "gval list"
  | GStrSlice "string list"
  | GMapSlice "(string \<Rightarrow> gval option) list"
  | GTolerations "toleration list"
  | GMap "string \<Rightarrow> gval option"

text \<open>The content of an unstructured object, \<open>map[string]interface{}\<close>.\<close>

type_synonym obj = "string \<Rightarrow> gval option"

definition as_map :: "gval \<Rightarrow> obj option" where
  "as_map v = (case v of GMap m \<Rightarrow> Some m | _ \<Rightarrow> None)"

definition as_str :: "gval \<Rightarrow> string option" where
  "as_str v = (case v of GStr s \<Rightarrow> Some s | _ \<Rightarrow> None)"

lemma as_map_simps [simp]:
  "as_map (GMap m) = Some m" "as_map GNil = None" "as_map (GBool b) = None"
  "as_map (GInt i) = None" "as_map (GStr s) = None" "as_map (GSlice xs) = None"
  by (simp_all add: as_map_def)

lemma as_map_eq_Some: "as_map v = Some m \<longleftrightarrow> v = GMap m"
  by (cases v) (simp_all add: as_map_def)

lemma as_str_simps [simp]: "as_str (GStr s) = Some s" "as_str (GMap m) = None" "as_str GNil = None"
  by (simp_all add: as_str_def)

section \<open>Paths\<close>

text \<open>
  The value at a path of keys, and the object with the value at a path replaced. A missing map on
  the way is created, and a value on the way that is not a map makes the update fail.
\<close>

fun nested :: "obj \<Rightarrow> string list \<Rightarrow> gval option" where
  "nested o1 [] = Some (GMap o1)"
| "nested o1 [k] = o1 k"
| "nested o1 (k # k' # ks) =
     (case o1 k of Some (GMap m) \<Rightarrow> nested m (k' # ks) | _ \<Rightarrow> None)"

fun set_nested :: "obj \<Rightarrow> gval \<Rightarrow> string list \<Rightarrow> obj option" where
  "set_nested o1 v [] = None"
| "set_nested o1 v [k] = Some (o1(k \<mapsto> v))"
| "set_nested o1 v (k # k' # ks) =
     (case o1 k of
        None \<Rightarrow> map_option (\<lambda>m. o1(k \<mapsto> GMap m)) (set_nested Map.empty v (k' # ks))
      | Some (GMap m) \<Rightarrow> map_option (\<lambda>m'. o1(k \<mapsto> GMap m')) (set_nested m v (k' # ks))
      | Some _ \<Rightarrow> None)"

text \<open>A path leads into an object when every value on the way that is present is a map.\<close>

fun settable :: "obj \<Rightarrow> string list \<Rightarrow> bool" where
  "settable o1 [] = False"
| "settable o1 [k] = True"
| "settable o1 (k # k' # ks) =
     (case o1 k of None \<Rightarrow> True | Some (GMap m) \<Rightarrow> settable m (k' # ks) | Some _ \<Rightarrow> False)"

lemma set_nested_empty: "ks \<noteq> [] \<Longrightarrow> \<exists>m. set_nested Map.empty v ks = Some m"
proof (induction ks)
  case (Cons k ks)
  then show ?case by (cases ks) auto
qed simp

lemma set_nested_Some_iff: "(\<exists>o2. set_nested o1 v ks = Some o2) \<longleftrightarrow> settable o1 ks"
proof (induction o1 ks rule: settable.induct)
  case (3 o1 k k' ks)
  obtain m where "set_nested Map.empty v (k' # ks) = Some m"
    using set_nested_empty by (metis list.distinct(1))
  with 3 show ?case by (auto split: option.splits gval.splits)
qed auto

lemma nested_set_nested [nested_simps]:
  "set_nested o1 v ks = Some o2 \<Longrightarrow> nested o2 ks = Some v"
proof (induction o1 v ks arbitrary: o2 rule: set_nested.induct)
  case (3 o1 v k k' ks)
  show ?case
  proof (cases "o1 k")
    case None
    with 3 show ?thesis by auto
  next
    case (Some w)
    with 3 show ?thesis by (cases w) auto
  qed
qed auto

lemma set_nested_other_key:
  "set_nested o1 v (k # ks) = Some o2 \<Longrightarrow> j \<noteq> k \<Longrightarrow> o2 j = o1 j"
  by (cases ks) (auto split: option.splits gval.splits)

lemma nested_set_nested_fork:
  "set_nested o1 v (k # ks) = Some o2 \<Longrightarrow> j \<noteq> k \<Longrightarrow> nested o2 (j # js) = nested o1 (j # js)"
  by (cases js) (auto simp: set_nested_other_key)

text \<open>Paths that part after a common first key.\<close>

lemma nested_set_nested_fork2:
  assumes "set_nested o1 v (k # k1 # ks) = Some o2" and "j1 \<noteq> k1"
  shows "nested o2 (k # j1 # js) = nested o1 (k # j1 # js)"
proof (cases "o1 k")
  case None
  with assms(1) obtain m where m: "set_nested Map.empty v (k1 # ks) = Some m"
    and o2: "o2 = o1(k \<mapsto> GMap m)" by auto
  from m have "nested m (j1 # js) = nested Map.empty (j1 # js)"
    using assms(2) by (rule nested_set_nested_fork)
  also have "\<dots> = None" by (cases js) auto
  finally show ?thesis using None o2 by simp
next
  case (Some w)
  with assms(1) obtain m m' where "w = GMap m" and m: "set_nested m v (k1 # ks) = Some m'"
    and o2: "o2 = o1(k \<mapsto> GMap m')" by (cases w) auto
  moreover from m have "nested m' (j1 # js) = nested m (j1 # js)"
    using assms(2) by (rule nested_set_nested_fork)
  ultimately show ?thesis using Some by simp
qed

end
