(* ===== verification/API_Types.thy ===== *)
theory API_Types
  imports Go_Values
begin

text \<open>
  The types of \<open>api/v1beta1/metallb_types.go\<close>, with the fields of the Kubernetes types they hold
  that the operator reads; the fields it only passes on are kept in an opaque remainder. A Go
  pointer, and a map or slice whose nil value the code tells apart, is an \<open>option\<close>.
\<close>

section \<open>Constants\<close>

definition LogLevelAll :: string where "LogLevelAll = ''all''"
definition LogLevelDebug :: string where "LogLevelDebug = ''debug''"
definition LogLevelInfo :: string where "LogLevelInfo = ''info''"
definition LogLevelWarn :: string where "LogLevelWarn = ''warn''"
definition LogLevelError :: string where "LogLevelError = ''error''"
definition LogLevelNone :: string where "LogLevelNone = ''none''"

definition FRRMode :: string where "FRRMode = ''frr''"
definition NativeMode :: string where "NativeMode = ''native''"
definition FRRK8sMode :: string where "FRRK8sMode = ''frr-k8s''"
definition FRRK8sExternalMode :: string where "FRRK8sExternalMode = ''frr-k8s-external''"

lemmas mode_defs = FRRMode_def NativeMode_def FRRK8sMode_def FRRK8sExternalMode_def

lemma modes_distinct [simp]:
  "FRRMode \<noteq> NativeMode" "NativeMode \<noteq> FRRMode" "FRRMode \<noteq> FRRK8sMode" "FRRK8sMode \<noteq> FRRMode"
  "FRRMode \<noteq> FRRK8sExternalMode" "FRRK8sExternalMode \<noteq> FRRMode"
  "NativeMode \<noteq> FRRK8sMode" "FRRK8sMode \<noteq> NativeMode"
  "NativeMode \<noteq> FRRK8sExternalMode" "FRRK8sExternalMode \<noteq> NativeMode"
  "FRRK8sMode \<noteq> FRRK8sExternalMode" "FRRK8sExternalMode \<noteq> FRRK8sMode"
  "[] \<noteq> FRRMode" "[] \<noteq> NativeMode" "[] \<noteq> FRRK8sMode" "[] \<noteq> FRRK8sExternalMode"
  "FRRMode \<noteq> []" "NativeMode \<noteq> []" "FRRK8sMode \<noteq> []" "FRRK8sExternalMode \<noteq> []"
  by (simp_all add: mode_defs)

section \<open>Scheduling constraints\<close>

text \<open>
  \<open>PreferredSchedulingTerm\<close> and \<open>WeightedPodAffinityTerm\<close>: the weight, and the rest of the term.
\<close>

record preferred_term =
  Weight :: int
  term_rest :: gval

record scheduling =
  PreferredDuringSchedulingIgnoredDuringExecution :: "preferred_term list"
  scheduling_rest :: gval

record affinity =
  NodeAffinity :: "scheduling option"
  PodAffinity :: "scheduling option"
  PodAntiAffinity :: "scheduling option"

section \<open>The MetalLB resource\<close>

type_synonym string_map = "string \<Rightarrow> string option"

record config =
  PriorityClassName :: string
  RuntimeClassName :: string
  Affinity :: "affinity option"
  Annotations :: "string_map option"
  Resources :: "gval option"

record frrk8s_config =
  AlwaysBlock :: "string list"
  FRRK8SNamespace :: string
  SecretPassthrough :: bool

record metallb_spec =
  MetalLBImage :: string
  SpeakerNodeSelector :: "string_map option"
  SpeakerTolerations :: "toleration list option"
  LogLevel :: string
  LoadBalancerClass :: string
  ControllerNodeSelector :: "string_map option"
  ControllerTolerations :: "toleration list option"
  ControllerConfig :: "config option"
  SpeakerConfig :: "config option"
  BGPBackend :: string
  FRRK8SConfig :: "frrk8s_config option"

text \<open>\<open>metav1.Condition\<close>; \<open>LastTransitionTime\<close> is an instant in nanoseconds.\<close>

record condition =
  Type :: string
  Status :: string
  CondObservedGeneration :: int
  LastTransitionTime :: int
  Reason :: string
  Message :: string

record metallb =
  Name :: string
  Namespace :: string
  Spec :: metallb_spec
  Conditions :: "condition list"

text \<open>The elements of a slice that may be nil.\<close>

definition elems :: "'a list option \<Rightarrow> 'a list" where
  "elems xs = (case xs of None \<Rightarrow> [] | Some ys \<Rightarrow> ys)"

lemma elems_simps [simp]: "elems None = []" "elems (Some xs) = xs"
  by (simp_all add: elems_def)

text \<open>The zero value of the specification, \<open>MetalLBSpec{}\<close>.\<close>

definition zero_spec :: metallb_spec where
  "zero_spec =
     \<lparr>MetalLBImage = [], SpeakerNodeSelector = None, SpeakerTolerations = None, LogLevel = [],
      LoadBalancerClass = [], ControllerNodeSelector = None, ControllerTolerations = None,
      ControllerConfig = None, SpeakerConfig = None, BGPBackend = [], FRRK8SConfig = None\<rparr>"

section \<open>Workloads\<close>

text \<open>
  \<open>appsv1.DaemonSet\<close> and \<open>appsv1.Deployment\<close>: generation, status counters, and the pod template's
  affinity and containers.
\<close>

record container =
  ContainerName :: string
  ContainerResources :: gval
  container_rest :: gval

record daemonset =
  DSGeneration :: int
  DSObservedGeneration :: int
  DesiredNumberScheduled :: int
  CurrentNumberScheduled :: int
  NumberReady :: int
  UpdatedNumberScheduled :: int
  DSAffinity :: "affinity option"
  DSContainers :: "container list"
  ds_rest :: gval

record deployment =
  DGeneration :: int
  DObservedGeneration :: int
  Replicas :: "int option"
  ReadyReplicas :: int
  UpdatedReplicas :: int
  DAffinity :: "affinity option"
  DContainers :: "container list"
  d_rest :: gval

end
