(* ===== verification/Go_Strings.thy ===== *)
theory Go_Strings
  imports Operator_Prelude "HOL-Library.List_Lexorder" "HOL-Library.Char_ord"
begin

text \<open>
  The part of Go's standard library on strings and numbers that the operator uses: \<open>strings\<close>
  (\<open>LastIndex\<close>, \<open>Split\<close>, \<open>Join\<close>, \<open>TrimSpace\<close>, \<open>HasPrefix\<close>), \<open>strconv\<close>
  (\<open>Atoi\<close>, \<open>ParseUint\<close> in base 10, \<open>Itoa\<close>, which is also \<open>%d\<close>) and \<open>slices.Sort\<close> on
  strings. A Go string is its list of bytes.
\<close>

named_theorems go_string_simps

section \<open>Splitting and joining\<close>

text \<open>\<open>strings.Split(s, sep)\<close> for a separator of one byte: never an empty list.\<close>

fun Split :: "char \<Rightarrow> string \<Rightarrow> string list" where
  "Split sep [] = [[]]"
| "Split sep (c # s) =
     (if c = sep then [] # Split sep s
      else (case Split sep s of [] \<Rightarrow> [[c]] | w # ws \<Rightarrow> (c # w) # ws))"

text \<open>\<open>strings.Join(elems, sep)\<close>.\<close>

fun Join :: "string \<Rightarrow> string list \<Rightarrow> string" where
  "Join sep [] = []"
| "Join sep [w] = w"
| "Join sep (w # v # ws) = w @ sep @ Join sep (v # ws)"

lemma Split_not_Nil [simp]: "Split sep s \<noteq> []"
  by (cases s) (auto split: list.splits)

lemma Split_no_sep: "sep \<notin> set s \<Longrightarrow> Split sep s = [s]"
  by (induction s) auto

lemma Split_append_sep: "sep \<notin> set w \<Longrightarrow> Split sep (w @ sep # s) = w # Split sep s"
  by (induction w) auto

lemma Split_fields_no_sep: "w \<in> set (Split sep s) \<Longrightarrow> sep \<notin> set w"
  by (induction s arbitrary: w) (auto split: if_splits list.splits)

lemma Join_Cons: "ws \<noteq> [] \<Longrightarrow> Join sep (w # ws) = w @ sep @ Join sep ws"
  by (cases ws) auto

lemma Join_Split [go_string_simps]: "Join [sep] (Split sep s) = s"
proof (induction s)
  case Nil
  show ?case by simp
next
  case (Cons c s)
  obtain w ws where ws: "Split sep s = w # ws" by (cases "Split sep s") auto
  with Cons.IH show ?case by (cases ws) (auto simp: Join_Cons)
qed

lemma Split_Join [go_string_simps]:
  "ws \<noteq> [] \<Longrightarrow> (\<And>w. w \<in> set ws \<Longrightarrow> sep \<notin> set w) \<Longrightarrow> Split sep (Join [sep] ws) = ws"
proof (induction ws)
  case Nil
  then show ?case by simp
next
  case (Cons w ws)
  show ?case
  proof (cases "ws = []")
    case True
    with Cons.prems show ?thesis by (simp add: Split_no_sep)
  next
    case False
    with Cons show ?thesis by (simp add: Join_Cons Split_append_sep)
  qed
qed

lemma length_Split: "length (Split sep s) = Suc (count_list s sep)"
  by (induction s) (auto split: list.splits)

section \<open>Searching\<close>

text \<open>\<open>strings.LastIndex(s, sub)\<close> for a substring of one byte: \<open>-1\<close> when it does not occur.\<close>

fun LastIndex :: "string \<Rightarrow> char \<Rightarrow> int" where
  "LastIndex [] c = -1"
| "LastIndex (x # s) c =
     (let i = LastIndex s c in if 0 \<le> i then i + 1 else if x = c then 0 else -1)"

lemma LastIndex_ge: "-1 \<le> LastIndex s c"
  by (induction s) (auto simp: Let_def)

lemma LastIndex_lt: "LastIndex s c < int (length s)"
  by (induction s) (auto simp: Let_def)

lemma LastIndex_absent: "c \<notin> set s \<Longrightarrow> LastIndex s c = -1"
  by (induction s) (auto simp: Let_def)

lemma LastIndex_append_last: "c \<notin> set t \<Longrightarrow> LastIndex (s @ c # t) c = int (length s)"
  by (induction s) (auto simp: Let_def LastIndex_absent)

lemma LastIndex_suffix_free: "c \<notin> set (drop (nat (LastIndex s c + 1)) s)"
proof (induction s)
  case Nil
  show ?case by simp
next
  case (Cons x s)
  show ?case
  proof (cases "0 \<le> LastIndex s c")
    case True
    then have "nat (LastIndex s c + 2) = Suc (nat (LastIndex s c + 1))" by arith
    with True Cons.IH show ?thesis by (simp add: add.commute)
  next
    case False
    with LastIndex_ge [of s c] have i: "LastIndex s c = -1" by simp
    with Cons.IH have "c \<notin> set s" by simp
    with i show ?thesis by (auto simp: Let_def)
  qed
qed

text \<open>\<open>strings.HasPrefix(s, p)\<close>.\<close>

definition HasPrefix :: "string \<Rightarrow> string \<Rightarrow> bool" where
  "HasPrefix s p = prefix p s"

section \<open>Trimming white space\<close>

text \<open>
  \<open>strings.TrimSpace\<close> removes leading and trailing code points for which \<open>unicode.IsSpace\<close> holds:
  six ASCII bytes, and the UTF-8 encodings of U+0085, U+00A0, U+1680, U+2000 to U+200A, U+2028,
  U+2029, U+202F, U+205F and U+3000.
\<close>

definition space_seqs :: "string list" where
  "space_seqs =
     [[CHR 0x09], [CHR 0x0A], [CHR 0x0B], [CHR 0x0C], [CHR 0x0D], [CHR 0x20],
      [CHR 0xC2, CHR 0x85], [CHR 0xC2, CHR 0xA0], [CHR 0xE1, CHR 0x9A, CHR 0x80],
      [CHR 0xE2, CHR 0x80, CHR 0x80], [CHR 0xE2, CHR 0x80, CHR 0x81], [CHR 0xE2, CHR 0x80, CHR 0x82],
      [CHR 0xE2, CHR 0x80, CHR 0x83], [CHR 0xE2, CHR 0x80, CHR 0x84], [CHR 0xE2, CHR 0x80, CHR 0x85],
      [CHR 0xE2, CHR 0x80, CHR 0x86], [CHR 0xE2, CHR 0x80, CHR 0x87], [CHR 0xE2, CHR 0x80, CHR 0x88],
      [CHR 0xE2, CHR 0x80, CHR 0x89], [CHR 0xE2, CHR 0x80, CHR 0x8A], [CHR 0xE2, CHR 0x80, CHR 0xA8],
      [CHR 0xE2, CHR 0x80, CHR 0xA9], [CHR 0xE2, CHR 0x80, CHR 0xAF], [CHR 0xE2, CHR 0x81, CHR 0x9F],
      [CHR 0xE3, CHR 0x80, CHR 0x80]]"

function strip_front :: "string list \<Rightarrow> string \<Rightarrow> string" where
  "strip_front ps s =
     (case find (\<lambda>p. p \<noteq> [] \<and> prefix p s) ps of
        None \<Rightarrow> s
      | Some p \<Rightarrow> strip_front ps (drop (length p) s))"
  by pat_completeness auto
termination
proof (relation "measure (\<lambda>(ps, s). length s)")
  fix ps :: "string list" and s p :: string
  assume "find (\<lambda>p. p \<noteq> [] \<and> prefix p s) ps = Some p"
  then have "p \<noteq> []" and "prefix p s" by (auto simp: find_Some_iff)
  then show "((ps, drop (length p) s), ps, s) \<in> measure (\<lambda>(ps, s). length s)"
    by (auto simp: prefix_def)
qed simp

declare strip_front.simps [simp del]

definition TrimSpace :: "string \<Rightarrow> string" where
  "TrimSpace s = rev (strip_front (map rev space_seqs) (rev (strip_front space_seqs s)))"

lemma strip_front_suffix: "suffix (strip_front ps s) s"
proof (induction ps s rule: strip_front.induct)
  case (1 ps s)
  show ?case
  proof (cases "find (\<lambda>p. p \<noteq> [] \<and> prefix p s) ps")
    case None
    then show ?thesis by (simp add: strip_front.simps)
  next
    case (Some p)
    with "1.IH" have "suffix (strip_front ps (drop (length p) s)) (drop (length p) s)" by simp
    also have "suffix (drop (length p) s) s" by (rule suffix_drop)
    finally show ?thesis using Some by (simp add: strip_front.simps [of ps s])
  qed
qed

lemma strip_front_id:
  "(\<And>p. p \<in> set ps \<Longrightarrow> p \<noteq> [] \<Longrightarrow> \<not> prefix p s) \<Longrightarrow> strip_front ps s = s"
  by (subst strip_front.simps) (auto split: option.splits simp: find_Some_iff)

lemma strip_front_idem: "strip_front ps (strip_front ps s) = strip_front ps s"
proof (induction ps s rule: strip_front.induct)
  case (1 ps s)
  show ?case
  proof (cases "find (\<lambda>p. p \<noteq> [] \<and> prefix p s) ps")
    case None
    then show ?thesis by (simp add: strip_front.simps)
  next
    case (Some p)
    with "1.IH" show ?thesis by (simp add: strip_front.simps [of ps s])
  qed
qed

text \<open>
  A string whose first and last byte start no white space keeps its bytes: the case of every
  printable ASCII word.
\<close>

definition plain_char :: "char \<Rightarrow> bool" where
  "plain_char c = (32 < (of_char c :: nat) \<and> (of_char c :: nat) < 127)"

definition no_plain_head :: "string \<Rightarrow> bool" where
  "no_plain_head p = (case p of [] \<Rightarrow> False | c # _ \<Rightarrow> \<not> plain_char c)"

lemma space_seqs_heads: "list_all no_plain_head space_seqs"
  by code_simp

lemma space_seqs_lasts: "list_all no_plain_head (map rev space_seqs)"
  by code_simp

lemma strip_front_plain:
  assumes "list_all no_plain_head ps" and "\<And>c. c \<in> set s \<Longrightarrow> plain_char c"
  shows "strip_front ps s = s"
proof (rule strip_front_id)
  fix p assume "p \<in> set ps"
  with assms(1) have "no_plain_head p" by (simp add: list_all_iff)
  with assms(2) show "\<not> prefix p s"
    by (cases s) (auto simp: no_plain_head_def split: list.splits)
qed

lemma TrimSpace_plain [go_string_simps]:
  assumes "\<And>c. c \<in> set s \<Longrightarrow> plain_char c"
  shows "TrimSpace s = s"
proof -
  have "strip_front space_seqs s = s" by (rule strip_front_plain [OF space_seqs_heads assms])
  moreover have "strip_front (map rev space_seqs) (rev s) = rev s"
    by (rule strip_front_plain [OF space_seqs_lasts]) (simp add: assms)
  ultimately show ?thesis by (simp add: TrimSpace_def)
qed

lemma TrimSpace_sublist: "sublist (TrimSpace s) s"
proof -
  let ?t = "strip_front space_seqs s"
  have "suffix (strip_front (map rev space_seqs) (rev ?t)) (rev ?t)" by (rule strip_front_suffix)
  then have "prefix (TrimSpace s) ?t"
    by (simp add: TrimSpace_def suffix_to_prefix)
  then have "sublist (TrimSpace s) ?t" by (rule prefix_imp_sublist)
  moreover have "sublist ?t s" by (rule suffix_imp_sublist) (rule strip_front_suffix)
  ultimately show ?thesis by (rule sublist_order.order.trans)
qed

section \<open>Numbers\<close>

definition is_digit :: "char \<Rightarrow> bool" where
  "is_digit c = (48 \<le> (of_char c :: nat) \<and> (of_char c :: nat) \<le> 57)"

definition digit_val :: "char \<Rightarrow> nat" where
  "digit_val c = of_char c - 48"

fun digits_value :: "nat \<Rightarrow> string \<Rightarrow> nat option" where
  "digits_value n [] = Some n"
| "digits_value n (c # s) =
     (if is_digit c then digits_value (10 * n + digit_val c) s else None)"

text \<open>
  \<open>strconv.ParseUint(s, 10, bits)\<close>: at least one digit, nothing but digits, and a value that fits;
  \<open>None\<close> is its error return.
\<close>

definition ParseUint :: "nat \<Rightarrow> string \<Rightarrow> nat option" where
  "ParseUint bits s =
     (if s = [] then None
      else case digits_value 0 s of
             None \<Rightarrow> None
           | Some n \<Rightarrow> if n < 2 ^ bits then Some n else None)"

text \<open>\<open>strconv.Atoi\<close> on a 64-bit platform: an optional sign, then digits, within the range of \<open>int\<close>.\<close>

definition Atoi :: "string \<Rightarrow> int option" where
  "Atoi s =
     (case s of
        [] \<Rightarrow> None
      | c # t \<Rightarrow>
          (let u = (if c = CHR ''-'' \<or> c = CHR ''+'' then t else s)
           in if u = [] then None
              else case digits_value 0 u of
                     None \<Rightarrow> None
                   | Some n \<Rightarrow>
                       (let i = (if c = CHR ''-'' then - int n else int n)
                        in if - (2 ^ 63) \<le> i \<and> i < 2 ^ 63 then Some i else None)))"

text \<open>\<open>strconv.Itoa\<close>, and \<open>%d\<close> of \<open>fmt\<close>.\<close>

fun nat_digits :: "nat \<Rightarrow> string" where
  "nat_digits n =
     (if n < 10 then [char_of (48 + n)] else nat_digits (n div 10) @ [char_of (48 + n mod 10)])"

declare nat_digits.simps [simp del]

definition Itoa :: "int \<Rightarrow> string" where
  "Itoa i = (if i < 0 then CHR ''-'' # nat_digits (nat (- i)) else nat_digits (nat i))"

lemma digits_value_append:
  "digits_value n (s @ t) =
     (case digits_value n s of None \<Rightarrow> None | Some m \<Rightarrow> digits_value m t)"
  by (induction s arbitrary: n) auto

lemma digits_value_Some_digits: "digits_value n s = Some m \<Longrightarrow> \<forall>c\<in>set s. is_digit c"
  by (induction s arbitrary: n) (auto split: if_splits)

lemma digit_char [simp]:
  "n < 10 \<Longrightarrow> is_digit (char_of (48 + n))"
  "n < 10 \<Longrightarrow> digit_val (char_of (48 + n)) = n"
  by (simp_all add: is_digit_def digit_val_def)

lemma nat_digits_not_Nil [simp]: "nat_digits n \<noteq> []"
  by (subst nat_digits.simps) simp

lemma nat_digits_digits: "c \<in> set (nat_digits n) \<Longrightarrow> is_digit c"
proof (induction n rule: nat_digits.induct)
  case (1 n)
  then show ?case by (auto simp: nat_digits.simps [of n] split: if_splits)
qed

lemma digits_value_nat_digits [go_string_simps]: "digits_value 0 (nat_digits n) = Some n"
proof (induction n rule: nat_digits.induct)
  case (1 n)
  then show ?case by (auto simp: nat_digits.simps [of n] digits_value_append)
qed

lemma ParseUint_Itoa [go_string_simps]:
  "n < 2 ^ bits \<Longrightarrow> ParseUint bits (Itoa (int n)) = Some n"
  by (simp add: ParseUint_def Itoa_def digits_value_nat_digits)

lemma ParseUint_bound: "ParseUint bits s = Some n \<Longrightarrow> n < 2 ^ bits"
  by (auto simp: ParseUint_def split: if_splits option.splits)

lemma ParseUint_digits: "ParseUint bits s = Some n \<Longrightarrow> s \<noteq> [] \<and> (\<forall>c\<in>set s. is_digit c)"
  by (auto simp: ParseUint_def split: if_splits option.splits dest: digits_value_Some_digits)

lemma digit_not_sign: "is_digit c \<Longrightarrow> c \<noteq> CHR ''-'' \<and> c \<noteq> CHR ''+'' \<and> c \<noteq> CHR '',''"
  by (auto simp: is_digit_def)

lemma digit_plain: "is_digit c \<Longrightarrow> plain_char c"
  by (simp add: is_digit_def plain_char_def)

lemma Atoi_Itoa [go_string_simps]:
  assumes "- (2 ^ 63) \<le> i" and "i < 2 ^ 63"
  shows "Atoi (Itoa i) = Some i"
proof (cases "i < 0")
  case True
  with assms show ?thesis by (simp add: Atoi_def Itoa_def digits_value_nat_digits)
next
  case False
  obtain c t where ct: "nat_digits (nat i) = c # t" by (cases "nat_digits (nat i)") auto
  then have "is_digit c" using nat_digits_digits [of c "nat i"] by simp
  then have "c \<noteq> CHR ''-''" "c \<noteq> CHR ''+''" using digit_not_sign by blast+
  moreover have "digits_value 0 (c # t) = Some (nat i)"
    using digits_value_nat_digits [of "nat i"] ct by simp
  ultimately show ?thesis using False assms ct by (simp add: Atoi_def Itoa_def)
qed

lemma Atoi_bounds: "Atoi s = Some i \<Longrightarrow> - (2 ^ 63) \<le> i \<and> i < 2 ^ 63"
  by (auto simp: Atoi_def Let_def split: list.splits if_splits option.splits)

lemma Itoa_nonneg_chars:
  assumes "0 \<le> i" and "c \<in> set (Itoa i)"
  shows "is_digit c"
  using assms nat_digits_digits by (auto simp: Itoa_def)

section \<open>Sorting\<close>

text \<open>\<open>slices.Sort\<close> on strings: Go compares strings byte by byte, a proper prefix first.\<close>

definition SortStrings :: "string list \<Rightarrow> string list" where
  "SortStrings ws = sort ws"

lemma SortStrings_sorted [go_string_simps]: "sorted (SortStrings ws)"
  by (simp add: SortStrings_def)

lemma SortStrings_set [go_string_simps]: "set (SortStrings ws) = set ws"
  by (simp add: SortStrings_def)

lemma SortStrings_Nil_iff [simp]: "SortStrings ws = [] \<longleftrightarrow> ws = []"
  by (simp add: SortStrings_def) (metis length_0_conv length_sort)

end
