(* ===== verification/Go_Net.thy ===== *)
theory Go_Net
  imports Go_Strings
begin

text \<open>
  \<open>net.ParseCIDR\<close> of Go's standard library. The operator only looks at whether it returns an
  error, so the model is the acceptance part of the parser: the address family and the prefix
  length, without the bytes of the address.
\<close>

section \<open>IPv4\<close>

text \<open>
  The loop of \<open>netip.parseIPv4Fields\<close>: \<open>prev\<close> is the byte before the current one, \<open>val\<close>,
  \<open>pos\<close> and \<open>dl\<close> its variables \<open>val\<close>, \<open>pos\<close> and \<open>digLen\<close>.
\<close>

fun v4_loop :: "char option \<Rightarrow> nat \<Rightarrow> nat \<Rightarrow> nat \<Rightarrow> string \<Rightarrow> bool" where
  "v4_loop prev val pos dl [] = (3 \<le> pos)"
| "v4_loop prev val pos dl (c # s) =
     (if is_digit c then
        (if dl = 1 \<and> val = 0 then False
         else if 255 < 10 * val + digit_val c then False
         else v4_loop (Some c) (10 * val + digit_val c) pos (dl + 1) s)
      else if c = CHR ''.'' then
        (if prev = None \<or> s = [] \<or> prev = Some (CHR ''.'') then False
         else if pos = 3 then False
         else v4_loop (Some c) 0 (pos + 1) 0 s)
      else False)"

definition parseIPv4 :: "string \<Rightarrow> bool" where
  "parseIPv4 s = v4_loop None 0 0 0 s"

section \<open>IPv6\<close>

definition is_hex :: "char \<Rightarrow> bool" where
  "is_hex c =
     (is_digit c \<or> 97 \<le> (of_char c :: nat) \<and> (of_char c :: nat) \<le> 102 \<or>
      65 \<le> (of_char c :: nat) \<and> (of_char c :: nat) \<le> 70)"

text \<open>After the loop: \<open>i\<close> bytes were filled, and an ellipsis was seen or not.\<close>

definition v6_post :: "nat \<Rightarrow> bool \<Rightarrow> bool" where
  "v6_post i ellipsis = (if i < 16 then ellipsis else \<not> ellipsis)"

text \<open>The loop of \<open>netip.parseIPv6\<close>, with the checks that follow it.\<close>

function v6_loop :: "nat \<Rightarrow> bool \<Rightarrow> string \<Rightarrow> bool" where
  "v6_loop i ellipsis s =
     (if \<not> i < 16 then s = [] \<and> v6_post i ellipsis
      else
        (let off = length (takeWhile is_hex s); r = dropWhile is_hex s in
         if 4 < off \<or> off = 0 then False
         else case r of
           [] \<Rightarrow> v6_post (i + 2) ellipsis
         | c # r' \<Rightarrow>
             if c = CHR ''.'' then
               (if \<not> ellipsis \<and> i \<noteq> 12 then False
                else if 16 < i + 4 then False
                else parseIPv4 s \<and> v6_post (i + 4) ellipsis)
             else if c \<noteq> CHR '':'' then False
             else (case r' of
                 [] \<Rightarrow> False
               | d # r'' \<Rightarrow>
                   if d = CHR '':'' then
                     (if ellipsis then False
                      else if r'' = [] then v6_post (i + 2) True
                      else v6_loop (i + 2) True r'')
                   else v6_loop (i + 2) ellipsis r')))"
  by pat_completeness auto
termination
  by (relation "measure (\<lambda>(i, ellipsis, s). 16 - i)") auto

declare v6_loop.simps [simp del]

text \<open>
  \<open>netip.parseIPv6\<close>: \<open>None\<close> is its error, and the result says whether the address has a zone.
\<close>

definition parseIPv6 :: "string \<Rightarrow> bool option" where
  "parseIPv6 s =
     (let a = takeWhile (\<lambda>c. c \<noteq> CHR ''%'') s;
          z = dropWhile (\<lambda>c. c \<noteq> CHR ''%'') s
      in if z \<noteq> [] \<and> tl z = [] then None
         else if (case a of
                    c # d # r \<Rightarrow>
                      if c = CHR '':'' \<and> d = CHR '':'' then r = [] \<or> v6_loop 0 True r
                      else v6_loop 0 False a
                  | _ \<Rightarrow> v6_loop 0 False a)
              then Some (z \<noteq> []) else None)"

text \<open>
  \<open>netip.ParseAddr\<close>: the first of \<open>.\<close>, \<open>:\<close> and \<open>%\<close> decides the syntax. The result is the bit length of
  the address and whether it has a zone.
\<close>

definition ParseAddr :: "string \<Rightarrow> (nat \<times> bool) option" where
  "ParseAddr s =
     (case find (\<lambda>c. c = CHR ''.'' \<or> c = CHR '':'' \<or> c = CHR ''%'') s of
        None \<Rightarrow> None
      | Some c \<Rightarrow>
          if c = CHR ''.'' then (if parseIPv4 s then Some (32, False) else None)
          else if c = CHR '':'' then map_option (\<lambda>z. (128, z)) (parseIPv6 s)
          else None)"

section \<open>CIDR notation\<close>

text \<open>
  \<open>net.ParseCIDR\<close>: the bit length of the address and the length of its prefix, or \<open>None\<close> for an
  error.
\<close>

definition ParseCIDR :: "string \<Rightarrow> (nat \<times> nat) option" where
  "ParseCIDR s =
     (if CHR ''/'' \<notin> set s then None
      else
        (let a = takeWhile (\<lambda>c. c \<noteq> CHR ''/'') s;
             mask = tl (dropWhile (\<lambda>c. c \<noteq> CHR ''/'') s)
         in case ParseAddr a of
              None \<Rightarrow> None
            | Some (bits, zone) \<Rightarrow>
                if zone \<or> mask = [] then None
                else case digits_value 0 mask of
                       None \<Rightarrow> None
                     | Some n \<Rightarrow> if bits < n then None else Some (bits, n)))"

lemma ParseCIDR_bounds:
  assumes "ParseCIDR s = Some (bits, n)"
  shows "bits \<in> {32, 128} \<and> n \<le> bits"
  using assms
  by (auto simp: ParseCIDR_def ParseAddr_def Let_def split: if_splits option.splits)

lemma ParseCIDR_needs_slash: "CHR ''/'' \<notin> set s \<Longrightarrow> ParseCIDR s = None"
  by (simp add: ParseCIDR_def)

text \<open>Every IPv4 network in the usual notation is accepted.\<close>

definition print_v4_cidr :: "nat \<Rightarrow> nat \<Rightarrow> nat \<Rightarrow> nat \<Rightarrow> nat \<Rightarrow> string" where
  "print_v4_cidr a b c d n =
     nat_digits a @ ''.'' @ nat_digits b @ ''.'' @ nat_digits c @ ''.'' @ nat_digits d @ ''/'' @
     nat_digits n"

lemma nat_digits_small: "n < 10 \<Longrightarrow> nat_digits n = [char_of (48 + n)]"
  by (subst nat_digits.simps) simp

lemma nat_digits_step:
  "\<not> n < 10 \<Longrightarrow> nat_digits n = nat_digits (n div 10) @ [char_of (48 + n mod 10)]"
  by (subst nat_digits.simps) simp

lemma v4_loop_digit:
  assumes "x < 10" and "\<not> (dl = 1 \<and> val = 0)" and "10 * val + x < 256"
  shows "v4_loop prev val pos dl (char_of (48 + x) # s) =
           v4_loop (Some (char_of (48 + x))) (10 * val + x) pos (dl + 1) s"
  using assms by (subst v4_loop.simps(2)) auto

lemma v4_loop_field:
  assumes "a < 256"
  shows "\<exists>d k. is_digit d \<and>
           v4_loop prev 0 pos 0 (nat_digits a @ t) = v4_loop (Some d) a pos k t"
proof -
  consider "a < 10" | "\<not> a < 10" "a < 100" | "\<not> a < 100" by linarith
  then show ?thesis
  proof cases
    case 1
    then have "v4_loop prev 0 pos 0 (nat_digits a @ t) = v4_loop (Some (char_of (48 + a))) a pos 1 t"
      using v4_loop_digit [of a 0 0 prev pos t] by (simp add: nat_digits_small del: v4_loop.simps)
    with 1 show ?thesis using digit_char(1) by blast
  next
    case 2
    define u v where "u = a div 10" and "v = a mod 10"
    have uv: "u < 10" "v < 10" "u \<noteq> 0" "10 * u + v = a" using 2 by (auto simp: u_def v_def)
    have "nat_digits a = [char_of (48 + u), char_of (48 + v)]"
      using 2 uv(1) by (simp add: nat_digits_step nat_digits_small u_def v_def)
    then have "v4_loop prev 0 pos 0 (nat_digits a @ t) = v4_loop (Some (char_of (48 + v))) a pos 2 t"
      using v4_loop_digit [of u 0 0 prev pos "char_of (48 + v) # t"]
        v4_loop_digit [of v 1 u "Some (char_of (48 + u))" pos t] uv assms
      by (simp del: v4_loop.simps add: numeral_2_eq_2)
    with uv show ?thesis using digit_char(1) by blast
  next
    case 3
    define u v w where "u = a div 10 div 10" and "v = a div 10 mod 10" and "w = a mod 10"
    have "a div 10 < 10 * 10" using assms by (simp add: less_mult_imp_div_less)
    then have uv: "u < 10" "v < 10" "w < 10"
      by (simp_all add: u_def v_def w_def less_mult_imp_div_less)
    have "u \<noteq> 0" using 3 by (auto simp: u_def div_eq_0_iff)
    have q: "10 * u + v = a div 10" unfolding u_def v_def by (rule mult_div_mod_eq)
    then have "10 * (10 * u + v) + w = a" unfolding w_def by simp
    moreover have "10 * u + v < 256" using q assms by simp
    ultimately have uv': "u \<noteq> 0" "10 * (10 * u + v) + w = a" "10 * u + v < 256"
      using \<open>u \<noteq> 0\<close> by simp_all
    have "nat_digits a = [char_of (48 + u), char_of (48 + v), char_of (48 + w)]"
      using 3 uv(1) by (simp add: nat_digits_step nat_digits_small u_def v_def w_def)
    then have "v4_loop prev 0 pos 0 (nat_digits a @ t) = v4_loop (Some (char_of (48 + w))) a pos 3 t"
      using v4_loop_digit [of u 0 0 prev pos "char_of (48 + v) # char_of (48 + w) # t"]
        v4_loop_digit [of v 1 u "Some (char_of (48 + u))" pos "char_of (48 + w) # t"]
        v4_loop_digit [of w 2 "10 * u + v" "Some (char_of (48 + v))" pos t] uv uv' assms
      by (simp del: v4_loop.simps add: numeral_2_eq_2 numeral_3_eq_3)
    with uv show ?thesis using digit_char(1) by blast
  qed
qed

lemma is_digit_not_dot: "is_digit c \<Longrightarrow> c \<noteq> CHR ''.''"
  by (auto simp: is_digit_def)

lemma parseIPv4_print:
  assumes "a < 256" "b < 256" "c < 256" "d < 256"
  shows "parseIPv4 (nat_digits a @ ''.'' @ nat_digits b @ ''.'' @ nat_digits c @ ''.'' @ nat_digits d)"
proof -
  have dot: "v4_loop (Some e) v p k (''.'' @ nat_digits w @ t) =
               v4_loop (Some (CHR ''.'')) 0 (p + 1) 0 (nat_digits w @ t)"
    if "is_digit e" "p < 3" for e v p k w t
    using that by (auto simp: is_digit_def)
  obtain e1 k1 where 1: "is_digit e1" "parseIPv4 (nat_digits a @ ''.'' @ nat_digits b @ ''.'' @
      nat_digits c @ ''.'' @ nat_digits d) = v4_loop (Some e1) a 0 k1 (''.'' @ nat_digits b @ ''.'' @
      nat_digits c @ ''.'' @ nat_digits d)"
    unfolding parseIPv4_def using v4_loop_field [OF assms(1)] by blast
  obtain e2 k2 where 2: "is_digit e2" "v4_loop (Some (CHR ''.'')) 0 1 0 (nat_digits b @ ''.'' @
      nat_digits c @ ''.'' @ nat_digits d) = v4_loop (Some e2) b 1 k2 (''.'' @ nat_digits c @ ''.'' @
      nat_digits d)"
    using v4_loop_field [OF assms(2)] by blast
  obtain e3 k3 where 3: "is_digit e3" "v4_loop (Some (CHR ''.'')) 0 2 0 (nat_digits c @ ''.'' @
      nat_digits d) = v4_loop (Some e3) c 2 k3 (''.'' @ nat_digits d)"
    using v4_loop_field [OF assms(3)] by blast
  obtain e4 k4 where 4: "v4_loop (Some (CHR ''.'')) 0 3 0 (nat_digits d @ []) = v4_loop (Some e4) d 3 k4 []"
    using v4_loop_field [OF assms(4)] by blast
  show ?thesis
    using 1 2 3 4 dot [OF 1(1), of 0] dot [OF 2(1), of 1] dot [OF 3(1), of 2 _ _ _ "[]"]
    by (simp del: v4_loop.simps(2) add: numeral_2_eq_2 numeral_3_eq_3)
qed

lemma digit_not_delimiter:
  "c \<in> set (nat_digits n) \<Longrightarrow> c \<noteq> CHR ''.'' \<and> c \<noteq> CHR '':'' \<and> c \<noteq> CHR ''%'' \<and> c \<noteq> CHR ''/''"
  using nat_digits_digits by (fastforce simp: is_digit_def)

lemma find_append:
  "find P (xs @ ys) = (case find P xs of None \<Rightarrow> find P ys | Some x \<Rightarrow> Some x)"
  by (induction xs) auto

lemma ParseCIDR_print_v4 [go_string_simps]:
  assumes "a < 256" "b < 256" "c < 256" "d < 256" "n \<le> 32"
  shows "ParseCIDR (print_v4_cidr a b c d n) = Some (32, n)"
proof -
  let ?ip = "nat_digits a @ ''.'' @ nat_digits b @ ''.'' @ nat_digits c @ ''.'' @ nat_digits d"
  have noslash: "\<forall>x\<in>set ?ip. x \<noteq> CHR ''/''" using digit_not_delimiter by auto
  have "find (\<lambda>x. x = CHR ''.'' \<or> x = CHR '':'' \<or> x = CHR ''%'') (nat_digits a) = None"
    using digit_not_delimiter by (auto simp: find_None_iff)
  then have "ParseAddr ?ip = Some (32, False)"
    using parseIPv4_print [OF assms(1-4)] by (simp add: ParseAddr_def find_append)
  moreover have "print_v4_cidr a b c d n = ?ip @ ''/'' @ nat_digits n"
    by (simp add: print_v4_cidr_def)
  moreover have "takeWhile (\<lambda>x. x \<noteq> CHR ''/'') (?ip @ ''/'' @ nat_digits n) = ?ip"
    using noslash by (subst takeWhile_append2) auto
  moreover have "dropWhile (\<lambda>x. x \<noteq> CHR ''/'') (?ip @ ''/'' @ nat_digits n) = ''/'' @ nat_digits n"
    using noslash by (subst dropWhile_append2) auto
  ultimately show ?thesis
    using assms(5) by (simp add: ParseCIDR_def Let_def digits_value_nat_digits)
qed

section \<open>The bytes of a CIDR\<close>

definition cidr_char :: "char \<Rightarrow> bool" where
  "cidr_char c \<longleftrightarrow> is_hex c \<or> c \<in> set '':./''"

lemma cidr_char_simps [simp]:
  "is_digit c \<Longrightarrow> cidr_char c" "is_hex c \<Longrightarrow> cidr_char c" "cidr_char (CHR ''.'')"
  "cidr_char (CHR '':'')" "cidr_char (CHR ''/'')"
  by (simp_all add: cidr_char_def is_hex_def)

lemma not_cidr_char_comma: "\<not> cidr_char (CHR '','')"
  by (simp add: cidr_char_def is_hex_def is_digit_def)

lemma v4_loop_chars: "v4_loop prev val pos dl s \<Longrightarrow> \<forall>c\<in>set s. cidr_char c"
  by (induction prev val pos dl s rule: v4_loop.induct) (auto split: if_splits)

lemma takeWhile_hex_chars: "\<forall>c\<in>set (takeWhile is_hex s). cidr_char c"
  by (auto dest: set_takeWhileD)

lemma v6_loop_step:
  assumes "v6_loop i e s"
  shows "s = [] \<or> parseIPv4 s \<or> dropWhile is_hex s = [] \<or>
         (\<exists>r. dropWhile is_hex s = CHR '':'' # r \<and>
            ((\<exists>j. v6_loop j e r) \<or>
             (\<exists>t j. r = CHR '':'' # t \<and> (t = [] \<or> v6_loop j True t))))"
  using assms by (subst (asm) v6_loop.simps) (auto simp: Let_def split: if_splits list.splits)

lemma v6_loop_chars: "v6_loop i e s \<Longrightarrow> \<forall>c\<in>set s. cidr_char c"
proof (induction "length s" arbitrary: i e s rule: less_induct)
  case less
  have len: "length (dropWhile is_hex s) \<le> length s" by (rule length_dropWhile_le)
  have hex: "set s = set (takeWhile is_hex s) \<union> set (dropWhile is_hex s)"
    by (metis set_append takeWhile_dropWhile_id)
  from v6_loop_step [OF less.prems] consider "s = []" | "parseIPv4 s" | "dropWhile is_hex s = []"
    | r j where "dropWhile is_hex s = CHR '':'' # r" "v6_loop j e r"
    | t j where "dropWhile is_hex s = CHR '':'' # CHR '':'' # t" "t = [] \<or> v6_loop j True t"
    by blast
  then show ?case
  proof cases
    case 1
    then show ?thesis by simp
  next
    case 2
    then show ?thesis unfolding parseIPv4_def by (rule v4_loop_chars)
  next
    case 3
    then show ?thesis using hex takeWhile_hex_chars by simp
  next
    case (4 r j)
    then have "length r < length s" using len by simp
    then have "\<forall>c\<in>set r. cidr_char c" using less.hyps 4(2) by blast
    then show ?thesis using hex 4(1) takeWhile_hex_chars by auto
  next
    case (5 t j)
    then have "length t < length s" using len by simp
    then have "\<forall>c\<in>set t. cidr_char c" using less.hyps 5(2) by (cases "t = []") auto
    then show ?thesis using hex 5(1) takeWhile_hex_chars by auto
  qed
qed

lemma v6_front_chars:
  assumes "case a of
             c # d # r \<Rightarrow>
               if c = CHR '':'' \<and> d = CHR '':'' then r = [] \<or> v6_loop 0 True r
               else v6_loop 0 False a
           | _ \<Rightarrow> v6_loop 0 False a"
  shows "\<forall>c\<in>set a. cidr_char c"
proof (cases "\<exists>r. a = CHR '':'' # CHR '':'' # r \<and> (r = [] \<or> v6_loop 0 True r)")
  case True
  then obtain r where r: "a = CHR '':'' # CHR '':'' # r" "r = [] \<or> v6_loop 0 True r" by blast
  then have "\<forall>c\<in>set r. cidr_char c" using v6_loop_chars [of 0 True r] by (cases "r = []") auto
  then show ?thesis by (simp add: r(1))
next
  case False
  with assms have "v6_loop 0 False a" by (simp only: split: list.splits if_splits) blast
  then show ?thesis by (rule v6_loop_chars)
qed

lemma nested_if_Some:
  "(if A then None else if F then Some Q else None) = Some b \<Longrightarrow> F \<and> Q = b"
  by (simp split: if_splits)

lemma parseIPv6_chars:
  assumes "parseIPv6 s = Some False"
  shows "\<forall>c\<in>set s. cidr_char c"
proof -
  let ?a = "takeWhile (\<lambda>c. c \<noteq> CHR ''%'') s"
  let ?z = "dropWhile (\<lambda>c. c \<noteq> CHR ''%'') s"
  let ?front = "case ?a of
             c # d # r \<Rightarrow>
               if c = CHR '':'' \<and> d = CHR '':'' then r = [] \<or> v6_loop 0 True r
               else v6_loop 0 False ?a
           | _ \<Rightarrow> v6_loop 0 False ?a"
  have p: "parseIPv6 s = (if ?z \<noteq> [] \<and> tl ?z = [] then None
                          else if ?front then Some (?z \<noteq> []) else None)"
    unfolding parseIPv6_def Let_def by (rule refl)
  have "?front \<and> (?z \<noteq> []) = False" by (rule nested_if_Some [OF trans [OF p [symmetric] assms]])
  then have front: ?front and "?z = []" by (blast, blast)
  then have "?a = s" by (metis append_Nil2 takeWhile_dropWhile_id)
  with v6_front_chars [OF front] show ?thesis by simp
qed

lemma ParseAddr_chars:
  assumes "ParseAddr s = Some (b, False)"
  shows "\<forall>c\<in>set s. cidr_char c"
proof -
  from assms have "parseIPv4 s \<or> parseIPv6 s = Some False"
    by (auto simp: ParseAddr_def split: option.splits if_splits)
  then show ?thesis using v4_loop_chars parseIPv6_chars unfolding parseIPv4_def by blast
qed

lemma ParseCIDR_chars:
  assumes "ParseCIDR s = Some r"
  shows "\<forall>c\<in>set s. cidr_char c"
proof -
  let ?a = "takeWhile (\<lambda>c. c \<noteq> CHR ''/'') s"
  let ?d = "dropWhile (\<lambda>c. c \<noteq> CHR ''/'') s"
  have slash: "CHR ''/'' \<in> set s" and addr: "\<exists>b. ParseAddr ?a = Some (b, False)"
    and mask: "\<exists>n. digits_value 0 (tl ?d) = Some n"
    using assms by (auto simp: ParseCIDR_def Let_def split: if_splits option.splits)
  have "hd ?d = CHR ''/''" "?d \<noteq> []"
    using slash hd_dropWhile [of "\<lambda>c. c \<noteq> CHR ''/''" s] by (auto simp: dropWhile_eq_Nil_conv)
  then have "?d = CHR ''/'' # tl ?d" by (metis list.collapse)
  then have "s = ?a @ CHR ''/'' # tl ?d" by (metis takeWhile_dropWhile_id)
  then have s: "set s = set (?a @ CHR ''/'' # tl ?d)" by (rule arg_cong)
  have "\<forall>c\<in>set ?a. cidr_char c" using addr ParseAddr_chars by blast
  moreover have "\<forall>c\<in>set (tl ?d). cidr_char c" using mask digits_value_Some_digits by fastforce
  ultimately show ?thesis unfolding s by auto
qed

lemma strip_front_set: "set s \<subseteq> set (strip_front ps s) \<union> (\<Union>p\<in>set ps. set p)"
proof (induction ps s rule: strip_front.induct)
  case (1 ps s)
  show ?case
  proof (cases "find (\<lambda>p. p \<noteq> [] \<and> prefix p s) ps")
    case None
    then show ?thesis by (simp add: strip_front.simps)
  next
    case (Some p)
    then have p: "p \<in> set ps" "prefix p s" by (auto simp: find_Some_iff)
    then have "set s = set p \<union> set (drop (length p) s)"
      by (auto simp: prefix_def)
    with p(1) "1.IH" [OF Some] Some show ?thesis by (auto simp: strip_front.simps [of ps s])
  qed
qed

lemma no_comma_in_spaces: "list_all (\<lambda>p. CHR '','' \<notin> set p) space_seqs"
  by code_simp

text \<open>An entry that parses as a CIDR once trimmed has no comma.\<close>

lemma CIDR_no_comma:
  assumes "ParseCIDR (TrimSpace s) = Some r"
  shows "CHR '','' \<notin> set s"
proof
  assume "CHR '','' \<in> set s"
  then have "CHR '','' \<in> set (strip_front space_seqs s)"
    using strip_front_set [of s space_seqs] no_comma_in_spaces by (auto simp: list_all_iff)
  then have "CHR '','' \<in> set (TrimSpace s)"
    using strip_front_set [of "rev (strip_front space_seqs s)" "map rev space_seqs"]
      no_comma_in_spaces by (auto simp: list_all_iff TrimSpace_def)
  with ParseCIDR_chars [OF assms] not_cidr_char_comma show False by blast
qed

end
