(* ===== verification/Webhook.thy ===== *)
theory Webhook
  imports API_Types Go_Net
begin

text \<open>
  The validation of a MetalLB resource, \<open>api/v1beta1/metallb_webhook.go\<close>: the loops over tolerations,
  scheduling weights and CIDRs, \<open>Validate\<close>, the three admission handlers and their registration. The variable
  \<open>ExternalFRRK8sNamespace\<close> is the first argument \<open>ext\<close>.
\<close>

section \<open>The loops\<close>

definition TaintEffectNoExecute :: string where
  "TaintEffectNoExecute = ''NoExecute''"

definition toleration_check :: "string \<Rightarrow> toleration \<Rightarrow> go_error option" where
  "toleration_check who ct =
     (case TolerationSeconds ct of
        None \<Rightarrow> None
      | Some n \<Rightarrow>
          if n > 0 \<and> Effect ct \<noteq> TaintEffectNoExecute
          then Some (ErrNew (who @ '' effect must be NoExecute when tolerationSeconds is set''))
          else None)"

fun validate_tolerations :: "string \<Rightarrow> toleration list \<Rightarrow> go_error option" where
  "validate_tolerations who [] = None"
| "validate_tolerations who (ct # cts) =
     (case toleration_check who ct of
        None \<Rightarrow> validate_tolerations who cts
      | Some e \<Rightarrow> Some e)"

definition weight_check :: "string \<Rightarrow> preferred_term \<Rightarrow> go_error option" where
  "weight_check who pst =
     (if Weight pst < 1 \<or> Weight pst > 100
      then Some (ErrNew (who @ '' set with invalid weight for preferred scheduling term''))
      else None)"

fun validate_weights :: "string \<Rightarrow> preferred_term list \<Rightarrow> go_error option" where
  "validate_weights who [] = None"
| "validate_weights who (pst # psts) =
     (case weight_check who pst of None \<Rightarrow> validate_weights who psts | Some e \<Rightarrow> Some e)"

definition cidr_check :: "string \<Rightarrow> go_error option" where
  "cidr_check cidr =
     (case ParseCIDR (TrimSpace cidr) of
        None \<Rightarrow> Some (ErrNew (''invalid CIDR '' @ cidr @ '' in AlwaysBlock''))
      | Some _ \<Rightarrow> None)"

fun validate_cidrs :: "string list \<Rightarrow> go_error option" where
  "validate_cidrs [] = None"
| "validate_cidrs (cidr # cidrs) =
     (case cidr_check cidr of None \<Rightarrow> validate_cidrs cidrs | Some e \<Rightarrow> Some e)"

interpretation tolerations: first_error_loop "toleration_check who" "validate_tolerations who"
  for who by unfold_locales simp_all

interpretation weights: first_error_loop "weight_check who" "validate_weights who"
  for who by unfold_locales simp_all

interpretation cidrs: first_error_loop cidr_check validate_cidrs
  by unfold_locales simp_all

section \<open>Validation\<close>

text \<open>\<open>validateFRRK8sConfig\<close>.\<close>

definition validateFRRK8sConfig :: "string \<Rightarrow> metallb_spec \<Rightarrow> go_error option" where
  "validateFRRK8sConfig ext spec =
     (let config = FRRK8SConfig spec in
      if BGPBackend spec = FRRK8sExternalMode \<and> ext = [] \<and>
         (case config of None \<Rightarrow> True | Some c \<Rightarrow> FRRK8SNamespace c = [])
      then Some (ErrNew ''bgp backend: frrk8s external and no default or user provided namespace'')
      else case config of
             None \<Rightarrow> None
           | Some c \<Rightarrow> validate_cidrs (AlwaysBlock c))"

text \<open>The terms a loop of \<open>Validate\<close> ranges over, empty where a pointer on the way is nil.\<close>

definition preferred_terms ::
  "config option \<Rightarrow> (affinity \<Rightarrow> scheduling option) \<Rightarrow> preferred_term list" where
  "preferred_terms cfg sel =
     (case cfg of
        None \<Rightarrow> []
      | Some c \<Rightarrow>
          (case Affinity c of
             None \<Rightarrow> []
           | Some a \<Rightarrow>
               (case sel a of
                  None \<Rightarrow> []
                | Some s \<Rightarrow> PreferredDuringSchedulingIgnoredDuringExecution s)))"

definition known_backend :: "string \<Rightarrow> bool" where
  "known_backend b =
     (b = [] \<or> b = NativeMode \<or> b = FRRK8sMode \<or> b = FRRK8sExternalMode \<or> b = FRRMode)"

definition Validate :: "string \<Rightarrow> metallb_spec \<Rightarrow> go_error option" where
  "Validate ext spec =
     (case validate_tolerations ''ControllerToleration'' (elems (ControllerTolerations spec)) of
        Some e \<Rightarrow> Some e
      | None \<Rightarrow>
     (case validate_tolerations ''SpeakerToleration'' (elems (SpeakerTolerations spec)) of
        Some e \<Rightarrow> Some e
      | None \<Rightarrow>
     (case validate_weights ''SpeakerConfig NodeAffinity''
             (preferred_terms (SpeakerConfig spec) NodeAffinity) of
        Some e \<Rightarrow> Some e
      | None \<Rightarrow>
     (case validate_weights ''SpeakerConfig PodAffinity''
             (preferred_terms (SpeakerConfig spec) PodAffinity) of
        Some e \<Rightarrow> Some e
      | None \<Rightarrow>
     (case validate_weights ''ControllerConfig NodeAffinity''
             (preferred_terms (ControllerConfig spec) NodeAffinity) of
        Some e \<Rightarrow> Some e
      | None \<Rightarrow>
     (case validate_weights ''ControllerConfig PodAffinity''
             (preferred_terms (ControllerConfig spec) PodAffinity) of
        Some e \<Rightarrow> Some e
      | None \<Rightarrow>
          if \<not> known_backend (BGPBackend spec)
          then Some (ErrNew ''invalid BGP Backend, must be one of native, frr, frr-k8s, frr-k8s-external'')
          else validateFRRK8sConfig ext spec))))))"

section \<open>The admission handlers\<close>

text \<open>
  \<open>SetupWebhookWithManager\<close>: the package variable afterwards, and the error of the builder \<open>complete\<close> of
  the controller runtime. The variable is set before the handlers are registered, also when that fails.
\<close>

definition SetupWebhookWithManager ::
  "go_error option \<Rightarrow> string \<Rightarrow> string \<Rightarrow> string \<times> go_error option" where
  "SetupWebhookWithManager complete externalFRRK8sNamespace var = (externalFRRK8sNamespace, complete)"

text \<open>Each handler returns its warnings, always \<open>admission.Warnings{}\<close>, and its error.\<close>

definition ValidateCreate :: "string \<Rightarrow> metallb \<Rightarrow> string list \<times> go_error option" where
  "ValidateCreate ext m =
     (case Validate ext (Spec m) of Some e \<Rightarrow> ([], Some e) | None \<Rightarrow> ([], None))"

definition ValidateUpdate :: "string \<Rightarrow> metallb \<Rightarrow> metallb \<Rightarrow> string list \<times> go_error option" where
  "ValidateUpdate ext old m =
     (case Validate ext (Spec m) of Some e \<Rightarrow> ([], Some e) | None \<Rightarrow> ([], None))"

definition ValidateDelete :: "string \<Rightarrow> metallb \<Rightarrow> string list \<times> go_error option" where
  "ValidateDelete ext m = ([], None)"

section \<open>What validation promises\<close>

definition good_toleration :: "toleration \<Rightarrow> bool" where
  "good_toleration ct \<longleftrightarrow>
     (\<forall>n. TolerationSeconds ct = Some n \<longrightarrow> n > 0 \<longrightarrow> Effect ct = TaintEffectNoExecute)"

definition good_weight :: "preferred_term \<Rightarrow> bool" where
  "good_weight pst \<longleftrightarrow> 1 \<le> Weight pst \<and> Weight pst \<le> 100"

lemma toleration_check_None: "toleration_check who ct = None \<longleftrightarrow> good_toleration ct"
  by (auto simp: toleration_check_def good_toleration_def split: option.splits)

lemma weight_check_None: "weight_check who pst = None \<longleftrightarrow> good_weight pst"
  by (auto simp: weight_check_def good_weight_def)

lemma cidr_check_None: "cidr_check cidr = None \<longleftrightarrow> ParseCIDR (TrimSpace cidr) \<noteq> None"
  by (auto simp: cidr_check_def split: option.splits)

text \<open>
  The contract of \<open>Validate\<close>, as one predicate on the specification. It names the effect, the bounds of
  the weights and the backends itself, and shares none of the definitions that \<open>Validate\<close> is made of.
\<close>

definition valid_spec :: "string \<Rightarrow> metallb_spec \<Rightarrow> bool" where
  "valid_spec ext spec \<longleftrightarrow>
     (\<forall>t \<in> set (elems (ControllerTolerations spec)) \<union> set (elems (SpeakerTolerations spec)).
        \<forall>n \<in> set_option (TolerationSeconds t). n > 0 \<longrightarrow> Effect t = ''NoExecute'') \<and>
     (\<forall>cfg \<in> set_option (SpeakerConfig spec) \<union> set_option (ControllerConfig spec).
        \<forall>a \<in> set_option (Affinity cfg). \<forall>s \<in> set_option (NodeAffinity a) \<union> set_option (PodAffinity a).
        \<forall>t \<in> set (PreferredDuringSchedulingIgnoredDuringExecution s). 1 \<le> Weight t \<and> Weight t \<le> 100) \<and>
     BGPBackend spec \<in> {[], ''native'', ''frr'', ''frr-k8s'', ''frr-k8s-external''} \<and>
     (BGPBackend spec = ''frr-k8s-external'' \<longrightarrow>
        ext \<noteq> [] \<or> (\<exists>c \<in> set_option (FRRK8SConfig spec). FRRK8SNamespace c \<noteq> [])) \<and>
     (\<forall>c \<in> set_option (FRRK8SConfig spec). \<forall>cidr \<in> set (AlwaysBlock c). ParseCIDR (TrimSpace cidr) \<noteq> None)"

text \<open>The same, over the parts of \<open>Validate\<close>.\<close>

lemma good_toleration_iff:
  "good_toleration t \<longleftrightarrow> (\<forall>n \<in> set_option (TolerationSeconds t). n > 0 \<longrightarrow> Effect t = ''NoExecute'')"
  by (cases "TolerationSeconds t") (auto simp: good_toleration_def TaintEffectNoExecute_def)

lemma Ball_set_option: "(\<forall>x \<in> set_option z. P x) \<longleftrightarrow> (\<forall>x. z = Some x \<longrightarrow> P x)"
  and Bex_set_option: "(\<exists>x \<in> set_option z. P x) \<longleftrightarrow> (\<exists>x. z = Some x \<and> P x)"
  by (cases z; simp)+

lemma good_preferred_iff:
  "(\<forall>t \<in> set (preferred_terms cfg sel). good_weight t) \<longleftrightarrow>
     (\<forall>c. cfg = Some c \<longrightarrow> (\<forall>a. Affinity c = Some a \<longrightarrow> (\<forall>s. sel a = Some s \<longrightarrow>
        (\<forall>t \<in> set (PreferredDuringSchedulingIgnoredDuringExecution s). 1 \<le> Weight t \<and> Weight t \<le> 100))))"
  unfolding preferred_terms_def good_weight_def by (auto split: option.splits; metis)

lemma good_weights_iff:
  "(\<forall>cfg \<in> {c1, c2}. \<forall>sel \<in> {NodeAffinity, PodAffinity}. \<forall>t \<in> set (preferred_terms cfg sel). good_weight t) \<longleftrightarrow>
     (\<forall>cfg \<in> set_option c1 \<union> set_option c2. \<forall>a \<in> set_option (Affinity cfg).
        \<forall>s \<in> set_option (NodeAffinity a) \<union> set_option (PodAffinity a).
        \<forall>t \<in> set (PreferredDuringSchedulingIgnoredDuringExecution s). 1 \<le> Weight t \<and> Weight t \<le> 100)"
  unfolding good_preferred_iff ball_Un Ball_set_option by auto

lemma known_backend_iff:
  "known_backend b \<longleftrightarrow> b \<in> {[], ''native'', ''frr'', ''frr-k8s'', ''frr-k8s-external''}"
  by (auto simp: known_backend_def mode_defs)

lemma valid_spec_alt:
  "valid_spec ext spec \<longleftrightarrow>
     (\<forall>t \<in> set (elems (ControllerTolerations spec)) \<union> set (elems (SpeakerTolerations spec)).
        good_toleration t) \<and>
     (\<forall>cfg \<in> {SpeakerConfig spec, ControllerConfig spec}. \<forall>sel \<in> {NodeAffinity, PodAffinity}.
        \<forall>pst \<in> set (preferred_terms cfg sel). good_weight pst) \<and>
     known_backend (BGPBackend spec) \<and>
     (BGPBackend spec = FRRK8sExternalMode \<longrightarrow>
        ext \<noteq> [] \<or> (\<exists>c. FRRK8SConfig spec = Some c \<and> FRRK8SNamespace c \<noteq> [])) \<and>
     (\<forall>c. FRRK8SConfig spec = Some c \<longrightarrow>
        (\<forall>cidr \<in> set (AlwaysBlock c). ParseCIDR (TrimSpace cidr) \<noteq> None))"
  unfolding valid_spec_def good_toleration_iff good_weights_iff known_backend_iff Bex_set_option mode_defs
  by (simp add: Ball_set_option)

lemma validateFRRK8sConfig_None:
  "validateFRRK8sConfig ext spec = None \<longleftrightarrow>
     (BGPBackend spec = FRRK8sExternalMode \<longrightarrow>
        ext \<noteq> [] \<or> (\<exists>c. FRRK8SConfig spec = Some c \<and> FRRK8SNamespace c \<noteq> [])) \<and>
     (\<forall>c. FRRK8SConfig spec = Some c \<longrightarrow>
        (\<forall>cidr \<in> set (AlwaysBlock c). ParseCIDR (TrimSpace cidr) \<noteq> None))"
  by (auto simp: validateFRRK8sConfig_def Let_def cidrs.loop_None_iff cidr_check_None
      split: option.splits)

text \<open>The check of one of \<open>Validate\<close>'s stages, and a chain of stages.\<close>

lemma case_option_None:
  "(case x of None \<Rightarrow> y | Some e \<Rightarrow> Some e) = None \<longleftrightarrow> x = None \<and> y = None"
  by (cases x) simp_all

lemma Validate_None_iff: "Validate ext spec = None \<longleftrightarrow> valid_spec ext spec"
  by (simp add: Validate_def valid_spec_alt case_option_None tolerations.loop_None_iff
      weights.loop_None_iff toleration_check_None weight_check_None validateFRRK8sConfig_None ball_Un)

section \<open>Properties\<close>

text \<open>
  C13. Validation meets its contract: \<open>Validate\<close> returns no error exactly for the specifications
  whose tolerations with a positive \<open>tolerationSeconds\<close> have effect NoExecute, whose preferred node
  and pod affinity weights lie between 1 and 100, whose BGP backend is empty or one of the four
  known ones, whose external frr-k8s backend has a namespace from somewhere, and whose AlwaysBlock
  entries all parse as CIDRs once trimmed.
\<close>

theorem Validate_refines_valid_spec: "(Validate ext spec = None) = valid_spec ext spec"
  by (rule Validate_None_iff)

theorem Validate_refines_valid_spec_witness:
  "Validate [] (zero_spec\<lparr>BGPBackend := ''frr-k8s''\<rparr>) = None \<and>
   Validate [] (zero_spec\<lparr>BGPBackend := ''bgp''\<rparr>) \<noteq> None \<and>
   Validate [] (zero_spec\<lparr>BGPBackend := ''frr-k8s-external''\<rparr>) \<noteq> None"
  by (simp add: Validate_refines_valid_spec valid_spec_def zero_spec_def)

text \<open>
  The admission handlers: creation and update are admitted exactly when the new object is valid,
  whatever the old one was, deletion always, and no handler ever returns a warning.
\<close>

theorem admission_decides_by_validity:
  "(snd (ValidateCreate ext m) = None) = valid_spec ext (Spec m) \<and>
   (snd (ValidateUpdate ext old m) = None) = valid_spec ext (Spec m) \<and>
   snd (ValidateDelete ext m) = None \<and>
   fst (ValidateCreate ext m) = [] \<and> fst (ValidateUpdate ext old m) = [] \<and>
   fst (ValidateDelete ext m) = []"
  by (auto simp: ValidateCreate_def ValidateUpdate_def ValidateDelete_def
      Validate_None_iff [symmetric] split: option.splits)

text \<open>
  The error of a bad AlwaysBlock list: when everything else is valid, validation names the first
  entry that is not a CIDR, as it was written, untrimmed.
\<close>

theorem Validate_names_first_bad_cidr:
  assumes "valid_spec ext (spec\<lparr>FRRK8SConfig := Some (c\<lparr>AlwaysBlock := us\<rparr>)\<rparr>)"
    and "ParseCIDR (TrimSpace x) = None"
  shows "Validate ext (spec\<lparr>FRRK8SConfig := Some (c\<lparr>AlwaysBlock := us @ x # vs\<rparr>)\<rparr>) =
           Some (ErrNew (''invalid CIDR '' @ x @ '' in AlwaysBlock''))"
proof -
  have "cidr_check u = None" if "u \<in> set us" for u
    using that assms(1) by (simp add: valid_spec_alt cidr_check_None)
  then have "validate_cidrs us = None" by (simp add: cidrs.loop_None_iff)
  moreover have "cidr_check x = Some (ErrNew (''invalid CIDR '' @ x @ '' in AlwaysBlock''))"
    using assms(2) by (simp add: cidr_check_def)
  ultimately have *: "validate_cidrs (us @ x # vs) =
      Some (ErrNew (''invalid CIDR '' @ x @ '' in AlwaysBlock''))"
    by (simp add: cidrs.loop_append)
  have "Validate ext (spec\<lparr>FRRK8SConfig := Some (c\<lparr>AlwaysBlock := us\<rparr>)\<rparr>) = None"
    using assms(1) by (simp add: Validate_None_iff)
  then show ?thesis
    using * by (auto simp: Validate_def case_option_None validateFRRK8sConfig_def Let_def
        split: if_splits)
qed

theorem Validate_names_first_bad_cidr_witness:
  "Validate [] (zero_spec\<lparr>FRRK8SConfig :=
       Some \<lparr>AlwaysBlock = [''10.0.0.0/16'', ''invalid_cidr''], FRRK8SNamespace = [],
             SecretPassthrough = False\<rparr>\<rparr>) =
     Some (ErrNew ''invalid CIDR invalid_cidr in AlwaysBlock'')"
proof -
  let ?c = "\<lparr>AlwaysBlock = [], FRRK8SNamespace = [], SecretPassthrough = False\<rparr>"
  have good: "ParseCIDR (TrimSpace ''10.0.0.0/16'') = Some (32, 16)" by code_simp
  have bad: "ParseCIDR (TrimSpace ''invalid_cidr'') = None" by code_simp
  have "valid_spec [] (zero_spec\<lparr>FRRK8SConfig := Some (?c\<lparr>AlwaysBlock := [''10.0.0.0/16'']\<rparr>)\<rparr>)"
    using good by (simp add: valid_spec_alt zero_spec_def preferred_terms_def known_backend_def)
  from Validate_names_first_bad_cidr [OF this bad, of "[]"] show ?thesis by simp
qed

end
