(* ===== verification/Params.thy ===== *)
theory Params
  imports Webhook
begin

text \<open>
  The operator's configuration, \<open>pkg/params/params.go\<close>: the record \<open>EnvConfig\<close>, the effective BGP
  backend \<open>BGPType\<close>, and \<open>FromEnvironment\<close> with its helpers. The process environment is a map from
  variable names, and \<open>semver.NewVersion\<close> of \<open>github.com/Masterminds/semver\<close>, of which only the error
  is used here, is the parameter \<open>semver\<close>.
\<close>

section \<open>The configuration\<close>

record image_info =
  Repo :: string
  Tag :: string

record env_config =
  EnvNamespace :: string
  FRRK8sExternalNamespace :: string
  ControllerImage :: image_info
  SpeakerImage :: image_info
  FRRImage :: image_info
  FRRK8sImage :: image_info
  CNOMinFRRK8sVersion :: string
  MLBindPort :: int
  FRRMetricsPort :: int
  FRRK8sMetricsPort :: int
  FRRK8sFRRMetricsPort :: int
  SecureFRRK8sMetricsPort :: int
  SecureFRRK8sFRRMetricsPort :: int
  MetricsPort :: int
  LivenessPort :: int
  TLSCipherSuites :: string
  TLSCurvePreferences :: string
  TLSMinVersion :: string
  DeployPodMonitors :: bool
  DeployServiceMonitors :: bool
  DisableNetworkPolicies :: bool
  IsOpenshift :: bool
  MustDeployFRRK8sFromCNO :: bool

definition BGPType :: "metallb_spec \<Rightarrow> env_config \<Rightarrow> string" where
  "BGPType spec env =
     (if BGPBackend spec \<noteq> [] then BGPBackend spec
      else if IsOpenshift env \<and> MustDeployFRRK8sFromCNO env then FRRK8sExternalMode
      else if IsOpenshift env then FRRK8sMode
      else FRRMode)"

section \<open>Reading the environment\<close>

type_synonym environment = "string \<Rightarrow> string option"

text \<open>\<open>os.Getenv\<close>: the empty string for a variable that is not set.\<close>

definition Getenv :: "environment \<Rightarrow> string \<Rightarrow> string" where
  "Getenv env k = (case env k of None \<Rightarrow> [] | Some v \<Rightarrow> v)"

definition getImageNameTag :: "string \<Rightarrow> string \<times> string" where
  "getImageNameTag envValue =
     (let pos = LastIndex envValue (CHR ''/'');
          img = Split (CHR '':'') (drop (nat (pos + 1)) envValue);
          repoPath = take (nat (pos + 1)) envValue
      in if length img = 1 then (repoPath @ img ! 0, [])
         else (repoPath @ img ! 0, img ! 1))"

definition imageFromEnv :: "environment \<Rightarrow> string \<Rightarrow> go_error + image_info" where
  "imageFromEnv env imageEnv =
     (case env imageEnv of
        None \<Rightarrow> Inl (ErrNew (imageEnv @ '' environment value not set''))
      | Some v \<Rightarrow> (let (repo, tag) = getImageNameTag v in Inr \<lparr>Repo = repo, Tag = tag\<rparr>))"

definition intValueWithDefault :: "environment \<Rightarrow> string \<Rightarrow> int \<Rightarrow> go_error + int" where
  "intValueWithDefault env name dflt =
     (let val = Getenv env name in
      if val \<noteq> [] then
        (case Atoi val of
           None \<Rightarrow> Inl (ErrorfW (''failed to convert '' @ val @ '' from '' @ name @ '' to int: '')
                               (LibError ''strconv.Atoi'' val))
         | Some n \<Rightarrow> Inr n)
      else Inr dflt)"

definition validate :: "(string \<Rightarrow> go_error option) \<Rightarrow> env_config \<Rightarrow> go_error option" where
  "validate semver config =
     (if DeployPodMonitors config \<and> DeployServiceMonitors config
      then Some (ErrNew ''pod monitors and service monitors are mutually exclusive, only one can be enabled'')
      else if CNOMinFRRK8sVersion config \<noteq> [] then
        (case semver (CNOMinFRRK8sVersion config) of
           Some e \<Rightarrow> Some (ErrorfW ''invalid cno min frrk8s supported version: '' e)
         | None \<Rightarrow> None)
      else None)"

definition zero_image :: image_info where
  "zero_image = \<lparr>Repo = [], Tag = []\<rparr>"

definition FromEnvironment ::
  "(string \<Rightarrow> go_error option) \<Rightarrow> environment \<Rightarrow> bool \<Rightarrow> go_error + env_config" where
  "FromEnvironment semver env isOpenshift =
     (case env ''OPERATOR_NAMESPACE'' of
        None \<Rightarrow> Inl (ErrNew ''missing mandatory OPERATOR_NAMESPACE env variable'')
      | Some ns \<Rightarrow>
      bindE (imageFromEnv env ''CONTROLLER_IMAGE'') (\<lambda>controllerImage.
      bindE (imageFromEnv env ''SPEAKER_IMAGE'') (\<lambda>speakerImage.
      bindE (case imageFromEnv env ''FRR_IMAGE'' of
               Inl e \<Rightarrow> Inl (ErrorfW ''FRRImage is mandatory for frr mode, '' e)
             | Inr i \<Rightarrow> Inr i) (\<lambda>frrImage.
      bindE (intValueWithDefault env ''MEMBER_LIST_BIND_PORT'' 7946) (\<lambda>mlBindPort.
      bindE (intValueWithDefault env ''FRR_METRICS_PORT'' 9121) (\<lambda>frrMetricsPort.
      bindE (intValueWithDefault env ''METRICS_PORT'' 9120) (\<lambda>metricsPort.
      bindE (intValueWithDefault env ''OPERAND_LIVENESS_PORT'' 17472) (\<lambda>livenessPort.
      bindE (intValueWithDefault env ''FRRK8S_METRICS_PORT'' 7572) (\<lambda>frrk8sMetricsPort.
      bindE (intValueWithDefault env ''FRRK8S_HTTPS_METRICS_PORT'' 9140) (\<lambda>secureFRRK8sMetricsPort.
      bindE (intValueWithDefault env ''FRRK8S_FRR_METRICS_PORT'' 7573) (\<lambda>frrk8sFRRMetricsPort.
      bindE (intValueWithDefault env ''FRRK8S_FRR_HTTPS_METRICS_PORT'' 9141) (\<lambda>secureFRRK8sFRRMetricsPort.
      let res = \<lparr>
            EnvNamespace = ns,
            FRRK8sExternalNamespace = Getenv env ''FRRK8S_EXTERNAL_NAMESPACE'',
            ControllerImage = controllerImage,
            SpeakerImage = speakerImage,
            FRRImage = frrImage,
            FRRK8sImage = (case imageFromEnv env ''FRRK8S_IMAGE'' of Inl _ \<Rightarrow> zero_image | Inr i \<Rightarrow> i),
            CNOMinFRRK8sVersion = Getenv env ''CNO_MIN_FRRK8S_VERSION'',
            MLBindPort = mlBindPort,
            FRRMetricsPort = frrMetricsPort,
            FRRK8sMetricsPort = frrk8sMetricsPort,
            FRRK8sFRRMetricsPort = frrk8sFRRMetricsPort,
            SecureFRRK8sMetricsPort = secureFRRK8sMetricsPort,
            SecureFRRK8sFRRMetricsPort = secureFRRK8sFRRMetricsPort,
            MetricsPort = metricsPort,
            LivenessPort = livenessPort,
            TLSCipherSuites = Getenv env ''TLS_CIPHER_SUITES'',
            TLSCurvePreferences = Getenv env ''TLS_CURVE_PREFERENCES'',
            TLSMinVersion = Getenv env ''TLS_MIN_VERSION'',
            DeployPodMonitors = (Getenv env ''DEPLOY_PODMONITORS'' = ''true''),
            DeployServiceMonitors = (Getenv env ''DEPLOY_SERVICEMONITORS'' = ''true''),
            DisableNetworkPolicies = (Getenv env ''DISABLE_NETWORK_POLICIES'' = ''true''),
            IsOpenshift = isOpenshift,
            MustDeployFRRK8sFromCNO = (Getenv env ''DEPLOY_FRRK8S_FROM_CNO'' = ''true'')\<rparr>
      in case validate semver res of
           Some e \<Rightarrow> Inl e
         | None \<Rightarrow> Inr res))))))))))))"

section \<open>Image references\<close>

lemma getImageNameTag_indices:
  "0 < length (Split c s)" "length (Split c s) \<noteq> 1 \<Longrightarrow> 1 < length (Split c s)"
  by (simp_all add: length_Split)

text \<open>The part of a reference up to the last slash, and the image's own name after it.\<close>

lemma LastIndex_cut:
  assumes "d = [] \<or> last d = CHR ''/''" and "CHR ''/'' \<notin> set t"
  shows "take (nat (LastIndex (d @ t) (CHR ''/'') + 1)) (d @ t) = d"
    and "drop (nat (LastIndex (d @ t) (CHR ''/'') + 1)) (d @ t) = t"
proof -
  have "nat (LastIndex (d @ t) (CHR ''/'') + 1) = length d"
  proof (cases "d = []")
    case True
    with assms(2) show ?thesis by (simp add: LastIndex_absent)
  next
    case False
    then obtain d' where "d = d' @ [CHR ''/'']"
      using assms(1) by (metis append_butlast_last_id)
    with assms(2) LastIndex_append_last [of "CHR ''/''" t d'] show ?thesis by simp
  qed
  then show "take (nat (LastIndex (d @ t) (CHR ''/'') + 1)) (d @ t) = d"
    and "drop (nat (LastIndex (d @ t) (CHR ''/'') + 1)) (d @ t) = t" by simp_all
qed

lemma LastIndex_take_slash:
  "take (nat (LastIndex s c + 1)) s = [] \<or> last (take (nat (LastIndex s c + 1)) s) = c"
proof (induction s)
  case Nil
  show ?case by simp
next
  case (Cons x s)
  show ?case
  proof (cases "0 \<le> LastIndex s c")
    case True
    then have n: "nat (LastIndex s c + 2) = Suc (nat (LastIndex s c + 1))" by arith
    have "take (nat (LastIndex s c + 1)) s \<noteq> []" using True by (cases s) (auto simp: Let_def)
    with True n Cons.IH show ?thesis by (simp add: add.commute)
  next
    case False
    with LastIndex_ge [of s c] have "LastIndex s c = -1" by simp
    then show ?thesis by (auto simp: Let_def)
  qed
qed

lemma getImageNameTag_cut:
  assumes "d = [] \<or> last d = CHR ''/''" and "CHR ''/'' \<notin> set t"
  shows "getImageNameTag (d @ t) =
           (let img = Split (CHR '':'') t in
            if length img = 1 then (d @ img ! 0, []) else (d @ img ! 0, img ! 1))"
  unfolding getImageNameTag_def Let_def LastIndex_cut [OF assms] by (rule refl)

lemma Split_subset: "\<forall>w\<in>set (Split c s). set w \<subseteq> set s"
proof (induction s)
  case Nil
  show ?case by simp
next
  case (Cons a s)
  obtain w ws where "Split c s = w # ws" by (cases "Split c s") auto
  with Cons.IH show ?case by auto
qed

text \<open>Every string is such a path and name.\<close>

lemma reference_cases:
  obtains d t where "s = d @ t" and "d = [] \<or> last d = CHR ''/''" and "CHR ''/'' \<notin> set t"
proof -
  let ?n = "nat (LastIndex s (CHR ''/'') + 1)"
  have "s = take ?n s @ drop ?n s" by simp
  then show thesis
    using that LastIndex_take_slash [of s "CHR ''/''"] LastIndex_suffix_free [of "CHR ''/''" s] by blast
qed

section \<open>The environment that is accepted\<close>

definition int_variable_ok :: "environment \<Rightarrow> string \<Rightarrow> bool" where
  "int_variable_ok env name \<longleftrightarrow> Getenv env name = [] \<or> Atoi (Getenv env name) \<noteq> None"

definition mandatory_variables :: "string list" where
  "mandatory_variables = [''OPERATOR_NAMESPACE'', ''CONTROLLER_IMAGE'', ''SPEAKER_IMAGE'', ''FRR_IMAGE'']"

definition port_variables :: "string list" where
  "port_variables =
     [''MEMBER_LIST_BIND_PORT'', ''FRR_METRICS_PORT'', ''METRICS_PORT'', ''OPERAND_LIVENESS_PORT'',
      ''FRRK8S_METRICS_PORT'', ''FRRK8S_HTTPS_METRICS_PORT'', ''FRRK8S_FRR_METRICS_PORT'',
      ''FRRK8S_FRR_HTTPS_METRICS_PORT'']"

definition env_ok :: "(string \<Rightarrow> go_error option) \<Rightarrow> environment \<Rightarrow> bool" where
  "env_ok semver env \<longleftrightarrow>
     (\<forall>v \<in> set mandatory_variables. env v \<noteq> None) \<and>
     (\<forall>v \<in> set port_variables. int_variable_ok env v) \<and>
     \<not> (Getenv env ''DEPLOY_PODMONITORS'' = ''true'' \<and> Getenv env ''DEPLOY_SERVICEMONITORS'' = ''true'') \<and>
     (Getenv env ''CNO_MIN_FRRK8S_VERSION'' = [] \<or> semver (Getenv env ''CNO_MIN_FRRK8S_VERSION'') = None)"

lemma imageFromEnv_Inr: "(\<exists>i. imageFromEnv env v = Inr i) \<longleftrightarrow> env v \<noteq> None"
  by (auto simp: imageFromEnv_def split: option.splits prod.splits)

lemma intValueWithDefault_Inr: "(\<exists>i. intValueWithDefault env v d = Inr i) \<longleftrightarrow> int_variable_ok env v"
  by (auto simp: intValueWithDefault_def int_variable_ok_def Let_def split: option.splits)

lemma intValueWithDefault_value:
  "intValueWithDefault env v d = Inr i \<Longrightarrow>
     (Getenv env v = [] \<and> i = d) \<or> (Getenv env v \<noteq> [] \<and> Atoi (Getenv env v) = Some i)"
  by (auto simp: intValueWithDefault_def Let_def split: if_splits option.splits)

lemma validate_None:
  "validate semver c = None \<longleftrightarrow>
     \<not> (DeployPodMonitors c \<and> DeployServiceMonitors c) \<and>
     (CNOMinFRRK8sVersion c = [] \<or> semver (CNOMinFRRK8sVersion c) = None)"
  by (auto simp: validate_def split: option.splits)

lemma case_sum_Inr [result_simps]:
  "(case m of Inl e \<Rightarrow> Inl (f e) | Inr i \<Rightarrow> Inr i) = Inr x \<longleftrightarrow> m = Inr x"
  by (cases m) auto

lemma case_error_Inr [result_simps]:
  "(case m of Some e \<Rightarrow> Inl e | None \<Rightarrow> Inr x) = Inr y \<longleftrightarrow> m = None \<and> x = y"
  by (cases m) auto

text \<open>Inversion of a successful run: the values each step read.\<close>

lemma FromEnvironment_InrD:
  assumes "FromEnvironment semver env os = Inr c"
  shows "env ''OPERATOR_NAMESPACE'' = Some (EnvNamespace c)"
    and "imageFromEnv env ''CONTROLLER_IMAGE'' = Inr (ControllerImage c)"
    and "imageFromEnv env ''SPEAKER_IMAGE'' = Inr (SpeakerImage c)"
    and "imageFromEnv env ''FRR_IMAGE'' = Inr (FRRImage c)"
    and "intValueWithDefault env ''MEMBER_LIST_BIND_PORT'' 7946 = Inr (MLBindPort c)"
    and "intValueWithDefault env ''FRR_METRICS_PORT'' 9121 = Inr (FRRMetricsPort c)"
    and "intValueWithDefault env ''METRICS_PORT'' 9120 = Inr (MetricsPort c)"
    and "intValueWithDefault env ''OPERAND_LIVENESS_PORT'' 17472 = Inr (LivenessPort c)"
    and "intValueWithDefault env ''FRRK8S_METRICS_PORT'' 7572 = Inr (FRRK8sMetricsPort c)"
    and "intValueWithDefault env ''FRRK8S_HTTPS_METRICS_PORT'' 9140 = Inr (SecureFRRK8sMetricsPort c)"
    and "intValueWithDefault env ''FRRK8S_FRR_METRICS_PORT'' 7573 = Inr (FRRK8sFRRMetricsPort c)"
    and "intValueWithDefault env ''FRRK8S_FRR_HTTPS_METRICS_PORT'' 9141 = Inr (SecureFRRK8sFRRMetricsPort c)"
    and "validate semver c = None"
    and "CNOMinFRRK8sVersion c = Getenv env ''CNO_MIN_FRRK8S_VERSION''"
    and "IsOpenshift c = os"
    and "DeployPodMonitors c = (Getenv env ''DEPLOY_PODMONITORS'' = ''true'')"
    and "DeployServiceMonitors c = (Getenv env ''DEPLOY_SERVICEMONITORS'' = ''true'')"
    and "FRRK8sExternalNamespace c = Getenv env ''FRRK8S_EXTERNAL_NAMESPACE''"
    and "MustDeployFRRK8sFromCNO c = (Getenv env ''DEPLOY_FRRK8S_FROM_CNO'' = ''true'')"
  using assms
  by (auto simp: FromEnvironment_def Let_def result_simps split: option.splits)

lemma FromEnvironment_Inr_iff:
  "(\<exists>c. FromEnvironment semver env os = Inr c) \<longleftrightarrow> env_ok semver env"
proof
  assume "\<exists>c. FromEnvironment semver env os = Inr c"
  then obtain c where c: "FromEnvironment semver env os = Inr c" ..
  note d = FromEnvironment_InrD [OF c]
  have "env v \<noteq> None" if "v \<in> set mandatory_variables" for v
    using that d(1-4) imageFromEnv_Inr by (auto simp: mandatory_variables_def)
  moreover have "int_variable_ok env v" if "v \<in> set port_variables" for v
    using that d(5-12) intValueWithDefault_Inr by (auto simp: port_variables_def)
  ultimately show "env_ok semver env"
    using d(13-17) by (auto simp: env_ok_def validate_None)
next
  assume ok: "env_ok semver env"
  then obtain ns ci si fi where
    "env ''OPERATOR_NAMESPACE'' = Some ns" "imageFromEnv env ''CONTROLLER_IMAGE'' = Inr ci"
    "imageFromEnv env ''SPEAKER_IMAGE'' = Inr si" "imageFromEnv env ''FRR_IMAGE'' = Inr fi"
    using imageFromEnv_Inr by (fastforce simp: env_ok_def mandatory_variables_def)
  moreover have "\<exists>i. intValueWithDefault env v d = Inr i" if "v \<in> set port_variables" for v d
    using that ok intValueWithDefault_Inr by (simp add: env_ok_def)
  then have "\<exists>i. intValueWithDefault env ''MEMBER_LIST_BIND_PORT'' 7946 = Inr i"
    "\<exists>i. intValueWithDefault env ''FRR_METRICS_PORT'' 9121 = Inr i"
    "\<exists>i. intValueWithDefault env ''METRICS_PORT'' 9120 = Inr i"
    "\<exists>i. intValueWithDefault env ''OPERAND_LIVENESS_PORT'' 17472 = Inr i"
    "\<exists>i. intValueWithDefault env ''FRRK8S_METRICS_PORT'' 7572 = Inr i"
    "\<exists>i. intValueWithDefault env ''FRRK8S_HTTPS_METRICS_PORT'' 9140 = Inr i"
    "\<exists>i. intValueWithDefault env ''FRRK8S_FRR_METRICS_PORT'' 7573 = Inr i"
    "\<exists>i. intValueWithDefault env ''FRRK8S_FRR_HTTPS_METRICS_PORT'' 9141 = Inr i"
    by (simp_all add: port_variables_def)
  ultimately show "\<exists>c. FromEnvironment semver env os = Inr c"
    using ok by (auto simp: FromEnvironment_def Let_def result_simps validate_None env_ok_def)
qed

lemma getImageNameTag_chars:
  assumes "getImageNameTag s = (r, t)"
  shows "CHR '':'' \<notin> set t \<and> CHR ''/'' \<notin> set t"
proof -
  obtain d n where s: "s = d @ n" and d: "d = [] \<or> last d = CHR ''/''" and n: "CHR ''/'' \<notin> set n"
    by (rule reference_cases)
  show ?thesis
  proof (cases "length (Split (CHR '':'') n) = 1")
    case True
    with assms show ?thesis by (auto simp: s getImageNameTag_cut [OF d n] Let_def)
  next
    case False
    then have "Split (CHR '':'') n ! 1 \<in> set (Split (CHR '':'') n)"
      using getImageNameTag_indices(2) nth_mem by blast
    moreover have "t = Split (CHR '':'') n ! 1"
      using assms False by (auto simp: s getImageNameTag_cut [OF d n] Let_def)
    ultimately show ?thesis
      using n Split_fields_no_sep Split_subset by blast
  qed
qed

section \<open>Properties\<close>


text \<open>
  What every configuration read from the environment satisfies: it records the platform it was
  read for, has the operator namespace of the environment, never enables both kinds of monitors,
  names a minimum version only if it is a semantic version, and has ports that are 64-bit integers.
\<close>

theorem FromEnvironment_invariant:
  assumes "FromEnvironment semver env os = Inr c"
  shows "IsOpenshift c = os \<and> env ''OPERATOR_NAMESPACE'' = Some (EnvNamespace c) \<and>
         \<not> (DeployPodMonitors c \<and> DeployServiceMonitors c) \<and>
         (CNOMinFRRK8sVersion c = [] \<or> semver (CNOMinFRRK8sVersion c) = None) \<and>
         (\<forall>p \<in> {MLBindPort c, FRRMetricsPort c, MetricsPort c, LivenessPort c, FRRK8sMetricsPort c,
               SecureFRRK8sMetricsPort c, FRRK8sFRRMetricsPort c, SecureFRRK8sFRRMetricsPort c}.
            - (2 ^ 63) \<le> p \<and> p < 2 ^ 63)"
proof -
  note d = FromEnvironment_InrD [OF assms]
  have port: "- (2 ^ 63) \<le> p \<and> p < 2 ^ 63"
    if "intValueWithDefault env v k = Inr p" "- (2 ^ 63) \<le> k" "k < 2 ^ 63" for v k p
    using intValueWithDefault_value [OF that(1)] that(2,3) Atoi_bounds by auto
  show ?thesis
    using d(1,13,15) d(5-12) [THEN port] by (auto simp: validate_None)
qed

definition example_environment :: environment where
  "example_environment =
     [''OPERATOR_NAMESPACE'' \<mapsto> ''test-namespace'', ''CONTROLLER_IMAGE'' \<mapsto> ''test-controller-image:1'',
      ''SPEAKER_IMAGE'' \<mapsto> ''test-speaker-image:2'', ''FRR_IMAGE'' \<mapsto> ''test-frr-image:3'',
      ''DEPLOY_SERVICEMONITORS'' \<mapsto> ''true'']"

lemma example_environment_ok: "env_ok semver example_environment"
  by (simp add: env_ok_def mandatory_variables_def port_variables_def int_variable_ok_def Getenv_def
      example_environment_def)

theorem FromEnvironment_invariant_witness:
  "\<exists>c. FromEnvironment (\<lambda>_. None) example_environment True = Inr c \<and> IsOpenshift c \<and>
       EnvNamespace c = ''test-namespace'' \<and> \<not> DeployPodMonitors c"
proof -
  obtain c where c: "FromEnvironment (\<lambda>_. None) example_environment True = Inr c"
    using FromEnvironment_Inr_iff example_environment_ok by blast
  from FromEnvironment_invariant [OF c] have "IsOpenshift c" "EnvNamespace c = ''test-namespace''"
    "\<not> (DeployPodMonitors c \<and> DeployServiceMonitors c)"
    by (auto simp: example_environment_def)
  moreover have "DeployServiceMonitors c"
    using FromEnvironment_InrD(17) [OF c] by (simp add: Getenv_def example_environment_def)
  ultimately show ?thesis using c by blast
qed

text \<open>
  The default ports do not collide: with no port variable set, the eight ports of a configuration
  are pairwise different, so that the daemons that share the host network can all listen.
\<close>

theorem FromEnvironment_default_ports_distinct:
  assumes "FromEnvironment semver env os = Inr c"
    and "\<forall>v \<in> set port_variables. env v = None"
  shows "distinct [MLBindPort c, FRRMetricsPort c, MetricsPort c, LivenessPort c, FRRK8sMetricsPort c,
           SecureFRRK8sMetricsPort c, FRRK8sFRRMetricsPort c, SecureFRRK8sFRRMetricsPort c]"
proof -
  note d = FromEnvironment_InrD [OF assms(1)]
  have "p = k" if "intValueWithDefault env v k = Inr p" "v \<in> set port_variables" for v k p
    using intValueWithDefault_value [OF that(1)] that(2) assms(2) by (auto simp: Getenv_def)
  note port = this [unfolded port_variables_def]
  show ?thesis
    using d(5-12) [THEN port] by simp
qed

theorem FromEnvironment_default_ports_distinct_witness:
  "\<exists>c. FromEnvironment (\<lambda>_. None) example_environment False = Inr c \<and>
       MLBindPort c \<noteq> MetricsPort c \<and> FRRMetricsPort c \<noteq> FRRK8sFRRMetricsPort c"
proof -
  obtain c where c: "FromEnvironment (\<lambda>_. None) example_environment False = Inr c"
    using FromEnvironment_Inr_iff example_environment_ok by blast
  have "\<forall>v \<in> set port_variables. example_environment v = None"
    by (simp add: port_variables_def example_environment_def)
  from FromEnvironment_default_ports_distinct [OF c this] c show ?thesis by auto
qed

text \<open>
  Splitting an image reference loses nothing when the image's own name, after the last slash, has
  at most one colon: the repository and the tag, joined by a colon if there is one, are the
  reference again, whatever colons the registry's host and port contain.
\<close>

theorem getImageNameTag_roundtrip:
  assumes "d = [] \<or> last d = CHR ''/''" and "CHR ''/'' \<notin> set n" and "count_list n (CHR '':'') \<le> 1"
    and "getImageNameTag (d @ n) = (repo, tag)"
  shows "repo @ (if CHR '':'' \<in> set n then '':'' @ tag else []) = d @ n"
proof (cases "CHR '':'' \<in> set n")
  case False
  with assms(4) show ?thesis
    by (simp add: getImageNameTag_cut [OF assms(1,2)] Split_no_sep)
next
  case True
  then have "length (Split (CHR '':'') n) = 2"
    using assms(3) by (simp add: length_Split) (metis count_list_0_iff le_Suc_eq le_zero_eq)
  then obtain u v where uv: "Split (CHR '':'') n = [u, v]"
    by (cases "Split (CHR '':'') n" rule: remdups_adj.cases) auto
  then have n: "n = u @ '':'' @ v" using Join_Split [of "CHR '':''" n] by simp
  have "getImageNameTag (d @ n) = (d @ u, v)"
    by (simp add: getImageNameTag_cut [OF assms(1,2)] uv)
  with True n assms(4) show ?thesis by simp
qed

theorem getImageNameTag_roundtrip_witness:
  "getImageNameTag ''quay.io:5000/metallb/speaker:v0.13.9'' =
     (''quay.io:5000/metallb/speaker'', ''v0.13.9'') \<and>
   ''quay.io:5000/metallb/speaker'' @ '':'' @ ''v0.13.9'' = ''quay.io:5000/metallb/speaker:v0.13.9''"
proof -
  have eq: "getImageNameTag (''quay.io:5000/metallb/'' @ ''speaker:v0.13.9'') =
      (''quay.io:5000/metallb/speaker'', ''v0.13.9'')"
    by (subst getImageNameTag_cut) auto
  show ?thesis
    using eq getImageNameTag_roundtrip [OF _ _ _ eq] by simp
qed

text \<open>
  What follows a second colon is dropped: for a reference that has both a tag and a digest, the
  result does not depend on the digest. (The comment in the code assumes that the last colon of a
  reference is the one before the tag.)
\<close>

theorem getImageNameTag_drops_after_second_colon:
  assumes "d = [] \<or> last d = CHR ''/''"
    and "CHR ''/'' \<notin> set n" "CHR '':'' \<notin> set n" "CHR ''/'' \<notin> set t" "CHR '':'' \<notin> set t"
    and "CHR ''/'' \<notin> set r"
  shows "getImageNameTag (d @ n @ '':'' @ t @ '':'' @ r) = (d @ n, t)"
proof -
  have "Split (CHR '':'') (n @ '':'' @ t @ '':'' @ r) = n # t # Split (CHR '':'') r"
    using Split_append_sep [OF assms(3), of "t @ '':'' @ r"] Split_append_sep [OF assms(5), of r] by simp
  moreover have "CHR ''/'' \<notin> set (n @ '':'' @ t @ '':'' @ r)" using assms by simp
  ultimately show ?thesis using assms(1) by (simp add: getImageNameTag_cut)
qed

theorem getImageNameTag_drops_after_second_colon_witness:
  "getImageNameTag ''quay.io/metallb/speaker:v1@sha256:0a1b'' = (''quay.io/metallb/speaker'', ''v1@sha256'')"
  using getImageNameTag_drops_after_second_colon
    [of "''quay.io/metallb/''" "''speaker''" "''v1@sha256''" "''0a1b''"] by simp

text \<open>
  The effective BGP backend of a valid specification is one of the four the operator knows, and
  it is the external frr-k8s only where the resource asks for it, or where an unspecified backend
  meets an OpenShift cluster whose network operator deploys frr-k8s.
\<close>

theorem BGPType_of_valid_spec:
  assumes "valid_spec ext spec"
  shows "BGPType spec env \<in> {NativeMode, FRRMode, FRRK8sMode, FRRK8sExternalMode} \<and>
         (BGPType spec env = FRRK8sExternalMode) =
           (BGPBackend spec = FRRK8sExternalMode \<or>
            BGPBackend spec = [] \<and> IsOpenshift env \<and> MustDeployFRRK8sFromCNO env)"
  using assms by (auto simp: valid_spec_alt BGPType_def known_backend_def)

text \<open>A configuration as the tests of the repository use it, for examples.\<close>

definition example_config :: "bool \<Rightarrow> env_config" where
  "example_config openshift =
     \<lparr>EnvNamespace = ''metallb-system'', FRRK8sExternalNamespace = [],
      ControllerImage = \<lparr>Repo = ''quay.io/metallb/controller'', Tag = ''main''\<rparr>,
      SpeakerImage = \<lparr>Repo = ''quay.io/metallb/speaker'', Tag = ''main''\<rparr>,
      FRRImage = \<lparr>Repo = ''frrouting/frr'', Tag = ''v7.5.1''\<rparr>, FRRK8sImage = zero_image,
      CNOMinFRRK8sVersion = [], MLBindPort = 7946, FRRMetricsPort = 9121, FRRK8sMetricsPort = 7572,
      FRRK8sFRRMetricsPort = 7573, SecureFRRK8sMetricsPort = 9140, SecureFRRK8sFRRMetricsPort = 9141,
      MetricsPort = 9120, LivenessPort = 17472, TLSCipherSuites = [], TLSCurvePreferences = [],
      TLSMinVersion = [], DeployPodMonitors = False, DeployServiceMonitors = False,
      DisableNetworkPolicies = False, IsOpenshift = openshift, MustDeployFRRK8sFromCNO = False\<rparr>"

theorem BGPType_of_valid_spec_witness:
  "valid_spec [] zero_spec \<and>
   BGPType zero_spec (example_config True) \<in> {NativeMode, FRRMode, FRRK8sMode, FRRK8sExternalMode}"
proof -
  have "valid_spec [] zero_spec"
    by (simp add: valid_spec_alt zero_spec_def preferred_terms_def known_backend_def)
  with BGPType_of_valid_spec show ?thesis by blast
qed

end
