(* ===== verification/Helm_Values.thy ===== *)
theory Helm_Values
  imports Params "HOL-Library.Multiset"
begin

text \<open>
  The values the operator passes to the two Helm charts: the helpers of \<open>pkg/helm/config.go\<close>, the
  MetalLB chart's values of \<open>pkg/helm/metallb.go\<close> and the frr-k8s chart's values of
  \<open>pkg/helm/frrk8s.go\<close>. A function that builds a Go map returns the map; one that writes into the map
  it is given returns the map afterwards.
\<close>

section \<open>Helpers\<close>

definition logLevelValue :: "metallb_spec \<Rightarrow> string" where
  "logLevelValue spec = (if LogLevel spec \<noteq> [] then LogLevel spec else LogLevelInfo)"

definition toInterfaceMap :: "string_map \<Rightarrow> obj" where
  "toInterfaceMap m = (\<lambda>k. map_option GStr (m k))"

text \<open>\<open>pkg/helm\<close> has its own copy of \<open>getImageNameTag\<close>.\<close>

definition helm_getImageNameTag :: "string \<Rightarrow> string \<times> string" where
  "helm_getImageNameTag envValue =
     (let pos = LastIndex envValue (CHR ''/'');
          img = Split (CHR '':'') (drop (nat (pos + 1)) envValue);
          repoPath = take (nat (pos + 1)) envValue
      in if length img = 1 then (repoPath @ img ! 0, [])
         else (repoPath @ img ! 0, img ! 1))"

definition ocpServingCertAnnotationFor :: "string \<Rightarrow> obj" where
  "ocpServingCertAnnotationFor secretName =
     [''service.beta.openshift.io/serving-cert-secret-name'' \<mapsto> GStr secretName]"

definition ocpServiceMonitorTLSConfig :: "string \<Rightarrow> string \<Rightarrow> obj" where
  "ocpServiceMonitorTLSConfig component namespace =
     [''caFile'' \<mapsto> GStr ''/etc/prometheus/configmaps/serving-certs-ca-bundle/service-ca.crt'',
      ''serverName'' \<mapsto> GStr (component @ ''-monitor-service.'' @ namespace @ ''.svc''),
      ''certFile'' \<mapsto> GStr ''/etc/prometheus/secrets/metrics-client-certs/tls.crt'',
      ''keyFile'' \<mapsto> GStr ''/etc/prometheus/secrets/metrics-client-certs/tls.key'',
      ''insecureSkipVerify'' \<mapsto> GBool False]"

definition image_val :: "image_info \<Rightarrow> gval" where
  "image_val i = GMap [''repository'' \<mapsto> GStr (Repo i), ''tag'' \<mapsto> GStr (Tag i)]"

text \<open>\<open>if b { m[k] = v }\<close>\<close>

definition set_if :: "bool \<Rightarrow> string \<Rightarrow> gval \<Rightarrow> obj \<Rightarrow> obj" where
  "set_if b k v m = (if b then m(k \<mapsto> v) else m)"

text \<open>\<open>if p != nil { m[k] = f(p) }\<close>\<close>

definition set_some :: "'a option \<Rightarrow> string \<Rightarrow> ('a \<Rightarrow> gval) \<Rightarrow> obj \<Rightarrow> obj" where
  "set_some p k f m = (case p of None \<Rightarrow> m | Some x \<Rightarrow> m(k \<mapsto> f x))"

lemma set_if_apply [simp]:
  "set_if b k v m j = (if b \<and> j = k then Some v else m j)"
  by (simp add: set_if_def)

lemma set_some_apply [simp]:
  "set_some p k f m j =
     (if j = k then (case p of None \<Rightarrow> m j | Some x \<Rightarrow> Some (f x)) else m j)"
  by (simp add: set_some_def split: option.splits)

section \<open>The MetalLB chart\<close>

definition controllerCertsSecret :: string where
  "controllerCertsSecret = ''controller-certs-secret''"

definition speakerCertsSecret :: string where
  "speakerCertsSecret = ''speaker-certs-secret''"

definition metallbTLSHelmValues :: "env_config \<Rightarrow> obj" where
  "metallbTLSHelmValues env =
     (let res = [''cipherSuites'' \<mapsto> GStr (TLSCipherSuites env),
                 ''curvePreferences'' \<mapsto> GStr (TLSCurvePreferences env),
                 ''minVersion'' \<mapsto> GStr (TLSMinVersion env)]
      in if IsOpenshift env
         then res(''controllerMetricsTLSSecret'' \<mapsto> GStr controllerCertsSecret,
                  ''speakerMetricsTLSSecret'' \<mapsto> GStr speakerCertsSecret)
         else res)"

definition loadBalancerClassValue :: "metallb_spec \<Rightarrow> string" where
  "loadBalancerClassValue spec = LoadBalancerClass spec"

definition metalLBprometheusValues :: "env_config \<Rightarrow> obj" where
  "metalLBprometheusValues env =
     (let ocp = IsOpenshift env;
          speakerTLSConfig =
            (if ocp then ocpServiceMonitorTLSConfig ''speaker'' (EnvNamespace env)
             else [''insecureSkipVerify'' \<mapsto> GBool True]);
          controllerTLSConfig =
            (if ocp then ocpServiceMonitorTLSConfig ''controller'' (EnvNamespace env)
             else [''insecureSkipVerify'' \<mapsto> GBool True]);
          speakerAnnotations = (if ocp then ocpServingCertAnnotationFor speakerCertsSecret else Map.empty);
          controllerAnnotations =
            (if ocp then ocpServingCertAnnotationFor controllerCertsSecret else Map.empty)
      in [''metricsPort'' \<mapsto> GInt (MetricsPort env),
          ''podMonitor'' \<mapsto> GMap [''enabled'' \<mapsto> GBool (DeployPodMonitors env)],
          ''serviceMonitor'' \<mapsto> GMap
            [''enabled'' \<mapsto> GBool (DeployServiceMonitors env),
             ''speaker'' \<mapsto> GMap [''annotations'' \<mapsto> GMap speakerAnnotations,
                                  ''tlsConfig'' \<mapsto> GMap speakerTLSConfig],
             ''controller'' \<mapsto> GMap [''annotations'' \<mapsto> GMap controllerAnnotations,
                                     ''tlsConfig'' \<mapsto> GMap controllerTLSConfig]],
          ''serviceAccount'' \<mapsto> GStr ''foo'',
          ''namespace'' \<mapsto> GStr ''bar''])"

definition probe_val :: "env_config \<Rightarrow> gval" where
  "probe_val env = GMap [''enabled'' \<mapsto> GBool True, ''port'' \<mapsto> GInt (LivenessPort env)]"

definition service_account_val :: "string \<Rightarrow> gval" where
  "service_account_val n = GMap [''create'' \<mapsto> GBool False, ''name'' \<mapsto> GStr n]"

text \<open>The block on \<open>otherConfigs\<close> that ends both \<open>controllerValues\<close> and \<open>speakerValues\<close>.\<close>

definition other_config_values :: "config option \<Rightarrow> obj \<Rightarrow> obj" where
  "other_config_values otherConfigs m =
     (case otherConfigs of
        None \<Rightarrow> m
      | Some c \<Rightarrow>
          (let m1 = set_if (PriorityClassName c \<noteq> []) ''priorityClassName'' (GStr (PriorityClassName c)) m;
               m2 = set_if (RuntimeClassName c \<noteq> []) ''runtimeClassName'' (GStr (RuntimeClassName c)) m1
           in set_some (Annotations c) ''podAnnotations'' (\<lambda>a. GMap (toInterfaceMap a)) m2))"

definition controllerValues :: "env_config \<Rightarrow> metallb_spec \<Rightarrow> obj" where
  "controllerValues env spec =
     (let m = [''image'' \<mapsto> image_val (ControllerImage env),
               ''serviceAccount'' \<mapsto> service_account_val ''controller'',
               ''webhookMode'' \<mapsto> GStr ''disabled''];
          m1 = m(''livenessProbe'' \<mapsto> probe_val env, ''readinessProbe'' \<mapsto> probe_val env,
                 ''logLevel'' \<mapsto> GStr (logLevelValue spec));
          m2 = (if IsOpenshift env
                then m1(''securityContext'' \<mapsto> GMap [''runAsNonRoot'' \<mapsto> GBool True,
                                                    ''runAsUser'' \<mapsto> GNil, ''fsGroup'' \<mapsto> GNil],
                        ''command'' \<mapsto> GStr ''/controller'')
                else m1);
          m3 = set_some (ControllerNodeSelector spec) ''nodeSelector'' (\<lambda>s. GMap (toInterfaceMap s)) m2;
          m4 = set_some (ControllerTolerations spec) ''tolerations'' GTolerations m3
      in other_config_values (ControllerConfig spec) m4)"

definition speakerValues :: "env_config \<Rightarrow> metallb_spec \<Rightarrow> obj" where
  "speakerValues env spec =
     (let frrEnabled = (BGPType spec env = FRRMode);
          m = [''image'' \<mapsto> image_val (SpeakerImage env),
               ''serviceAccount'' \<mapsto> service_account_val ''speaker'',
               ''frr'' \<mapsto> GMap [''enabled'' \<mapsto> GBool frrEnabled, ''image'' \<mapsto> image_val (FRRImage env),
                               ''metricsPort'' \<mapsto> GInt (FRRMetricsPort env)],
               ''memberlist'' \<mapsto> GMap [''enabled'' \<mapsto> GBool True, ''mlBindPort'' \<mapsto> GInt (MLBindPort env)],
               ''livenessProbe'' \<mapsto> probe_val env, ''readinessProbe'' \<mapsto> probe_val env,
               ''command'' \<mapsto> GStr ''/speaker''];
          m1 = m(''logLevel'' \<mapsto> GStr (logLevelValue spec));
          m2 = set_some (SpeakerNodeSelector spec) ''nodeSelector'' (\<lambda>s. GMap (toInterfaceMap s)) m1;
          m3 = set_some (SpeakerTolerations spec) ''tolerations'' GTolerations m2
      in other_config_values (SpeakerConfig spec) m3)"

definition netpolValues :: "env_config \<Rightarrow> obj" where
  "netpolValues env = [''enabled'' \<mapsto> GBool (\<not> DisableNetworkPolicies env)]"

definition metalLBFrrk8sValues :: "env_config \<Rightarrow> metallb_spec \<Rightarrow> obj" where
  "metalLBFrrk8sValues env spec =
     (let enabled = (BGPType spec env = FRRK8sMode);
          frrK8sNamespace =
            (case FRRK8SConfig spec of
               None \<Rightarrow> FRRK8sExternalNamespace env
             | Some c \<Rightarrow> if FRRK8SNamespace c \<noteq> [] then FRRK8SNamespace c
                         else FRRK8sExternalNamespace env);
          external = (BGPType spec env = FRRK8sExternalMode);
          secretPassthrough =
            (case FRRK8SConfig spec of None \<Rightarrow> False | Some c \<Rightarrow> SecretPassthrough c)
      in [''enabled'' \<mapsto> GBool enabled, ''external'' \<mapsto> GBool external,
          ''namespace'' \<mapsto> GStr frrK8sNamespace, ''secretPassthrough'' \<mapsto> GBool secretPassthrough])"

definition patchMetalLBChartValues :: "env_config \<Rightarrow> metallb_spec \<Rightarrow> obj \<Rightarrow> obj" where
  "patchMetalLBChartValues env spec valuesMap =
     valuesMap(
       ''loadBalancerClass'' \<mapsto> GStr (loadBalancerClassValue spec),
       ''prometheus'' \<mapsto> GMap (metalLBprometheusValues env),
       ''controller'' \<mapsto> GMap (controllerValues env spec),
       ''speaker'' \<mapsto> GMap (speakerValues env spec),
       ''frrk8s'' \<mapsto> GMap (metalLBFrrk8sValues env spec),
       ''networkpolicies'' \<mapsto> GMap (netpolValues env),
       ''tls'' \<mapsto> GMap (metallbTLSHelmValues env))"

section \<open>The frr-k8s chart\<close>

definition frrk8sCertsSecret :: string where
  "frrk8sCertsSecret = ''frr-k8s-certs-secret''"

text \<open>The loop of \<open>alwaysBlockToString\<close> has the body of the one in the webhook.\<close>

fun check_always_block :: "string list \<Rightarrow> go_error option" where
  "check_always_block [] = None"
| "check_always_block (cidr # cidrs) =
     (case ParseCIDR (TrimSpace cidr) of
        None \<Rightarrow> Some (ErrNew (''invalid CIDR '' @ cidr @ '' in AlwaysBlock''))
      | Some _ \<Rightarrow> check_always_block cidrs)"

definition alwaysBlockToString :: "string list \<Rightarrow> go_error + string" where
  "alwaysBlockToString alwaysBlock =
     (case check_always_block alwaysBlock of
        Some e \<Rightarrow> Inl e
      | None \<Rightarrow> Inr (Join '','' (SortStrings alwaysBlock)))"

definition frrk8sTLSHelmValues :: "env_config \<Rightarrow> obj" where
  "frrk8sTLSHelmValues env =
     (let res = [''cipherSuites'' \<mapsto> GStr (TLSCipherSuites env),
                 ''curvePreferences'' \<mapsto> GStr (TLSCurvePreferences env),
                 ''minVersion'' \<mapsto> GStr (TLSMinVersion env)]
      in if IsOpenshift env then res(''metricsTLSSecret'' \<mapsto> GStr frrk8sCertsSecret) else res)"

definition frrk8sValues :: "env_config \<Rightarrow> metallb_spec \<Rightarrow> go_error + obj" where
  "frrk8sValues env spec =
     (let m = [''serviceAccount'' \<mapsto> service_account_val ''frr-k8s-daemon'',
               ''frr'' \<mapsto> GMap [''image'' \<mapsto> image_val (FRRImage env),
                               ''metricsPort'' \<mapsto> GInt (FRRK8sFRRMetricsPort env),
                               ''secureMetricsPort'' \<mapsto> GInt (SecureFRRK8sFRRMetricsPort env)]];
          m1 = set_if (Repo (FRRK8sImage env) \<noteq> []) ''image'' (image_val (FRRK8sImage env)) m;
          m2 = m1(''logLevel'' \<mapsto> GStr (logLevelValue spec),
                  ''restartOnRotatorSecretRefresh'' \<mapsto> GBool True);
          m3 = (if IsOpenshift env
                then m2(''disableCertRotation'' \<mapsto> GBool True,
                        ''restartOnRotatorSecretRefresh'' \<mapsto> GNil)
                else m2);
          m4 = set_some (SpeakerNodeSelector spec) ''nodeSelector'' (\<lambda>s. GMap (toInterfaceMap s)) m3;
          m5 = set_some (SpeakerTolerations spec) ''tolerations'' GTolerations m4;
          m6 = (case SpeakerConfig spec of
                  None \<Rightarrow> m5
                | Some c \<Rightarrow> m5(''priorityClassName'' \<mapsto> GStr (PriorityClassName c),
                               ''runtimeClassName'' \<mapsto> GStr (RuntimeClassName c)))
      in case FRRK8SConfig spec of
           None \<Rightarrow> Inr m6
         | Some c \<Rightarrow>
             bindE (alwaysBlockToString (AlwaysBlock c)) (\<lambda>s. Inr (m6(''alwaysBlock'' \<mapsto> GStr s))))"

definition metric_relabeling :: "string \<Rightarrow> string \<Rightarrow> obj" where
  "metric_relabeling regex replacement =
     [''regex'' \<mapsto> GStr regex, ''replacement'' \<mapsto> GStr replacement,
      ''sourceLabels'' \<mapsto> GStrSlice [''__name__''], ''targetLabel'' \<mapsto> GStr ''__name__'']"

definition prometheusValues :: "env_config \<Rightarrow> obj" where
  "prometheusValues env =
     (let tlsConfig =
            (if IsOpenshift env then ocpServiceMonitorTLSConfig ''frr-k8s'' (EnvNamespace env)
             else [''insecureSkipVerify'' \<mapsto> GBool True]);
          annotations =
            (if IsOpenshift env then ocpServingCertAnnotationFor frrk8sCertsSecret else Map.empty);
          serviceMonitor = [''enabled'' \<mapsto> GBool False, ''annotations'' \<mapsto> GMap annotations,
                            ''tlsConfig'' \<mapsto> GMap tlsConfig];
          serviceMonitor1 =
            (if DeployServiceMonitors env
             then serviceMonitor(
               ''enabled'' \<mapsto> GBool True,
               ''metricRelabelings'' \<mapsto> GMapSlice
                 [metric_relabeling ''frrk8s_bgp_(.*)'' ''metallb_bgp_$1'',
                  metric_relabeling ''frrk8s_bfd_(.*)'' ''metallb_bfd_$1''])
             else serviceMonitor)
      in [''secureMetricsPort'' \<mapsto> GInt (SecureFRRK8sMetricsPort env),
          ''serviceMonitor'' \<mapsto> GMap serviceMonitor1,
          ''serviceAccount'' \<mapsto> GStr ''foo'',
          ''namespace'' \<mapsto> GStr ''bar''])"

definition patchChartValues :: "env_config \<Rightarrow> metallb_spec \<Rightarrow> obj \<Rightarrow> go_error + obj" where
  "patchChartValues env spec valuesMap =
     bindE (frrk8sValues env spec) (\<lambda>v.
       Inr (valuesMap(''frrk8s'' \<mapsto> GMap v,
                      ''prometheus'' \<mapsto> GMap (prometheusValues env),
                      ''tls'' \<mapsto> GMap (frrk8sTLSHelmValues env))))"

section \<open>The always-block list\<close>

text \<open>The loop is the same as the webhook's, so it has the same contract.\<close>

interpretation always_block: first_error_loop cidr_check check_always_block
  by unfold_locales (simp_all add: cidr_check_def split: option.splits)

lemma alwaysBlockToString_Inr:
  "alwaysBlockToString ws = Inr s \<longleftrightarrow>
     (\<forall>w\<in>set ws. ParseCIDR (TrimSpace w) \<noteq> None) \<and> s = Join '','' (SortStrings ws)"
  by (auto simp: alwaysBlockToString_def always_block.loop_None_iff cidr_check_None
      split: option.splits)
     (metis always_block.loop_None_iff cidr_check_None option.distinct(1))

lemma SortStrings_mset: "mset (SortStrings ws) = mset ws"
  by (simp add: SortStrings_def)

lemma SortStrings_cong: "mset ws = mset vs \<Longrightarrow> SortStrings ws = SortStrings vs"
  unfolding SortStrings_def by (metis mset_sort properties_for_sort sorted_sort)

lemma patchChartValues_Inr_iff:
  "(\<exists>v. patchChartValues env spec vals = Inr v) \<longleftrightarrow>
     (\<forall>c. FRRK8SConfig spec = Some c \<longrightarrow>
        (\<forall>w \<in> set (AlwaysBlock c). ParseCIDR (TrimSpace w) \<noteq> None))"
  by (cases "FRRK8SConfig spec")
     (auto simp: patchChartValues_def frrk8sValues_def Let_def bindE_eq_Inr alwaysBlockToString_Inr)

lemma patchChartValues_frrk8s:
  assumes "patchChartValues env spec vals = Inr v"
  obtains m where "frrk8sValues env spec = Inr m" and "v ''frrk8s'' = Some (GMap m)"
  using assms by (auto simp: patchChartValues_def bindE_eq_Inr)

lemma frrk8sValues_InrD:
  assumes "frrk8sValues env spec = Inr m"
  shows "m ''nodeSelector'' = map_option (\<lambda>s. GMap (toInterfaceMap s)) (SpeakerNodeSelector spec)"
    and "m ''tolerations'' = map_option GTolerations (SpeakerTolerations spec)"
    and "m ''logLevel'' = Some (GStr (logLevelValue spec))"
  using assms by (auto simp: frrk8sValues_def Let_def bindE_eq_Inr split: option.splits)

lemma speakerValues_scheduling:
  "speakerValues env spec ''nodeSelector'' =
     map_option (\<lambda>s. GMap (toInterfaceMap s)) (SpeakerNodeSelector spec)"
  "speakerValues env spec ''tolerations'' = map_option GTolerations (SpeakerTolerations spec)"
  "speakerValues env spec ''logLevel'' = Some (GStr (logLevelValue spec))"
  "nested (speakerValues env spec) [''frr'', ''enabled''] =
     Some (GBool (BGPType spec env = FRRMode))"
  by (simp_all add: speakerValues_def other_config_values_def Let_def split: option.splits)

section \<open>Properties\<close>

text \<open>
  C14. The always-block value of the frr-k8s chart: the comma separated string that is passed splits
  back into the entries of the list, all of them, each as often as it was given, in sorted order.
  (An entry that is accepted cannot have a comma in it.)
\<close>

theorem alwaysBlockToString_sorted_permutation:
  assumes "alwaysBlockToString ws = Inr s" and "ws \<noteq> []"
  shows "sorted (Split (CHR '','') s) \<and> mset (Split (CHR '','') s) = mset ws"
proof -
  from assms(1) have ok: "\<forall>w\<in>set ws. ParseCIDR (TrimSpace w) \<noteq> None"
    and s: "s = Join '','' (SortStrings ws)" by (auto simp: alwaysBlockToString_Inr)
  have "CHR '','' \<notin> set w" if "w \<in> set (SortStrings ws)" for w
    using that ok CIDR_no_comma by (fastforce simp: SortStrings_set)
  then have "Split (CHR '','') s = SortStrings ws"
    unfolding s using assms(2) by (intro Split_Join) auto
  then show ?thesis by (simp add: SortStrings_sorted SortStrings_mset)
qed

theorem alwaysBlockToString_sorted_permutation_witness:
  "\<exists>s. alwaysBlockToString [''192.168.1.0/24'', ''10.0.0.0/16''] = Inr s \<and>
       mset (Split (CHR '','') s) = {# ''192.168.1.0/24'', ''10.0.0.0/16'' #}"
proof -
  have "alwaysBlockToString [''192.168.1.0/24'', ''10.0.0.0/16''] =
      Inr ''10.0.0.0/16,192.168.1.0/24''"
    by code_simp
  from alwaysBlockToString_sorted_permutation [OF this] this show ?thesis by simp
qed

text \<open>
  The value does not depend on the order of the user's list: two lists with the same entries are
  both refused, or give the same string, so reordering the list changes nothing in the cluster.
\<close>

theorem alwaysBlockToString_ignores_order:
  assumes "mset ws = mset vs"
  shows "alwaysBlockToString ws = Inr s \<longleftrightarrow> alwaysBlockToString vs = Inr s"
  using mset_eq_setD [OF assms] SortStrings_cong [OF assms] by (simp add: alwaysBlockToString_Inr)

theorem alwaysBlockToString_ignores_order_witness:
  "alwaysBlockToString [''192.168.1.0/24'', ''10.0.0.0/16''] =
     alwaysBlockToString [''10.0.0.0/16'', ''192.168.1.0/24'']"
proof -
  have "alwaysBlockToString [''10.0.0.0/16'', ''192.168.1.0/24''] =
      Inr ''10.0.0.0/16,192.168.1.0/24''" by code_simp
  moreover from this have "alwaysBlockToString [''192.168.1.0/24'', ''10.0.0.0/16''] =
      Inr ''10.0.0.0/16,192.168.1.0/24''"
    by (subst alwaysBlockToString_ignores_order [of _ "[''10.0.0.0/16'', ''192.168.1.0/24'']"]) simp_all
  ultimately show ?thesis by simp
qed

text \<open>
  C36. A resource that passed admission never makes the frr-k8s chart values fail: the only error of
  \<open>patchChartValues\<close> is one that \<open>Validate\<close> has already excluded.
\<close>

theorem admitted_spec_never_fails_values:
  assumes "Validate ext spec = None"
  shows "\<exists>v. patchChartValues env spec vals = Inr v"
  using assms by (simp only: patchChartValues_Inr_iff Validate_None_iff valid_spec_alt) blast

theorem admitted_spec_never_fails_values_witness:
  "\<exists>v. patchChartValues (example_config True) zero_spec Map.empty = Inr v"
proof -
  have "Validate [] zero_spec = None"
    by (simp add: Validate_None_iff valid_spec_alt zero_spec_def preferred_terms_def known_backend_def)
  then show ?thesis by (rule admitted_spec_never_fails_values)
qed

text \<open>
  The three switches of the MetalLB chart follow the effective BGP backend: FRR in the speaker pod
  only for frr, the bundled frr-k8s only for frr-k8s, the external one only for frr-k8s-external, so
  at most one of them is on.
\<close>

theorem backend_switches:
  "nested (patchMetalLBChartValues env spec vals) [''speaker'', ''frr'', ''enabled''] =
     Some (GBool (BGPType spec env = FRRMode)) \<and>
   nested (patchMetalLBChartValues env spec vals) [''frrk8s'', ''enabled''] =
     Some (GBool (BGPType spec env = FRRK8sMode)) \<and>
   nested (patchMetalLBChartValues env spec vals) [''frrk8s'', ''external''] =
     Some (GBool (BGPType spec env = FRRK8sExternalMode))"
  using speakerValues_scheduling(4) [of env spec]
  by (simp add: patchMetalLBChartValues_def metalLBFrrk8sValues_def Let_def)

text \<open>
  An admitted resource that asks for the external frr-k8s backend gives the chart a namespace to
  look for it, the user's where there is one, and the operator's default otherwise.
\<close>

theorem external_backend_has_namespace:
  assumes "Validate (FRRK8sExternalNamespace env) spec = None"
    and "BGPBackend spec = FRRK8sExternalMode"
  shows "\<exists>ns. nested (patchMetalLBChartValues env spec vals) [''frrk8s'', ''namespace''] = Some (GStr ns) \<and>
              ns \<noteq> [] \<and>
              ns = (case FRRK8SConfig spec of
                      Some c \<Rightarrow> if FRRK8SNamespace c \<noteq> [] then FRRK8SNamespace c
                                else FRRK8sExternalNamespace env
                    | None \<Rightarrow> FRRK8sExternalNamespace env)"
  using assms
  by (auto simp: Validate_None_iff valid_spec_alt patchMetalLBChartValues_def metalLBFrrk8sValues_def
      Let_def split: option.splits)

theorem external_backend_has_namespace_witness:
  "\<exists>ns. nested (patchMetalLBChartValues (example_config False)
            (zero_spec\<lparr>BGPBackend := FRRK8sExternalMode,
               FRRK8SConfig := Some \<lparr>AlwaysBlock = [], FRRK8SNamespace = ''frr'',
                                     SecretPassthrough = False\<rparr>\<rparr>) Map.empty)
          [''frrk8s'', ''namespace''] = Some (GStr ns) \<and> ns \<noteq> []"
proof -
  let ?spec = "zero_spec\<lparr>BGPBackend := FRRK8sExternalMode,
      FRRK8SConfig := Some \<lparr>AlwaysBlock = [], FRRK8SNamespace = ''frr'', SecretPassthrough = False\<rparr>\<rparr>"
  have 1: "Validate (FRRK8sExternalNamespace (example_config False)) ?spec = None"
    by (simp add: Validate_None_iff valid_spec_alt zero_spec_def preferred_terms_def
        known_backend_def example_config_def)
  have 2: "BGPBackend ?spec = FRRK8sExternalMode" by simp
  from external_backend_has_namespace [OF 1 2, of Map.empty] show ?thesis by blast
qed

text \<open>
  The frr-k8s pods follow the speaker pods: when both charts' values are built from one resource,
  the frr-k8s daemon has the node selector, the tolerations and the log level of the speaker.
\<close>

theorem frrk8s_mirrors_speaker:
  assumes "patchChartValues env spec vals = Inr v"
    and "k \<in> {''nodeSelector'', ''tolerations'', ''logLevel''}"
  shows "nested v [''frrk8s'', k] = nested (patchMetalLBChartValues env spec vals2) [''speaker'', k]"
proof -
  obtain m where m: "frrk8sValues env spec = Inr m" and v: "v ''frrk8s'' = Some (GMap m)"
    using assms(1) by (rule patchChartValues_frrk8s)
  have "m k = speakerValues env spec k"
    using assms(2) frrk8sValues_InrD [OF m] speakerValues_scheduling [of env spec] by auto
  then show ?thesis by (simp add: v patchMetalLBChartValues_def)
qed

theorem frrk8s_mirrors_speaker_witness:
  "\<exists>v. patchChartValues (example_config False) (zero_spec\<lparr>SpeakerTolerations := Some []\<rparr>) Map.empty = Inr v \<and>
       nested v [''frrk8s'', ''tolerations''] =
         nested (patchMetalLBChartValues (example_config False)
                   (zero_spec\<lparr>SpeakerTolerations := Some []\<rparr>) Map.empty) [''speaker'', ''tolerations'']"
proof -
  let ?spec = "zero_spec\<lparr>SpeakerTolerations := Some []\<rparr>"
  have "\<exists>v. patchChartValues (example_config False) ?spec Map.empty = Inr v"
    by (simp add: patchChartValues_Inr_iff zero_spec_def)
  then obtain v where "patchChartValues (example_config False) ?spec Map.empty = Inr v" by blast
  moreover from frrk8s_mirrors_speaker [OF this, of "''tolerations''" Map.empty]
  have "nested v [''frrk8s'', ''tolerations''] =
      nested (patchMetalLBChartValues (example_config False) ?spec Map.empty) [''speaker'', ''tolerations'']"
    by simp
  ultimately show ?thesis by blast
qed

text \<open>
  C38. TLS of the metrics endpoints: in both charts the service monitors skip verification exactly
  where the cluster is not OpenShift, and on OpenShift the secret that each component serves from is
  the one that the service's serving-cert annotation asks the cluster to create.
\<close>

theorem metrics_tls_agrees_with_annotations:
  assumes "patchChartValues env spec vals = Inr v"
  shows "(\<forall>c \<in> {''speaker'', ''controller''}.
            nested (patchMetalLBChartValues env spec vals)
              [''prometheus'', ''serviceMonitor'', c, ''tlsConfig'', ''insecureSkipVerify''] =
              Some (GBool (\<not> IsOpenshift env)) \<and>
            nested (patchMetalLBChartValues env spec vals) [''tls'', c @ ''MetricsTLSSecret''] =
              nested (patchMetalLBChartValues env spec vals)
                [''prometheus'', ''serviceMonitor'', c, ''annotations'',
                 ''service.beta.openshift.io/serving-cert-secret-name'']) \<and>
         nested v [''prometheus'', ''serviceMonitor'', ''tlsConfig'', ''insecureSkipVerify''] =
           Some (GBool (\<not> IsOpenshift env)) \<and>
         nested v [''tls'', ''metricsTLSSecret''] =
           nested v [''prometheus'', ''serviceMonitor'', ''annotations'',
                     ''service.beta.openshift.io/serving-cert-secret-name'']"
proof -
  from assms have tls: "v ''tls'' = Some (GMap (frrk8sTLSHelmValues env))"
    and prom: "v ''prometheus'' = Some (GMap (prometheusValues env))"
    by (auto simp: patchChartValues_def bindE_eq_Inr)
  show ?thesis
    by (auto simp: tls prom patchMetalLBChartValues_def metalLBprometheusValues_def Let_def
        ocpServiceMonitorTLSConfig_def ocpServingCertAnnotationFor_def metallbTLSHelmValues_def
        prometheusValues_def frrk8sTLSHelmValues_def)
qed

theorem metrics_tls_agrees_with_annotations_witness:
  "\<exists>v. patchChartValues (example_config True) zero_spec Map.empty = Inr v \<and>
       nested v [''prometheus'', ''serviceMonitor'', ''tlsConfig'', ''insecureSkipVerify''] =
         Some (GBool False)"
proof -
  have "\<exists>v. patchChartValues (example_config True) zero_spec Map.empty = Inr v"
    by (simp add: patchChartValues_Inr_iff zero_spec_def)
  then obtain v where v: "patchChartValues (example_config True) zero_spec Map.empty = Inr v" by blast
  with metrics_tls_agrees_with_annotations [OF v] show ?thesis
    by (simp add: example_config_def)
qed

end
