(* ===== verification/Unstructured.thy ===== *)
theory Unstructured
  imports API_Types
begin

text \<open>
  The interface of the Kubernetes libraries on unstructured objects that \<open>pkg/helm\<close> relies on
  (\<open>k8s.io/apimachinery/pkg/apis/meta/v1/unstructured\<close> and the converter of \<open>runtime\<close>). The
  operations are the fields of a record that every definition using them takes as an argument; the
  locale \<open>unstructured_laws\<close> states their documented behaviour, and \<open>reference_lib\<close> is a concrete
  library that satisfies it.
\<close>

section \<open>The operations\<close>

text \<open>
  A setter changes the object it is given, so it returns the object afterwards with its error. A
  getter returns the value, whether it was found, and its error.
\<close>

record unstructured_lib =
  GetKind :: "obj \<Rightarrow> string"
  GetName :: "obj \<Rightarrow> string"
  GetNamespace :: "obj \<Rightarrow> string"
  SetNamespace :: "obj \<Rightarrow> string \<Rightarrow> obj"
  NestedSlice :: "obj \<Rightarrow> string list \<Rightarrow> gval list \<times> bool \<times> go_error option"
  NestedStringMap :: "obj \<Rightarrow> string list \<Rightarrow> string_map option \<times> bool \<times> go_error option"
  SetNestedField :: "obj \<Rightarrow> gval \<Rightarrow> string list \<Rightarrow> obj \<times> go_error option"
  SetNestedMap :: "obj \<Rightarrow> obj \<Rightarrow> string list \<Rightarrow> obj \<times> go_error option"
  SetNestedSlice :: "obj \<Rightarrow> gval list \<Rightarrow> string list \<Rightarrow> obj \<times> go_error option"
  SetNestedStringMap :: "obj \<Rightarrow> string_map \<Rightarrow> string list \<Rightarrow> obj \<times> go_error option"
  ToDeployment :: "obj \<Rightarrow> go_error + deployment"
  FromDeployment :: "deployment \<Rightarrow> go_error + obj"
  ToDaemonSet :: "obj \<Rightarrow> go_error + daemonset"
  FromDaemonSet :: "daemonset \<Rightarrow> go_error + obj"

definition string_map_val :: "string_map \<Rightarrow> gval" where
  "string_map_val m = GMap (\<lambda>k. map_option GStr (m k))"

section \<open>Their documented behaviour\<close>

locale unstructured_laws =
  fixes U :: unstructured_lib
  assumes kind: "GetKind U x = (case x ''kind'' of Some (GStr s) \<Rightarrow> s | _ \<Rightarrow> [])"
    and name: "GetName U x = (case nested x [''metadata'', ''name''] of Some (GStr s) \<Rightarrow> s | _ \<Rightarrow> [])"
    and namespace:
      "GetNamespace U x = (case nested x [''metadata'', ''namespace''] of Some (GStr s) \<Rightarrow> s | _ \<Rightarrow> [])"
    and set_namespace:
      "ns \<noteq> [] \<Longrightarrow> settable x [''metadata'', ''namespace''] \<Longrightarrow>
         set_nested x (GStr ns) [''metadata'', ''namespace''] = Some (SetNamespace U x ns)"
    and set_map:
      "settable x p \<Longrightarrow> \<exists>y. set_nested x (GMap m) p = Some y \<and> SetNestedMap U x m p = (y, None)"
    and set_slice:
      "settable x p \<Longrightarrow> \<exists>y. set_nested x (GSlice vs) p = Some y \<and> SetNestedSlice U x vs p = (y, None)"
    and set_field:
      "settable x p \<Longrightarrow> \<exists>y. set_nested x v p = Some y \<and> SetNestedField U x v p = (y, None)"
    and set_string_map:
      "settable x p \<Longrightarrow>
         \<exists>y. set_nested x (string_map_val sm) p = Some y \<and> SetNestedStringMap U x sm p = (y, None)"
    and set_fails:
      "p \<noteq> [] \<Longrightarrow> \<not> settable x p \<Longrightarrow>
         snd (SetNestedField U x v p) \<noteq> None \<and> snd (SetNestedMap U x m p) \<noteq> None \<and>
         snd (SetNestedSlice U x vs p) \<noteq> None \<and> snd (SetNestedStringMap U x sm p) \<noteq> None"
    and get_slice: "nested x p = Some (GSlice vs) \<Longrightarrow> NestedSlice U x p = (vs, True, None)"
    and get_slice_absent:
      "\<nexists>vs. nested x p = Some (GSlice vs) \<Longrightarrow> \<exists>vs e. NestedSlice U x p = (vs, False, e)"
    and get_string_map:
      "nested x p = Some (string_map_val sm) \<Longrightarrow> NestedStringMap U x p = (Some sm, True, None)"
    and get_string_map_absent:
      "nested x p = None \<Longrightarrow>
         \<exists>e. NestedStringMap U x p = (None, False, e) \<and> (settable x p \<longrightarrow> e = None)"
    and get_string_map_other:
      "nested x p = Some w \<Longrightarrow> \<nexists>sm. w = string_map_val sm \<Longrightarrow>
         \<exists>e. NestedStringMap U x p = (None, False, Some e)"
begin

text \<open>A setter succeeds exactly when the path leads into the object, and then sets the value there.\<close>

lemma setter_iff:
  assumes "p \<noteq> []"
  shows "(SetNestedField U x v p = (y, None)) = (set_nested x v p = Some y)"
    and "(SetNestedMap U x m p = (y, None)) = (set_nested x (GMap m) p = Some y)"
    and "(SetNestedSlice U x vs p = (y, None)) = (set_nested x (GSlice vs) p = Some y)"
    and "(SetNestedStringMap U x sm p = (y, None)) = (set_nested x (string_map_val sm) p = Some y)"
proof -
  have *: "(f = (y, None)) = (set_nested x w p = Some y)"
    if "settable x p \<Longrightarrow> \<exists>z. set_nested x w p = Some z \<and> f = (z, None)"
      and "\<not> settable x p \<Longrightarrow> snd f \<noteq> None" for f :: "obj \<times> go_error option" and w
    using that set_nested_Some_iff [of x w p] by (cases "settable x p") auto
  show "(SetNestedField U x v p = (y, None)) = (set_nested x v p = Some y)"
    by (rule *) (use set_field set_fails [OF assms] in blast)+
  show "(SetNestedMap U x m p = (y, None)) = (set_nested x (GMap m) p = Some y)"
    by (rule *) (use set_map set_fails [OF assms] in blast)+
  show "(SetNestedSlice U x vs p = (y, None)) = (set_nested x (GSlice vs) p = Some y)"
    by (rule *) (use set_slice set_fails [OF assms] in blast)+
  show "(SetNestedStringMap U x sm p = (y, None)) = (set_nested x (string_map_val sm) p = Some y)"
    by (rule *) (use set_string_map set_fails [OF assms] in blast)+
qed

text \<open>What the setters leave alone: every part of the object that the path does not go through.\<close>

lemma kind_set_nested:
  assumes "set_nested x v (k # ks) = Some y" and "k \<noteq> ''kind''"
  shows "GetKind U y = GetKind U x"
  using set_nested_other_key [OF assms(1), of "''kind''"] assms(2) by (simp add: kind)

lemma name_set_nested:
  assumes "set_nested x v (k # ks) = Some y" and "k \<noteq> ''metadata''"
  shows "GetName U y = GetName U x" and "GetNamespace U y = GetNamespace U x"
  using nested_set_nested_fork [OF assms(1), of "''metadata''"] assms(2)
  by (simp_all only: name namespace)

lemma set_namespace_keeps:
  assumes "ns \<noteq> []" and "settable x [''metadata'', ''namespace'']"
  shows "GetNamespace U (SetNamespace U x ns) = ns"
    and "GetKind U (SetNamespace U x ns) = GetKind U x"
    and "GetName U (SetNamespace U x ns) = GetName U x"
    and "k \<noteq> ''metadata'' \<Longrightarrow> SetNamespace U x ns k = x k"
proof -
  note s = set_namespace [OF assms]
  show "GetNamespace U (SetNamespace U x ns) = ns"
    using nested_set_nested [OF s] by (simp add: namespace)
  show "GetKind U (SetNamespace U x ns) = GetKind U x" using kind_set_nested [OF s] by simp
  show "GetName U (SetNamespace U x ns) = GetName U x"
    using nested_set_nested_fork2 [OF s, of "''name''" "[]"] by (simp only: name) simp
  show "SetNamespace U x ns k = x k" if "k \<noteq> ''metadata''"
    using set_nested_other_key [OF s that] .
qed

end

section \<open>A library that satisfies the laws\<close>

definition set_or_error :: "obj \<Rightarrow> gval \<Rightarrow> string list \<Rightarrow> obj \<times> go_error option" where
  "set_or_error x v p =
     (case set_nested x v p of
        Some y \<Rightarrow> (y, None)
      | None \<Rightarrow> (x, Some (LibError ''unstructured.SetNestedField'' [])))"

definition get_str :: "obj \<Rightarrow> string list \<Rightarrow> string" where
  "get_str x p = (case nested x p of Some (GStr s) \<Rightarrow> s | _ \<Rightarrow> [])"

definition get_string_map_val :: "gval \<Rightarrow> string_map" where
  "get_string_map_val v =
     (case v of GMap m \<Rightarrow> (\<lambda>k. case m k of Some (GStr s) \<Rightarrow> Some s | _ \<Rightarrow> None) | _ \<Rightarrow> Map.empty)"

text \<open>The converters read and write the fields the operator overrides, and keep the object.\<close>

definition reference_lib ::
  "(obj \<Rightarrow> go_error + deployment) \<Rightarrow> (deployment \<Rightarrow> go_error + obj) \<Rightarrow>
   (obj \<Rightarrow> go_error + daemonset) \<Rightarrow> (daemonset \<Rightarrow> go_error + obj) \<Rightarrow> unstructured_lib" where
  "reference_lib to_d from_d to_ds from_ds =
     \<lparr>GetKind = (\<lambda>x. get_str x [''kind'']),
      GetName = (\<lambda>x. get_str x [''metadata'', ''name'']),
      GetNamespace = (\<lambda>x. get_str x [''metadata'', ''namespace'']),
      SetNamespace = (\<lambda>x ns. fst (set_or_error x (GStr ns) [''metadata'', ''namespace''])),
      NestedSlice = (\<lambda>x p. case nested x p of
          Some (GSlice vs) \<Rightarrow> (vs, True, None)
        | None \<Rightarrow> ([], False, None)
        | Some _ \<Rightarrow> ([], False, Some (LibError ''unstructured.NestedSlice'' []))),
      NestedStringMap = (\<lambda>x p. case nested x p of
          Some v \<Rightarrow>
            if string_map_val (get_string_map_val v) = v then (Some (get_string_map_val v), True, None)
            else (None, False, Some (LibError ''unstructured.NestedStringMap'' []))
        | None \<Rightarrow>
            (None, False,
             if settable x p then None else Some (LibError ''unstructured.NestedStringMap'' []))),
      SetNestedField = set_or_error,
      SetNestedMap = (\<lambda>x m p. set_or_error x (GMap m) p),
      SetNestedSlice = (\<lambda>x vs p. set_or_error x (GSlice vs) p),
      SetNestedStringMap = (\<lambda>x m p. set_or_error x (string_map_val m) p),
      ToDeployment = to_d, FromDeployment = from_d, ToDaemonSet = to_ds, FromDaemonSet = from_ds\<rparr>"

lemma get_string_map_val_inverse [simp]: "get_string_map_val (string_map_val m) = m"
proof
  fix k
  show "get_string_map_val (string_map_val m) k = m k"
    by (cases "m k") (simp_all add: get_string_map_val_def string_map_val_def)
qed

lemma set_or_error_settable:
  "settable x p \<Longrightarrow> \<exists>y. set_nested x v p = Some y \<and> set_or_error x v p = (y, None)"
  using set_nested_Some_iff [of x v p] by (auto simp: set_or_error_def)

lemma set_or_error_not_settable: "\<not> settable x p \<Longrightarrow> snd (set_or_error x v p) \<noteq> None"
  using set_nested_Some_iff [of x v p] by (auto simp: set_or_error_def split: option.splits)

interpretation reference: unstructured_laws "reference_lib to_d from_d to_ds from_ds"
  for to_d from_d to_ds from_ds
proof unfold_locales
  fix ns x
  assume "ns \<noteq> ([] :: string)" and "settable x [''metadata'', ''namespace'']"
  then show "set_nested x (GStr ns) [''metadata'', ''namespace''] =
      Some (SetNamespace (reference_lib to_d from_d to_ds from_ds) x ns)"
    using set_or_error_settable [of x "[''metadata'', ''namespace'']" "GStr ns"]
    by (auto simp: reference_lib_def)
next
  fix x p vs
  show "\<nexists>vs. nested x p = Some (GSlice vs) \<Longrightarrow>
      \<exists>vs e. NestedSlice (reference_lib to_d from_d to_ds from_ds) x p = (vs, False, e)"
    by (cases "nested x p") (auto simp: reference_lib_def split: gval.splits)
next
  fix x p w
  assume "nested x p = Some w" and "\<nexists>sm. w = string_map_val sm"
  moreover from this(2) have "string_map_val (get_string_map_val w) \<noteq> w" by metis
  ultimately show "\<exists>e. NestedStringMap (reference_lib to_d from_d to_ds from_ds) x p =
      (None, False, Some e)"
    by (simp add: reference_lib_def)
qed (auto simp: reference_lib_def get_str_def set_or_error_settable set_or_error_not_settable
      split: option.splits)

end
