(* ===== verification/Openshift_SCC.thy ===== *)
theory Openshift_SCC
  imports Go_Values
begin

text \<open>
  \<open>pkg/openshift/scc.go\<close>: the SecurityContextConstraints of the speaker, which \<open>pkg/helm\<close> adds to the
  MetalLB objects on OpenShift.
\<close>

definition SpeakerSCCName :: string where
  "SpeakerSCCName = ''metallb-speaker''"

definition SpeakerSCC :: obj where
  "SpeakerSCC =
     [''apiVersion'' \<mapsto> GStr ''security.openshift.io/v1'',
      ''kind'' \<mapsto> GStr ''SecurityContextConstraints'',
      ''metadata'' \<mapsto> GMap
        [''name'' \<mapsto> GStr SpeakerSCCName,
         ''annotations'' \<mapsto> GMap
           [''kubernetes.io/description'' \<mapsto> GStr ''Custom SCC for MetalLB speaker.'']],
      ''allowHostDirVolumePlugin'' \<mapsto> GBool False,
      ''allowHostIPC'' \<mapsto> GBool False,
      ''allowHostNetwork'' \<mapsto> GBool True,
      ''allowHostPID'' \<mapsto> GBool False,
      ''allowHostPorts'' \<mapsto> GBool True,
      ''allowPrivilegeEscalation'' \<mapsto> GBool False,
      ''allowPrivilegedContainer'' \<mapsto> GBool False,
      ''allowedCapabilities'' \<mapsto> GSlice [GStr ''NET_RAW''],
      ''defaultAddCapabilities'' \<mapsto> GSlice [],
      ''fsGroup'' \<mapsto> GMap [''type'' \<mapsto> GStr ''RunAsAny''],
      ''readOnlyRootFilesystem'' \<mapsto> GBool False,
      ''requiredDropCapabilities'' \<mapsto> GSlice [GStr ''ALL''],
      ''runAsUser'' \<mapsto> GMap [''type'' \<mapsto> GStr ''RunAsAny''],
      ''seLinuxContext'' \<mapsto> GMap [''type'' \<mapsto> GStr ''RunAsAny''],
      ''supplementalGroups'' \<mapsto> GMap [''type'' \<mapsto> GStr ''RunAsAny''],
      ''volumes'' \<mapsto> GSlice [GStr ''configMap'', GStr ''downwardAPI'', GStr ''emptyDir'',
                          GStr ''projected'', GStr ''secret''],
      ''users'' \<mapsto> GSlice [],
      ''groups'' \<mapsto> GSlice [],
      ''priority'' \<mapsto> GNil]"

end
