(* ===== verification/Helm_Objects.thy ===== *)
theory Helm_Objects
  imports Helm_Values Unstructured Openshift_SCC
begin

text \<open>
  The objects the two Helm charts render, and how \<open>pkg/helm\<close> changes them before they are applied:
  \<open>parseManifest\<close> and the annotation and monitor helpers of \<open>config.go\<close>, the overrides and \<open>Objects\<close>
  of \<open>metallb.go\<close> and of \<open>frrk8s.go\<close>, and the constructors of the two chart types.

  Helm itself (loading a chart, merging the values, rendering) is a parameter, a \<open>helm_lib\<close>; so are
  the YAML decoder, one result per call of \<open>Decode\<close>, and the library on unstructured objects.
  Objects are changed in place in the source. An object stands here for the content that a pointer
  leads to; where two pointers may part, in the loop of \<open>MetalLBChart.Objects\<close>, both are kept.
\<close>

section \<open>Parsing a manifest\<close>

datatype decode_result = Decoded obj | DecodeEOF | DecodeError go_error

text \<open>The loop of \<open>parseManifest\<close> has no bound of its own, so it may run forever.\<close>

partial_function (option) decode_loop ::
  "(nat \<Rightarrow> decode_result) \<Rightarrow> nat \<Rightarrow> obj list \<Rightarrow> (go_error + obj list) option" where
  "decode_loop Decode n out =
     (case Decode n of
        DecodeEOF \<Rightarrow> Some (Inr out)
      | DecodeError e \<Rightarrow> Some (Inl e)
      | Decoded u \<Rightarrow> decode_loop Decode (n + 1) (out @ [u]))"

definition parseManifest :: "(string \<Rightarrow> nat \<Rightarrow> decode_result) \<Rightarrow> string \<Rightarrow> obj list outcome" where
  "parseManifest Decode manifest =
     (if TrimSpace manifest = [] then Ret []
      else case decode_loop (Decode manifest) 0 [] of
             None \<Rightarrow> Hang
           | Some (Inl e) \<Rightarrow> Fail (Wrapped (''failed to unmarshal manifest '' @ manifest) e)
           | Some (Inr out) \<Rightarrow> Ret out)"

section \<open>Changing objects\<close>

text \<open>A setter of the library: the object afterwards, unless it returned an error.\<close>

fun setter :: "obj \<times> go_error option \<Rightarrow> obj outcome" where
  "setter (y, None) = Ret y"
| "setter (y, Some e) = Fail e"

text \<open>The body of the loop in \<open>setOcpMonitorFields\<close>: the type assertion panics on a non-map.\<close>

definition secure_endpoint :: "unstructured_lib \<Rightarrow> gval \<Rightarrow> gval outcome" where
  "secure_endpoint U ep =
     (case ep of
        GMap m \<Rightarrow>
          bindO (setter (SetNestedField U m (GBool False) [''tlsConfig'', ''insecureSkipVerify'']))
            (\<lambda>m'. Ret (GMap m'))
      | _ \<Rightarrow> Panic)"

definition setOcpMonitorFields :: "unstructured_lib \<Rightarrow> obj \<Rightarrow> obj outcome" where
  "setOcpMonitorFields U x =
     (case NestedSlice U x [''spec'', ''endpoints''] of
        (eps, found, err) \<Rightarrow>
          if \<not> found then Fail (ErrNew (''failed to find endpoints in ServiceMonitor '' @ GetName U x))
          else case err of
                 Some e \<Rightarrow> Fail e
               | None \<Rightarrow>
                   bindO (mapO (secure_endpoint U) eps) (\<lambda>eps'.
                     setter (SetNestedSlice U x eps' [''spec'', ''endpoints''])))"

definition setRequiredSCCAnnotationForSpeaker :: "unstructured_lib \<Rightarrow> obj \<Rightarrow> obj outcome" where
  "setRequiredSCCAnnotationForSpeaker U x =
     (let p = [''spec'', ''template'', ''metadata'', ''annotations''] in
      case NestedStringMap U x p of
        (annotations, found, err) \<Rightarrow>
          (case err of
             Some e \<Rightarrow> Fail e
           | None \<Rightarrow>
               (let a = (case annotations of None \<Rightarrow> Map.empty | Some m \<Rightarrow> m)
                in setter (SetNestedStringMap U x (a(''openshift.io/required-scc'' \<mapsto> SpeakerSCCName)) p))))"

definition updateAnnotations :: "unstructured_lib \<Rightarrow> obj \<Rightarrow> string_map \<Rightarrow> obj outcome" where
  "updateAnnotations U x annotations =
     (case NestedStringMap U x [''metadata'', ''annotations''] of
        (current, found, err) \<Rightarrow>
          (case err of
             Some e \<Rightarrow> Fail e
           | None \<Rightarrow>
               (let c = (case current of None \<Rightarrow> Map.empty | Some m \<Rightarrow> m)
                in setter (SetNestedStringMap U x (c ++ annotations) [''metadata'', ''annotations'']))))"

section \<open>Which object is which\<close>

definition isControllerDeployment :: "unstructured_lib \<Rightarrow> obj \<Rightarrow> bool" where
  "isControllerDeployment U x = (GetKind U x = ''Deployment'' \<and> GetName U x = ''controller'')"

definition isSpeakerDaemonSet :: "unstructured_lib \<Rightarrow> obj \<Rightarrow> bool" where
  "isSpeakerDaemonSet U x = (GetKind U x = ''DaemonSet'' \<and> GetName U x = ''speaker'')"

definition isServiceMonitor :: "unstructured_lib \<Rightarrow> obj \<Rightarrow> bool" where
  "isServiceMonitor U x = (GetKind U x = ''ServiceMonitor'')"

definition frrk8sDaemonsetName :: string where "frrk8sDaemonsetName = ''frr-k8s''"
definition frrk8sStatusCleanerDeploymentName :: string where
  "frrk8sStatusCleanerDeploymentName = ''statuscleaner''"
definition frrk8sWebhookServiceName :: string where
  "frrk8sWebhookServiceName = ''frr-k8s-webhook-service''"
definition frrk8sWebhookSecretName :: string where
  "frrk8sWebhookSecretName = ''frr-k8s-webhook-server-cert''"
definition frrk8sValidatingWebhookName :: string where
  "frrk8sValidatingWebhookName = ''frr-k8s-validating-webhook-configuration''"

lemmas frrk8s_names = frrk8sDaemonsetName_def frrk8sStatusCleanerDeploymentName_def
  frrk8sWebhookServiceName_def frrk8sWebhookSecretName_def frrk8sValidatingWebhookName_def

definition isFRRK8SDaemonset :: "unstructured_lib \<Rightarrow> obj \<Rightarrow> bool" where
  "isFRRK8SDaemonset U x = (GetKind U x = ''DaemonSet'' \<and> GetName U x = frrk8sDaemonsetName)"

definition isFRRK8SWebhookDeployment :: "unstructured_lib \<Rightarrow> obj \<Rightarrow> bool" where
  "isFRRK8SWebhookDeployment U x =
     (GetKind U x = ''Deployment'' \<and> GetName U x = frrk8sStatusCleanerDeploymentName)"

definition isFRRK8SWebhookService :: "unstructured_lib \<Rightarrow> obj \<Rightarrow> bool" where
  "isFRRK8SWebhookService U x = (GetKind U x = ''Service'' \<and> GetName U x = frrk8sWebhookServiceName)"

definition isFRRK8SWebhookSecret :: "unstructured_lib \<Rightarrow> obj \<Rightarrow> bool" where
  "isFRRK8SWebhookSecret U x = (GetKind U x = ''Secret'' \<and> GetName U x = frrk8sWebhookSecretName)"

definition isFRRK8SValidatingWebhook :: "unstructured_lib \<Rightarrow> obj \<Rightarrow> bool" where
  "isFRRK8SValidatingWebhook U x =
     (GetKind U x = ''ValidatingWebhookConfiguration'' \<and> GetName U x = frrk8sValidatingWebhookName)"

section \<open>Overriding affinity and resources\<close>

text \<open>
  \<open>for j, container := range cs { if container.Name == name && r != nil { cs[j].Resources = *r } }\<close>:
  the names are read from the elements as the range started, the writes go into the slice.
\<close>

fun override_resources ::
  "string \<Rightarrow> gval option \<Rightarrow> nat \<Rightarrow> container list \<Rightarrow> container list \<Rightarrow> container list" where
  "override_resources cname r j [] cs = cs"
| "override_resources cname r j (c # rest) cs =
     override_resources cname r (j + 1) rest
       (case r of
          Some res \<Rightarrow>
            if ContainerName c = cname then cs[j := (cs ! j)\<lparr>ContainerResources := res\<rparr>] else cs
        | None \<Rightarrow> cs)"

text \<open>
  The overrides return the pointer they were given, \<open>None\<close>, or a new object, \<open>Some\<close> its content.
\<close>

definition override_deployment ::
  "unstructured_lib \<Rightarrow> string \<Rightarrow> config \<Rightarrow> obj \<Rightarrow> go_error + obj" where
  "override_deployment U cname cfg x =
     bindE (ToDeployment U x) (\<lambda>d.
       let d1 = (case Affinity cfg of None \<Rightarrow> d | Some a \<Rightarrow> d\<lparr>DAffinity := Some a\<rparr>);
           d2 = d1\<lparr>DContainers :=
                  override_resources cname (Resources cfg) 0 (DContainers d1) (DContainers d1)\<rparr>
       in FromDeployment U d2)"

definition override_daemonset ::
  "unstructured_lib \<Rightarrow> string \<Rightarrow> config \<Rightarrow> obj \<Rightarrow> go_error + obj" where
  "override_daemonset U cname cfg x =
     bindE (ToDaemonSet U x) (\<lambda>d.
       let d1 = (case Affinity cfg of None \<Rightarrow> d | Some a \<Rightarrow> d\<lparr>DSAffinity := Some a\<rparr>);
           d2 = d1\<lparr>DSContainers :=
                  override_resources cname (Resources cfg) 0 (DSContainers d1) (DSContainers d1)\<rparr>
       in FromDaemonSet U d2)"

definition overrideControllerParameters ::
  "unstructured_lib \<Rightarrow> metallb_spec \<Rightarrow> obj \<Rightarrow> go_error + obj option" where
  "overrideControllerParameters U spec x =
     (case ControllerConfig spec of
        None \<Rightarrow> Inr None
      | Some cfg \<Rightarrow>
          if \<not> isControllerDeployment U x then Inr None
          else bindE (override_deployment U ''controller'' cfg x) (\<lambda>y. Inr (Some y)))"

definition overrideSpeakerParameters ::
  "unstructured_lib \<Rightarrow> metallb_spec \<Rightarrow> obj \<Rightarrow> go_error + obj option" where
  "overrideSpeakerParameters U spec x =
     (case SpeakerConfig spec of
        None \<Rightarrow> Inr None
      | Some cfg \<Rightarrow>
          if \<not> isSpeakerDaemonSet U x then Inr None
          else bindE (override_daemonset U ''speaker'' cfg x) (\<lambda>y. Inr (Some y)))"

text \<open>\<open>config\<close> is dereferenced without a check: the caller has made sure that it is not nil.\<close>

definition overrideFRRK8SDaemonParameters ::
  "unstructured_lib \<Rightarrow> metallb_spec \<Rightarrow> obj \<Rightarrow> obj outcome" where
  "overrideFRRK8SDaemonParameters U spec x =
     (case SpeakerConfig spec of
        None \<Rightarrow> (case ToDaemonSet U x of Inl e \<Rightarrow> Fail e | Inr _ \<Rightarrow> Panic)
      | Some cfg \<Rightarrow> outcome_of (override_daemonset U ''controller'' cfg x))"

section \<open>The charts\<close>

text \<open>The settings of \<open>action.Install\<close> that the constructors write.\<close>

record install =
  ReleaseName :: string
  DryRun :: bool
  ClientOnly :: bool
  InstallNamespace :: string

text \<open>Helm, for charts of a type \<open>'c\<close> that only Helm looks into.\<close>

record 'c helm_lib =
  LocateChart :: "install \<Rightarrow> string \<Rightarrow> go_error + string"
  LoadChart :: "string \<Rightarrow> go_error + 'c"
  MergeValues :: "go_error + obj"
  RunInstall :: "install \<Rightarrow> 'c \<Rightarrow> obj \<Rightarrow> go_error + string"
  DecodeManifest :: "string \<Rightarrow> nat \<Rightarrow> decode_result"

record 'c helm_chart =
  ChartClient :: install
  ChartContent :: 'c

definition NewMetalLBChart ::
  "'c helm_lib \<Rightarrow> string \<Rightarrow> string \<Rightarrow> string \<Rightarrow> go_error + 'c helm_chart" where
  "NewMetalLBChart H chartPath chartName namespace =
     (let cl = \<lparr>ReleaseName = chartName, DryRun = True, ClientOnly = True,
                InstallNamespace = namespace\<rparr>
      in bindE (LocateChart H cl chartPath) (\<lambda>path.
         bindE (LoadChart H path) (\<lambda>c. Inr \<lparr>ChartClient = cl, ChartContent = c\<rparr>)))"

definition NewFRRK8SChart ::
  "'c helm_lib \<Rightarrow> string \<Rightarrow> string \<Rightarrow> string \<Rightarrow> go_error + 'c helm_chart" where
  "NewFRRK8SChart H path cname namespace =
     (let cl = \<lparr>ReleaseName = cname, DryRun = True, ClientOnly = True,
                InstallNamespace = namespace\<rparr>
      in bindE (LocateChart H cl path) (\<lambda>chartPath.
         bindE (LoadChart H chartPath) (\<lambda>c. Inr \<lparr>ChartClient = cl, ChartContent = c\<rparr>)))"

text \<open>\<open>if objKind != "PodSecurityPolicy" { obj.SetNamespace(envConfig.Namespace) }\<close>\<close>

definition namespaced :: "unstructured_lib \<Rightarrow> env_config \<Rightarrow> obj \<Rightarrow> obj" where
  "namespaced U env x =
     (if GetKind U x \<noteq> ''PodSecurityPolicy'' then SetNamespace U x (EnvNamespace env) else x)"

definition run_as_non_root :: obj where
  "run_as_non_root = [''runAsNonRoot'' \<mapsto> GBool True]"

definition security_context_path :: "string list" where
  "security_context_path = [''spec'', ''template'', ''spec'', ''securityContext'']"

text \<open>The edits for OpenShift of the loop of \<open>MetalLBChart.Objects\<close>, on the object of \<open>obj\<close>.\<close>

definition metallb_openshift_edits :: "unstructured_lib \<Rightarrow> bool \<Rightarrow> obj \<Rightarrow> obj outcome" where
  "metallb_openshift_edits U ocp x =
     bindO (if isControllerDeployment U x \<and> ocp
            then setter (SetNestedMap U x run_as_non_root security_context_path)
            else Ret x) (\<lambda>x1.
     bindO (if isSpeakerDaemonSet U x1 \<and> ocp then setRequiredSCCAnnotationForSpeaker U x1
            else Ret x1) (\<lambda>x2.
     if isServiceMonitor U x2 \<and> ocp then setOcpMonitorFields U x2 else Ret x2))"

text \<open>
  One turn of that loop. \<open>x\<close> is the content of \<open>obj\<close>, \<open>slot\<close> that of \<open>objs[i]\<close> once an override has
  made it a different object; as long as none has, \<open>objs[i]\<close> is \<open>obj\<close>, and sees its edits.
\<close>

definition metallb_object ::
  "unstructured_lib \<Rightarrow> env_config \<Rightarrow> metallb_spec \<Rightarrow> obj \<Rightarrow> obj outcome" where
  "metallb_object U env spec x0 =
     (let x = namespaced U env x0 in
      bindO (outcome_of (overrideControllerParameters U spec x)) (\<lambda>slot1.
      bindO (outcome_of (overrideSpeakerParameters U spec
               (case slot1 of None \<Rightarrow> x | Some y \<Rightarrow> y))) (\<lambda>r.
      let slot2 = (case r of None \<Rightarrow> slot1 | Some y \<Rightarrow> Some y) in
      bindO (metallb_openshift_edits U (IsOpenshift env) x) (\<lambda>x'.
      Ret (case slot2 of None \<Rightarrow> x' | Some y \<Rightarrow> y)))))"

definition MetalLBChart_Objects ::
  "'c helm_lib \<Rightarrow> unstructured_lib \<Rightarrow> 'c helm_chart \<Rightarrow> env_config \<Rightarrow> metallb_spec \<Rightarrow> obj list outcome" where
  "MetalLBChart_Objects H U h env spec =
     bindO (outcome_of (MergeValues H)) (\<lambda>chartValues.
     bindO (outcome_of (RunInstall H (ChartClient h) (ChartContent h)
              (patchMetalLBChartValues env spec chartValues))) (\<lambda>manifest.
     bindO (parseManifest (DecodeManifest H) manifest) (\<lambda>objs.
     bindO (mapO (metallb_object U env spec) objs) (\<lambda>objs'.
     Ret (if IsOpenshift env then objs' @ [SpeakerSCC] else objs')))))"

text \<open>One turn of the loop of \<open>FRRK8SChart.Objects\<close>: \<open>None\<close> where it continues without the object.\<close>

definition frrk8s_object ::
  "unstructured_lib \<Rightarrow> env_config \<Rightarrow> metallb_spec \<Rightarrow> obj \<Rightarrow> obj option outcome" where
  "frrk8s_object U env spec x0 =
     (let x = namespaced U env x0; ocp = IsOpenshift env in
      bindO (if isFRRK8SDaemonset U x \<and> SpeakerConfig spec \<noteq> None
             then overrideFRRK8SDaemonParameters U spec x else Ret x) (\<lambda>x1.
      if isFRRK8SWebhookSecret U x1 \<and> ocp then Ret None
      else
      bindO (if isFRRK8SValidatingWebhook U x1 \<and> ocp
             then updateAnnotations U x1 [''service.beta.openshift.io/inject-cabundle'' \<mapsto> ''true'']
             else Ret x1) (\<lambda>x2.
      bindO (if isFRRK8SWebhookService U x2 \<and> ocp
             then updateAnnotations U x2
                    [''service.beta.openshift.io/serving-cert-secret-name'' \<mapsto> frrk8sWebhookSecretName]
             else Ret x2) (\<lambda>x3.
      bindO (if isFRRK8SWebhookDeployment U x3 \<and> ocp
             then setter (SetNestedMap U x3 run_as_non_root security_context_path) else Ret x3) (\<lambda>x4.
      bindO (if isServiceMonitor U x4 \<and> ocp then setOcpMonitorFields U x4 else Ret x4) (\<lambda>x5.
      Ret (Some x5)))))))"

fun frrk8s_objects ::
  "unstructured_lib \<Rightarrow> env_config \<Rightarrow> metallb_spec \<Rightarrow> obj list \<Rightarrow> obj list \<Rightarrow> obj list outcome" where
  "frrk8s_objects U env spec res [] = Ret res"
| "frrk8s_objects U env spec res (x # xs) =
     bindO (frrk8s_object U env spec x) (\<lambda>r.
       frrk8s_objects U env spec (case r of None \<Rightarrow> res | Some y \<Rightarrow> res @ [y]) xs)"

definition FRRK8SChart_Objects ::
  "'c helm_lib \<Rightarrow> unstructured_lib \<Rightarrow> 'c helm_chart \<Rightarrow> env_config \<Rightarrow> metallb_spec \<Rightarrow> obj list outcome" where
  "FRRK8SChart_Objects H U h env spec =
     bindO (outcome_of (MergeValues H)) (\<lambda>chartValues.
     bindO (outcome_of (patchChartValues env spec chartValues)) (\<lambda>chartValues'.
     bindO (outcome_of (RunInstall H (ChartClient h) (ChartContent h) chartValues')) (\<lambda>manifest.
     bindO (parseManifest (DecodeManifest H) manifest) (\<lambda>objs.
     frrk8s_objects U env spec [] objs))))"

section \<open>Facts on parsing\<close>

lemma decode_loop_Decoded:
  assumes "\<And>k. k < length us \<Longrightarrow> Decode (n + k) = Decoded (us ! k)"
  shows "decode_loop Decode n out = decode_loop Decode (n + length us) (out @ us)"
  using assms
proof (induction us arbitrary: n out)
  case Nil
  show ?case by simp
next
  case (Cons u us)
  have "Decode (Suc n + k) = Decoded (us ! k)" if "k < length us" for k
    using Cons.prems [of "Suc k"] that by simp
  from Cons.IH [OF this] have "decode_loop Decode (Suc n) (out @ [u]) =
      decode_loop Decode (n + length (u # us)) (out @ u # us)" by simp
  then show ?case using Cons.prems [of 0] by (subst decode_loop.simps) simp
qed

definition decoded_until ::
  "(nat \<Rightarrow> decode_result) \<Rightarrow> nat \<Rightarrow> obj list \<Rightarrow> go_error + obj list \<Rightarrow> bool" where
  "decoded_until Decode n out r \<longleftrightarrow>
     (\<exists>us. (\<forall>k<length us. Decode (n + k) = Decoded (us ! k)) \<and>
           (Decode (n + length us) = DecodeEOF \<and> r = Inr (out @ us) \<or>
            (\<exists>e. Decode (n + length us) = DecodeError e \<and> r = Inl e)))"

lemma decoded_until_step:
  assumes "Decode n = Decoded u" and "decoded_until Decode (n + 1) (out @ [u]) r"
  shows "decoded_until Decode n out r"
proof -
  from assms(2) obtain us where us: "\<forall>k<length us. Decode (n + 1 + k) = Decoded (us ! k)"
    "Decode (n + 1 + length us) = DecodeEOF \<and> r = Inr ((out @ [u]) @ us) \<or>
     (\<exists>e. Decode (n + 1 + length us) = DecodeError e \<and> r = Inl e)"
    unfolding decoded_until_def by blast
  have "Decode (n + k) = Decoded ((u # us) ! k)" if "k < length (u # us)" for k
    using assms(1) us(1) that by (cases k) auto
  moreover have "Decode (n + length (u # us)) = DecodeEOF \<and> r = Inr (out @ u # us) \<or>
      (\<exists>e. Decode (n + length (u # us)) = DecodeError e \<and> r = Inl e)"
    using us(2) by simp
  ultimately show ?thesis unfolding decoded_until_def by blast
qed

lemma decode_loop_Some: "decode_loop Decode n out = Some r \<Longrightarrow> decoded_until Decode n out r"
proof (rule decode_loop.raw_induct [where P = decoded_until], goal_cases)
  case (1 loop D k os s)
  show ?case
  proof (cases "D k")
    case (Decoded u)
    with 1 have "decoded_until D (k + 1) (os @ [u]) s" by simp
    with Decoded show ?thesis by (rule decoded_until_step)
  next
    case DecodeEOF
    with 1 show ?thesis unfolding decoded_until_def by (intro exI [of _ "[]"]) simp
  next
    case (DecodeError e)
    with 1 show ?thesis unfolding decoded_until_def by (intro exI [of _ "[]"]) simp
  qed
qed

lemma decode_loop_Inr_iff:
  "decode_loop Decode 0 [] = Some (Inr us) \<longleftrightarrow>
     (\<forall>n<length us. Decode n = Decoded (us ! n)) \<and> Decode (length us) = DecodeEOF"
  (is "?l \<longleftrightarrow> ?r")
proof
  show "?l \<Longrightarrow> ?r" by (drule decode_loop_Some) (auto simp: decoded_until_def)
  assume r: ?r
  then have "decode_loop Decode 0 [] = decode_loop Decode (0 + length us) ([] @ us)"
    by (intro decode_loop_Decoded) simp
  with r show ?l by (simp add: decode_loop.simps)
qed

lemma decode_loop_None_iff:
  "decode_loop Decode 0 [] = None \<longleftrightarrow> (\<forall>n. \<exists>u. Decode n = Decoded u)"
proof
  assume none: "decode_loop Decode 0 [] = None"
  show "\<forall>n. \<exists>u. Decode n = Decoded u"
  proof (rule ccontr)
    assume "\<not> ?thesis"
    then have "\<exists>n. \<forall>u. Decode n \<noteq> Decoded u" by blast
    then obtain n where n: "\<forall>u. Decode n \<noteq> Decoded u"
      and before: "\<forall>k<n. \<exists>u. Decode k = Decoded u"
      using exists_least_iff [of "\<lambda>n. \<forall>u. Decode n \<noteq> Decoded u"] by auto
    define us where "us = map (\<lambda>k. SOME u. Decode k = Decoded u) [0..<n]"
    have "Decode (0 + k) = Decoded (us ! k)" if "k < length us" for k
      using before that someI_ex [of "\<lambda>u. Decode k = Decoded u"] by (simp add: us_def)
    from decode_loop_Decoded [OF this] none
    have "decode_loop Decode n us = None" by (simp add: us_def)
    with n show False by (subst (asm) decode_loop.simps) (auto split: decode_result.splits)
  qed
next
  assume all: "\<forall>n. \<exists>u. Decode n = Decoded u"
  show "decode_loop Decode 0 [] = None"
  proof (rule ccontr)
    assume "decode_loop Decode 0 [] \<noteq> None"
    then obtain r where "decode_loop Decode 0 [] = Some r" by auto
    from decode_loop_Some [OF this] obtain n where "\<not> (\<exists>u. Decode n = Decoded u)"
      unfolding decoded_until_def by (metis decode_result.distinct(1,3))
    with all show False by blast
  qed
qed

lemma parseManifest_Ret_iff:
  "parseManifest D m = Ret us \<longleftrightarrow>
     (if TrimSpace m = [] then us = []
      else (\<forall>n<length us. D m n = Decoded (us ! n)) \<and> D m (length us) = DecodeEOF)"
  by (auto simp: parseManifest_def decode_loop_Inr_iff [symmetric] split: option.splits sum.splits)

section \<open>Facts on the overrides\<close>

lemma override_resources_loop:
  assumes "cs = pre @ rest" and "j = length pre"
  shows "override_resources cname r j rest cs =
           pre @ map (\<lambda>c. case r of
                          Some res \<Rightarrow> if ContainerName c = cname then c\<lparr>ContainerResources := res\<rparr> else c
                        | None \<Rightarrow> c) rest"
  using assms
proof (induction rest arbitrary: j cs pre)
  case Nil
  then show ?case by simp
next
  case (Cons c rest)
  let ?c = "case r of Some res \<Rightarrow> if ContainerName c = cname then c\<lparr>ContainerResources := res\<rparr> else c
            | None \<Rightarrow> c"
  have "(case r of Some res \<Rightarrow>
           if ContainerName c = cname then cs[j := (cs ! j)\<lparr>ContainerResources := res\<rparr>] else cs
         | None \<Rightarrow> cs) = (pre @ [?c]) @ rest"
    using Cons.prems by (auto simp: nth_append split: option.splits)
  from Cons.IH [OF this, of "j + 1"] have
    "override_resources cname r j (c # rest) cs = (pre @ [?c]) @ map (\<lambda>c. case r of
         Some res \<Rightarrow> if ContainerName c = cname then c\<lparr>ContainerResources := res\<rparr> else c
       | None \<Rightarrow> c) rest"
    using Cons.prems(2) by (simp only: override_resources.simps length_append_singleton Suc_eq_plus1)
  then show ?case by simp
qed

lemma override_affinity:
  "(case a of None \<Rightarrow> ds | Some x \<Rightarrow> ds\<lparr>DSAffinity := Some x\<rparr>) =
     ds\<lparr>DSAffinity := (case a of None \<Rightarrow> DSAffinity ds | Some x \<Rightarrow> Some x)\<rparr>"
  "(case a of None \<Rightarrow> d | Some x \<Rightarrow> d\<lparr>DAffinity := Some x\<rparr>) =
     d\<lparr>DAffinity := (case a of None \<Rightarrow> DAffinity d | Some x \<Rightarrow> Some x)\<rparr>"
  by (cases a; simp)+

lemma override_daemonset_Inr:
  "override_daemonset U cname cfg x = Inr y \<longleftrightarrow>
     (\<exists>d. ToDaemonSet U x = Inr d \<and>
          FromDaemonSet U
            (d\<lparr>DSAffinity := (case Affinity cfg of None \<Rightarrow> DSAffinity d | Some a \<Rightarrow> Some a),
               DSContainers := map (\<lambda>c. case Resources cfg of
                   Some res \<Rightarrow> if ContainerName c = cname then c\<lparr>ContainerResources := res\<rparr> else c
                 | None \<Rightarrow> c) (DSContainers d)\<rparr>) = Inr y)"
  by (simp add: override_daemonset_def bindE_eq_Inr Let_def override_affinity
      override_resources_loop [of _ "[]"])

lemma override_deployment_Inr:
  "override_deployment U cname cfg x = Inr y \<longleftrightarrow>
     (\<exists>d. ToDeployment U x = Inr d \<and>
          FromDeployment U
            (d\<lparr>DAffinity := (case Affinity cfg of None \<Rightarrow> DAffinity d | Some a \<Rightarrow> Some a),
               DContainers := map (\<lambda>c. case Resources cfg of
                   Some res \<Rightarrow> if ContainerName c = cname then c\<lparr>ContainerResources := res\<rparr> else c
                 | None \<Rightarrow> c) (DContainers d)\<rparr>) = Inr y)"
  by (simp add: override_deployment_def bindE_eq_Inr Let_def override_affinity
      override_resources_loop [of _ "[]"])

end
