(* ===== verification/Kube_Client.thy ===== *)
theory Kube_Client
  imports API_Types
begin

text \<open>
  The Kubernetes API server as the operator sees it through its clients. What the server answers may
  depend on everything that was asked before, so an environment is a record of functions from the
  trace of calls so far to the answer; a computation takes the trace and returns its outcome with the
  longer trace. The environment is arbitrary: what is proved holds whatever other clients do meanwhile.
\<close>

section \<open>Resources\<close>

text \<open>\<open>ClusterOperator.Status.Versions\<close> of \<open>config.openshift.io\<close>.\<close>

record operand_version =
  VersionName :: string
  Version :: string

text \<open>\<open>Network\<close> of \<open>operator.openshift.io\<close>; \<open>None\<close> for a nil \<open>AdditionalRoutingCapabilities\<close>.\<close>

record network =
  Providers :: "string list option"
  network_rest :: gval

record pod =
  PodName :: string
  PodNamespace :: string

section \<open>Calls\<close>

datatype kube_call =
    GetMetalLB string string
  | GetDaemonSet string string
  | GetDeployment string string
  | GetClusterOperator string
  | GetNetwork string
  | UpdateNetwork network
  | UpdateStatus metallb
  | DeleteObject obj
  | ApplyObject obj
  | TimeNow
  | ListPods string "string_map"
  | DeletePod pod
  | CreateOrUpdateConfigMap string string "string_map"

type_synonym trace = "kube_call list"

text \<open>
  The answers. A namespaced name is its namespace and its name. \<open>IsNotFound\<close> is that of
  \<open>k8s.io/apimachinery/pkg/api/errors\<close>.
\<close>

record kube =
  get_metallb :: "trace \<Rightarrow> string \<Rightarrow> string \<Rightarrow> go_error + metallb"
  get_daemonset :: "trace \<Rightarrow> string \<Rightarrow> string \<Rightarrow> go_error + daemonset"
  get_deployment :: "trace \<Rightarrow> string \<Rightarrow> string \<Rightarrow> go_error + deployment"
  get_cluster_operator :: "trace \<Rightarrow> string \<Rightarrow> go_error + operand_version list"
  get_network :: "trace \<Rightarrow> string \<Rightarrow> go_error + network"
  update_network :: "trace \<Rightarrow> network \<Rightarrow> go_error option"
  update_status :: "trace \<Rightarrow> metallb \<Rightarrow> go_error option"
  delete_object :: "trace \<Rightarrow> obj \<Rightarrow> go_error option"
  apply_object :: "trace \<Rightarrow> obj \<Rightarrow> go_error option"
  clock :: "trace \<Rightarrow> int"
  list_pods :: "trace \<Rightarrow> string \<Rightarrow> string_map \<Rightarrow> go_error + pod list"
  delete_pod :: "trace \<Rightarrow> pod \<Rightarrow> go_error option"
  create_or_update_config_map :: "trace \<Rightarrow> string \<Rightarrow> string \<Rightarrow> string_map \<Rightarrow> go_error option"
  IsNotFound :: "go_error \<Rightarrow> bool"

section \<open>Computations\<close>

type_synonym 'a io = "trace \<Rightarrow> 'a outcome \<times> trace"

definition return :: "'a \<Rightarrow> 'a io" where
  "return x = (\<lambda>h. (Ret x, h))"

definition lift :: "'a outcome \<Rightarrow> 'a io" where
  "lift m = (\<lambda>h. (m, h))"

definition bindK :: "'a io \<Rightarrow> ('a \<Rightarrow> 'b io) \<Rightarrow> 'b io" where
  "bindK m f = (\<lambda>h. case m h of
      (Ret x, h') \<Rightarrow> f x h'
    | (Fail e, h') \<Rightarrow> (Fail e, h')
    | (Panic, h') \<Rightarrow> (Panic, h')
    | (Hang, h') \<Rightarrow> (Hang, h'))"

text \<open>A call whose error the code looks at, and one whose error it returns at once.\<close>

definition asks :: "(trace \<Rightarrow> 'a) \<Rightarrow> kube_call \<Rightarrow> 'a io" where
  "asks answer c = (\<lambda>h. (Ret (answer h), h @ [c]))"

definition gets :: "(trace \<Rightarrow> go_error + 'a) \<Rightarrow> kube_call \<Rightarrow> 'a io" where
  "gets answer c = bindK (asks answer c) (\<lambda>r. lift (outcome_of r))"

text \<open>\<open>if err != nil { return f(err) }\<close> on a call without a result.\<close>

definition check :: "(go_error \<Rightarrow> go_error) \<Rightarrow> go_error option \<Rightarrow> unit io" where
  "check f e = (case e of None \<Rightarrow> return () | Some x \<Rightarrow> lift (Fail (f x)))"

text \<open>\<open>if err != nil { return errors.Wrapf(err, text) }\<close> on a call with a result.\<close>

definition wrapped :: "(go_error \<Rightarrow> go_error) \<Rightarrow> go_error + 'a \<Rightarrow> 'a io" where
  "wrapped f r = (case r of Inl e \<Rightarrow> lift (Fail (f e)) | Inr x \<Rightarrow> return x)"

named_theorems io_simps

lemma bindK_return [io_simps]: "bindK (return x) f = f x"
  by (simp add: bindK_def return_def fun_eq_iff)

lemma bindK_lift [io_simps]:
  "bindK (lift (Ret x)) f = f x" "bindK (lift (Fail e)) f = lift (Fail e)"
  "bindK (lift Panic) f = lift Panic" "bindK (lift Hang) f = lift Hang"
  by (simp_all add: bindK_def lift_def fun_eq_iff)

lemma return_apply [io_simps]: "return x h = (Ret x, h)"
  by (simp add: return_def)

lemma lift_apply [io_simps]: "lift m h = (m, h)"
  by (simp add: lift_def)

lemma asks_apply [io_simps]: "asks answer c h = (Ret (answer h), h @ [c])"
  by (simp add: asks_def)

lemma bindK_asks [io_simps]: "bindK (asks answer c) f h = f (answer h) (h @ [c])"
  by (simp add: bindK_def asks_def)

lemma gets_apply [io_simps]: "gets answer c h = (outcome_of (answer h), h @ [c])"
  by (simp add: gets_def io_simps)

lemma bindK_assoc: "bindK (bindK m f) g = bindK m (\<lambda>x. bindK (f x) g)"
  by (auto simp: bindK_def fun_eq_iff split: prod.splits outcome.splits)

lemma bindK_Ret_iff:
  "bindK m f h = (Ret y, h') \<longleftrightarrow> (\<exists>x h1. m h = (Ret x, h1) \<and> f x h1 = (Ret y, h'))"
  by (auto simp: bindK_def split: prod.splits outcome.splits)

lemma bindK_cases:
  "bindK m f h = (r, h') \<longleftrightarrow>
     (\<exists>x h1. m h = (Ret x, h1) \<and> f x h1 = (r, h')) \<or>
     (\<exists>e. m h = (Fail e, h') \<and> r = Fail e) \<or> m h = (Panic, h') \<and> r = Panic \<or>
     m h = (Hang, h') \<and> r = Hang"
  by (auto simp: bindK_def split: prod.splits outcome.splits)

lemma check_cases [io_simps]:
  "check f e h = (case e of None \<Rightarrow> (Ret (), h) | Some x \<Rightarrow> (Fail (f x), h))"
  by (simp add: check_def io_simps split: option.splits)

lemma wrapped_cases [io_simps]:
  "wrapped f r h = (case r of Inl e \<Rightarrow> (Fail (f e), h) | Inr x \<Rightarrow> (Ret x, h))"
  by (simp add: wrapped_def io_simps split: sum.splits)

section \<open>Traces grow\<close>

text \<open>A computation only adds calls, all of which satisfy \<open>P\<close>.\<close>

definition adds_only :: "(kube_call \<Rightarrow> bool) \<Rightarrow> 'a io \<Rightarrow> bool" where
  "adds_only P m \<longleftrightarrow> (\<forall>h r h'. m h = (r, h') \<longrightarrow> (\<exists>cs. h' = h @ cs \<and> list_all P cs))"

named_theorems adds

lemma adds_onlyD: "adds_only P m \<Longrightarrow> m h = (r, h') \<Longrightarrow> \<exists>cs. h' = h @ cs \<and> list_all P cs"
  by (simp add: adds_only_def)

lemma adds_only_simple [adds]: "adds_only P (return x)" "adds_only P (lift m)"
  by (auto simp: adds_only_def io_simps)

lemma adds_only_asks [adds]: "P c \<Longrightarrow> adds_only P (asks answer c)" "P c \<Longrightarrow> adds_only P (gets g c)"
  by (auto simp: adds_only_def io_simps)

lemma adds_only_checks [adds]: "adds_only P (check f e)" "adds_only P (wrapped f' r)"
  by (auto simp: adds_only_def io_simps split: option.splits sum.splits)

lemma adds_only_bindK [adds]:
  assumes "adds_only P m" and "\<And>x. adds_only P (f x)"
  shows "adds_only P (bindK m f)"
  unfolding adds_only_def
proof (intro allI impI)
  fix h r h'
  assume *: "bindK m f h = (r, h')"
  obtain s h1 where s: "m h = (s, h1)" by (cases "m h") auto
  then obtain cs where cs: "h1 = h @ cs" "list_all P cs" using adds_onlyD [OF assms(1)] by blast
  show "\<exists>cs. h' = h @ cs \<and> list_all P cs"
  proof (cases s)
    case (Ret x)
    with * s have "f x h1 = (r, h')" by (simp add: bindK_def)
    then obtain ds where "h' = h1 @ ds" "list_all P ds" using adds_onlyD [OF assms(2)] by blast
    with cs show ?thesis by auto
  qed (use * s cs in \<open>auto simp: bindK_def\<close>)
qed

lemma adds_only_mono: "adds_only P m \<Longrightarrow> (\<And>c. P c \<Longrightarrow> Q c) \<Longrightarrow> adds_only Q m"
  unfolding adds_only_def list_all_iff by blast

section \<open>Loops with effects\<close>

text \<open>
  The interface of a loop over resources that stops at the first error: \<open>step\<close> is the body, \<open>calls\<close>
  the calls it makes when it succeeds.
\<close>

locale effect_loop =
  fixes step :: "'a \<Rightarrow> unit io"
    and loop :: "'a list \<Rightarrow> unit io"
    and calls :: "'a \<Rightarrow> kube_call list"
  assumes loop_Nil: "loop [] = return ()"
    and loop_Cons: "loop (x # xs) = bindK (step x) (\<lambda>_. loop xs)"
    and step_Ret: "step x h = (Ret (), h') \<Longrightarrow> h' = h @ calls x"
    and step_stop: "step x h = (r, h') \<Longrightarrow> \<exists>cs ds. h' = h @ cs \<and> calls x = cs @ ds"
begin

lemma loop_Ret: "loop xs h = (Ret (), h') \<Longrightarrow> h' = h @ concat (map calls xs)"
proof (induction xs arbitrary: h)
  case Nil
  then show ?case by (simp add: loop_Nil io_simps)
next
  case (Cons x xs)
  then obtain h1 where "step x h = (Ret (), h1)" "loop xs h1 = (Ret (), h')"
    by (auto simp: loop_Cons bindK_Ret_iff)
  with Cons.IH step_Ret show ?case by fastforce
qed

text \<open>However it ends, it has made an initial part of those calls.\<close>

lemma loop_prefix: "loop xs h = (r, h') \<Longrightarrow> \<exists>cs ds. h' = h @ cs \<and> concat (map calls xs) = cs @ ds"
proof (induction xs arbitrary: h)
  case Nil
  then show ?case by (simp add: loop_Nil io_simps)
next
  case (Cons x xs)
  obtain s h1 where s: "step x h = (s, h1)" by (cases "step x h") auto
  show ?case
  proof (cases "s = Ret ()")
    case True
    with s step_Ret have h1: "h1 = h @ calls x" by simp
    from True s Cons.prems have "loop xs h1 = (r, h')" by (simp add: loop_Cons bindK_def)
    from Cons.IH [OF this] h1 show ?thesis by auto
  next
    case False
    with s Cons.prems have "h' = h1" by (cases s) (auto simp: loop_Cons bindK_def)
    with step_stop [OF s] show ?thesis by auto
  qed
qed

lemma loop_adds:
  assumes "\<And>x c. x \<in> set xs \<Longrightarrow> c \<in> set (calls x) \<Longrightarrow> P c"
  shows "adds_only P (loop xs)"
  unfolding adds_only_def
proof (intro allI impI)
  fix h r h'
  assume "loop xs h = (r, h')"
  from loop_prefix [OF this] obtain cs ds where "h' = h @ cs" and "concat (map calls xs) = cs @ ds"
    by blast
  moreover from this(2) have "set cs \<subseteq> set (concat (map calls xs))" by simp
  then have "list_all P cs" using assms by (auto simp: list_all_iff)
  ultimately show "\<exists>cs. h' = h @ cs \<and> list_all P cs" by blast
qed

text \<open>A loop whose steps all succeed succeeds.\<close>

lemma loop_succeeds: "(\<And>x h. x \<in> set xs \<Longrightarrow> fst (step x h) = Ret ()) \<Longrightarrow> fst (loop xs h) = Ret ()"
proof (induction xs arbitrary: h)
  case Nil
  show ?case by (simp add: loop_Nil io_simps)
next
  case (Cons x xs)
  obtain h1 where "step x h = (Ret (), h1)"
    using Cons.prems [of x h] by (cases "step x h") simp
  with Cons show ?case by (simp add: loop_Cons bindK_def)
qed

lemma loop_fails:
  assumes "loop xs h = (Fail e, h')"
  shows "\<exists>us x vs h1. xs = us @ x # vs \<and> loop us h = (Ret (), h1) \<and> step x h1 = (Fail e, h')"
  using assms
proof (induction xs arbitrary: h)
  case Nil
  then show ?case by (simp add: loop_Nil io_simps)
next
  case (Cons x xs)
  from Cons.prems consider h1 where "step x h = (Ret (), h1)" "loop xs h1 = (Fail e, h')"
    | "step x h = (Fail e, h')"
    by (auto simp: loop_Cons bindK_cases)
  then show ?case
  proof cases
    case 1
    from Cons.IH [OF 1(2)] obtain us y vs h2 where "xs = us @ y # vs" "loop us h1 = (Ret (), h2)"
      "step y h2 = (Fail e, h')" by blast
    with 1(1) have "x # xs = (x # us) @ y # vs" "loop (x # us) h = (Ret (), h2)"
      "step y h2 = (Fail e, h')" by (auto simp: loop_Cons bindK_Ret_iff)
    then show ?thesis by blast
  next
    case 2
    moreover have "x # xs = [] @ x # xs" "loop [] h = (Ret (), h)" by (auto simp: loop_Nil io_simps)
    ultimately show ?thesis by blast
  qed
qed

end

end
