(* ===== verification/Operator_Status.thy ===== *)
theory Operator_Status
  imports Kube_Client Go_Strings
begin

text \<open>
  \<open>pkg/status/status.go\<close>: the four conditions of a MetalLB resource, writing them to the API server,
  and whether the speaker and the controller are ready.
\<close>

section \<open>Conditions\<close>

definition ConditionAvailable :: string where "ConditionAvailable = ''Available''"
definition ConditionProgressing :: string where "ConditionProgressing = ''Progressing''"
definition ConditionDegraded :: string where "ConditionDegraded = ''Degraded''"
definition ConditionUpgradeable :: string where "ConditionUpgradeable = ''Upgradeable''"

lemmas condition_names = ConditionAvailable_def ConditionProgressing_def ConditionDegraded_def
  ConditionUpgradeable_def

lemma conditions_distinct [simp]:
  "ConditionAvailable \<noteq> ConditionProgressing" "ConditionProgressing \<noteq> ConditionAvailable"
  "ConditionAvailable \<noteq> ConditionDegraded" "ConditionDegraded \<noteq> ConditionAvailable"
  "ConditionAvailable \<noteq> ConditionUpgradeable" "ConditionUpgradeable \<noteq> ConditionAvailable"
  "ConditionProgressing \<noteq> ConditionDegraded" "ConditionDegraded \<noteq> ConditionProgressing"
  "ConditionProgressing \<noteq> ConditionUpgradeable" "ConditionUpgradeable \<noteq> ConditionProgressing"
  "ConditionDegraded \<noteq> ConditionUpgradeable" "ConditionUpgradeable \<noteq> ConditionDegraded"
  "[] \<noteq> ConditionAvailable" "[] \<noteq> ConditionProgressing" "[] \<noteq> ConditionDegraded"
  "ConditionAvailable \<noteq> []" "ConditionProgressing \<noteq> []" "ConditionDegraded \<noteq> []"
  by (simp_all add: condition_names)

definition ConditionTrue :: string where "ConditionTrue = ''True''"
definition ConditionFalse :: string where "ConditionFalse = ''False''"

lemma condition_values [simp]: "ConditionTrue \<noteq> ConditionFalse" "ConditionFalse \<noteq> ConditionTrue"
  by (simp_all add: ConditionTrue_def ConditionFalse_def)

definition base_condition :: "int \<Rightarrow> string \<Rightarrow> condition" where
  "base_condition now t =
     \<lparr>Type = t, Status = ConditionFalse, CondObservedGeneration = 0, LastTransitionTime = now,
      Reason = t, Message = []\<rparr>"

text \<open>\<open>now\<close> is what \<open>time.Now()\<close> returned.\<close>

definition getBaseConditions :: "int \<Rightarrow> condition list" where
  "getBaseConditions now =
     [base_condition now ConditionAvailable, base_condition now ConditionUpgradeable,
      base_condition now ConditionProgressing, base_condition now ConditionDegraded]"

definition getConditions :: "int \<Rightarrow> string \<Rightarrow> string \<Rightarrow> string \<Rightarrow> condition list" where
  "getConditions now condition reason message =
     (let conditions = getBaseConditions now in
      if condition = ConditionAvailable then
        (let c1 = conditions[0 := (conditions ! 0)\<lparr>Status := ConditionTrue\<rparr>]
         in c1[1 := (c1 ! 1)\<lparr>Status := ConditionTrue\<rparr>])
      else if condition = ConditionProgressing then
        conditions[2 := (conditions ! 2)\<lparr>Status := ConditionTrue, Reason := reason, Message := message\<rparr>]
      else if condition = ConditionDegraded then
        conditions[3 := (conditions ! 3)\<lparr>Status := ConditionTrue, Reason := reason, Message := message\<rparr>]
      else conditions)"

text \<open>
  \<open>Update\<close>. The conditions are built twice, each time with a new time. The error's text names the
  whole object, which is not rendered here.
\<close>

definition update_failed :: "go_error \<Rightarrow> go_error" where
  "update_failed = Wrapped ''could not update status for object''"

definition Update :: "kube \<Rightarrow> metallb \<Rightarrow> string \<Rightarrow> string \<Rightarrow> string \<Rightarrow> unit io" where
  "Update K m condition reason message =
     bindK (asks (clock K) TimeNow) (\<lambda>now.
       if getConditions now condition reason message = Conditions m then return ()
       else
         bindK (asks (clock K) TimeNow) (\<lambda>now'.
           let m' = m\<lparr>Conditions := getConditions now' condition reason message\<rparr> in
           bindK (asks (\<lambda>h. update_status K h m') (UpdateStatus m')) (check update_failed)))"

section \<open>Readiness\<close>

definition isDaemonSetReady :: "daemonset \<Rightarrow> go_error option" where
  "isDaemonSetReady ds =
     (if DSGeneration ds \<noteq> DSObservedGeneration ds
      then Some (NotReady ''MetalLB speaker daemonset status is out of date'')
      else if DesiredNumberScheduled ds \<noteq> CurrentNumberScheduled ds \<or>
              DesiredNumberScheduled ds \<noteq> NumberReady ds
      then Some (NotReady ''MetalLB speaker daemonset not ready'')
      else if DesiredNumberScheduled ds \<noteq> UpdatedNumberScheduled ds
      then Some (NotReady ''MetalLB speaker daemonset not ready'')
      else None)"

definition isDeploymentReady :: "deployment \<Rightarrow> go_error option" where
  "isDeploymentReady d =
     (if DGeneration d \<noteq> DObservedGeneration d
      then Some (NotReady ''MetalLB controller deployment status is out of date'')
      else (let replicas = (case Replicas d of None \<Rightarrow> 1 | Some n \<Rightarrow> n) in
            if ReadyReplicas d \<noteq> replicas \<or> UpdatedReplicas d \<noteq> replicas
            then Some (NotReady ''MetalLB controller deployment not ready'')
            else None))"

text \<open>\<open>IsMetalLBAvailable\<close>: its error, \<open>None\<close> when both are ready.\<close>

definition IsMetalLBAvailable :: "kube \<Rightarrow> string \<Rightarrow> go_error option io" where
  "IsMetalLBAvailable K namespace =
     bindK (asks (\<lambda>h. get_daemonset K h namespace ''speaker'') (GetDaemonSet namespace ''speaker'')) (\<lambda>r.
     case r of
       Inl e \<Rightarrow> return (Some e)
     | Inr ds \<Rightarrow>
         (case isDaemonSetReady ds of
            Some e \<Rightarrow> return (Some e)
          | None \<Rightarrow>
              bindK (asks (\<lambda>h. get_deployment K h namespace ''controller'')
                (GetDeployment namespace ''controller'')) (\<lambda>r.
              case r of
                Inl e \<Rightarrow> return (Some e)
              | Inr d \<Rightarrow> return (isDeploymentReady d))))"

section \<open>What the conditions say\<close>

definition condition_true :: "string \<Rightarrow> condition list \<Rightarrow> bool" where
  "condition_true t cs \<longleftrightarrow> (\<exists>c\<in>set cs. Type c = t \<and> Status c = ConditionTrue)"

lemma getConditions_cases:
  "getConditions now ConditionAvailable r m =
     [(base_condition now ConditionAvailable)\<lparr>Status := ConditionTrue\<rparr>,
      (base_condition now ConditionUpgradeable)\<lparr>Status := ConditionTrue\<rparr>,
      base_condition now ConditionProgressing, base_condition now ConditionDegraded]"
  "getConditions now ConditionProgressing r m =
     [base_condition now ConditionAvailable, base_condition now ConditionUpgradeable,
      (base_condition now ConditionProgressing)\<lparr>Status := ConditionTrue, Reason := r, Message := m\<rparr>,
      base_condition now ConditionDegraded]"
  "getConditions now ConditionDegraded r m =
     [base_condition now ConditionAvailable, base_condition now ConditionUpgradeable,
      base_condition now ConditionProgressing,
      (base_condition now ConditionDegraded)\<lparr>Status := ConditionTrue, Reason := r, Message := m\<rparr>]"
  "c \<notin> {ConditionAvailable, ConditionProgressing, ConditionDegraded} \<Longrightarrow>
     getConditions now c r m = getBaseConditions now"
  by (simp_all add: getConditions_def getBaseConditions_def Let_def)

lemma getConditions_time: "c \<in> set (getConditions now cond r m) \<Longrightarrow> LastTransitionTime c = now"
  by (auto simp: getConditions_def getBaseConditions_def base_condition_def Let_def split: if_splits)

lemma length_getConditions [simp]: "length (getConditions now cond r m) = 4"
  by (simp add: getConditions_def getBaseConditions_def Let_def)

text \<open>Stored conditions of another time differ from new ones.\<close>

lemma status_times_differ:
  assumes "\<forall>c\<in>set cs. LastTransitionTime c \<noteq> now"
  shows "getConditions now cond r m \<noteq> cs"
proof
  assume eq: "getConditions now cond r m = cs"
  then have "cs ! 0 \<in> set cs"
    by (metis length_getConditions nth_mem zero_less_numeral)
  with eq assms getConditions_time show False by metis
qed

text \<open>
  The form that the resource definition demands of a condition's reason (the pattern
  \<open>^[A-Za-z]([A-Za-z0-9_,:]*[A-Za-z0-9_])?$\<close> in \<open>config/crd/bases/metallb.io_metallbs.yaml\<close>).
\<close>

definition letter :: "char \<Rightarrow> bool" where
  "letter c = (let n = (of_char c :: nat) in 65 \<le> n \<and> n \<le> 90 \<or> 97 \<le> n \<and> n \<le> 122)"

definition crd_reason :: "string \<Rightarrow> bool" where
  "crd_reason s =
     (case s of
        [] \<Rightarrow> False
      | c # t \<Rightarrow> letter c \<and>
          (t = [] \<or>
           list_all (\<lambda>d. letter d \<or> is_digit d \<or> d \<in> set ''_,:'') (butlast t) \<and>
           (letter (last t) \<or> is_digit (last t) \<or> last t = CHR ''_'')))"

lemma isDaemonSetReady_None:
  "isDaemonSetReady ds = None \<longleftrightarrow>
     DSObservedGeneration ds = DSGeneration ds \<and>
     {CurrentNumberScheduled ds, NumberReady ds, UpdatedNumberScheduled ds} = {DesiredNumberScheduled ds}"
  by (auto simp: isDaemonSetReady_def)

lemma isDeploymentReady_None:
  "isDeploymentReady d = None \<longleftrightarrow>
     DObservedGeneration d = DGeneration d \<and>
     {ReadyReplicas d, UpdatedReplicas d} = {case Replicas d of None \<Rightarrow> 1 | Some n \<Rightarrow> n}"
  by (auto simp: isDeploymentReady_def Let_def)

lemma not_ready_errors:
  "isDaemonSetReady ds = Some e \<Longrightarrow> \<exists>s. e = NotReady s"
  "isDeploymentReady d = Some e \<Longrightarrow> \<exists>s. e = NotReady s"
  by (auto simp: isDaemonSetReady_def isDeploymentReady_def Let_def split: if_splits)

lemma IsMetalLBAvailable_run:
  "IsMetalLBAvailable K ns h =
     (case get_daemonset K h ns ''speaker'' of
        Inl e \<Rightarrow> (Ret (Some e), h @ [GetDaemonSet ns ''speaker''])
      | Inr ds \<Rightarrow>
          (case isDaemonSetReady ds of
             Some e \<Rightarrow> (Ret (Some e), h @ [GetDaemonSet ns ''speaker''])
           | None \<Rightarrow>
               (let h' = h @ [GetDaemonSet ns ''speaker''] in
                (Ret (case get_deployment K h' ns ''controller'' of
                        Inl e \<Rightarrow> Some e | Inr d \<Rightarrow> isDeploymentReady d),
                 h' @ [GetDeployment ns ''controller'']))))"
  by (auto simp: IsMetalLBAvailable_def io_simps Let_def split: sum.splits option.splits)

lemma Update_run:
  "Update K m condition reason message h =
     (let now = clock K h; h1 = h @ [TimeNow] in
      if getConditions now condition reason message = Conditions m then (Ret (), h1)
      else (let now' = clock K h1; h2 = h1 @ [TimeNow];
                m' = m\<lparr>Conditions := getConditions now' condition reason message\<rparr>
            in (case update_status K h2 m' of None \<Rightarrow> Ret () | Some e \<Rightarrow> Fail (update_failed e),
                h2 @ [UpdateStatus m'])))"
  by (auto simp: Update_def io_simps Let_def split: option.splits)

text \<open>A quiet API server, with the given workloads, for examples.\<close>

definition example_kube :: "daemonset \<Rightarrow> deployment \<Rightarrow> kube" where
  "example_kube ds d =
     \<lparr>get_metallb = (\<lambda>_ ns n. Inr \<lparr>Name = n, Namespace = ns, Spec = zero_spec, Conditions = []\<rparr>),
      get_daemonset = (\<lambda>_ _ _. Inr ds), get_deployment = (\<lambda>_ _ _. Inr d),
      get_cluster_operator = (\<lambda>_ _. Inr []), get_network = (\<lambda>_ _. Inr \<lparr>Providers = None, network_rest = GNil\<rparr>),
      update_network = (\<lambda>_ _. None), update_status = (\<lambda>_ _. None), delete_object = (\<lambda>_ _. None),
      apply_object = (\<lambda>_ _. None), clock = int \<circ> length, list_pods = (\<lambda>_ _ _. Inr []),
      delete_pod = (\<lambda>_ _. None), create_or_update_config_map = (\<lambda>_ _ _ _. None),
      IsNotFound = (\<lambda>_. False)\<rparr>"

definition ready_daemonset :: daemonset where
  "ready_daemonset = \<lparr>DSGeneration = 2, DSObservedGeneration = 2, DesiredNumberScheduled = 3,
     CurrentNumberScheduled = 3, NumberReady = 3, UpdatedNumberScheduled = 3, DSAffinity = None,
     DSContainers = [], ds_rest = GNil\<rparr>"

definition ready_deployment :: deployment where
  "ready_deployment = \<lparr>DGeneration = 4, DObservedGeneration = 4, Replicas = None, ReadyReplicas = 1,
     UpdatedReplicas = 1, DAffinity = None, DContainers = [], d_rest = GNil\<rparr>"

section \<open>Properties\<close>

text \<open>
  C40. The conditions are consistent: whatever is reported, there is exactly one condition of each of
  the four types, at most one of Available, Progressing and Degraded is true, it is the one reported,
  Upgradeable is true exactly when Available is, and the reason and message are on the true condition
  of a problem.
\<close>

theorem getConditions_consistent:
  "map Type (getConditions now c reason message) =
     [ConditionAvailable, ConditionUpgradeable, ConditionProgressing, ConditionDegraded] \<and>
   (\<forall>t\<in>{ConditionAvailable, ConditionProgressing, ConditionDegraded}.
      condition_true t (getConditions now c reason message) = (c = t)) \<and>
   condition_true ConditionUpgradeable (getConditions now c reason message) = (c = ConditionAvailable) \<and>
   (\<forall>x\<in>set (getConditions now c reason message). Status x = ConditionTrue \<longrightarrow> c \<noteq> ConditionAvailable \<longrightarrow>
      Type x = c \<and> Reason x = reason \<and> Message x = message)"
proof -
  consider "c = ConditionAvailable" | "c = ConditionProgressing" | "c = ConditionDegraded"
    | "c \<notin> {ConditionAvailable, ConditionProgressing, ConditionDegraded}" by blast
  then show ?thesis
    by cases (auto simp: getConditions_cases getBaseConditions_def condition_true_def base_condition_def)
qed

theorem getConditions_consistent_witness:
  "condition_true ConditionDegraded (getConditions 5 ConditionDegraded ''r'' ''m'') \<and>
   \<not> condition_true ConditionAvailable (getConditions 5 ConditionDegraded ''r'' ''m'')"
  using getConditions_consistent [of 5 ConditionDegraded "''r''" "''m''"] by simp

text \<open>
  Readiness: MetalLB counts as available exactly when both workloads can be read, both statuses
  are of the current generation, every scheduled speaker pod is there, ready and up to date, and the
  controller's replicas (one if unspecified) are all ready and up to date.
\<close>

theorem IsMetalLBAvailable_iff:
  "(fst (IsMetalLBAvailable K ns h) = Ret None) =
     (\<exists>ds d. get_daemonset K h ns ''speaker'' = Inr ds \<and>
        get_deployment K (h @ [GetDaemonSet ns ''speaker'']) ns ''controller'' = Inr d \<and>
        DSObservedGeneration ds = DSGeneration ds \<and>
        {CurrentNumberScheduled ds, NumberReady ds, UpdatedNumberScheduled ds} =
          {DesiredNumberScheduled ds} \<and>
        DObservedGeneration d = DGeneration d \<and>
        {ReadyReplicas d, UpdatedReplicas d} = {case Replicas d of None \<Rightarrow> 1 | Some n \<Rightarrow> n})"
proof -
  have "(fst (IsMetalLBAvailable K ns h) = Ret None) =
      (\<exists>ds d. get_daemonset K h ns ''speaker'' = Inr ds \<and>
         get_deployment K (h @ [GetDaemonSet ns ''speaker'']) ns ''controller'' = Inr d \<and>
         isDaemonSetReady ds = None \<and> isDeploymentReady d = None)"
    by (auto simp: IsMetalLBAvailable_run Let_def split: sum.splits option.splits)
  then show ?thesis by (simp only: isDaemonSetReady_None isDeploymentReady_None conj_assoc)
qed

theorem IsMetalLBAvailable_iff_witness:
  "fst (IsMetalLBAvailable (example_kube ready_daemonset ready_deployment) ''ns'' []) = Ret None \<and>
   fst (IsMetalLBAvailable (example_kube (ready_daemonset\<lparr>UpdatedNumberScheduled := 2\<rparr>) ready_deployment)
          ''ns'' []) \<noteq> Ret None"
  unfolding IsMetalLBAvailable_iff
  by (simp add: example_kube_def ready_daemonset_def ready_deployment_def)

text \<open>
  The guard of \<open>Update\<close> never sees an unchanged status once the clock has moved: when every stored
  condition is older than now, the status is written again, even if nothing but the times differs.
\<close>

theorem Update_rewrites_unchanged_status:
  assumes "\<forall>c\<in>set (Conditions m). LastTransitionTime c \<noteq> clock K h"
  shows "\<exists>m'. snd (Update K m condition reason message h) = h @ [TimeNow, TimeNow, UpdateStatus m'] \<and>
              Conditions m' = getConditions (clock K (h @ [TimeNow])) condition reason message"
proof -
  have "getConditions (clock K h) condition reason message \<noteq> Conditions m"
    using assms by (rule status_times_differ)
  then show ?thesis by (auto simp: Update_run Let_def)
qed

theorem Update_rewrites_unchanged_status_witness:
  "\<exists>m'. snd (Update (example_kube ready_daemonset ready_deployment)
               \<lparr>Name = ''metallb'', Namespace = ''ns'', Spec = zero_spec,
                Conditions = getConditions (-1) ConditionAvailable [] []\<rparr>
               ConditionAvailable [] [] []) = [TimeNow, TimeNow, UpdateStatus m'] \<and>
        Conditions m' = getConditions 1 ConditionAvailable [] []"
proof -
  let ?K = "example_kube ready_daemonset ready_deployment"
  have t: "clock ?K h = int (length h)" for h by (simp add: example_kube_def)
  have "\<forall>c\<in>set (Conditions \<lparr>Name = ''metallb'', Namespace = ''ns'', Spec = zero_spec,
      Conditions = getConditions (-1) ConditionAvailable [] []\<rparr>). LastTransitionTime c \<noteq> clock ?K []"
    using getConditions_time by (fastforce simp: t)
  from Update_rewrites_unchanged_status [OF this] show ?thesis by (simp add: t)
qed

end
