(* ===== verification/Openshift_Client.thy ===== *)
theory Openshift_Client
  imports Kube_Client Params
begin

text \<open>
  \<open>pkg/openshift\<close> and \<open>pkg/platform\<close>: whether the cluster's network operator can deploy frr-k8s, asking
  it to, the TLS settings of the cluster, and which platform the operator runs on. Semantic versions,
  the discovery client, and the library that reads the cluster's TLS profile are parameters.
\<close>

section \<open>\<open>pkg/openshift/openshift.go\<close>\<close>

text \<open>\<open>github.com/Masterminds/semver/v3\<close>, for versions of a type \<open>'v\<close>.\<close>

record 'v version_lib =
  NewVersion :: "string \<Rightarrow> go_error + 'v"
  LessThan :: "'v \<Rightarrow> 'v \<Rightarrow> bool"

text \<open>
  The error of parsing the configured minimum is dropped, and \<open>LessThan\<close> reads the fields of the nil
  version that came with it.
\<close>

fun cnoSupportsFRRK8s :: "'v version_lib \<Rightarrow> env_config \<Rightarrow> operand_version list \<Rightarrow> bool outcome" where
  "cnoSupportsFRRK8s V env [] =
     Fail (ErrNew ''failed to find \"operator\" in network operator versions'')"
| "cnoSupportsFRRK8s V env (v # vs) =
     (if VersionName v = ''operator''
      then (case NewVersion V (Version v) of
              Inl e \<Rightarrow> Fail (Wrapped ''failed to parse semver for network operator'' e)
            | Inr version \<Rightarrow>
                (case NewVersion V (CNOMinFRRK8sVersion env) of
                   Inl _ \<Rightarrow> Panic
                 | Inr validVersion \<Rightarrow> Ret (\<not> LessThan V version validVersion)))
      else cnoSupportsFRRK8s V env vs)"

definition SupportsFRRK8s :: "kube \<Rightarrow> 'v version_lib \<Rightarrow> env_config \<Rightarrow> bool io" where
  "SupportsFRRK8s K V env =
     bindK (asks (\<lambda>h. get_cluster_operator K h ''network'') (GetClusterOperator ''network'')) (\<lambda>r.
     bindK (wrapped (Wrapped ''get openshift network operator failed'') r) (\<lambda>versions.
     lift (cnoSupportsFRRK8s V env versions)))"

text \<open>\<open>frr\<close> is the constant \<open>RoutingCapabilitiesProviderFRR\<close> of \<open>openshift/api\<close>.\<close>

definition DeployFRRK8s :: "kube \<Rightarrow> string \<Rightarrow> unit io" where
  "DeployFRRK8s K frr =
     bindK (asks (\<lambda>h. get_network K h ''cluster'') (GetNetwork ''cluster'')) (\<lambda>r.
     bindK (wrapped (Wrapped ''get openshift network failed'') r) (\<lambda>net.
     let providers = (case Providers net of None \<Rightarrow> [] | Some ps \<Rightarrow> ps) in
     if frr \<in> set providers then return ()
     else
       let net' = net\<lparr>Providers := Some (providers @ [frr])\<rparr> in
       bindK (asks (\<lambda>h. update_network K h net') (UpdateNetwork net')) (check (\<lambda>e. e))))"

section \<open>\<open>pkg/openshift/tls.go\<close>\<close>

record tls_profile =
  Ciphers :: "string list"
  MinTLSVersion :: string

text \<open>
  \<open>client.New\<close>, the two calls of \<open>openshift/controller-runtime-common/pkg/tls\<close>, and
  \<open>OpenSSLToIANACipherSuites\<close> of \<open>openshift/library-go\<close>; \<open>'a\<close> is the type of adherence policies.
\<close>

record ('cl, 'a) tls_profile_lib =
  NewClient :: "go_error + 'cl"
  FetchAPIServerTLSProfile :: "'cl \<Rightarrow> go_error + tls_profile"
  FetchAPIServerTLSAdherencePolicy :: "'cl \<Rightarrow> go_error + 'a"
  OpenSSLToIANACipherSuites :: "string list \<Rightarrow> string list"

record 'a ocp_tls_config =
  OCPCipherSuites :: string
  OCPCurvePreferences :: string
  OCPMinVersion :: string
  profileSpec :: tls_profile
  adherence :: 'a

definition tlsStringsFromProfile ::
  "('cl, 'a) tls_profile_lib \<Rightarrow> tls_profile \<Rightarrow> string \<times> string \<times> string" where
  "tlsStringsFromProfile L spec =
     (if length (Ciphers spec) > 0 then Join '','' (OpenSSLToIANACipherSuites L (Ciphers spec)) else [],
      [], MinTLSVersion spec)"

definition FetchTLSConfig :: "('cl, 'a) tls_profile_lib \<Rightarrow> go_error + 'a ocp_tls_config" where
  "FetchTLSConfig L =
     bindE (NewClient L) (\<lambda>cl.
     bindE (FetchAPIServerTLSProfile L cl) (\<lambda>spec.
     bindE (FetchAPIServerTLSAdherencePolicy L cl) (\<lambda>adh.
       case tlsStringsFromProfile L spec of
         (cipherSuites, curvePreferences, minVersion) \<Rightarrow>
           Inr \<lparr>OCPCipherSuites = cipherSuites, OCPCurvePreferences = curvePreferences,
                OCPMinVersion = minVersion, profileSpec = spec, adherence = adh\<rparr>)))"

text \<open>
  \<open>SetupProfileWatcher\<close>. A \<open>SecurityProfileWatcher\<close> of \<open>openshift/controller-runtime-common\<close> has the
  settings it compares with and two callbacks, which act on the operator's context: whether it has been
  cancelled, before and after. \<open>setup\<close> is the watcher's \<open>SetupWithManager\<close>.
\<close>

record 'a profile_watcher =
  InitialTLSProfileSpec :: tls_profile
  InitialTLSAdherencePolicy :: 'a
  OnProfileChange :: "bool \<Rightarrow> bool"
  OnAdherencePolicyChange :: "bool \<Rightarrow> bool"

definition profile_watcher_of :: "'a ocp_tls_config \<Rightarrow> (bool \<Rightarrow> bool) \<Rightarrow> 'a profile_watcher" where
  "profile_watcher_of tc cancel =
     \<lparr>InitialTLSProfileSpec = profileSpec tc, InitialTLSAdherencePolicy = adherence tc,
      OnProfileChange = cancel, OnAdherencePolicyChange = cancel\<rparr>"

definition SetupProfileWatcher ::
  "('a profile_watcher \<Rightarrow> go_error option) \<Rightarrow> 'a ocp_tls_config \<Rightarrow> (bool \<Rightarrow> bool) \<Rightarrow> go_error option" where
  "SetupProfileWatcher setup tc cancel = setup (profile_watcher_of tc cancel)"

section \<open>\<open>pkg/platform\<close>\<close>

definition OpenShift :: string where "OpenShift = ''OpenShift''"
definition Kubernetes :: string where "Kubernetes = ''Kubernetes''"

record platform_info =
  PlatformName :: string
  K8SVersion :: string
  OS :: string

definition IsOpenShift :: "platform_info \<Rightarrow> bool" where
  "IsOpenShift info = (PlatformName info = OpenShift)"

definition PlatformInfo_String :: "platform_info \<Rightarrow> string" where
  "PlatformInfo_String info =
     ''PlatformInfo ['' @ ''Name: '' @ PlatformName info @ '', K8SVersion: '' @ K8SVersion info @
     '', OS: '' @ OS info @ '']''"

record server_version =
  Major :: string
  Minor :: string
  Platform :: string

text \<open>
  \<open>config.GetConfig\<close> and \<open>client-go/discovery\<close>, for configurations of type \<open>'c\<close> and discovery clients
  of type \<open>'d\<close>; of the server's groups only the names are read.
\<close>

record ('c, 'd) discovery_lib =
  GetConfig :: "go_error + 'c"
  NewDiscoveryClientForConfig :: "'c \<Rightarrow> go_error + 'd"
  ServerVersion :: "'d \<Rightarrow> go_error + server_version"
  ServerGroups :: "'d \<Rightarrow> go_error + string list"

definition defaultArgs ::
  "('c, 'd) discovery_lib \<Rightarrow> 'd option \<Rightarrow> 'c option \<Rightarrow> go_error + 'd \<times> 'c" where
  "defaultArgs D client cfg =
     bindE (case cfg of None \<Rightarrow> GetConfig D | Some c \<Rightarrow> Inr c) (\<lambda>c.
     bindE (case client of None \<Rightarrow> NewDiscoveryClientForConfig D c | Some d \<Rightarrow> Inr d) (\<lambda>d.
       Inr (d, c)))"

text \<open>The loop over the groups, which stops at the first match.\<close>

fun detect_openshift :: "string list \<Rightarrow> platform_info \<Rightarrow> platform_info" where
  "detect_openshift [] info = info"
| "detect_openshift (g # gs) info =
     (if g = ''route.openshift.io'' then info\<lparr>PlatformName := OpenShift\<rparr> else detect_openshift gs info)"

text \<open>The information is returned next to the error, as far as it was filled in.\<close>

definition getPlatformInfo ::
  "('c, 'd) discovery_lib \<Rightarrow> 'd option \<Rightarrow> 'c option \<Rightarrow> platform_info \<times> go_error option" where
  "getPlatformInfo D client cfg =
     (let info = \<lparr>PlatformName = Kubernetes, K8SVersion = [], OS = []\<rparr> in
      case defaultArgs D client cfg of
        Inl e \<Rightarrow> (info, Some e)
      | Inr (cl, _) \<Rightarrow>
          (case ServerVersion D cl of
             Inl e \<Rightarrow> (info, Some e)
           | Inr v \<Rightarrow>
               (let info1 = info\<lparr>K8SVersion := Major v @ ''.'' @ Minor v, OS := Platform v\<rparr> in
                case ServerGroups D cl of
                  Inl e \<Rightarrow> (info1, Some e)
                | Inr groups \<Rightarrow> (detect_openshift groups info1, None))))"

definition GetPlatformInfo :: "('c, 'd) discovery_lib \<Rightarrow> 'c option \<Rightarrow> platform_info \<times> go_error option" where
  "GetPlatformInfo D cfg = getPlatformInfo D None cfg"

definition GetPlatformName :: "('c, 'd) discovery_lib \<Rightarrow> 'c option \<Rightarrow> go_error + string" where
  "GetPlatformName D cfg =
     (case GetPlatformInfo D cfg of (info, Some e) \<Rightarrow> Inl e | (info, None) \<Rightarrow> Inr (PlatformName info))"

section \<open>Facts\<close>

lemma detect_openshift_name:
  "PlatformName (detect_openshift gs info) =
     (if ''route.openshift.io'' \<in> set gs then OpenShift else PlatformName info)"
  by (induction gs) auto

lemma platforms_distinct [simp]: "Kubernetes \<noteq> OpenShift" "OpenShift \<noteq> Kubernetes"
  by (simp_all add: OpenShift_def Kubernetes_def)

text \<open>The version of the operator that is looked at: the first of that name.\<close>

definition cno_version :: "operand_version list \<Rightarrow> operand_version option" where
  "cno_version vs = find (\<lambda>v. VersionName v = ''operator'') vs"

lemma cnoSupportsFRRK8s_find:
  "cnoSupportsFRRK8s V env vs =
     (case cno_version vs of
        None \<Rightarrow> Fail (ErrNew ''failed to find \"operator\" in network operator versions'')
      | Some v \<Rightarrow>
          (case NewVersion V (Version v) of
             Inl e \<Rightarrow> Fail (Wrapped ''failed to parse semver for network operator'' e)
           | Inr version \<Rightarrow>
               (case NewVersion V (CNOMinFRRK8sVersion env) of
                  Inl _ \<Rightarrow> Panic
                | Inr validVersion \<Rightarrow> Ret (\<not> LessThan V version validVersion))))"
  by (induction vs) (auto simp: cno_version_def)

lemma DeployFRRK8s_run:
  "DeployFRRK8s K frr h =
     (case get_network K h ''cluster'' of
        Inl e \<Rightarrow> (Fail (Wrapped ''get openshift network failed'' e), h @ [GetNetwork ''cluster''])
      | Inr net \<Rightarrow>
          (let providers = (case Providers net of None \<Rightarrow> [] | Some ps \<Rightarrow> ps);
               net' = net\<lparr>Providers := Some (providers @ [frr])\<rparr>; h1 = h @ [GetNetwork ''cluster'']
           in if frr \<in> set providers then (Ret (), h1)
              else (case update_network K h1 net' of None \<Rightarrow> Ret () | Some e \<Rightarrow> Fail e,
                    h1 @ [UpdateNetwork net'])))"
  by (auto simp: DeployFRRK8s_def bindK_def io_simps Let_def split: sum.splits option.splits)

lemma SupportsFRRK8s_run:
  "SupportsFRRK8s K V env h =
     (case get_cluster_operator K h ''network'' of
        Inl e \<Rightarrow> Fail (Wrapped ''get openshift network operator failed'' e)
      | Inr vs \<Rightarrow> cnoSupportsFRRK8s V env vs, h @ [GetClusterOperator ''network''])"
  by (auto simp: SupportsFRRK8s_def bindK_def io_simps split: sum.splits)

section \<open>Properties\<close>

text \<open>
  Asking the network operator for frr-k8s: the call that succeeds leaves a network that had FRR
  among its routing providers as it is, and otherwise writes it back once, with all its providers kept
  in their order and FRR after them; so a second call on what was written changes nothing.
\<close>

theorem DeployFRRK8s_adds_provider:
  assumes "DeployFRRK8s K frr h = (Ret (), h')" and "get_network K h ''cluster'' = Inr net"
  shows "(if frr \<in> set (elems (Providers net)) then h' = h @ [GetNetwork ''cluster'']
          else h' = h @ [GetNetwork ''cluster'',
                         UpdateNetwork (net\<lparr>Providers := Some (elems (Providers net) @ [frr])\<rparr>)]) \<and>
         (get_network K2 h2 ''cluster'' = Inr (net\<lparr>Providers := Some (elems (Providers net) @ [frr])\<rparr>) \<longrightarrow>
            DeployFRRK8s K2 frr h2 = (Ret (), h2 @ [GetNetwork ''cluster'']))"
  using assms by (auto simp: DeployFRRK8s_run Let_def elems_def split: if_splits option.splits)

theorem DeployFRRK8s_adds_provider_witness:
  "DeployFRRK8s \<lparr>get_metallb = \<lambda>_ _ _. Inl (ErrNew []), get_daemonset = \<lambda>_ _ _. Inl (ErrNew []),
      get_deployment = \<lambda>_ _ _. Inl (ErrNew []), get_cluster_operator = \<lambda>_ _. Inr [],
      get_network = \<lambda>_ _. Inr \<lparr>Providers = Some [''OVN''], network_rest = GNil\<rparr>,
      update_network = \<lambda>_ _. None, update_status = \<lambda>_ _. None, delete_object = \<lambda>_ _. None,
      apply_object = \<lambda>_ _. None, clock = \<lambda>_. 0, list_pods = \<lambda>_ _ _. Inr [],
      delete_pod = \<lambda>_ _. None, create_or_update_config_map = \<lambda>_ _ _ _. None,
      IsNotFound = \<lambda>_. False\<rparr> ''FRR'' [] =
     (Ret (), [GetNetwork ''cluster'',
               UpdateNetwork \<lparr>Providers = Some [''OVN'', ''FRR''], network_rest = GNil\<rparr>])"
  (is "DeployFRRK8s ?K _ _ = _")
proof -
  let ?net = "\<lparr>Providers = Some [''OVN''], network_rest = GNil\<rparr>"
  obtain h' where run: "DeployFRRK8s ?K ''FRR'' [] = (Ret (), h')"
    by (simp add: DeployFRRK8s_run Let_def)
  then show ?thesis using DeployFRRK8s_adds_provider [OF run, of ?net] by simp
qed

text \<open>
  The check of the network operator's version compares the first version named operator with the
  configured minimum. It panics exactly when that version parses and the configured minimum does not;
  the empty minimum, which the validation of the environment lets through, is such a one wherever
  versions are not empty.
\<close>

theorem cnoSupportsFRRK8s_outcomes:
  "(cnoSupportsFRRK8s V env vs = Ret b) =
     (\<exists>v x m. find (\<lambda>v. VersionName v = ''operator'') vs = Some v \<and> NewVersion V (Version v) = Inr x \<and>
        NewVersion V (CNOMinFRRK8sVersion env) = Inr m \<and> b = (\<not> LessThan V x m)) \<and>
   (cnoSupportsFRRK8s V env vs = Panic) =
     (\<exists>v x e. find (\<lambda>v. VersionName v = ''operator'') vs = Some v \<and> NewVersion V (Version v) = Inr x \<and>
        NewVersion V (CNOMinFRRK8sVersion env) = Inl e)"
  unfolding cnoSupportsFRRK8s_find cno_version_def
  by (auto split: option.splits sum.splits)

text \<open>
  The platform: a cluster is taken for OpenShift exactly when detection went through without an
  error and the cluster serves the group route.openshift.io; the name is reported in the same cases
  in which the detection reports no error.
\<close>

theorem platform_detection:
  "IsOpenShift (fst (GetPlatformInfo D cfg)) =
     (snd (GetPlatformInfo D cfg) = None \<and>
      (\<exists>cl c groups. defaultArgs D None cfg = Inr (cl, c) \<and> ServerGroups D cl = Inr groups \<and>
         ''route.openshift.io'' \<in> set groups)) \<and>
   (GetPlatformName D cfg = Inr n) =
     (snd (GetPlatformInfo D cfg) = None \<and> n = PlatformName (fst (GetPlatformInfo D cfg)))"
  by (auto simp: GetPlatformName_def GetPlatformInfo_def getPlatformInfo_def IsOpenShift_def
      detect_openshift_name Let_def split: sum.splits)

text \<open>
  The TLS settings taken from the cluster: an empty cipher list gives the empty setting, any other
  one the comma separated IANA names, the curves are left to the default, and the profile that the
  watcher compares with is the one the settings were computed from.
\<close>

theorem FetchTLSConfig_correct:
  "(FetchTLSConfig L = Inr c) =
     (\<exists>cl. NewClient L = Inr cl \<and> FetchAPIServerTLSProfile L cl = Inr (profileSpec c) \<and>
        FetchAPIServerTLSAdherencePolicy L cl = Inr (adherence c) \<and>
        OCPCipherSuites c = (if Ciphers (profileSpec c) = [] then []
          else Join '','' (OpenSSLToIANACipherSuites L (Ciphers (profileSpec c)))) \<and>
        OCPCurvePreferences c = [] \<and> OCPMinVersion c = MinTLSVersion (profileSpec c))"
  by (cases c) (auto simp: FetchTLSConfig_def bindE_eq_Inr tlsStringsFromProfile_def)

end
