(* ===== verification/Controller.thy ===== *)
theory Controller
  imports Helm_Objects Operator_Status Openshift_Client
begin

text \<open>
  \<open>controllers/metallb_controller.go\<close>: the reconciler of the MetalLB resource. \<open>Reconcile\<close> reads the
  resource, \<open>syncMetalLBResources\<close> brings the cluster's objects in line with it, and the outcome is
  written to the resource's status.
\<close>

section \<open>The reconciler\<close>

text \<open>
  The fields of \<open>MetalLBReconciler\<close>, the libraries it calls, and the package variable
  \<open>ExternalFRRK8sNamespace\<close> of \<open>api/v1beta1\<close> that \<open>Validate\<close> reads. \<open>SetControllerReference\<close> returns
  the object with the owner set; the last two fields give the text of an error of a library, and that
  of the error it wraps, if any.
\<close>

record ('c, 'v) reconciler =
  Client :: kube
  HelmLib :: "'c helm_lib"
  ULib :: unstructured_lib
  VersionLib :: "'v version_lib"
  ProviderFRR :: string
  SetControllerReference :: "metallb \<Rightarrow> obj \<Rightarrow> go_error + obj"
  GroupVersionKindString :: "obj \<Rightarrow> string"
  ExternalFRRK8sNamespace :: string
  metalLBChart :: "'c helm_chart"
  frrk8sChart :: "'c helm_chart"
  EnvConfig :: env_config
  lib_error_text :: "string \<Rightarrow> string \<Rightarrow> string"
  lib_unwrap_text :: "string \<Rightarrow> string \<Rightarrow> string option"

definition defaultMetalLBCrName :: string where
  "defaultMetalLBCrName = ''metallb''"

section \<open>The text of an error\<close>

fun error_text :: "(string \<Rightarrow> string \<Rightarrow> string) \<Rightarrow> go_error \<Rightarrow> string" where
  "error_text lt (ErrNew s) = s"
| "error_text lt (ErrorfW s e) = s @ error_text lt e"
| "error_text lt (Wrapped s e) = s @ '': '' @ error_text lt e"
| "error_text lt (NotReady s) = s"
| "error_text lt EmbeddedFRRK8sSupportNotAvailable =
     ''current CNO version does not support deploying frr-k8s''"
| "error_text lt (LibError f x) = lt f x"

text \<open>
  \<open>errors.Unwrap(err).Error()\<close>, \<open>None\<close> where nothing is wrapped. An error made by \<open>errors.Wrapf\<close> is a
  stack around the message, so unwrapping it once gives the text with the message.
\<close>

fun unwrap_text :: "('c, 'v) reconciler \<Rightarrow> go_error \<Rightarrow> string option" where
  "unwrap_text R (Wrapped s e) = Some (error_text (lib_error_text R) (Wrapped s e))"
| "unwrap_text R (ErrorfW s e) = Some (error_text (lib_error_text R) e)"
| "unwrap_text R (LibError f x) = lib_unwrap_text R f x"
| "unwrap_text R e = None"

section \<open>Synchronising the cluster\<close>

definition validateBGPMode :: "metallb_spec \<Rightarrow> bool \<Rightarrow> go_error option" where
  "validateBGPMode spec isOpenshift =
     (if BGPBackend spec = FRRK8sExternalMode \<and> isOpenshift then None
      else if BGPBackend spec \<noteq> [] \<and> BGPBackend spec \<noteq> NativeMode \<and> BGPBackend spec \<noteq> FRRK8sMode \<and>
              BGPBackend spec \<noteq> FRRMode
      then Some (ErrNew (''unsupported bgp backend '' @ BGPBackend spec))
      else if isOpenshift \<and> BGPBackend spec = NativeMode
      then Some (ErrNew ''native mode is not supported on openshift'')
      else None)"

definition object_label :: "('c, 'v) reconciler \<Rightarrow> obj \<Rightarrow> string" where
  "object_label R x =
     ''('' @ GroupVersionKindString R x @ '') '' @ GetNamespace (ULib R) x @ ''/'' @ GetName (ULib R) x"

definition delete_step :: "('c, 'v) reconciler \<Rightarrow> obj \<Rightarrow> unit io" where
  "delete_step R x =
     bindK (asks (\<lambda>h. delete_object (Client R) h x) (DeleteObject x)) (\<lambda>err.
       case err of
         None \<Rightarrow> return ()
       | Some e \<Rightarrow>
           if \<not> IsNotFound (Client R) e
           then lift (Fail (Wrapped (''could not delete '' @ object_label R x) e))
           else return ())"

fun delete_loop :: "('c, 'v) reconciler \<Rightarrow> obj list \<Rightarrow> unit io" where
  "delete_loop R [] = return ()"
| "delete_loop R (x # xs) = bindK (delete_step R x) (\<lambda>_. delete_loop R xs)"

definition set_owner :: "('c, 'v) reconciler \<Rightarrow> metallb \<Rightarrow> obj \<Rightarrow> go_error + obj" where
  "set_owner R config x =
     (if GetNamespace (ULib R) x \<noteq> []
      then (case SetControllerReference R config x of
              Inl e \<Rightarrow> Inl (Wrapped (''Failed to set controller reference to '' @
                         GetNamespace (ULib R) x @ '' '' @ GetName (ULib R) x) e)
            | Inr y \<Rightarrow> Inr y)
      else Inr x)"

definition apply_step :: "('c, 'v) reconciler \<Rightarrow> metallb \<Rightarrow> obj \<Rightarrow> unit io" where
  "apply_step R config x =
     (if GetKind (ULib R) x = ''Role'' \<or> GetKind (ULib R) x = ''RoleBinding'' then return ()
      else
        bindK (lift (outcome_of (set_owner R config x))) (\<lambda>y.
        bindK (asks (\<lambda>h. apply_object (Client R) h y) (ApplyObject y))
          (check (Wrapped (''could not apply '' @ object_label R y)))))"

fun apply_loop :: "('c, 'v) reconciler \<Rightarrow> metallb \<Rightarrow> obj list \<Rightarrow> unit io" where
  "apply_loop R config [] = return ()"
| "apply_loop R config (x # xs) = bindK (apply_step R config x) (\<lambda>_. apply_loop R config xs)"

text \<open>The part on the cluster's network operator, before anything else.\<close>

definition embedded_frrk8s :: "('c, 'v) reconciler \<Rightarrow> metallb_spec \<Rightarrow> unit io" where
  "embedded_frrk8s R spec =
     (if MustDeployFRRK8sFromCNO (EnvConfig R) \<and> IsOpenshift (EnvConfig R) \<and>
         BGPType spec (EnvConfig R) = FRRK8sExternalMode
      then bindK (SupportsFRRK8s (Client R) (VersionLib R) (EnvConfig R)) (\<lambda>supportsFRRK8s.
             if \<not> supportsFRRK8s then lift (Fail EmbeddedFRRK8sSupportNotAvailable)
             else DeployFRRK8s (Client R) (ProviderFRR R))
      else return ())"

definition syncMetalLBResources :: "('c, 'v) reconciler \<Rightarrow> metallb \<Rightarrow> unit io" where
  "syncMetalLBResources R config =
     (let spec = Spec config; env = EnvConfig R; bgpType = BGPType spec env in
      bindK (embedded_frrk8s R spec) (\<lambda>_.
      case Validate (ExternalFRRK8sNamespace R) spec of
        Some _ \<Rightarrow> return ()
      | None \<Rightarrow>
          (case validateBGPMode spec (IsOpenshift env) of
             Some e \<Rightarrow> lift (Fail e)
           | None \<Rightarrow>
               bindK (lift (FRRK8SChart_Objects (HelmLib R) (ULib R) (frrk8sChart R) env spec)) (\<lambda>frrk8sObjs.
               let objs = (if bgpType = FRRK8sMode then frrk8sObjs else []);
                   toDel = (if bgpType = FRRK8sMode then [] else frrk8sObjs) in
               bindK (lift (MetalLBChart_Objects (HelmLib R) (ULib R) (metalLBChart R) env spec)) (\<lambda>mlbObjs.
               bindK (delete_loop R toDel) (\<lambda>_.
               apply_loop R config (objs @ mlbObjs)))))))"

section \<open>Reconciling\<close>

text \<open>A \<open>ctrl.Result\<close> by its \<open>RequeueAfter\<close> in seconds, 0 for no requeue.\<close>

type_synonym result = int

text \<open>The error of a computation as a value, as in \<open>err := f()\<close>; a panic is not one.\<close>

definition tryK :: "'a io \<Rightarrow> (go_error + 'a) io" where
  "tryK m = (\<lambda>h. case m h of
      (Ret x, h') \<Rightarrow> (Ret (Inr x), h')
    | (Fail e, h') \<Rightarrow> (Ret (Inl e), h')
    | (Panic, h') \<Rightarrow> (Panic, h')
    | (Hang, h') \<Rightarrow> (Hang, h'))"

definition reconcileResource ::
  "('c, 'v) reconciler \<Rightarrow> string \<Rightarrow> metallb \<Rightarrow> (result \<times> string \<times> go_error option) io" where
  "reconcileResource R reqNamespace m =
     bindK (tryK (syncMetalLBResources R m)) (\<lambda>r.
     case r of
       Inl e \<Rightarrow>
         if is_embedded_not_available e then return (120, [], None)
         else return (0, ConditionDegraded, Some (Wrapped ''FailedToSyncMetalLBResources'' e))
     | Inr _ \<Rightarrow>
         bindK (IsMetalLBAvailable (Client R) reqNamespace) (\<lambda>err.
         case err of
           None \<Rightarrow> return (0, ConditionAvailable, None)
         | Some e \<Rightarrow>
             (case e of
                NotReady _ \<Rightarrow> return (5, ConditionProgressing, None)
              | _ \<Rightarrow> return (0, ConditionProgressing, Some e))))"

definition Reconcile :: "('c, 'v) reconciler \<Rightarrow> string \<Rightarrow> string \<Rightarrow> result io" where
  "Reconcile R reqNamespace reqName =
     bindK (asks (\<lambda>h. get_metallb (Client R) h reqNamespace reqName) (GetMetalLB reqNamespace reqName)) (\<lambda>r.
     case r of
       Inl e \<Rightarrow> if IsNotFound (Client R) e then return 0 else lift (Fail e)
     | Inr m \<Rightarrow>
         if reqName \<noteq> defaultMetalLBCrName then
           bindK (tryK (Update (Client R) m ConditionDegraded ''IncorrectMetalLBResourceName''
                         (''Incorrect MetalLB resource name: '' @ reqName))) (\<lambda>_. return 0)
         else
           bindK (reconcileResource R reqNamespace m) (\<lambda>(result, condition, err).
           if condition \<noteq> [] then
             (let (errorMsg, wrappedErrMsg) =
                (case err of
                   None \<Rightarrow> (condition, [])
                 | Some e \<Rightarrow> (''internal error'', case unwrap_text R e of None \<Rightarrow> [] | Some t \<Rightarrow> t))
              in bindK (Update (Client R) m condition errorMsg wrappedErrMsg) (\<lambda>_. return result))
           else return result))"

section \<open>Setting up\<close>

definition MetalLBChartPathController :: string where
  "MetalLBChartPathController = ''./bindata/deployment/helm/metallb''"

definition FRRK8SChartPathController :: string where
  "FRRK8SChartPathController = ''./bindata/deployment/helm/frr-k8s''"

text \<open>
  \<open>SetupWithManager\<close>: the reconciler with its charts, if registering it went well. \<open>complete\<close> is the
  controller builder, given the kind it is for and the kinds it also watches.
\<close>

definition SetupWithManager ::
  "(string \<Rightarrow> string list \<Rightarrow> go_error option) \<Rightarrow> string \<Rightarrow> ('c, 'v) reconciler \<Rightarrow>
   go_error + ('c, 'v) reconciler" where
  "SetupWithManager complete namespace R =
     bindE (NewMetalLBChart (HelmLib R) MetalLBChartPathController defaultMetalLBCrName namespace) (\<lambda>mc.
     bindE (NewFRRK8SChart (HelmLib R) FRRK8SChartPathController ''frr-k8s'' namespace) (\<lambda>fc.
     case (if IsOpenshift (EnvConfig R) then complete ''MetalLB'' [''Network'']
           else complete ''MetalLB'' []) of
       Some e \<Rightarrow> Inl e
     | None \<Rightarrow> Inr (R\<lparr>metalLBChart := mc, frrk8sChart := fc\<rparr>)))"

end
