(* ===== verification/TLS_Options.thy ===== *)
theory TLS_Options
  imports Go_Strings "HOL-Library.Word"
begin

text \<open>
  The TLS options of the webhook server, \<open>pkg/tlsconfig/tlsopt.go\<close>: parsing of cipher suites, curve
  preferences and the minimum version, and the modifier of \<open>tls.Config\<close> that \<open>OptFor\<close> returns.
  Curve identifiers are kept at their widths: \<open>int32\<close> while they are checked, \<open>uint16\<close> as
  \<open>tls.CurveID\<close>. What \<open>k8s.io/component-base/cli/flag\<close> and the quoting verb of \<open>fmt\<close> do is a
  parameter.
\<close>

record tls_config =
  CipherSuites :: "16 word list option"
  CurvePreferences :: "16 word list option"
  MinVersion :: "16 word"
  NextProtos :: "string list"

record tls_lib =
  cliflag_TLSCipherSuites :: "string list \<Rightarrow> go_error + 16 word list option"
  cliflag_TLSVersion :: "string \<Rightarrow> go_error + 16 word"
  fmt_quote :: "string \<Rightarrow> string"

definition VersionTLS13 :: "16 word" where
  "VersionTLS13 = 0x0304"

section \<open>Curve preferences\<close>

text \<open>\<open>tls.CurveID.String\<close> of Go 1.25, the toolchain of \<open>go.mod\<close>.\<close>

definition CurveID_String :: "16 word \<Rightarrow> string" where
  "CurveID_String c =
     (if c = 23 then ''CurveP256'' else if c = 24 then ''CurveP384'' else if c = 25 then ''CurveP521''
      else if c = 29 then ''X25519'' else if c = 4588 then ''X25519MLKEM768''
      else ''CurveID('' @ Itoa (uint c) @ '')'')"

text \<open>
  The loop of \<open>tlsCurvePreferences\<close>: \<open>seen\<close> is its map, \<open>result\<close> the slice built so far.
\<close>

fun curve_loop ::
  "(32 word \<Rightarrow> bool) \<Rightarrow> 16 word list \<Rightarrow> 32 word list \<Rightarrow> go_error + 16 word list" where
  "curve_loop seen result [] = Inr result"
| "curve_loop seen result (cid # ids) =
     (if sint cid \<le> 0 \<or> sint cid > 65535
      then Inl (ErrNew (''curve preference '' @ Itoa (sint cid) @ '' is out of range (must be 1-65535)''))
      else if seen cid
      then Inl (ErrNew (''duplicate curve preference '' @ Itoa (sint cid)))
      else if HasPrefix (CurveID_String (ucast cid)) ''CurveID(''
      then Inl (ErrNew (''curve preference '' @ Itoa (sint cid) @
                        '' is not supported by the current Go version''))
      else curve_loop (seen(cid := True)) (result @ [ucast cid]) ids)"

definition tlsCurvePreferences :: "32 word list \<Rightarrow> go_error + 16 word list option" where
  "tlsCurvePreferences curveIDs =
     (if length curveIDs = 0 then Inr None
      else bindE (curve_loop (\<lambda>_. False) [] curveIDs) (\<lambda>r. Inr (Some r)))"

text \<open>The loop of \<open>parseCurvePreferences\<close> over the parts of the list.\<close>

fun parse_curve_parts :: "tls_lib \<Rightarrow> string list \<Rightarrow> go_error + 32 word list" where
  "parse_curve_parts L [] = Inr []"
| "parse_curve_parts L (p # ps) =
     (case ParseUint 16 (TrimSpace p) of
        None \<Rightarrow> Inl (ErrNew (''invalid curve preference '' @ fmt_quote L (TrimSpace p) @
                             '': must be a numeric CurveID (0-65535)''))
      | Some n \<Rightarrow> bindE (parse_curve_parts L ps) (\<lambda>ids. Inr (of_nat n # ids)))"

definition parseCurvePreferences :: "tls_lib \<Rightarrow> string \<Rightarrow> go_error + 16 word list option" where
  "parseCurvePreferences L curves =
     (if curves = [] then Inr None
      else bindE (parse_curve_parts L (Split (CHR '','') curves)) tlsCurvePreferences)"

section \<open>Cipher suites and version\<close>

definition parseCipherSuites :: "tls_lib \<Rightarrow> string \<Rightarrow> go_error + 16 word list option" where
  "parseCipherSuites L ciphers =
     (if ciphers = [] then Inr None
      else cliflag_TLSCipherSuites L (map TrimSpace (Split (CHR '','') ciphers)))"

definition parseTLSVersion :: "tls_lib \<Rightarrow> string \<Rightarrow> go_error + 16 word" where
  "parseTLSVersion L version =
     (if version = [] then Inr VersionTLS13 else cliflag_TLSVersion L version)"

text \<open>\<open>OptFor\<close> returns the function that modifies a configuration.\<close>

definition OptFor ::
  "tls_lib \<Rightarrow> string \<Rightarrow> string \<Rightarrow> string \<Rightarrow> go_error + (tls_config \<Rightarrow> tls_config)" where
  "OptFor L cipherSuites curvePreferences minVersion =
     (case parseCipherSuites L cipherSuites of
        Inl e \<Rightarrow> Inl (ErrorfW ''parsing tls-cipher-suites: '' e)
      | Inr ciphers \<Rightarrow>
     (case parseCurvePreferences L curvePreferences of
        Inl e \<Rightarrow> Inl (ErrorfW ''parsing tls-curve-preferences: '' e)
      | Inr curves \<Rightarrow>
     (case parseTLSVersion L minVersion of
        Inl e \<Rightarrow> Inl (ErrorfW ''parsing tls-min-version: '' e)
      | Inr minVer \<Rightarrow>
          Inr (\<lambda>cfg.
            (let cfg1 = (if ciphers \<noteq> None then cfg\<lparr>CipherSuites := ciphers\<rparr> else cfg);
                 cfg2 = (if curves \<noteq> None then cfg1\<lparr>CurvePreferences := curves\<rparr> else cfg1)
             in cfg2\<lparr>MinVersion := minVer\<rparr>)))))"

section \<open>Lemmas\<close>

definition supported_curves :: "nat set" where
  "supported_curves = {23, 24, 25, 29, 4588}"

definition supported_id :: "32 word \<Rightarrow> bool" where
  "supported_id cid \<longleftrightarrow>
     0 < sint cid \<and> sint cid \<le> 65535 \<and> \<not> HasPrefix (CurveID_String (ucast cid)) ''CurveID(''"

lemma CurveID_String_known:
  "HasPrefix (CurveID_String c) ''CurveID('' \<longleftrightarrow> c \<notin> {23, 24, 25, 29, 4588}"
  by (simp add: CurveID_String_def HasPrefix_def)

lemma curve_loop_Inr:
  "curve_loop seen acc ids = Inr cs \<longleftrightarrow>
     (\<forall>cid\<in>set ids. supported_id cid \<and> \<not> seen cid) \<and> distinct ids \<and> cs = acc @ map ucast ids"
proof (induction seen acc ids rule: curve_loop.induct)
  case (1 seen acc)
  show ?case by auto
next
  case (2 seen acc cid ids)
  have step: "curve_loop seen acc (cid # ids) =
      curve_loop (seen(cid := True)) (acc @ [ucast cid]) ids" if "supported_id cid \<and> \<not> seen cid"
    using that by (simp add: supported_id_def del: fun_upd_apply)
  have fail: "curve_loop seen acc (cid # ids) \<noteq> Inr cs" if "\<not> (supported_id cid \<and> \<not> seen cid)"
    using that by (auto simp: supported_id_def)
  have seen: "(\<forall>x\<in>set ids. supported_id x \<and> \<not> (seen(cid := True)) x) \<longleftrightarrow>
      (\<forall>x\<in>set ids. supported_id x \<and> \<not> seen x) \<and> cid \<notin> set ids" by auto
  show ?case
  proof (cases "supported_id cid \<and> \<not> seen cid")
    case True
    then have "\<not> (sint cid \<le> 0 \<or> 65535 < sint cid)" "\<not> seen cid"
      "\<not> HasPrefix (CurveID_String (ucast cid)) ''CurveID(''"
      by (auto simp: supported_id_def)
    from "2.IH" [OF this] step [OF True] seen
    have "curve_loop seen acc (cid # ids) = Inr cs \<longleftrightarrow>
        ((\<forall>x\<in>set ids. supported_id x \<and> \<not> seen x) \<and> cid \<notin> set ids) \<and> distinct ids \<and>
        cs = (acc @ [ucast cid]) @ map ucast ids" by (simp only:)
    with True show ?thesis by (auto simp del: curve_loop.simps)
  next
    case False
    then show ?thesis using fail by (auto simp del: curve_loop.simps)
  qed
qed

lemma tlsCurvePreferences_Inr:
  "tlsCurvePreferences ids = Inr (Some cs) \<longleftrightarrow>
     ids \<noteq> [] \<and> (\<forall>cid\<in>set ids. supported_id cid) \<and> distinct ids \<and> cs = map ucast ids"
  by (auto simp: tlsCurvePreferences_def result_simps curve_loop_Inr)

lemma tlsCurvePreferences_None: "tlsCurvePreferences ids = Inr None \<longleftrightarrow> ids = []"
  by (auto simp: tlsCurvePreferences_def result_simps)

lemma parse_curve_parts_Inr:
  "parse_curve_parts L ps = Inr ids \<longleftrightarrow>
     (\<exists>ns. list_all2 (\<lambda>p n. ParseUint 16 (TrimSpace p) = Some n) ps ns \<and> ids = map of_nat ns)"
proof (induction ps arbitrary: ids)
  case Nil
  show ?case by auto
next
  case (Cons p ps)
  show ?case
    by (auto simp: result_simps Cons.IH list_all2_Cons1 split: option.splits)
qed

lemma small_word:
  assumes "n < 65536"
  shows "sint (of_nat n :: 32 word) = int n" "ucast (of_nat n :: 32 word) = (of_nat n :: 16 word)"
    "unat (of_nat n :: 16 word) = n"
proof -
  have "unat (of_nat n :: 32 word) = n" using assms by (simp add: unat_of_nat)
  then show "ucast (of_nat n :: 32 word) = (of_nat n :: 16 word)"
    by (metis unsigned_of_nat of_nat_unat)
  show "sint (of_nat n :: 32 word) = int n"
    using assms by (simp add: signed_of_nat signed_take_bit_int_eq_self)
  show "unat (of_nat n :: 16 word) = n" using assms by (simp add: unat_of_nat)
qed

lemma supported_id_of_nat:
  assumes "n < 65536"
  shows "supported_id (of_nat n) \<longleftrightarrow> n \<in> supported_curves"
proof -
  have eq: "(of_nat n :: 16 word) = of_nat m \<longleftrightarrow> n = m" if "m < 65536" for m
    using small_word(3) [OF assms] small_word(3) [OF that] by metis
  show ?thesis
    using assms eq [of 23] eq [of 24] eq [of 25] eq [of 29] eq [of 4588]
    by (auto simp: supported_id_def CurveID_String_known small_word supported_curves_def)
qed

lemma parsed_ids:
  assumes "list_all2 (\<lambda>p n. ParseUint 16 (TrimSpace p) = Some n) ps ns"
  shows "\<forall>n\<in>set ns. n < 65536"
proof
  fix n assume "n \<in> set ns"
  then obtain i where "i < length ns" "ns ! i = n" by (auto simp: in_set_conv_nth)
  with assms have "ParseUint 16 (TrimSpace (ps ! i)) = Some n" by (auto simp: list_all2_conv_all_nth)
  from ParseUint_bound [OF this] show "n < 65536" by simp
qed

lemma check_ids:
  assumes "\<forall>n\<in>set ns. n < 65536"
  shows "tlsCurvePreferences (map of_nat ns) = Inr (Some cs) \<longleftrightarrow>
           ns \<noteq> [] \<and> distinct ns \<and> set ns \<subseteq> supported_curves \<and> cs = map of_nat ns"
proof -
  have "inj_on (of_nat :: nat \<Rightarrow> 32 word) (set ns)"
    using assms small_word(1) by (intro inj_onI) (metis of_nat_eq_iff)
  then have "distinct (map (of_nat :: nat \<Rightarrow> 32 word) ns) \<longleftrightarrow> distinct ns"
    by (simp add: distinct_map)
  moreover have "map (ucast :: 32 word \<Rightarrow> 16 word) (map of_nat ns) = map of_nat ns"
    unfolding map_map using assms small_word(2) by (intro map_cong) auto
  moreover have "(\<forall>cid\<in>set (map of_nat ns). supported_id cid) \<longleftrightarrow> set ns \<subseteq> supported_curves"
    using assms supported_id_of_nat by auto
  ultimately show ?thesis by (auto simp only: tlsCurvePreferences_Inr map_is_Nil_conv)
qed

lemma curve_list_accepted_iff:
  "(parseCurvePreferences L s = Inr (Some cs)) =
     (s \<noteq> [] \<and> (\<exists>ns. list_all2 (\<lambda>p n. ParseUint 16 (TrimSpace p) = Some n) (Split (CHR '','') s) ns \<and>
        distinct ns \<and> set ns \<subseteq> supported_curves \<and> cs = map of_nat ns))"
proof (cases "s = []")
  case True
  then show ?thesis by (simp add: parseCurvePreferences_def)
next
  case False
  have "(parseCurvePreferences L s = Inr (Some cs)) \<longleftrightarrow>
      (\<exists>ns. list_all2 (\<lambda>p n. ParseUint 16 (TrimSpace p) = Some n) (Split (CHR '','') s) ns \<and>
         tlsCurvePreferences (map of_nat ns) = Inr (Some cs))"
    using False by (auto simp: parseCurvePreferences_def result_simps parse_curve_parts_Inr)
  also have "\<dots> \<longleftrightarrow>
      (\<exists>ns. list_all2 (\<lambda>p n. ParseUint 16 (TrimSpace p) = Some n) (Split (CHR '','') s) ns \<and>
        distinct ns \<and> set ns \<subseteq> supported_curves \<and> cs = map of_nat ns)"
    using check_ids parsed_ids by (metis Split_not_Nil list_all2_Nil2)
  finally show ?thesis using False by simp
qed

lemma curve_list_absent_iff: "(parseCurvePreferences L s = Inr None) = (s = [])"
  by (auto simp: parseCurvePreferences_def tlsCurvePreferences_def result_simps parse_curve_parts_Inr
      split: if_splits sum.splits)

lemma in_range_of_nat:
  assumes "0 \<le> sint cid" and "sint cid \<le> 65535"
  obtains n where "n < 65536" and "(cid :: 32 word) = of_nat n"
proof -
  have "of_int (int (nat (sint cid))) = cid" using assms(1) by (simp only: nat_0_le of_int_sint scast_id)
  then have "cid = of_nat (nat (sint cid))" by (simp only: of_int_of_nat_eq)
  then show thesis using assms by (intro that [of "nat (sint cid)"]) auto
qed

text \<open>A list of identifiers that are in range is a list of 16 bit numbers, at both widths.\<close>

lemma ids_of_nat:
  assumes "\<forall>cid\<in>set ids. supported_id cid"
  obtains ns where "ids = map of_nat ns" and "\<forall>n\<in>set ns. n < 65536"
proof -
  let ?ns = "map (nat \<circ> sint) ids"
  have n: "nat (sint cid) < 65536 \<and> of_nat (nat (sint cid)) = cid" if "cid \<in> set ids" for cid
  proof -
    have "0 \<le> sint cid" "sint cid \<le> 65535" using that assms by (auto simp: supported_id_def)
    then obtain n where "n < 65536" "cid = of_nat n" by (rule in_range_of_nat)
    then show ?thesis by (simp add: small_word(1))
  qed
  have "map of_nat ?ns = ids" unfolding map_map using n by (intro map_idI) simp
  then show thesis using n by (intro that [of ?ns]) auto
qed

section \<open>Properties\<close>

text \<open>
  C21. Bounds: the conversion of curve identifiers from 32 signed bits to 16 bits never truncates. An
  accepted list keeps every value as it was, all are supported curves, none occurs twice, and there are
  between one and five; so an identifier that only becomes a supported one modulo \<open>2 ^ 16\<close> is refused.
\<close>

theorem tlsCurvePreferences_bounds:
  assumes "tlsCurvePreferences ids = Inr (Some cs)"
  shows "map uint cs = map sint ids \<and> set (map unat cs) \<subseteq> supported_curves \<and> distinct cs \<and>
         0 < length cs \<and> length cs \<le> 5"
proof -
  have "\<forall>cid\<in>set ids. supported_id cid" using assms by (simp add: tlsCurvePreferences_Inr)
  then obtain ns where ns: "ids = map of_nat ns" "\<forall>n\<in>set ns. n < 65536" by (rule ids_of_nat)
  with assms check_ids [OF ns(2)] have cs: "cs = map of_nat ns" "ns \<noteq> []" "distinct ns" "set ns \<subseteq> supported_curves"
    by auto
  have unat: "map unat cs = ns"
    unfolding cs(1) map_map using ns(2) small_word(3) by (intro map_idI) simp
  moreover have "map uint cs = map sint ids"
    unfolding cs(1) ns(1) map_map using ns(2) small_word(1,3)
    by (intro map_cong refl) (simp add: uint_nat del: of_nat_unat)
  moreover have "distinct cs" using unat cs(3) by (metis distinct_map)
  moreover have "length cs = length ns" "length ns = card (set ns)" using cs(1,3) by (simp_all add: distinct_card)
  moreover have "card (set ns) \<le> card supported_curves" using cs(4) by (intro card_mono) (simp_all add: supported_curves_def)
  moreover have "card supported_curves = 5" by (simp add: supported_curves_def)
  moreover have "0 < length ns" using cs(2) by simp
  ultimately show ?thesis using cs(4) by simp
qed

theorem tlsCurvePreferences_bounds_witness:
  "map uint [29, 4588 :: 16 word] = map sint [29, 4588 :: 32 word] \<and>
   tlsCurvePreferences [29, 4588] = Inr (Some [29, 4588]) \<and>
   tlsCurvePreferences [65536 + 23] \<noteq> Inr (Some [23])"
proof -
  have a: "tlsCurvePreferences [29, 4588] = Inr (Some [29, 4588])"
    by (simp add: tlsCurvePreferences_def HasPrefix_def CurveID_String_def)
  from tlsCurvePreferences_bounds [OF a] tlsCurvePreferences_bounds [of "[65536 + 23]" "[23]"] a
  show ?thesis by auto
qed

text \<open>
  C16. A non-empty list of curve preferences is accepted exactly when every part, trimmed, is a
  decimal number that fits 16 bits, no number occurs twice, and all are curves of the Go version;
  the result has the numbers in the order of the list. The absent list, which leaves the choice to
  Go, is the result of the empty string only.
\<close>

theorem parseCurvePreferences_accepts_iff:
  "(parseCurvePreferences L s = Inr (Some cs)) =
     (s \<noteq> [] \<and> (\<exists>ns. list_all2 (\<lambda>p n. ParseUint 16 (TrimSpace p) = Some n) (Split (CHR '','') s) ns \<and>
        distinct ns \<and> set ns \<subseteq> supported_curves \<and> cs = map of_nat ns)) \<and>
   (parseCurvePreferences L s = Inr None) = (s = [])"
  using curve_list_accepted_iff [of L s cs] curve_list_absent_iff [of L s] by simp

text \<open>
  C15. Round trip: any list of different supported curves, printed in decimal and joined by commas,
  is parsed back to itself.
\<close>

theorem parseCurvePreferences_roundtrip:
  assumes "ns \<noteq> []" and "distinct ns" and "set ns \<subseteq> supported_curves"
  shows "parseCurvePreferences L (Join '','' (map (\<lambda>n. Itoa (int n)) ns)) = Inr (Some (map of_nat ns))"
proof -
  let ?ws = "map (\<lambda>n. Itoa (int n)) ns"
  have digit: "\<forall>n. \<forall>c\<in>set (Itoa (int n)). is_digit c"
    by (auto intro: Itoa_nonneg_chars [OF of_nat_0_le_iff])
  then have split: "Split (CHR '','') (Join '','' ?ws) = ?ws"
    using assms(1) digit_not_sign by (intro Split_Join) auto
  have "ParseUint 16 (TrimSpace (Itoa (int n))) = Some n" if "n \<in> set ns" for n
  proof -
    have "n < 2 ^ 16" using that assms(3) by (auto simp: supported_curves_def)
    moreover have "TrimSpace (Itoa (int n)) = Itoa (int n)"
      using digit digit_plain by (intro TrimSpace_plain) blast
    ultimately show ?thesis by (simp add: ParseUint_Itoa)
  qed
  then have "list_all2 (\<lambda>p n. ParseUint 16 (TrimSpace p) = Some n) ?ws ns"
    by (simp add: list_all2_map1 list.rel_refl_strong)
  moreover have "Join '','' ?ws \<noteq> []"
  proof
    assume "Join '','' ?ws = []"
    with split have "?ws = [[]]" by simp
    then have "Itoa (int (hd ns)) = []" by (cases ns) auto
    then show False by (simp add: Itoa_def)
  qed
  ultimately show ?thesis
    using assms(2,3) split by (auto simp: curve_list_accepted_iff)
qed

theorem parseCurvePreferences_roundtrip_witness:
  "parseCurvePreferences \<lparr>cliflag_TLSCipherSuites = (\<lambda>_. Inr None), cliflag_TLSVersion = (\<lambda>_. Inr 0),
       fmt_quote = (\<lambda>s. s)\<rparr> ''29,23,4588'' = Inr (Some [29, 23, 4588])"
proof -
  have "Join '','' (map (\<lambda>n. Itoa (int n)) [29, 23, 4588]) = ''29,23,4588''"
    by (simp add: Itoa_def nat_digits.simps char_of_def bit_0)
  with parseCurvePreferences_roundtrip [of "[29, 23, 4588]"] show ?thesis
    by (simp add: supported_curves_def)
qed

text \<open>
  C39. The settings that the three strings parse to are those of the configuration that the modifier
  returns: the cipher suites and the curves where the string gives some, the minimum version always, which is
  TLS 1.3 when no version is given. It leaves cipher suites and curves alone when their string is empty, and
  the protocols in any case, and applying it twice is applying it once.
\<close>

theorem OptFor_modifier:
  assumes "OptFor L ciphers curves version = Inr f"
  shows "NextProtos (f cfg) = NextProtos cfg \<and> f (f cfg) = f cfg \<and>
         (ciphers = [] \<longrightarrow> CipherSuites (f cfg) = CipherSuites cfg) \<and>
         (curves = [] \<longrightarrow> CurvePreferences (f cfg) = CurvePreferences cfg) \<and>
         (version = [] \<longrightarrow> MinVersion (f cfg) = VersionTLS13) \<and>
         (\<exists>cs vs v. parseCipherSuites L ciphers = Inr cs \<and> parseCurvePreferences L curves = Inr vs \<and>
            parseTLSVersion L version = Inr v \<and>
            CipherSuites (f cfg) = (case cs of None \<Rightarrow> CipherSuites cfg | Some suites \<Rightarrow> Some suites) \<and>
            CurvePreferences (f cfg) = (case vs of None \<Rightarrow> CurvePreferences cfg | Some ids \<Rightarrow> Some ids) \<and>
            MinVersion (f cfg) = v)"
proof -
  obtain cs vs v where p: "parseCipherSuites L ciphers = Inr cs" "parseCurvePreferences L curves = Inr vs"
    "parseTLSVersion L version = Inr v"
    and f: "f = (\<lambda>cfg.
            (let cfg1 = (if cs \<noteq> None then cfg\<lparr>CipherSuites := cs\<rparr> else cfg);
                 cfg2 = (if vs \<noteq> None then cfg1\<lparr>CurvePreferences := vs\<rparr> else cfg1)
             in cfg2\<lparr>MinVersion := v\<rparr>))"
    using assms by (auto simp: OptFor_def split: sum.splits)
  have "ciphers = [] \<Longrightarrow> cs = None" "curves = [] \<Longrightarrow> vs = None" "version = [] \<Longrightarrow> v = VersionTLS13"
    using p by (auto simp: parseCipherSuites_def parseCurvePreferences_def parseTLSVersion_def)
  then show ?thesis by (auto simp: p f Let_def)
qed

theorem OptFor_modifier_witness:
  "\<exists>f. OptFor \<lparr>cliflag_TLSCipherSuites = (\<lambda>_. Inr (Some [4865])), cliflag_TLSVersion = (\<lambda>_. Inr 0),
          fmt_quote = (\<lambda>s. s)\<rparr> ''TLS_AES_128_GCM_SHA256'' [] [] = Inr f \<and>
       MinVersion (f \<lparr>CipherSuites = None, CurvePreferences = None, MinVersion = 0,
          NextProtos = [''h2'']\<rparr>) = VersionTLS13 \<and>
       CipherSuites (f \<lparr>CipherSuites = None, CurvePreferences = None, MinVersion = 0,
          NextProtos = [''h2'']\<rparr>) = Some [4865]"
proof -
  let ?L = "\<lparr>cliflag_TLSCipherSuites = (\<lambda>_. Inr (Some [4865])), cliflag_TLSVersion = (\<lambda>_. Inr 0), fmt_quote = (\<lambda>s. s)\<rparr>"
  let ?s = "''TLS_AES_128_GCM_SHA256''"
  have c: "parseCipherSuites ?L ?s = Inr (Some [4865])" by (simp add: parseCipherSuites_def)
  obtain f where f: "OptFor ?L ?s [] [] = Inr f"
    by (simp add: OptFor_def c parseCurvePreferences_def parseTLSVersion_def)
  from OptFor_modifier [OF f, of "\<lparr>CipherSuites = None, CurvePreferences = None, MinVersion = 0,
      NextProtos = [''h2'']\<rparr>"] f c show ?thesis by auto
qed

end
