(* ===== verification/Operator_Main.thy ===== *)
theory Operator_Main
  imports Controller TLS_Options
begin

text \<open>
  \<open>main.go\<close>: the start of the operator up to the point where its manager runs, with the TLS settings it
  decides on, hands to its own webhook server, and publishes for the MetalLB webhook server.

  The parsing of the command line, of which the model has the result, and the logging are left out.
  \<open>os.Exit(1)\<close> after an error is the outcome \<open>Fail\<close> with that error.
\<close>

section \<open>Helpers\<close>

definition tlsConfigMapName :: string where
  "tlsConfigMapName = ''metallb-tls-config''"

definition tls_config_map_data :: "env_config \<Rightarrow> string_map" where
  "tls_config_map_data env =
     [''TLS_CIPHER_SUITES'' \<mapsto> TLSCipherSuites env, ''TLS_MIN_VERSION'' \<mapsto> TLSMinVersion env,
      ''TLS_CURVE_PREFERENCES'' \<mapsto> TLSCurvePreferences env]"

text \<open>\<open>controllerutil.CreateOrUpdate\<close> with a function that sets the data.\<close>

definition syncTLSConfigMap :: "kube \<Rightarrow> env_config \<Rightarrow> unit io" where
  "syncTLSConfigMap K env =
     (let ns = EnvNamespace env; data = tls_config_map_data env in
      bindK (asks (\<lambda>h. create_or_update_config_map K h ns tlsConfigMapName data)
               (CreateOrUpdateConfigMap ns tlsConfigMapName data)) (check (\<lambda>e. e)))"

definition webhook_server_labels :: string_map where
  "webhook_server_labels = [''app'' \<mapsto> ''metallb'', ''component'' \<mapsto> ''webhook-server'']"

definition delete_pod_step :: "kube \<Rightarrow> pod \<Rightarrow> unit io" where
  "delete_pod_step K p = bindK (asks (\<lambda>h. delete_pod K h p) (DeletePod p)) (check (\<lambda>e. e))"

fun delete_pods :: "kube \<Rightarrow> pod list \<Rightarrow> unit io" where
  "delete_pods K [] = return ()"
| "delete_pods K (p # ps) = bindK (delete_pod_step K p) (\<lambda>_. delete_pods K ps)"

definition deleteWebhookServerPods :: "kube \<Rightarrow> string \<Rightarrow> unit io" where
  "deleteWebhookServerPods K namespace =
     bindK (gets (\<lambda>h. list_pods K h namespace webhook_server_labels)
              (ListPods namespace webhook_server_labels)) (delete_pods K)"

text \<open>\<open>webhook.Options\<close>: the functions in \<open>TLSOpts\<close> are applied to the server's configuration in order.\<close>

record webhook_options =
  TLSOpts :: "(tls_config \<Rightarrow> tls_config) list"
  Port :: int

definition disableHTTP2 :: "bool \<Rightarrow> tls_config \<Rightarrow> tls_config" where
  "disableHTTP2 withHTTP2 c = (if withHTTP2 then c else c\<lparr>NextProtos := [''http/1.1'']\<rparr>)"

definition webhookServer :: "int \<Rightarrow> bool \<Rightarrow> (tls_config \<Rightarrow> tls_config) \<Rightarrow> webhook_options" where
  "webhookServer port withHTTP2 tlsOpt = \<lparr>TLSOpts = [disableHTTP2 withHTTP2, tlsOpt], Port = port\<rparr>"

definition server_tls_config :: "webhook_options \<Rightarrow> tls_config \<Rightarrow> tls_config" where
  "server_tls_config opts cfg = foldl (\<lambda>c f. f c) cfg (TLSOpts opts)"

section \<open>The schemes\<close>

text \<open>
  \<open>init\<close>: every package adds its types to the operator's scheme, and \<open>utilruntime.Must\<close> panics on the
  first error. \<open>add\<close> is the error of a package's \<open>AddToScheme\<close>.
\<close>

definition scheme_packages :: "string list" where
  "scheme_packages =
     [''clientgoscheme'', ''metallbv1beta1'', ''corev1'', ''appsv1'', ''policyv1beta1'', ''rbacv1'', ''apiext'',
      ''openshiftapiv1'', ''openshiftconfigv1'']"

fun add_to_scheme :: "(string \<Rightarrow> go_error option) \<Rightarrow> string list \<Rightarrow> go_error option" where
  "add_to_scheme add [] = None"
| "add_to_scheme add (p # ps) = (case add p of None \<Rightarrow> add_to_scheme add ps | Some e \<Rightarrow> Some e)"

definition init_scheme :: "(string \<Rightarrow> go_error option) \<Rightarrow> unit outcome" where
  "init_scheme add = (case add_to_scheme add scheme_packages of None \<Rightarrow> Ret () | Some e \<Rightarrow> Panic)"

interpretation scheme_loop: first_error_loop add "add_to_scheme add" for add
  by unfold_locales simp_all

lemma init_scheme_Ret: "init_scheme add = Ret () \<longleftrightarrow> (\<forall>p\<in>set scheme_packages. add p = None)"
  by (auto simp: init_scheme_def scheme_loop.loop_None_iff [symmetric] split: option.splits)

lemma init_scheme_total: "init_scheme add = Ret () \<or> init_scheme add = Panic"
  by (simp add: init_scheme_def split: option.splits)

section \<open>The start\<close>

text \<open>The flags of the command line, and their values when they are not given.\<close>

record flags =
  MetricsAddr :: string
  EnableLeaderElection :: bool
  DisableCertRotation :: bool
  CertDir :: string
  CertServiceName :: string
  ReadyPort :: int
  WithWebhookHTTP2 :: bool
  ExternalWebhookServer :: bool

definition default_flags :: flags where
  "default_flags =
     \<lparr>MetricsAddr = ''0'', EnableLeaderElection = False, DisableCertRotation = False,
      CertDir = ''/tmp/k8s-webhook-server/serving-certs'', CertServiceName = ''metallb-operator-webhook-service'',
      ReadyPort = 8080, WithWebhookHTTP2 = False, ExternalWebhookServer = False\<rparr>"

text \<open>\<open>ctrl.Options\<close>; \<open>MetalLBSelector\<close> is the field selector of the cache for resources of this kind.\<close>

record manager_options =
  BindAddress :: string
  LeaderElection :: bool
  LeaderElectionID :: string
  MetalLBSelector :: string
  WebhookServer :: webhook_options

definition manager_options_for :: "flags \<Rightarrow> env_config \<Rightarrow> (tls_config \<Rightarrow> tls_config) \<Rightarrow> manager_options" where
  "manager_options_for fl env tlsOpt =
     \<lparr>BindAddress = MetricsAddr fl, LeaderElection = EnableLeaderElection fl,
      LeaderElectionID = ''metallb.io.metallboperator'',
      MetalLBSelector = ''metadata.namespace='' @ EnvNamespace env,
      WebhookServer = webhookServer 9443 (WithWebhookHTTP2 fl) tlsOpt\<rparr>"

text \<open>\<open>rotator.CertRotator\<close>; \<open>RotatedWebhooks\<close> are the names of the validating webhooks.\<close>

record cert_rotator =
  SecretNamespace :: string
  SecretName :: string
  RotatorCertDir :: string
  CAName :: string
  CAOrganization :: string
  DNSName :: string
  RotatedWebhooks :: "string list"

definition caName :: string where "caName = ''cert''"
definition caOrganization :: string where "caOrganization = ''metallb''"
definition webhookName :: string where "webhookName = ''metallb-operator-webhook-configuration''"
definition webhookSecretName :: string where "webhookSecretName = ''metallb-operator-webhook-server-cert''"

definition cert_rotator_for :: "flags \<Rightarrow> env_config \<Rightarrow> cert_rotator" where
  "cert_rotator_for fl env =
     \<lparr>SecretNamespace = EnvNamespace env, SecretName = webhookSecretName, RotatorCertDir = CertDir fl,
      CAName = caName, CAOrganization = caOrganization,
      DNSName = CertServiceName fl @ ''.'' @ EnvNamespace env @ ''.svc'', RotatedWebhooks = [webhookName]\<rparr>"

text \<open>
  What \<open>main\<close> calls: the platform and its configuration, the environment, the libraries of the packages
  it uses, and the errors of the parts of the controller runtime that it sets up.
\<close>

record ('c, 'v, 'g, 'd, 'cl, 'a) main_lib =
  MDiscovery :: "('g, 'd) discovery_lib"
  MConfig :: 'g
  MSemver :: "string \<Rightarrow> go_error option"
  MEnviron :: environment
  MTLSProfile :: "('cl, 'a) tls_profile_lib"
  MTLSLib :: tls_lib
  MNewClient :: "go_error option"
  MKube :: kube
  MMarshal :: "env_config \<Rightarrow> go_error option"
  MNewManager :: "manager_options \<Rightarrow> go_error option"
  MProfileWatcher :: "'a profile_watcher \<Rightarrow> go_error option"
  MReconciler :: "env_config \<Rightarrow> ('c, 'v) reconciler"
  MComplete :: "string \<Rightarrow> string list \<Rightarrow> go_error option"
  MAddRotator :: "cert_rotator \<Rightarrow> go_error option"
  MStart :: "go_error option"

text \<open>
  The environment's parameters with, on OpenShift, the TLS settings of the cluster in place of its own.
\<close>

definition with_cluster_tls :: "'a ocp_tls_config option \<Rightarrow> env_config \<Rightarrow> env_config" where
  "with_cluster_tls ocpTLS env =
     (case ocpTLS of
        None \<Rightarrow> env
      | Some t \<Rightarrow> env\<lparr>TLSCipherSuites := OCPCipherSuites t, TLSCurvePreferences := OCPCurvePreferences t,
                     TLSMinVersion := OCPMinVersion t\<rparr>)"

text \<open>The first part: what \<open>main\<close> works out before it talks to the API server.\<close>

definition startup_config ::
  "('c, 'v, 'g, 'd, 'cl, 'a) main_lib \<Rightarrow>
   go_error + env_config \<times> 'a ocp_tls_config option \<times> (tls_config \<Rightarrow> tls_config)" where
  "startup_config M =
     (case GetPlatformInfo (MDiscovery M) (Some (MConfig M)) of
        (info, Some e) \<Rightarrow> Inl e
      | (info, None) \<Rightarrow>
          bindE (FromEnvironment (MSemver M) (MEnviron M) (IsOpenShift info)) (\<lambda>env.
          bindE (if IsOpenShift info then bindE (FetchTLSConfig (MTLSProfile M)) (\<lambda>t. Inr (Some t))
                 else Inr None) (\<lambda>ocpTLS.
          let envParams = with_cluster_tls ocpTLS env in
          bindE (OptFor (MTLSLib M) (TLSCipherSuites envParams) (TLSCurvePreferences envParams)
                   (TLSMinVersion envParams)) (\<lambda>tlsOpt.
          Inr (envParams, ocpTLS, tlsOpt)))))"

text \<open>\<open>if err := ...; err != nil { os.Exit(1) }\<close>\<close>

definition must :: "go_error option \<Rightarrow> unit io" where
  "must e = check (\<lambda>x. x) e"

text \<open>The \<open>cancel\<close> function of the operator's context, on whether the context has been cancelled.\<close>

definition cancel :: "bool \<Rightarrow> bool" where
  "cancel cancelled = True"

text \<open>The certificate rotator, unless it is disabled.\<close>

definition setup_rotation ::
  "('c, 'v, 'g, 'd, 'cl, 'a) main_lib \<Rightarrow> flags \<Rightarrow> env_config \<Rightarrow> unit io" where
  "setup_rotation M fl env =
     (if \<not> DisableCertRotation fl then must (MAddRotator M (cert_rotator_for fl env)) else return ())"

text \<open>
  The whole start, less the goroutine that registers the webhook, which \<open>Operator_Process\<close> has. Its
  result is the reconciler that runs and the options of the webhook server.
\<close>

definition main ::
  "('c, 'v, 'g, 'd, 'cl, 'a) main_lib \<Rightarrow> flags \<Rightarrow> (('c, 'v) reconciler \<times> webhook_options) io" where
  "main M fl =
     bindK (lift (outcome_of (startup_config M))) (\<lambda>(env, ocpTLS, tlsOpt).
     bindK (must (MNewClient M)) (\<lambda>_.
     bindK (syncTLSConfigMap (MKube M) env) (\<lambda>_.
     bindK (if ExternalWebhookServer fl then deleteWebhookServerPods (MKube M) (EnvNamespace env)
            else return ()) (\<lambda>_.
     bindK (must (MMarshal M env)) (\<lambda>_.
     let options = manager_options_for fl env tlsOpt in
     bindK (must (MNewManager M options)) (\<lambda>_.
     bindK (case ocpTLS of None \<Rightarrow> return () | Some t \<Rightarrow> must (SetupProfileWatcher (MProfileWatcher M) t cancel)) (\<lambda>_.
     bindK (lift (outcome_of (SetupWithManager (MComplete M) (EnvNamespace env)
              ((MReconciler M env)\<lparr>EnvConfig := env\<rparr>)))) (\<lambda>R.
     bindK (setup_rotation M fl env) (\<lambda>_.
     bindK (must (MStart M)) (\<lambda>_.
     return (R, WebhookServer options)))))))))))"

section \<open>Facts\<close>

interpretation pod_deletes: effect_loop "delete_pod_step K" "delete_pods K" "\<lambda>p. [DeletePod p]" for K
  by unfold_locales (auto simp: delete_pod_step_def io_simps split: option.splits)

lemma pod_delete_calls: "concat (map (\<lambda>p. [DeletePod p]) ps) = map DeletePod ps"
  by (induction ps) simp_all

lemma OptFor_NextProtos: "OptFor L cs cp mv = Inr f \<Longrightarrow> NextProtos (f cfg) = NextProtos cfg"
  by (auto simp: OptFor_def Let_def split: sum.splits if_splits)

lemma startup_config_Inr:
  assumes "startup_config M = Inr (env, ocpTLS, tlsOpt)"
  shows "OptFor (MTLSLib M) (TLSCipherSuites env) (TLSCurvePreferences env) (TLSMinVersion env) = Inr tlsOpt"
    and "\<exists>env0. FromEnvironment (MSemver M) (MEnviron M) (ocpTLS \<noteq> None) = Inr env0 \<and>
           env = with_cluster_tls ocpTLS env0"
    and "ocpTLS = Some t \<Longrightarrow> FetchTLSConfig (MTLSProfile M) = Inr t"
    and "(ocpTLS \<noteq> None) = IsOpenShift (fst (GetPlatformInfo (MDiscovery M) (Some (MConfig M))))"
  using assms
  by (auto simp: startup_config_def bindE_eq_Inr Let_def split: prod.splits option.splits if_splits)

lemma with_cluster_tls_namespace [simp]: "EnvNamespace (with_cluster_tls t env) = EnvNamespace env"
  by (simp add: with_cluster_tls_def split: option.splits)

lemma delete_pods_Ret: "delete_pods K ps h = (Ret (), h') \<Longrightarrow> h' = h @ map DeletePod ps"
  using pod_deletes.loop_Ret [of K ps h h'] by (simp add: pod_delete_calls)

lemma deleteWebhookServerPods_Ret:
  assumes "deleteWebhookServerPods K ns h = (Ret (), h')"
  shows "\<exists>ps. list_pods K h ns webhook_server_labels = Inr ps \<and>
              h' = h @ ListPods ns webhook_server_labels # map DeletePod ps"
proof -
  from assms obtain ps where ps: "list_pods K h ns webhook_server_labels = Inr ps"
    "delete_pods K ps (h @ [ListPods ns webhook_server_labels]) = (Ret (), h')"
    by (auto simp: deleteWebhookServerPods_def bindK_Ret_iff io_simps outcome_of_eq)
  with delete_pods_Ret [OF ps(2)] show ?thesis by simp
qed

lemma syncTLSConfigMap_run:
  "syncTLSConfigMap K env h =
     (case create_or_update_config_map K h (EnvNamespace env) tlsConfigMapName (tls_config_map_data env) of
        None \<Rightarrow> Ret () | Some e \<Rightarrow> Fail e,
      h @ [CreateOrUpdateConfigMap (EnvNamespace env) tlsConfigMapName (tls_config_map_data env)])"
  by (auto simp: syncTLSConfigMap_def Let_def io_simps split: option.splits)

end
