(* ===== verification/Helm_Edits.thy ===== *)
theory Helm_Edits
  imports Helm_Objects
begin

text \<open>
  What the edits of \<open>pkg/helm\<close> do to an object, under the documented behaviour of the Kubernetes
  libraries: the part an edit writes, and that it leaves the object's kind, name and namespace alone.
  The second half states the contract of the workload converters, and gives converters that meet it.
\<close>

section \<open>Edits by path\<close>

definition annotations_path :: "string list" where
  "annotations_path = [''metadata'', ''annotations'']"

definition pod_annotations_path :: "string list" where
  "pod_annotations_path = [''spec'', ''template'', ''metadata'', ''annotations'']"

definition endpoints_path :: "string list" where
  "endpoints_path = [''spec'', ''endpoints'']"

definition skip_verify_path :: "string list" where
  "skip_verify_path = [''tlsConfig'', ''insecureSkipVerify'']"

lemmas edit_paths = annotations_path_def pod_annotations_path_def endpoints_path_def
  skip_verify_path_def security_context_path_def

lemma endpoints_path_not_Nil: "endpoints_path \<noteq> []"
  by (simp add: endpoints_path_def)

text \<open>What identifies an object for the API server.\<close>

definition identity :: "unstructured_lib \<Rightarrow> obj \<Rightarrow> string \<times> string \<times> string" where
  "identity U x = (GetKind U x, GetNamespace U x, GetName U x)"

text \<open>\<open>y\<close> is \<open>x\<close> with the string map at a path extended by \<open>extra\<close>.\<close>

definition merges_string_map :: "obj \<Rightarrow> string list \<Rightarrow> string_map \<Rightarrow> obj \<Rightarrow> bool" where
  "merges_string_map x p extra y \<longleftrightarrow>
     (\<exists>c. (nested x p = Some (string_map_val c) \<or> nested x p = None \<and> c = Map.empty) \<and>
          set_nested x (string_map_val (c ++ extra)) p = Some y)"

text \<open>\<open>y\<close> is \<open>x\<close> with every endpoint's \<open>insecureSkipVerify\<close> false.\<close>

definition secures_endpoints :: "obj \<Rightarrow> obj \<Rightarrow> bool" where
  "secures_endpoints x y \<longleftrightarrow>
     (\<exists>eps eps'. nested x endpoints_path = Some (GSlice eps) \<and>
        list_all2 (\<lambda>ep ep'. \<exists>m m'. ep = GMap m \<and> ep' = GMap m' \<and>
                     set_nested m (GBool False) skip_verify_path = Some m') eps eps' \<and>
        set_nested x (GSlice eps') endpoints_path = Some y)"

text \<open>Every endpoint of a service monitor verifies the certificate it is served.\<close>

definition monitor_secured :: "obj \<Rightarrow> bool" where
  "monitor_secured y \<longleftrightarrow>
     (\<exists>eps. nested y endpoints_path = Some (GSlice eps) \<and>
        (\<forall>ep \<in> set eps. \<exists>m. ep = GMap m \<and> nested m skip_verify_path = Some (GBool False)))"

lemma secures_endpoints_secured:
  assumes "secures_endpoints x y"
  shows "monitor_secured y"
proof -
  from assms obtain eps eps' where
    2: "list_all2 (\<lambda>ep ep'. \<exists>m m'. ep = GMap m \<and> ep' = GMap m' \<and>
          set_nested m (GBool False) skip_verify_path = Some m') eps eps'" and
    y: "set_nested x (GSlice eps') endpoints_path = Some y"
    unfolding secures_endpoints_def by blast
  have "\<exists>m. ep' = GMap m \<and> nested m skip_verify_path = Some (GBool False)" if e: "ep' \<in> set eps'" for ep'
  proof -
    obtain i where i: "i < length eps'" "ep' = eps' ! i" using e by (auto simp: in_set_conv_nth)
    then obtain m m' where "ep' = GMap m'" "set_nested m (GBool False) skip_verify_path = Some m'"
      using list_all2_nthD2 [OF 2 i(1)] by blast
    then show ?thesis using nested_set_nested by blast
  qed
  then show ?thesis using nested_set_nested [OF y] unfolding monitor_secured_def by blast
qed

lemma setter_Ret: "setter r = Ret y \<longleftrightarrow> r = (y, None)"
  by (cases r; cases "snd r") auto

lemma string_map_val_inject [simp]: "string_map_val m = string_map_val n \<longleftrightarrow> m = n"
  by (metis get_string_map_val_inverse)

context unstructured_laws
begin

lemma merge_string_map:
  assumes "p \<noteq> []"
  shows "(case NestedStringMap U x p of
            (current, found, err) \<Rightarrow>
              (case err of
                 Some e \<Rightarrow> Fail e
               | None \<Rightarrow> setter (SetNestedStringMap U x
                           ((case current of None \<Rightarrow> Map.empty | Some m \<Rightarrow> m) ++ extra) p))) = Ret y
         \<longleftrightarrow> merges_string_map x p extra y"
proof (cases "nested x p")
  case None
  then obtain e where e: "NestedStringMap U x p = (None, False, e)" "settable x p \<longrightarrow> e = None"
    using get_string_map_absent by blast
  show ?thesis
  proof (cases e)
    case (Some e')
    with e have "\<not> settable x p" by blast
    then have "set_nested x w p = None" for w using set_nested_Some_iff [of x w p] by auto
    with e Some None show ?thesis by (simp add: merges_string_map_def)
  next
    case None
    with e \<open>nested x p = None\<close> show ?thesis
      by (simp add: merges_string_map_def setter_Ret setter_iff [OF assms])
  qed
next
  case (Some w)
  show ?thesis
  proof (cases "\<exists>sm. w = string_map_val sm")
    case True
    with Some get_string_map show ?thesis
      by (auto simp: merges_string_map_def setter_Ret setter_iff [OF assms])
  next
    case False
    then show ?thesis
      using get_string_map_other [OF Some False] Some by (auto simp: merges_string_map_def)
  qed
qed

lemma updateAnnotations_Ret:
  "updateAnnotations U x extra = Ret y \<longleftrightarrow> merges_string_map x annotations_path extra y"
  unfolding merge_string_map [of annotations_path, symmetric, unfolded annotations_path_def, simplified]
    updateAnnotations_def annotations_path_def by (simp add: Let_def)

lemma setRequiredSCC_Ret:
  "setRequiredSCCAnnotationForSpeaker U x = Ret y \<longleftrightarrow>
     merges_string_map x pod_annotations_path [''openshift.io/required-scc'' \<mapsto> SpeakerSCCName] y"
  unfolding merge_string_map [of pod_annotations_path, symmetric, unfolded pod_annotations_path_def, simplified]
    setRequiredSCCAnnotationForSpeaker_def pod_annotations_path_def by (simp add: Let_def)

lemma secure_endpoint_Ret:
  "secure_endpoint U ep = Ret ep' \<longleftrightarrow>
     (\<exists>m m'. ep = GMap m \<and> ep' = GMap m' \<and> set_nested m (GBool False) skip_verify_path = Some m')"
  by (cases ep) (auto simp: secure_endpoint_def bindO_eq_Ret setter_Ret setter_iff skip_verify_path_def)

lemma setOcpMonitorFields_Ret:
  "setOcpMonitorFields U x = Ret y \<longleftrightarrow> secures_endpoints x y"
proof (cases "\<exists>vs. nested x endpoints_path = Some (GSlice vs)")
  case True
  then obtain vs where vs: "nested x endpoints_path = Some (GSlice vs)" by blast
  with get_slice have "NestedSlice U x endpoints_path = (vs, True, None)" by blast
  then show ?thesis
    unfolding setOcpMonitorFields_def secures_endpoints_def endpoints_path_def [symmetric]
    by (auto simp: vs bindO_eq_Ret mapO_eq_Ret secure_endpoint_Ret setter_Ret
        setter_iff [OF endpoints_path_not_Nil])
next
  case False
  with get_slice_absent obtain vs e where "NestedSlice U x endpoints_path = (vs, False, e)" by blast
  with False show ?thesis
    unfolding setOcpMonitorFields_def secures_endpoints_def endpoints_path_def [symmetric] by auto
qed

text \<open>No edit changes what object it is.\<close>

lemma identity_set_spec:
  assumes "set_nested x v (''spec'' # ks) = Some y"
  shows "identity U y = identity U x"
  using kind_set_nested [OF assms] name_set_nested [OF assms] by (simp add: identity_def)

lemma identity_set_annotations:
  assumes "set_nested x v annotations_path = Some y"
  shows "identity U y = identity U x"
proof -
  have s: "set_nested x v [''metadata'', ''annotations''] = Some y"
    using assms by (simp add: annotations_path_def)
  then show ?thesis
    using kind_set_nested [OF s] nested_set_nested_fork2 [OF s, of "''name''" "[]"]
      nested_set_nested_fork2 [OF s, of "''namespace''" "[]"]
    by (simp add: identity_def name namespace)
qed

lemma identity_merges:
  "merges_string_map x annotations_path e y \<Longrightarrow> identity U y = identity U x"
  "merges_string_map x pod_annotations_path e y \<Longrightarrow> identity U y = identity U x"
  unfolding merges_string_map_def pod_annotations_path_def
  using identity_set_annotations identity_set_spec by blast+

lemma identity_secures: "secures_endpoints x y \<Longrightarrow> identity U y = identity U x"
  unfolding secures_endpoints_def endpoints_path_def using identity_set_spec by blast

lemma identity_security_context:
  "SetNestedMap U x m security_context_path = (y, None) \<Longrightarrow> identity U y = identity U x"
  using setter_iff(2) [of security_context_path] identity_set_spec
  by (auto simp: security_context_path_def simp del: set_nested.simps)

lemma kind_name_identity:
  "identity U y = identity U x \<Longrightarrow>
     GetKind U y = GetKind U x \<and> GetName U y = GetName U x \<and> GetNamespace U y = GetNamespace U x"
  by (simp add: identity_def)

lemma metallb_openshift_edits_identity:
  "metallb_openshift_edits U ocp x = Ret y \<Longrightarrow> identity U y = identity U x"
  by (auto simp: metallb_openshift_edits_def bindO_eq_Ret setter_Ret setRequiredSCC_Ret
      setOcpMonitorFields_Ret split: if_splits
      dest!: identity_security_context identity_merges identity_secures)

lemma metallb_openshift_edits_monitor:
  assumes "metallb_openshift_edits U True x = Ret y" and "isServiceMonitor U x"
  shows "monitor_secured y"
  using assms
  by (auto simp: metallb_openshift_edits_def isServiceMonitor_def isControllerDeployment_def
      isSpeakerDaemonSet_def setOcpMonitorFields_Ret dest: secures_endpoints_secured)

lemma namespaced_identity:
  assumes "EnvNamespace env \<noteq> []" and "settable x [''metadata'', ''namespace'']"
  shows "GetKind U (namespaced U env x) = GetKind U x" and "GetName U (namespaced U env x) = GetName U x"
    and "GetKind U x \<noteq> ''PodSecurityPolicy'' \<Longrightarrow> GetNamespace U (namespaced U env x) = EnvNamespace env"
  using set_namespace_keeps [OF assms] by (simp_all add: namespaced_def)

end

section \<open>Converters\<close>

text \<open>
  The converter of \<open>k8s.io/apimachinery/pkg/runtime\<close> goes through the typed \<open>Deployment\<close> and
  \<open>DaemonSet\<close>, which hold an object's type and metadata: an object that is read, changed in its
  affinity and containers and written back is the same object for the API server.
\<close>

locale workload_laws = unstructured_laws +
  assumes deployment_identity:
    "ToDeployment U x = Inr d \<Longrightarrow>
       FromDeployment U (d\<lparr>DAffinity := a, DContainers := cs\<rparr>) = Inr y \<Longrightarrow>
       GetKind U y = GetKind U x \<and> GetNamespace U y = GetNamespace U x \<and> GetName U y = GetName U x"
    and daemonset_identity:
    "ToDaemonSet U x = Inr ds \<Longrightarrow>
       FromDaemonSet U (ds\<lparr>DSAffinity := a, DSContainers := cs\<rparr>) = Inr y \<Longrightarrow>
       GetKind U y = GetKind U x \<and> GetNamespace U y = GetNamespace U x \<and> GetName U y = GetName U x"
begin

lemma override_identity:
  "override_deployment U cname cfg x = Inr y \<Longrightarrow> identity U y = identity U x"
  "override_daemonset U cname cfg x = Inr y \<Longrightarrow> identity U y = identity U x"
  using deployment_identity daemonset_identity
  by (auto simp: override_deployment_Inr override_daemonset_Inr identity_def)

lemma metallb_object_identity:
  assumes "metallb_object U env spec x = Ret y"
  shows "identity U y = identity U (namespaced U env x)"
proof -
  let ?x = "namespaced U env x"
  from assms obtain slot1 r x' where
    1: "overrideControllerParameters U spec ?x = Inr slot1" and
    2: "overrideSpeakerParameters U spec (case slot1 of None \<Rightarrow> ?x | Some z \<Rightarrow> z) = Inr r" and
    3: "metallb_openshift_edits U (IsOpenshift env) ?x = Ret x'" and
    y: "y = (case (case r of None \<Rightarrow> slot1 | Some z \<Rightarrow> Some z) of None \<Rightarrow> x' | Some z \<Rightarrow> z)"
    by (auto simp: metallb_object_def Let_def bindO_eq_Ret outcome_of_eq)
  have s1: "identity U z = identity U ?x" if "slot1 = Some z" for z
    using 1 that override_identity(1)
    by (auto simp: overrideControllerParameters_def bindE_eq_Inr split: option.splits if_splits)
  have s2: "identity U z = identity U (case slot1 of None \<Rightarrow> ?x | Some z \<Rightarrow> z)" if "r = Some z" for z
    using 2 that override_identity(2)
    by (auto simp: overrideSpeakerParameters_def bindE_eq_Inr split: option.splits if_splits)
  show ?thesis
    using s1 s2 metallb_openshift_edits_identity [OF 3] y by (auto split: option.splits)
qed

lemma frrk8s_object_cases:
  assumes "frrk8s_object U env spec x = Ret r"
  shows "case r of
           None \<Rightarrow> IsOpenshift env \<and> isFRRK8SWebhookSecret U (namespaced U env x)
         | Some y \<Rightarrow> \<not> (IsOpenshift env \<and> isFRRK8SWebhookSecret U (namespaced U env x)) \<and>
             identity U y = identity U (namespaced U env x) \<and>
             (IsOpenshift env \<and> isServiceMonitor U (namespaced U env x) \<longrightarrow> monitor_secured y)"
proof -
  let ?x = "namespaced U env x"
  from assms obtain x1 where
    1: "(if isFRRK8SDaemonset U ?x \<and> SpeakerConfig spec \<noteq> None
         then overrideFRRK8SDaemonParameters U spec ?x else Ret ?x) = Ret x1"
    by (auto simp: frrk8s_object_def Let_def bindO_eq_Ret)
  then have i1: "identity U x1 = identity U ?x"
    by (auto simp: overrideFRRK8SDaemonParameters_def outcome_of_eq override_identity(2)
        split: if_splits option.splits)
  have secret: "isFRRK8SWebhookSecret U x1 = isFRRK8SWebhookSecret U ?x"
    using kind_name_identity [OF i1] by (simp add: isFRRK8SWebhookSecret_def)
  show ?thesis
  proof (cases "isFRRK8SWebhookSecret U x1 \<and> IsOpenshift env")
    case True
    with assms 1 secret show ?thesis by (simp add: frrk8s_object_def Let_def)
  next
    case False
    then have "(isFRRK8SWebhookSecret U x1 \<and> IsOpenshift env) = False" by simp
    with assms 1 obtain x2 x3 x4 x5 where
      2: "(if isFRRK8SValidatingWebhook U x1 \<and> IsOpenshift env
           then updateAnnotations U x1 [''service.beta.openshift.io/inject-cabundle'' \<mapsto> ''true'']
           else Ret x1) = Ret x2" and
      3: "(if isFRRK8SWebhookService U x2 \<and> IsOpenshift env
           then updateAnnotations U x2
             [''service.beta.openshift.io/serving-cert-secret-name'' \<mapsto> frrk8sWebhookSecretName]
           else Ret x2) = Ret x3" and
      4: "(if isFRRK8SWebhookDeployment U x3 \<and> IsOpenshift env
           then setter (SetNestedMap U x3 run_as_non_root security_context_path) else Ret x3) = Ret x4" and
      5: "(if isServiceMonitor U x4 \<and> IsOpenshift env then setOcpMonitorFields U x4 else Ret x4) = Ret x5"
      and r: "r = Some x5"
      unfolding frrk8s_object_def Let_def by (simp only: bindO.simps if_False bindO_eq_Ret outcome.inject) blast
    have i2: "identity U x2 = identity U x1"
      using 2 identity_merges(1) by (auto simp: updateAnnotations_Ret split: if_splits)
    have i3: "identity U x3 = identity U x2"
      using 3 identity_merges(1) by (auto simp: updateAnnotations_Ret split: if_splits)
    have "identity U x4 = identity U x3"
      using 4 identity_security_context by (auto simp: setter_Ret split: if_splits)
    with i1 i2 i3 have i4: "identity U x4 = identity U ?x" by simp
    have i5: "identity U x5 = identity U x4"
      using 5 identity_secures by (auto simp: setOcpMonitorFields_Ret split: if_splits)
    have "monitor_secured x5" if "isServiceMonitor U ?x" "IsOpenshift env"
      using 5 that kind_name_identity [OF i4]
      by (auto simp: isServiceMonitor_def setOcpMonitorFields_Ret dest: secures_endpoints_secured)
    with r i4 i5 False secret show ?thesis by auto
  qed
qed

lemma metallb_object_monitor:
  assumes "metallb_object U env spec x = Ret y" and "IsOpenshift env"
    and "isServiceMonitor U (namespaced U env x)"
  shows "monitor_secured y"
  using assms metallb_openshift_edits_monitor
  by (auto simp: metallb_object_def Let_def bindO_eq_Ret outcome_of_eq isServiceMonitor_def
      overrideControllerParameters_def overrideSpeakerParameters_def isControllerDeployment_def
      isSpeakerDaemonSet_def split: option.splits)

end

section \<open>Converters that meet the contract\<close>

text \<open>
  They read the containers of the pod template, keep the object they came from, and write the
  containers and the affinity back into it.
\<close>

definition containers_path :: "string list" where
  "containers_path = [''spec'', ''template'', ''spec'', ''containers'']"

definition affinity_path :: "string list" where
  "affinity_path = [''spec'', ''template'', ''spec'', ''affinity'']"

definition container_of :: "gval \<Rightarrow> container option" where
  "container_of v =
     (case v of
        GMap m \<Rightarrow>
          (case m ''name'' of
             Some (GStr n) \<Rightarrow>
               Some \<lparr>ContainerName = n,
                     ContainerResources = (case m ''resources'' of Some r \<Rightarrow> r | None \<Rightarrow> GMap Map.empty),
                     container_rest = v\<rparr>
           | _ \<Rightarrow> None)
      | _ \<Rightarrow> None)"

definition container_val :: "container \<Rightarrow> gval" where
  "container_val c =
     (case container_rest c of
        GMap m \<Rightarrow> GMap (m(''name'' \<mapsto> GStr (ContainerName c), ''resources'' \<mapsto> ContainerResources c))
      | v \<Rightarrow> v)"

definition scheduling_val :: "scheduling option \<Rightarrow> gval" where
  "scheduling_val so =
     (case so of
        None \<Rightarrow> GNil
      | Some sc \<Rightarrow> GMap
          [''preferred'' \<mapsto> GSlice (map (\<lambda>t. GMap [''weight'' \<mapsto> GInt (Weight t), ''term'' \<mapsto> term_rest t])
              (PreferredDuringSchedulingIgnoredDuringExecution sc)),
           ''required'' \<mapsto> scheduling_rest sc])"

definition affinity_val :: "affinity \<Rightarrow> gval" where
  "affinity_val a = GMap
     [''nodeAffinity'' \<mapsto> scheduling_val (NodeAffinity a),
      ''podAffinity'' \<mapsto> scheduling_val (PodAffinity a),
      ''podAntiAffinity'' \<mapsto> scheduling_val (PodAntiAffinity a)]"

definition pod_containers :: "obj \<Rightarrow> go_error + container list" where
  "pod_containers x =
     (case nested x containers_path of
        Some (GSlice vs) \<Rightarrow>
          (case those (map container_of vs) of
             Some cs \<Rightarrow> Inr cs
           | None \<Rightarrow> Inl (LibError ''runtime.FromUnstructured'' []))
      | _ \<Rightarrow> Inl (LibError ''runtime.FromUnstructured'' []))"

definition with_pod :: "gval \<Rightarrow> container list \<Rightarrow> affinity option \<Rightarrow> go_error + obj" where
  "with_pod v cs a =
     (case v of
        GMap x \<Rightarrow>
          (case set_nested x (GSlice (map container_val cs)) containers_path of
             None \<Rightarrow> Inl (LibError ''runtime.ToUnstructured'' [])
           | Some y \<Rightarrow>
               (case a of
                  None \<Rightarrow> Inr y
                | Some af \<Rightarrow>
                    (case set_nested y (affinity_val af) affinity_path of
                       None \<Rightarrow> Inl (LibError ''runtime.ToUnstructured'' [])
                     | Some z \<Rightarrow> Inr z)))
      | _ \<Rightarrow> Inl (LibError ''runtime.ToUnstructured'' []))"

definition workload_lib :: unstructured_lib where
  "workload_lib = reference_lib
     (\<lambda>x. bindE (pod_containers x) (\<lambda>cs. Inr
        \<lparr>DGeneration = 1, DObservedGeneration = 0, Replicas = None, ReadyReplicas = 0,
         UpdatedReplicas = 0, DAffinity = None, DContainers = cs, d_rest = GMap x\<rparr>))
     (\<lambda>d. with_pod (d_rest d) (DContainers d) (DAffinity d))
     (\<lambda>x. bindE (pod_containers x) (\<lambda>cs. Inr
        \<lparr>DSGeneration = 1, DSObservedGeneration = 0, DesiredNumberScheduled = 0,
         CurrentNumberScheduled = 0, NumberReady = 0, UpdatedNumberScheduled = 0, DSAffinity = None,
         DSContainers = cs, ds_rest = GMap x\<rparr>))
     (\<lambda>d. with_pod (ds_rest d) (DSContainers d) (DSAffinity d))"

lemma workload_lib_laws: "unstructured_laws workload_lib"
  unfolding workload_lib_def by (rule reference.unstructured_laws_axioms)

lemma with_pod_identity:
  assumes "with_pod (GMap x) cs a = Inr y"
  shows "identity workload_lib y = identity workload_lib x"
proof -
  from assms obtain z where z: "set_nested x (GSlice (map container_val cs)) containers_path = Some z"
    and y: "z = y \<or> (\<exists>af. set_nested z (affinity_val af) affinity_path = Some y)"
    by (auto simp: with_pod_def split: option.splits)
  note keep = unstructured_laws.identity_set_spec [OF workload_lib_laws]
  have "identity workload_lib z = identity workload_lib x"
    using z unfolding containers_path_def by (rule keep)
  moreover have "identity workload_lib y = identity workload_lib z"
    using y unfolding affinity_path_def by (blast dest: keep)
  ultimately show ?thesis by simp
qed

lemma workload_lib_converters [simp]:
  "ToDeployment workload_lib x = Inr d \<longleftrightarrow>
     (\<exists>cs. pod_containers x = Inr cs \<and> d =
        \<lparr>DGeneration = 1, DObservedGeneration = 0, Replicas = None, ReadyReplicas = 0,
         UpdatedReplicas = 0, DAffinity = None, DContainers = cs, d_rest = GMap x\<rparr>)"
  "FromDeployment workload_lib d = with_pod (d_rest d) (DContainers d) (DAffinity d)"
  "ToDaemonSet workload_lib x = Inr ds \<longleftrightarrow>
     (\<exists>cs. pod_containers x = Inr cs \<and> ds =
        \<lparr>DSGeneration = 1, DSObservedGeneration = 0, DesiredNumberScheduled = 0,
         CurrentNumberScheduled = 0, NumberReady = 0, UpdatedNumberScheduled = 0, DSAffinity = None,
         DSContainers = cs, ds_rest = GMap x\<rparr>)"
  "FromDaemonSet workload_lib ds = with_pod (ds_rest ds) (DSContainers ds) (DSAffinity ds)"
  by (auto simp: workload_lib_def reference_lib_def bindE_eq_Inr)

interpretation workloads: workload_laws workload_lib
proof (intro workload_laws.intro workload_laws_axioms.intro workload_lib_laws)
qed (auto dest!: with_pod_identity simp: identity_def)

end
