(* ===== verification/Helm_Contracts.thy ===== *)
theory Helm_Contracts
  imports Helm_Edits
begin

text \<open>
  The properties of the rendered objects: parsing a manifest, the overrides of affinity and resources,
  which objects the two charts return and how they are changed, on OpenShift and elsewhere.
\<close>

section \<open>Facts on the charts\<close>

lemma metallb_object_fresh:
  assumes "overrideControllerParameters U spec (namespaced U env x) = Inr slot1"
    and "overrideSpeakerParameters U spec
           (case slot1 of None \<Rightarrow> namespaced U env x | Some z \<Rightarrow> z) = Inr r"
    and "metallb_openshift_edits U (IsOpenshift env) (namespaced U env x) = Ret x'"
  shows "metallb_object U env spec x =
           Ret (case r of Some z \<Rightarrow> z | None \<Rightarrow> (case slot1 of Some z \<Rightarrow> z | None \<Rightarrow> x'))"
  using assms by (cases r; cases slot1) (simp_all add: metallb_object_def Let_def)

lemma metallb_object_RetE:
  assumes "metallb_object U env spec x = Ret y"
  obtains slot1 r x' where
    "overrideControllerParameters U spec (namespaced U env x) = Inr slot1" and
    "overrideSpeakerParameters U spec
       (case slot1 of None \<Rightarrow> namespaced U env x | Some z \<Rightarrow> z) = Inr r" and
    "metallb_openshift_edits U (IsOpenshift env) (namespaced U env x) = Ret x'" and
    "y = (case r of Some z \<Rightarrow> z | None \<Rightarrow> (case slot1 of Some z \<Rightarrow> z | None \<Rightarrow> x'))"
proof -
  from assms obtain slot1 r x' where *:
    "overrideControllerParameters U spec (namespaced U env x) = Inr slot1"
    "overrideSpeakerParameters U spec
       (case slot1 of None \<Rightarrow> namespaced U env x | Some z \<Rightarrow> z) = Inr r"
    "metallb_openshift_edits U (IsOpenshift env) (namespaced U env x) = Ret x'"
    by (auto simp: metallb_object_def Let_def bindO_eq_Ret outcome_of_eq)
  have "y = (case r of Some z \<Rightarrow> z | None \<Rightarrow> (case slot1 of Some z \<Rightarrow> z | None \<Rightarrow> x'))"
    using metallb_object_fresh [OF *] assms by simp
  with * that show thesis by blast
qed

lemma overrideControllerParameters_Some:
  "overrideControllerParameters U spec x = Inr (Some y) \<longleftrightarrow>
     (\<exists>cfg. ControllerConfig spec = Some cfg \<and> isControllerDeployment U x \<and>
            override_deployment U ''controller'' cfg x = Inr y)"
  by (auto simp: overrideControllerParameters_def bindE_eq_Inr split: option.splits)

lemma overrideControllerParameters_None:
  "overrideControllerParameters U spec x = Inr None \<longleftrightarrow>
     ControllerConfig spec = None \<or> \<not> isControllerDeployment U x"
  by (auto simp: overrideControllerParameters_def bindE_eq_Inr split: option.splits)

lemma overrideSpeakerParameters_Some:
  "overrideSpeakerParameters U spec x = Inr (Some y) \<longleftrightarrow>
     (\<exists>cfg. SpeakerConfig spec = Some cfg \<and> isSpeakerDaemonSet U x \<and>
            override_daemonset U ''speaker'' cfg x = Inr y)"
  by (auto simp: overrideSpeakerParameters_def bindE_eq_Inr split: option.splits)

lemma overrideSpeakerParameters_None:
  "overrideSpeakerParameters U spec x = Inr None \<longleftrightarrow>
     SpeakerConfig spec = None \<or> \<not> isSpeakerDaemonSet U x"
  by (auto simp: overrideSpeakerParameters_def bindE_eq_Inr split: option.splits)

lemmas override_cases = overrideControllerParameters_Some overrideControllerParameters_None
  overrideSpeakerParameters_Some overrideSpeakerParameters_None

lemma no_openshift_edits: "metallb_openshift_edits U False x = Ret x"
  by (simp add: metallb_openshift_edits_def)

lemma namespaced_openshift [simp]: "namespaced U (env\<lparr>IsOpenshift := b\<rparr>) x = namespaced U env x"
  by (simp add: namespaced_def)

text \<open>The loop of \<open>FRRK8SChart.Objects\<close>.\<close>

lemma frrk8s_objects_Ret:
  "frrk8s_objects U env spec res xs = Ret ys \<longleftrightarrow>
     (\<exists>rs. list_all2 (\<lambda>x r. frrk8s_object U env spec x = Ret r) xs rs \<and>
           ys = res @ List.map_filter (\<lambda>r. r) rs)"
proof (induction xs arbitrary: res)
  case Nil
  show ?case by (auto simp: List.map_filter_def)
next
  case (Cons x xs)
  have "frrk8s_objects U env spec res (x # xs) = Ret ys \<longleftrightarrow>
      (\<exists>r rs. frrk8s_object U env spec x = Ret r \<and>
         list_all2 (\<lambda>x r. frrk8s_object U env spec x = Ret r) xs rs \<and>
         ys = (case r of None \<Rightarrow> res | Some y \<Rightarrow> res @ [y]) @ List.map_filter (\<lambda>r. r) rs)"
    by (auto simp: bindO_eq_Ret Cons.IH)
  also have "\<dots> \<longleftrightarrow> (\<exists>rs. list_all2 (\<lambda>x r. frrk8s_object U env spec x = Ret r) (x # xs) rs \<and>
      ys = res @ List.map_filter (\<lambda>r. r) rs)"
    by (fastforce simp: list_all2_Cons1 List.map_filter_def split: option.splits)
  finally show ?case .
qed

lemma frrk8s_kept:
  assumes "workload_laws U" and "list_all2 (\<lambda>x r. frrk8s_object U env spec x = Ret r) docs rs"
  shows "map (identity U) (List.map_filter (\<lambda>r. r) rs) = map (\<lambda>x. identity U (namespaced U env x))
           (filter (\<lambda>x. \<not> (IsOpenshift env \<and> isFRRK8SWebhookSecret U (namespaced U env x))) docs) \<and>
         (IsOpenshift env \<longrightarrow>
           (\<forall>y\<in>set (List.map_filter (\<lambda>r. r) rs). GetKind U y = ''ServiceMonitor'' \<longrightarrow> monitor_secured y))"
  using assms(2)
proof induction
  case Nil
  show ?case by (simp add: List.map_filter_def)
next
  case (Cons x xs r rs)
  note turn = workload_laws.frrk8s_object_cases [OF assms(1) Cons.hyps(1)]
  show ?case
  proof (cases r)
    case None
    with turn Cons.IH show ?thesis by (simp add: List.map_filter_simps)
  next
    case (Some y)
    with turn have id: "identity U y = identity U (namespaced U env x)" by simp
    have "GetKind U y = GetKind U (namespaced U env x)"
      using unstructured_laws.kind_name_identity [OF workload_laws.axioms(1) [OF assms(1)] id] by simp
    with Some turn Cons.IH show ?thesis
      by (auto simp: List.map_filter_simps isServiceMonitor_def)
  qed
qed

lemma controller_security_context:
  assumes laws: "unstructured_laws U" and ocp: "IsOpenshift env"
    and c: "isControllerDeployment U (namespaced U env x)" "ControllerConfig spec = None"
    and ret: "metallb_object U env spec x = Ret y"
  shows "nested y security_context_path = Some (GMap run_as_non_root)"
proof -
  let ?x = "namespaced U env x"
  obtain slot1 r x' where
    1: "overrideControllerParameters U spec ?x = Inr slot1" and
    2: "overrideSpeakerParameters U spec (case slot1 of None \<Rightarrow> ?x | Some z \<Rightarrow> z) = Inr r" and
    3: "metallb_openshift_edits U (IsOpenshift env) ?x = Ret x'" and
    y: "y = (case r of Some z \<Rightarrow> z | None \<Rightarrow> (case slot1 of Some z \<Rightarrow> z | None \<Rightarrow> x'))"
    using ret by (rule metallb_object_RetE)
  have slot1: "slot1 = None" using 1 c(2) by (simp add: overrideControllerParameters_def)
  have r: "r = None"
    using 2 c(1) slot1
    by (auto simp: overrideSpeakerParameters_def isControllerDeployment_def isSpeakerDaemonSet_def
        split: option.splits)
  obtain x1 where x1: "SetNestedMap U ?x run_as_non_root security_context_path = (x1, None)"
    and rest: "isSpeakerDaemonSet U x1 \<or> isServiceMonitor U x1 \<or> x' = x1"
    using 3 c(1) ocp
    by (auto simp: metallb_openshift_edits_def bindO_eq_Ret setter_Ret split: if_splits)
  have "GetKind U x1 = ''Deployment''"
    using unstructured_laws.kind_name_identity
        [OF laws unstructured_laws.identity_security_context [OF laws x1]] c(1)
    by (simp add: isControllerDeployment_def)
  then have "x' = x1" using rest by (simp add: isSpeakerDaemonSet_def isServiceMonitor_def)
  moreover have "set_nested ?x (GMap run_as_non_root) security_context_path = Some x1"
    using x1 unstructured_laws.setter_iff(2) [OF laws, of security_context_path]
    by (simp add: security_context_path_def del: set_nested.simps)
  ultimately show ?thesis using y slot1 r nested_set_nested by auto
qed

lemma speaker_required_scc:
  assumes laws: "unstructured_laws U" and ocp: "IsOpenshift env"
    and c: "isSpeakerDaemonSet U (namespaced U env x)" "SpeakerConfig spec = None"
    and ret: "metallb_object U env spec x = Ret y"
  shows "\<exists>a. nested y pod_annotations_path = Some (string_map_val a) \<and>
             a ''openshift.io/required-scc'' = Some SpeakerSCCName"
proof -
  let ?x = "namespaced U env x"
  obtain slot1 r x' where
    1: "overrideControllerParameters U spec ?x = Inr slot1" and
    2: "overrideSpeakerParameters U spec (case slot1 of None \<Rightarrow> ?x | Some z \<Rightarrow> z) = Inr r" and
    3: "metallb_openshift_edits U (IsOpenshift env) ?x = Ret x'" and
    y: "y = (case r of Some z \<Rightarrow> z | None \<Rightarrow> (case slot1 of Some z \<Rightarrow> z | None \<Rightarrow> x'))"
    using ret by (rule metallb_object_RetE)
  have slot1: "slot1 = None"
    using 1 c(1)
    by (auto simp: overrideControllerParameters_def isControllerDeployment_def isSpeakerDaemonSet_def
        split: option.splits)
  have r: "r = None" using 2 c(2) by (simp add: overrideSpeakerParameters_def)
  obtain x2 where x2: "setRequiredSCCAnnotationForSpeaker U ?x = Ret x2"
    and rest: "isServiceMonitor U x2 \<or> x' = x2"
    using 3 c(1) ocp
    by (auto simp: metallb_openshift_edits_def isControllerDeployment_def isSpeakerDaemonSet_def
        bindO_eq_Ret split: if_splits)
  note m = x2 [unfolded unstructured_laws.setRequiredSCC_Ret [OF laws]]
  have "GetKind U x2 = ''DaemonSet''"
    using unstructured_laws.kind_name_identity
        [OF laws unstructured_laws.identity_merges(2) [OF laws m]] c(1)
    by (simp add: isSpeakerDaemonSet_def)
  then have "x' = x2" using rest by (simp add: isServiceMonitor_def)
  moreover obtain a where "set_nested ?x
      (string_map_val (a ++ [''openshift.io/required-scc'' \<mapsto> SpeakerSCCName])) pod_annotations_path =
      Some x2" using m unfolding merges_string_map_def by blast
  ultimately show ?thesis using y slot1 r nested_set_nested by fastforce
qed

section \<open>Parsing\<close>

text \<open>
  C24. Parsing a rendered manifest: a blank one has no objects; otherwise the result is the documents
  that the decoder delivers before it reports the end of the input, all of them and in order. The loop
  runs forever exactly when the decoder never reports an end or an error, and it never panics.
\<close>

theorem parseManifest_correct:
  "(parseManifest D m = Ret us) =
     (if TrimSpace m = [] then us = []
      else (\<forall>n<length us. D m n = Decoded (us ! n)) \<and> D m (length us) = DecodeEOF) \<and>
   (parseManifest D m = Hang) = (TrimSpace m \<noteq> [] \<and> (\<forall>n. \<exists>u. D m n = Decoded u)) \<and>
   parseManifest D m \<noteq> Panic"
  using parseManifest_Ret_iff [of D m us] decode_loop_None_iff [of "D m"]
  by (auto simp: parseManifest_def split: option.splits sum.splits)

theorem parseManifest_correct_witness:
  "parseManifest (\<lambda>_ n. if n < 2 then Decoded Map.empty else DecodeEOF) ''---'' =
     Ret [Map.empty, Map.empty]"
proof -
  have "TrimSpace ''---'' \<noteq> []" by code_simp
  then show ?thesis
    by (subst parseManifest_correct [THEN conjunct1]) (auto simp: nth_Cons split: nat.splits)
qed

section \<open>Examples\<close>

text \<open>A workload as the charts render it, with one container, and a configuration of resources.\<close>

definition example_workload :: "string \<Rightarrow> string \<Rightarrow> obj" where
  "example_workload k n =
     [''kind'' \<mapsto> GStr k, ''metadata'' \<mapsto> GMap [''name'' \<mapsto> GStr n],
      ''spec'' \<mapsto> GMap [''template'' \<mapsto> GMap [''spec'' \<mapsto> GMap
        [''containers'' \<mapsto> GSlice [GMap [''name'' \<mapsto> GStr n]]]]]]"

definition example_resources :: config where
  "example_resources =
     \<lparr>PriorityClassName = [], RuntimeClassName = [], Affinity = None, Annotations = None,
      Resources = Some (GMap [''cpu'' \<mapsto> GStr ''100m''])\<rparr>"

lemmas example_defs = example_workload_def example_resources_def example_config_def zero_spec_def

lemma workload_lib_names [simp]:
  "GetKind workload_lib x = get_str x [''kind'']"
  "GetName workload_lib x = get_str x [''metadata'', ''name'']"
  "GetNamespace workload_lib x = get_str x [''metadata'', ''namespace'']"
  "SetNamespace workload_lib x ns = fst (set_or_error x (GStr ns) [''metadata'', ''namespace''])"
  by (simp_all add: workload_lib_def reference_lib_def)

lemma example_speaker:
  "namespaced workload_lib (example_config True) (example_workload k n) =
     (if k = ''PodSecurityPolicy'' then example_workload k n
      else (example_workload k n)(''metadata'' \<mapsto>
             GMap [''name'' \<mapsto> GStr n, ''namespace'' \<mapsto> GStr ''metallb-system'']))"
  by (simp add: namespaced_def get_str_def set_or_error_def example_workload_def example_config_def)

text \<open>Helm that renders the given documents, whatever the values.\<close>

definition example_helm :: "obj list \<Rightarrow> unit helm_lib" where
  "example_helm docs =
     \<lparr>LocateChart = (\<lambda>_ p. Inr p), LoadChart = (\<lambda>_. Inr ()), MergeValues = Inr Map.empty,
      RunInstall = (\<lambda>_ _ _. Inr ''---''),
      DecodeManifest = (\<lambda>_ n. if n < length docs then Decoded (docs ! n) else DecodeEOF)\<rparr>"

definition example_chart :: "unit helm_chart" where
  "example_chart =
     \<lparr>ChartClient = \<lparr>ReleaseName = ''metallb'', DryRun = True, ClientOnly = True,
                     InstallNamespace = ''metallb-system''\<rparr>, ChartContent = ()\<rparr>"

lemma example_helm_parse: "parseManifest (DecodeManifest (example_helm docs)) ''---'' = Ret docs"
proof -
  have "TrimSpace ''---'' \<noteq> []" by code_simp
  then show ?thesis by (simp add: parseManifest_Ret_iff example_helm_def)
qed

lemma workload_lib_workload_laws: "workload_laws workload_lib"
  by (rule workloads.workload_laws_axioms)

lemma workload_lib_setters:
  "SetNestedMap workload_lib x m p = set_or_error x (GMap m) p"
  "SetNestedStringMap workload_lib x sm p = set_or_error x (string_map_val sm) p"
  "SetNestedSlice workload_lib x vs p = set_or_error x (GSlice vs) p"
  "nested x p = None \<Longrightarrow> settable x p \<Longrightarrow> NestedStringMap workload_lib x p = (None, False, None)"
  by (simp_all add: workload_lib_def reference_lib_def)

lemma example_config_simps [simp]:
  "IsOpenshift (example_config b) = b" "EnvNamespace (example_config b) = ''metallb-system''"
  by (simp_all add: example_config_def)

lemmas example_run = namespaced_def example_workload_def zero_spec_def Let_def get_str_def
  set_or_error_def workload_lib_setters metallb_object_def metallb_openshift_edits_def
  isControllerDeployment_def isSpeakerDaemonSet_def isServiceMonitor_def run_as_non_root_def
  security_context_path_def setRequiredSCCAnnotationForSpeaker_def overrideControllerParameters_def
  overrideSpeakerParameters_def

lemma example_converted:
  "\<exists>y. override_daemonset workload_lib ''speaker'' example_resources
         ((example_workload k n)(''metadata'' \<mapsto> m)) = Inr y"
  by (simp add: override_daemonset_Inr example_workload_def pod_containers_def containers_path_def
      container_of_def with_pod_def example_resources_def)

lemma example_speaker_with_config:
  "\<exists>y. metallb_object workload_lib (example_config True)
         (zero_spec\<lparr>SpeakerConfig := Some example_resources\<rparr>) (example_workload ''DaemonSet'' ''speaker'') = Ret y"
proof -
  obtain y where "override_daemonset workload_lib ''speaker'' example_resources
      ((example_workload ''DaemonSet'' ''speaker'')(''metadata'' \<mapsto>
         GMap [''name'' \<mapsto> GStr ''speaker'', ''namespace'' \<mapsto> GStr ''metallb-system''])) = Inr y"
    using example_converted by blast
  then show ?thesis by (simp add: example_run)
qed

lemma example_speaker_without_config:
  "\<exists>y. metallb_object workload_lib (example_config True) zero_spec
         (example_workload ''DaemonSet'' ''speaker'') = Ret y"
  by (simp add: example_run)

lemma example_controller_without_config:
  "\<exists>y. metallb_object workload_lib (example_config True) zero_spec
         (example_workload ''Deployment'' ''controller'') = Ret y"
  by (simp add: example_run)

lemma example_metallb_objects:
  "\<exists>objs. MetalLBChart_Objects (example_helm [example_workload ''DaemonSet'' ''speaker''])
            workload_lib example_chart (example_config True) zero_spec = Ret objs"
proof -
  obtain y where "metallb_object workload_lib (example_config True) zero_spec
      (example_workload ''DaemonSet'' ''speaker'') = Ret y"
    using example_speaker_without_config by blast
  moreover note example_helm_parse [of "[example_workload ''DaemonSet'' ''speaker'']"]
  ultimately show ?thesis
    unfolding MetalLBChart_Objects_def by (simp add: example_helm_def)
qed

text \<open>A document that is not touched on OpenShift, and the webhook's secret.\<close>

lemma example_frrk8s_objects:
  "\<exists>objs. FRRK8SChart_Objects (example_helm [example_workload ''Secret'' frrk8sWebhookSecretName,
              example_workload ''ConfigMap'' ''startup''])
            workload_lib example_chart (example_config True) zero_spec = Ret objs"
proof -
  let ?docs = "[example_workload ''Secret'' frrk8sWebhookSecretName, example_workload ''ConfigMap'' ''startup'']"
  obtain v where v: "patchChartValues (example_config True) zero_spec Map.empty = Inr v"
    using patchChartValues_Inr_iff [of "example_config True" zero_spec Map.empty]
    by (auto simp: zero_spec_def)
  have "\<exists>objs. frrk8s_objects workload_lib (example_config True) zero_spec [] ?docs = Ret objs"
    by (simp add: frrk8s_object_def example_run isFRRK8SDaemonset_def isFRRK8SWebhookSecret_def
        isFRRK8SValidatingWebhook_def isFRRK8SWebhookService_def isFRRK8SWebhookDeployment_def)
  then show ?thesis
    using v example_helm_parse [of ?docs]
    unfolding FRRK8SChart_Objects_def by (simp add: example_helm_def)
qed

section \<open>Overrides\<close>

text \<open>
  The override of the speaker: when the resource configures the speaker, the object applied is
  the DaemonSet that was rendered with the affinity replaced if one is configured, and the resources
  replaced in every container named speaker and in no other; without a configuration, or for any
  other object, the object is passed on as it is.
\<close>

theorem overrideSpeakerParameters_correct:
  "overrideSpeakerParameters U spec x =
     (case SpeakerConfig spec of
        None \<Rightarrow> Inr None
      | Some cfg \<Rightarrow>
          if GetKind U x = ''DaemonSet'' \<and> GetName U x = ''speaker''
          then bindE (ToDaemonSet U x) (\<lambda>d.
               bindE (FromDaemonSet U
                 (d\<lparr>DSAffinity := (if Affinity cfg = None then DSAffinity d else Affinity cfg),
                    DSContainers := map (\<lambda>c.
                      if ContainerName c = ''speaker'' \<and> Resources cfg \<noteq> None
                      then c\<lparr>ContainerResources := the (Resources cfg)\<rparr> else c) (DSContainers d)\<rparr>))
                 (\<lambda>y. Inr (Some y)))
          else Inr None)"
proof (cases "SpeakerConfig spec")
  case None
  then show ?thesis by (simp add: overrideSpeakerParameters_def)
next
  case (Some cfg)
  have a: "(case Affinity cfg of None \<Rightarrow> DSAffinity d | Some a \<Rightarrow> Some a) =
      (if Affinity cfg = None then DSAffinity d else Affinity cfg)" for d
    by (cases "Affinity cfg") auto
  have c: "(\<lambda>c. case Resources cfg of None \<Rightarrow> c
             | Some res \<Rightarrow> if ContainerName c = ''speaker'' then c\<lparr>ContainerResources := res\<rparr> else c) =
      (\<lambda>c. if ContainerName c = ''speaker'' \<and> Resources cfg \<noteq> None
           then c\<lparr>ContainerResources := the (Resources cfg)\<rparr> else c)"
    by (rule ext) (auto split: option.splits)
  show ?thesis
    using Some
    by (cases "ToDaemonSet U x")
       (simp_all add: overrideSpeakerParameters_def isSpeakerDaemonSet_def override_daemonset_def
         Let_def override_affinity override_resources_loop [of _ "[]"] a c)
qed

text \<open>
  C25. On OpenShift the pod template must get the required-scc annotation (speaker) or a security
  context without a fixed user (controller). Both are written to the object that was rendered, so
  they are lost once an override has replaced it: with a configured speaker (or controller), the
  object applied on OpenShift is the one that would be applied elsewhere.
\<close>

theorem override_discards_openshift_edits:
  assumes "SpeakerConfig spec \<noteq> None \<and> isSpeakerDaemonSet U (namespaced U env x) \<or>
           ControllerConfig spec \<noteq> None \<and> isControllerDeployment U (namespaced U env x)"
    and "metallb_object U env spec x = Ret y"
  shows "metallb_object U (env\<lparr>IsOpenshift := False\<rparr>) spec x = Ret y"
proof -
  let ?x = "namespaced U env x"
  obtain slot1 r x' where
    1: "overrideControllerParameters U spec ?x = Inr slot1" and
    2: "overrideSpeakerParameters U spec (case slot1 of None \<Rightarrow> ?x | Some z \<Rightarrow> z) = Inr r" and
    y: "y = (case r of Some z \<Rightarrow> z | None \<Rightarrow> (case slot1 of Some z \<Rightarrow> z | None \<Rightarrow> x'))"
    using assms(2) by (rule metallb_object_RetE)
  have "r \<noteq> None \<or> slot1 \<noteq> None"
    using assms(1) 1 2 by (cases r; cases slot1) (auto simp: override_cases)
  then have "(case r of Some z \<Rightarrow> z | None \<Rightarrow> (case slot1 of Some z \<Rightarrow> z | None \<Rightarrow> w)) = y" for w
    using y by (auto split: option.splits)
  moreover have "metallb_openshift_edits U (IsOpenshift (env\<lparr>IsOpenshift := False\<rparr>)) ?x = Ret ?x"
    by (simp add: no_openshift_edits)
  ultimately show ?thesis
    using metallb_object_fresh [of U spec "env\<lparr>IsOpenshift := False\<rparr>" x slot1 r ?x,
        unfolded namespaced_openshift] 1 2 by simp
qed

theorem override_discards_openshift_edits_witness:
  "\<exists>y. metallb_object workload_lib (example_config True)
         (zero_spec\<lparr>SpeakerConfig := Some example_resources\<rparr>)
         (example_workload ''DaemonSet'' ''speaker'') = Ret y \<and>
       metallb_object workload_lib ((example_config True)\<lparr>IsOpenshift := False\<rparr>)
         (zero_spec\<lparr>SpeakerConfig := Some example_resources\<rparr>)
         (example_workload ''DaemonSet'' ''speaker'') = Ret y"
proof -
  let ?x = "example_workload ''DaemonSet'' ''speaker''"
  let ?spec = "zero_spec\<lparr>SpeakerConfig := Some example_resources\<rparr>"
  have "isSpeakerDaemonSet workload_lib (namespaced workload_lib (example_config True) ?x)"
    by (simp add: example_run)
  moreover obtain y where "metallb_object workload_lib (example_config True) ?spec ?x = Ret y"
    using example_speaker_with_config by blast
  ultimately show ?thesis using override_discards_openshift_edits by fastforce
qed

text \<open>
  Without such a configuration they are kept: on OpenShift the controller Deployment that is
  applied has exactly the security context \<open>runAsNonRoot: true\<close>, and the speaker DaemonSet's pods
  carry the required-scc annotation naming the SCC the operator creates.
\<close>

theorem openshift_edits_kept_without_config:
  assumes "workload_laws U" and "IsOpenshift env" and "metallb_object U env spec x = Ret y"
  shows "(isControllerDeployment U (namespaced U env x) \<and> ControllerConfig spec = None \<longrightarrow>
            nested y security_context_path = Some (GMap run_as_non_root)) \<and>
         (isSpeakerDaemonSet U (namespaced U env x) \<and> SpeakerConfig spec = None \<longrightarrow>
            (\<exists>a. nested y pod_annotations_path = Some (string_map_val a) \<and>
                 a ''openshift.io/required-scc'' = Some SpeakerSCCName))"
  using controller_security_context [OF workload_laws.axioms(1) [OF assms(1)] assms(2) _ _ assms(3)]
    speaker_required_scc [OF workload_laws.axioms(1) [OF assms(1)] assms(2) _ _ assms(3)] by blast

theorem openshift_edits_kept_without_config_witness:
  "\<exists>y a. metallb_object workload_lib (example_config True) zero_spec
           (example_workload ''DaemonSet'' ''speaker'') = Ret y \<and>
         nested y pod_annotations_path = Some (string_map_val a) \<and>
         a ''openshift.io/required-scc'' = Some SpeakerSCCName"
proof -
  obtain y where y: "metallb_object workload_lib (example_config True) zero_spec
      (example_workload ''DaemonSet'' ''speaker'') = Ret y"
    using example_speaker_without_config by blast
  have "isSpeakerDaemonSet workload_lib
      (namespaced workload_lib (example_config True) (example_workload ''DaemonSet'' ''speaker''))"
    by (simp add: example_run)
  moreover have "SpeakerConfig zero_spec = None" by (simp add: zero_spec_def)
  ultimately show ?thesis
    using openshift_edits_kept_without_config [OF workload_lib_workload_laws _ y] y by fastforce
qed

text \<open>
  C22. What the MetalLB chart returns: the rendered documents in their order, each as the object of the
  same kind and name that it was, placed in its namespace, and on OpenShift the speaker's SCC after
  them. On OpenShift no service monitor among them skips the verification of certificates.
\<close>

theorem metallb_objects_correct:
  assumes "workload_laws U" and "MetalLBChart_Objects H U h env spec = Ret objs"
  shows "\<exists>vals manifest docs ys.
           MergeValues H = Inr vals \<and>
           RunInstall H (ChartClient h) (ChartContent h) (patchMetalLBChartValues env spec vals) =
             Inr manifest \<and>
           parseManifest (DecodeManifest H) manifest = Ret docs \<and>
           objs = ys @ (if IsOpenshift env then [SpeakerSCC] else []) \<and>
           map (identity U) ys = map (\<lambda>x. identity U (namespaced U env x)) docs \<and>
           (IsOpenshift env \<longrightarrow> (\<forall>y\<in>set ys. GetKind U y = ''ServiceMonitor'' \<longrightarrow> monitor_secured y))"
proof -
  have laws: "unstructured_laws U" using assms(1) by (rule workload_laws.axioms)
  from assms(2) obtain vals manifest docs ys where
    *: "MergeValues H = Inr vals" "RunInstall H (ChartClient h) (ChartContent h)
          (patchMetalLBChartValues env spec vals) = Inr manifest"
      "parseManifest (DecodeManifest H) manifest = Ret docs"
      "objs = ys @ (if IsOpenshift env then [SpeakerSCC] else [])" and
    ys: "list_all2 (\<lambda>x y. metallb_object U env spec x = Ret y) docs ys"
    by (auto simp: MetalLBChart_Objects_def bindO_eq_Ret outcome_of_eq mapO_eq_Ret)
  have i: "list_all2 (\<lambda>x y. identity U y = identity U (namespaced U env x)) docs ys"
    using ys workload_laws.metallb_object_identity [OF assms(1)] by (rule list_all2_mono)
  have "monitor_secured y"
    if y: "y \<in> set ys" "GetKind U y = ''ServiceMonitor''" and ocp: "IsOpenshift env" for y
  proof -
    obtain n where n: "n < length ys" "y = ys ! n" using y(1) by (auto simp: in_set_conv_nth)
    then have obj: "metallb_object U env spec (docs ! n) = Ret y"
      and id: "identity U y = identity U (namespaced U env (docs ! n))"
      using list_all2_nthD2 [OF ys] list_all2_nthD2 [OF i] by auto
    have "isServiceMonitor U (namespaced U env (docs ! n))"
      using unstructured_laws.kind_name_identity [OF laws id] y(2) by (simp add: isServiceMonitor_def)
    then show ?thesis by (rule workload_laws.metallb_object_monitor [OF assms(1) obj ocp])
  qed
  moreover have "map (identity U) ys = map (\<lambda>x. identity U (namespaced U env x)) docs"
    using i by (auto simp: list_all2_conv_all_nth intro: nth_equalityI)
  ultimately show ?thesis using * by blast
qed

theorem metallb_objects_correct_witness:
  "\<exists>y. MetalLBChart_Objects (example_helm [example_workload ''DaemonSet'' ''speaker''])
         workload_lib example_chart (example_config True) zero_spec = Ret [y, SpeakerSCC] \<and>
       identity workload_lib y = identity workload_lib
         (namespaced workload_lib (example_config True) (example_workload ''DaemonSet'' ''speaker''))"
proof -
  let ?docs = "[example_workload ''DaemonSet'' ''speaker'']"
  obtain objs where o: "MetalLBChart_Objects (example_helm ?docs) workload_lib example_chart
      (example_config True) zero_spec = Ret objs"
    using example_metallb_objects by blast
  have m: "RunInstall (example_helm ?docs) c k v = Inr ''---''" for c k v
    by (simp add: example_helm_def)
  obtain docs ys where "parseManifest (DecodeManifest (example_helm ?docs)) ''---'' = Ret docs"
    "objs = ys @ [SpeakerSCC]" "map (identity workload_lib) ys =
       map (\<lambda>x. identity workload_lib (namespaced workload_lib (example_config True) x)) docs"
    using metallb_objects_correct [OF workload_lib_workload_laws o] by (auto simp: m)
  moreover from this(1) have "docs = ?docs" by (simp add: example_helm_parse)
  ultimately show ?thesis using o by (auto simp: map_eq_Cons_conv)
qed

text \<open>
  C23. What the frr-k8s chart returns: the rendered documents in their order, as the objects they were,
  but on OpenShift without the webhook's secret, which the cluster manages there, and with no service
  monitor that skips the verification of certificates.
\<close>

theorem frrk8s_objects_correct:
  assumes "workload_laws U" and "FRRK8SChart_Objects H U h env spec = Ret objs"
  shows "\<exists>vals vals' manifest docs.
           MergeValues H = Inr vals \<and> patchChartValues env spec vals = Inr vals' \<and>
           RunInstall H (ChartClient h) (ChartContent h) vals' = Inr manifest \<and>
           parseManifest (DecodeManifest H) manifest = Ret docs \<and>
           map (identity U) objs = map (\<lambda>x. identity U (namespaced U env x))
             (filter (\<lambda>x. \<not> (IsOpenshift env \<and> isFRRK8SWebhookSecret U (namespaced U env x))) docs) \<and>
           (IsOpenshift env \<longrightarrow> (\<forall>y\<in>set objs. GetKind U y = ''ServiceMonitor'' \<longrightarrow> monitor_secured y))"
proof -
  from assms(2) obtain vals vals' manifest docs rs where
    *: "MergeValues H = Inr vals" "patchChartValues env spec vals = Inr vals'"
      "RunInstall H (ChartClient h) (ChartContent h) vals' = Inr manifest"
      "parseManifest (DecodeManifest H) manifest = Ret docs" and
    rs: "list_all2 (\<lambda>x r. frrk8s_object U env spec x = Ret r) docs rs" and
    objs: "objs = List.map_filter (\<lambda>r. r) rs"
    by (auto simp: FRRK8SChart_Objects_def bindO_eq_Ret outcome_of_eq frrk8s_objects_Ret)
  with * objs frrk8s_kept [OF assms(1) rs] show ?thesis by blast
qed

theorem frrk8s_objects_correct_witness:
  "\<exists>y. FRRK8SChart_Objects (example_helm [example_workload ''Secret'' frrk8sWebhookSecretName,
              example_workload ''ConfigMap'' ''startup''])
         workload_lib example_chart (example_config True) zero_spec = Ret [y] \<and>
       GetName workload_lib y = ''startup''"
proof -
  let ?docs = "[example_workload ''Secret'' frrk8sWebhookSecretName, example_workload ''ConfigMap'' ''startup'']"
  obtain objs where o: "FRRK8SChart_Objects (example_helm ?docs) workload_lib example_chart
      (example_config True) zero_spec = Ret objs"
    using example_frrk8s_objects by blast
  have m: "RunInstall (example_helm ?docs) c k v = Inr ''---''" for c k v
    by (simp add: example_helm_def)
  obtain docs where "parseManifest (DecodeManifest (example_helm ?docs)) ''---'' = Ret docs"
    "map (identity workload_lib) objs =
       map (\<lambda>x. identity workload_lib (namespaced workload_lib (example_config True) x))
         (filter (\<lambda>x. \<not> isFRRK8SWebhookSecret workload_lib
                        (namespaced workload_lib (example_config True) x)) docs)"
    using frrk8s_objects_correct [OF workload_lib_workload_laws o] by (auto simp: m)
  moreover from this(1) have "docs = ?docs" by (simp add: example_helm_parse)
  ultimately show ?thesis
    using o by (auto simp: map_eq_Cons_conv identity_def isFRRK8SWebhookSecret_def example_run)
qed

text \<open>
  C29. Placement: with a namespace configured, every rendered object of either chart that is not a
  PodSecurityPolicy, and whose metadata a namespace can be set in, is applied in the operator's namespace,
  under the kind and name it was rendered with. This includes the rendered objects of cluster-scoped kinds,
  which the code's comment says are left alone. The one object that is not rendered, the
  SecurityContextConstraints of the speaker, has no namespace.
\<close>

theorem objects_placed_in_namespace:
  assumes "workload_laws U" and "EnvNamespace env \<noteq> []"
    and "settable x [''metadata'', ''namespace'']" and "GetKind U x \<noteq> ''PodSecurityPolicy''"
    and "metallb_object U env spec x = Ret y \<or> frrk8s_object U env spec x = Ret (Some y)"
  shows "GetNamespace U y = EnvNamespace env \<and> GetKind U y = GetKind U x \<and> GetName U y = GetName U x \<and>
         GetNamespace U SpeakerSCC = []"
proof -
  have "identity U y = identity U (namespaced U env x)"
    using assms(5) workload_laws.metallb_object_identity [OF assms(1)]
      workload_laws.frrk8s_object_cases [OF assms(1), of env spec x "Some y"] by auto
  moreover have "GetNamespace U SpeakerSCC = []"
    by (simp add: unstructured_laws.namespace [OF workload_laws.axioms(1) [OF assms(1)]] SpeakerSCC_def)
  ultimately show ?thesis
    using unstructured_laws.namespaced_identity [OF workload_laws.axioms(1) [OF assms(1)] assms(2,3)]
      assms(4) by (simp add: identity_def)
qed

theorem objects_placed_in_namespace_witness:
  "\<exists>y. metallb_object workload_lib (example_config True) zero_spec
         (example_workload ''DaemonSet'' ''speaker'') = Ret y \<and>
       GetNamespace workload_lib y = ''metallb-system''"
proof -
  let ?x = "example_workload ''DaemonSet'' ''speaker''"
  obtain y where y: "metallb_object workload_lib (example_config True) zero_spec ?x = Ret y"
    using example_speaker_without_config by blast
  have "settable ?x [''metadata'', ''namespace'']" and "GetKind workload_lib ?x \<noteq> ''PodSecurityPolicy''"
    by (simp_all add: example_workload_def get_str_def)
  from objects_placed_in_namespace [OF workload_lib_workload_laws _ this disjI1 [OF y]] y
  show ?thesis by auto
qed

end
