(* ===== verification/Controller_Contracts.thy ===== *)
theory Controller_Contracts
  imports Controller Helm_Contracts
begin

text \<open>
  The properties of the reconciler: which calls a synchronisation makes and in which order, what is
  reported about it, and what is left alone. The two loops are instances of the interface of loops
  with effects, from which the order of the calls follows.
\<close>

section \<open>The loops\<close>

text \<open>The object that is applied for a rendered one, and whether it is applied at all.\<close>

definition skipped :: "('c, 'v) reconciler \<Rightarrow> obj \<Rightarrow> bool" where
  "skipped R x \<longleftrightarrow> GetKind (ULib R) x \<in> {''Role'', ''RoleBinding''}"

definition owned :: "('c, 'v) reconciler \<Rightarrow> metallb \<Rightarrow> obj \<Rightarrow> obj" where
  "owned R config x = (case set_owner R config x of Inr y \<Rightarrow> y | Inl _ \<Rightarrow> x)"

definition apply_calls :: "('c, 'v) reconciler \<Rightarrow> metallb \<Rightarrow> obj \<Rightarrow> kube_call list" where
  "apply_calls R config x = (if skipped R x then [] else [ApplyObject (owned R config x)])"

lemma delete_step_run:
  "delete_step R x h =
     (case delete_object (Client R) h x of
        None \<Rightarrow> Ret ()
      | Some e \<Rightarrow> if IsNotFound (Client R) e then Ret ()
                  else Fail (Wrapped (''could not delete '' @ object_label R x) e), h @ [DeleteObject x])"
  by (auto simp: delete_step_def io_simps split: option.splits)

lemma apply_step_run:
  "apply_step R config x h =
     (if skipped R x then (Ret (), h)
      else (case set_owner R config x of
              Inl e \<Rightarrow> (Fail e, h)
            | Inr y \<Rightarrow> (case apply_object (Client R) h y of
                         None \<Rightarrow> Ret ()
                       | Some e \<Rightarrow> Fail (Wrapped (''could not apply '' @ object_label R y) e),
                       h @ [ApplyObject y])))"
  by (auto simp: apply_step_def skipped_def bindK_def io_simps split: option.splits sum.splits)

interpretation deletes: effect_loop "delete_step R" "delete_loop R" "\<lambda>x. [DeleteObject x]" for R
  by unfold_locales (auto simp: delete_step_run split: option.splits)

interpretation applies: effect_loop "apply_step R config" "apply_loop R config" "apply_calls R config"
  for R config
  by unfold_locales
    (auto simp: apply_step_run apply_calls_def owned_def split: option.splits sum.splits if_splits)

lemma concat_apply_calls:
  "concat (map (apply_calls R config) xs) =
     map (\<lambda>x. ApplyObject (owned R config x)) (filter (\<lambda>x. \<not> skipped R x) xs)"
  by (induction xs) (simp_all add: apply_calls_def)

section \<open>Calls\<close>

definition network_call :: "kube_call \<Rightarrow> bool" where
  "network_call c \<longleftrightarrow>
     (case c of GetClusterOperator _ \<Rightarrow> True | GetNetwork _ \<Rightarrow> True | UpdateNetwork _ \<Rightarrow> True | _ \<Rightarrow> False)"

definition changes_objects :: "kube_call \<Rightarrow> bool" where
  "changes_objects c \<longleftrightarrow> (case c of DeleteObject _ \<Rightarrow> True | ApplyObject _ \<Rightarrow> True | _ \<Rightarrow> False)"

lemma call_kinds [simp]:
  "network_call (GetClusterOperator n)" "network_call (GetNetwork n)" "network_call (UpdateNetwork w)"
  "\<not> changes_objects (GetClusterOperator n)" "\<not> changes_objects (GetNetwork n)"
  "\<not> changes_objects (UpdateNetwork w)" "\<not> changes_objects TimeNow"
  "\<not> changes_objects (UpdateStatus m)" "\<not> changes_objects (GetMetalLB ns n)"
  "\<not> changes_objects (GetDaemonSet ns n)" "\<not> changes_objects (GetDeployment ns n)"
  "changes_objects (DeleteObject x)" "changes_objects (ApplyObject x)"
  by (simp_all add: network_call_def changes_objects_def)

lemma network_call_changes: "network_call c \<Longrightarrow> \<not> changes_objects c"
  by (cases c) (simp_all add: network_call_def changes_objects_def)

lemma embedded_frrk8s_adds: "adds_only network_call (embedded_frrk8s R spec)"
  unfolding embedded_frrk8s_def SupportsFRRK8s_def DeployFRRK8s_def Let_def
  by (auto intro!: adds)

lemma Update_adds:
  "adds_only (\<lambda>c. \<not> changes_objects c) (Update K m condition reason message)"
  unfolding Update_def Let_def by (auto intro!: adds)

lemma IsMetalLBAvailable_adds: "adds_only (\<lambda>c. \<not> changes_objects c) (IsMetalLBAvailable K ns)"
  unfolding IsMetalLBAvailable_def by (auto intro!: adds split: sum.splits option.splits)

lemma tryK_adds: "adds_only P m \<Longrightarrow> adds_only P (tryK m)"
  unfolding adds_only_def tryK_def by (auto split: prod.splits outcome.splits)

lemma tryK_cases:
  "tryK m h = (r, h') \<longleftrightarrow>
     (\<exists>x. m h = (Ret x, h') \<and> r = Ret (Inr x)) \<or> (\<exists>e. m h = (Fail e, h') \<and> r = Ret (Inl e)) \<or>
     m h = (Panic, h') \<and> r = Panic \<or> m h = (Hang, h') \<and> r = Hang"
  by (auto simp: tryK_def split: prod.splits outcome.splits)

section \<open>What a synchronisation does\<close>

text \<open>The objects of the two charts, sorted into those to delete and those to apply.\<close>

definition chart_objects ::
  "('c, 'v) reconciler \<Rightarrow> metallb_spec \<Rightarrow> obj list \<Rightarrow> obj list \<Rightarrow> bool" where
  "chart_objects R spec toDel objs \<longleftrightarrow>
     (\<exists>frr mlb. FRRK8SChart_Objects (HelmLib R) (ULib R) (frrk8sChart R) (EnvConfig R) spec = Ret frr \<and>
        MetalLBChart_Objects (HelmLib R) (ULib R) (metalLBChart R) (EnvConfig R) spec = Ret mlb \<and>
        (if BGPType spec (EnvConfig R) = FRRK8sMode then toDel = [] \<and> objs = frr @ mlb
         else toDel = frr \<and> objs = mlb))"

lemma chart_objects_unique:
  "chart_objects R spec d1 o1 \<Longrightarrow> chart_objects R spec d2 o2 \<Longrightarrow> d1 = d2 \<and> o1 = o2"
  by (auto simp: chart_objects_def split: if_splits)

lemma sync_invalid:
  assumes "Validate (ExternalFRRK8sNamespace R) (Spec m) \<noteq> None"
  shows "syncMetalLBResources R m = bindK (embedded_frrk8s R (Spec m)) (\<lambda>_. return ())"
  using assms by (auto simp: syncMetalLBResources_def Let_def split: option.splits)

text \<open>How a synchronisation of a valid resource can go on after the network operator's part.\<close>

lemma sync_valid_cases:
  assumes "syncMetalLBResources R m h = (r, h')"
    and "Validate (ExternalFRRK8sNamespace R) (Spec m) = None"
  obtains (embedded) "embedded_frrk8s R (Spec m) h = (r, h')" "r \<noteq> Ret ()"
  | (refused) "embedded_frrk8s R (Spec m) h = (Ret (), h')" "r \<noteq> Ret ()"
  | (loops) h1 h2 toDel objs s where
      "embedded_frrk8s R (Spec m) h = (Ret (), h1)"
      "validateBGPMode (Spec m) (IsOpenshift (EnvConfig R)) = None"
      "chart_objects R (Spec m) toDel objs" "delete_loop R toDel h1 = (s, h2)"
      "s = Ret () \<and> apply_loop R m objs h2 = (r, h') \<or> s \<noteq> Ret () \<and> r = s \<and> h' = h2"
proof -
  let ?f = "FRRK8SChart_Objects (HelmLib R) (ULib R) (frrk8sChart R) (EnvConfig R) (Spec m)"
  let ?m = "MetalLBChart_Objects (HelmLib R) (ULib R) (metalLBChart R) (EnvConfig R) (Spec m)"
  obtain r0 h1 where e: "embedded_frrk8s R (Spec m) h = (r0, h1)" by fastforce
  show thesis
  proof (cases "r0 = Ret ()")
    case False
    then have "r = r0 \<and> h' = h1"
      using assms(1) e by (cases r0) (auto simp: syncMetalLBResources_def Let_def bindK_def)
    with False e embedded show thesis by blast
  next
    case True
    note run = assms(1) [unfolded syncMetalLBResources_def Let_def bindK_def [of "embedded_frrk8s R (Spec m)"]
        e True assms(2), simplified]
    show thesis
    proof (cases "validateBGPMode (Spec m) (IsOpenshift (EnvConfig R)) = None \<and>
                  (\<exists>f. ?f = Ret f) \<and> (\<exists>x. ?m = Ret x)")
      case False
      then have "h' = h1 \<and> r \<noteq> Ret ()"
        using run by (cases ?f; cases ?m) (auto simp: io_simps split: option.splits)
      with e True refused show thesis by blast
    next
      case True
      then obtain f x where fx: "?f = Ret f" "?m = Ret x"
        and v: "validateBGPMode (Spec m) (IsOpenshift (EnvConfig R)) = None" by blast
      define toDel where "toDel = (if BGPType (Spec m) (EnvConfig R) = FRRK8sMode then [] else f)"
      define objs where "objs = (if BGPType (Spec m) (EnvConfig R) = FRRK8sMode then f else []) @ x"
      have "chart_objects R (Spec m) toDel objs"
        using fx by (simp add: chart_objects_def toDel_def objs_def)
      moreover obtain s h2 where d: "delete_loop R toDel h1 = (s, h2)" by fastforce
      moreover have "bindK (delete_loop R toDel) (\<lambda>_. apply_loop R m objs) h1 = (r, h')"
        using run fx v by (simp add: io_simps toDel_def objs_def)
      then have "s = Ret () \<and> apply_loop R m objs h2 = (r, h') \<or> s \<noteq> Ret () \<and> r = s \<and> h' = h2"
        using d by (cases s) (auto simp: bindK_def)
      ultimately show thesis using loops e \<open>r0 = Ret ()\<close> v by blast
    qed
  qed
qed

section \<open>Facts on reconciling\<close>

lemma delete_calls: "concat (map (\<lambda>x. [DeleteObject x]) xs) = map DeleteObject xs"
  by (induction xs) simp_all

lemmas loop_traces = deletes.loop_Ret [unfolded delete_calls] applies.loop_Ret [unfolded concat_apply_calls]

definition object_calls :: "('c, 'v) reconciler \<Rightarrow> metallb \<Rightarrow> obj list \<Rightarrow> obj list \<Rightarrow> kube_call list" where
  "object_calls R m toDel objs =
     map DeleteObject toDel @ map (\<lambda>x. ApplyObject (owned R m x)) (filter (\<lambda>x. \<not> skipped R x) objs)"

lemma loops_prefix:
  assumes "delete_loop R toDel h1 = (s, h2)"
    and "s = Ret () \<and> apply_loop R m objs h2 = (r, h') \<or> s \<noteq> Ret () \<and> r = s \<and> h' = h2"
  shows "\<exists>post. h' = h1 @ post \<and> prefix post (object_calls R m toDel objs) \<and>
                (r = Ret () \<longrightarrow> post = object_calls R m toDel objs)"
  using assms(2)
proof
  assume s: "s = Ret () \<and> apply_loop R m objs h2 = (r, h')"
  have h2: "h2 = h1 @ map DeleteObject toDel" using loop_traces(1) assms(1) s by simp
  from applies.loop_prefix [of R m objs h2 r h'] s obtain cs ds where
    cs: "h' = h2 @ cs" "concat (map (apply_calls R m) objs) = cs @ ds" by blast
  have "prefix (map DeleteObject toDel @ cs) (object_calls R m toDel objs)"
    using cs(2) by (simp add: object_calls_def concat_apply_calls)
  moreover have "cs = concat (map (apply_calls R m) objs)" if "r = Ret ()"
    using applies.loop_Ret [of R m objs h2 h'] s that cs(1) by simp
  ultimately show ?thesis using h2 cs(1) by (auto simp: object_calls_def concat_apply_calls)
next
  assume s: "s \<noteq> Ret () \<and> r = s \<and> h' = h2"
  from deletes.loop_prefix [OF assms(1)] obtain cs ds where
    "h2 = h1 @ cs" "map DeleteObject toDel = cs @ ds" by (auto simp: delete_calls)
  then show ?thesis using s by (auto simp: object_calls_def)
qed

lemma sync_run:
  assumes "syncMetalLBResources R m h = (r, h')"
    and "Validate (ExternalFRRK8sNamespace R) (Spec m) = None"
  shows "\<exists>pre post. h' = h @ pre @ post \<and> list_all network_call pre \<and>
           ((post = [] \<and> r \<noteq> Ret ()) \<or>
            (validateBGPMode (Spec m) (IsOpenshift (EnvConfig R)) = None \<and>
             (\<exists>toDel objs. chart_objects R (Spec m) toDel objs \<and>
                prefix post (object_calls R m toDel objs) \<and>
                (r = Ret () \<longrightarrow> post = object_calls R m toDel objs))))"
  using assms
proof (cases rule: sync_valid_cases)
  case embedded
  from adds_onlyD [OF embedded_frrk8s_adds embedded(1)] obtain pre where "h' = h @ pre" "list_all network_call pre"
    by blast
  with embedded(2) show ?thesis by (intro exI [of _ pre] exI [of _ "[]"]) simp
next
  case refused
  from adds_onlyD [OF embedded_frrk8s_adds refused(1)] obtain pre where "h' = h @ pre" "list_all network_call pre"
    by blast
  with refused(2) show ?thesis by (intro exI [of _ pre] exI [of _ "[]"]) simp
next
  case (loops h1 h2 toDel objs s)
  from adds_onlyD [OF embedded_frrk8s_adds loops(1)] obtain pre where
    pre: "h1 = h @ pre" "list_all network_call pre" by blast
  from loops_prefix [OF loops(4,5)] obtain post where "h' = h1 @ post"
    "prefix post (object_calls R m toDel objs)" "r = Ret () \<longrightarrow> post = object_calls R m toDel objs"
    by blast
  with pre loops(2,3) show ?thesis by (intro exI [of _ pre] exI [of _ post]) auto
qed

lemma sync_invalid_adds:
  "Validate (ExternalFRRK8sNamespace R) (Spec m) \<noteq> None \<Longrightarrow>
     adds_only network_call (syncMetalLBResources R m)"
  by (simp add: sync_invalid) (intro adds embedded_frrk8s_adds)

lemma reconcileResource_run:
  "reconcileResource R ns m h =
     (case syncMetalLBResources R m h of
        (Fail e, h1) \<Rightarrow>
          (Ret (if is_embedded_not_available e then (120, [], None)
                else (0, ConditionDegraded, Some (Wrapped ''FailedToSyncMetalLBResources'' e))), h1)
      | (Ret _, h1) \<Rightarrow>
          (case IsMetalLBAvailable (Client R) ns h1 of
             (Ret None, h2) \<Rightarrow> (Ret (0, ConditionAvailable, None), h2)
           | (Ret (Some (NotReady s)), h2) \<Rightarrow> (Ret (5, ConditionProgressing, None), h2)
           | (Ret (Some e), h2) \<Rightarrow> (Ret (0, ConditionProgressing, Some e), h2)
           | (Fail e, h2) \<Rightarrow> (Fail e, h2) | (Panic, h2) \<Rightarrow> (Panic, h2) | (Hang, h2) \<Rightarrow> (Hang, h2))
      | (Panic, h1) \<Rightarrow> (Panic, h1) | (Hang, h1) \<Rightarrow> (Hang, h1))"
  by (auto simp: reconcileResource_def tryK_def bindK_def io_simps
      split: prod.splits outcome.splits option.splits go_error.splits)

text \<open>Only the synchronisation in a reconciliation changes objects.\<close>

lemma reconcile_no_sync_adds:
  "adds_only (\<lambda>c. \<not> changes_objects c) (syncMetalLBResources R m) \<Longrightarrow>
     adds_only (\<lambda>c. \<not> changes_objects c) (reconcileResource R ns m)"
  unfolding reconcileResource_def
  by (auto intro!: adds tryK_adds IsMetalLBAvailable_adds split: sum.splits option.splits go_error.splits)

lemma Reconcile_adds:
  assumes "\<And>m. n = defaultMetalLBCrName \<Longrightarrow> get_metallb (Client R) h ns n = Inr m \<Longrightarrow>
             adds_only (\<lambda>c. \<not> changes_objects c) (syncMetalLBResources R m)"
    and "Reconcile R ns n h = (r, h')"
  shows "\<exists>cs. h' = h @ cs \<and> list_all (\<lambda>c. \<not> changes_objects c) cs"
proof -
  let ?P = "\<lambda>c. \<not> changes_objects c"
  let ?h = "h @ [GetMetalLB ns n]"
  show ?thesis
  proof (cases "get_metallb (Client R) h ns n")
    case (Inl e)
    with assms(2) have "h' = ?h" by (auto simp: Reconcile_def io_simps split: if_splits)
    then show ?thesis by simp
  next
    case (Inr m)
    define rest where "rest =
      (if n \<noteq> defaultMetalLBCrName then
         bindK (tryK (Update (Client R) m ConditionDegraded ''IncorrectMetalLBResourceName''
                       (''Incorrect MetalLB resource name: '' @ n))) (\<lambda>_. return 0)
       else
         bindK (reconcileResource R ns m) (\<lambda>(result, condition, err).
         if condition \<noteq> [] then
           (let (errorMsg, wrappedErrMsg) =
              (case err of
                 None \<Rightarrow> (condition, [])
               | Some e \<Rightarrow> (''internal error'', case unwrap_text R e of None \<Rightarrow> [] | Some t \<Rightarrow> t))
            in bindK (Update (Client R) m condition errorMsg wrappedErrMsg) (\<lambda>_. return result))
         else return result))"
    have "rest ?h = (r, h')"
      using assms(2) Inr unfolding Reconcile_def rest_def by (simp add: io_simps)
    moreover have "adds_only ?P rest"
      unfolding rest_def using assms(1) [OF _ Inr]
      by (auto intro!: adds tryK_adds Update_adds reconcile_no_sync_adds split: prod.splits)
    ultimately obtain cs where "h' = ?h @ cs" "list_all ?P cs" using adds_onlyD by blast
    then show ?thesis by simp
  qed
qed

text \<open>An application of an object whose owner was set before.\<close>

definition owned_call :: "('c, 'v) reconciler \<Rightarrow> metallb \<Rightarrow> kube_call \<Rightarrow> bool" where
  "owned_call R m c \<longleftrightarrow>
     (case c of ApplyObject y \<Rightarrow> (\<exists>x. \<not> skipped R x \<and> set_owner R m x = Inr y) | _ \<Rightarrow> True)"

lemma apply_step_owned: "adds_only (owned_call R m) (apply_step R m x)"
  unfolding adds_only_def
proof (intro allI impI)
  fix h r h'
  assume "apply_step R m x h = (r, h')"
  then have "h' = h \<or> (\<exists>y. \<not> skipped R x \<and> set_owner R m x = Inr y \<and> h' = h @ [ApplyObject y])"
    by (auto simp: apply_step_run split: if_splits sum.splits)
  then show "\<exists>cs. h' = h @ cs \<and> list_all (owned_call R m) cs"
    by (auto simp: owned_call_def)
qed

lemma apply_loop_owned: "adds_only (owned_call R m) (apply_loop R m xs)"
  by (induction xs) (auto intro!: adds apply_step_owned)

lemma delete_loop_owned: "adds_only (owned_call R m) (delete_loop R xs)"
  by (rule deletes.loop_adds) (auto simp: owned_call_def)

lemma sync_owned_calls: "adds_only (owned_call R m) (syncMetalLBResources R m)"
proof -
  have "adds_only (owned_call R m) (embedded_frrk8s R (Spec m))"
    using embedded_frrk8s_adds
    by (rule adds_only_mono) (auto simp: network_call_def owned_call_def split: kube_call.splits)
  then show ?thesis
    unfolding syncMetalLBResources_def Let_def
    by (auto intro!: adds apply_loop_owned delete_loop_owned split: option.splits)
qed

section \<open>Two kinds of run\<close>

lemma available_run:
  assumes "reconcileResource R ns m h = (Ret (res, ConditionAvailable, err), h')"
    and "Validate (ExternalFRRK8sNamespace R) (Spec m) = None"
  shows "err = None \<and> res = 0 \<and>
         (\<exists>pre toDel objs h1.
            list_all network_call pre \<and> chart_objects R (Spec m) toDel objs \<and>
            h1 = h @ pre @ map DeleteObject toDel @
                 map (\<lambda>x. ApplyObject (owned R m x)) (filter (\<lambda>x. \<not> skipped R x) objs) \<and>
            fst (IsMetalLBAvailable (Client R) ns h1) = Ret None \<and>
            h' = h1 @ [GetDaemonSet ns ''speaker'', GetDeployment ns ''controller''])"
proof -
  obtain r h1 where s: "syncMetalLBResources R m h = (r, h1)" by fastforce
  have r: "r = Ret ()"
    using assms(1) s by (cases r) (auto simp: reconcileResource_run split: if_splits)
  obtain a h2 where a: "IsMetalLBAvailable (Client R) ns h1 = (a, h2)" by fastforce
  have "a = Ret None \<and> err = None \<and> res = 0 \<and> h' = h2"
    using assms(1) s r a by (auto simp: reconcileResource_run split: outcome.splits option.splits go_error.splits)
  moreover from this a have "h2 = h1 @ [GetDaemonSet ns ''speaker'', GetDeployment ns ''controller'']"
    by (auto simp: IsMetalLBAvailable_run Let_def split: sum.splits option.splits)
  moreover from sync_run [OF s assms(2)] r obtain pre toDel objs where
    "h1 = h @ pre @ object_calls R m toDel objs" "list_all network_call pre"
    "chart_objects R (Spec m) toDel objs" by blast
  ultimately show ?thesis using a unfolding object_calls_def by (intro conjI exI) auto
qed

lemma invalid_sync_network:
  assumes "Validate (ExternalFRRK8sNamespace R) (Spec m) \<noteq> None"
  shows "syncMetalLBResources R m h = embedded_frrk8s R (Spec m) h"
    and "list_all network_call (drop (length h) (snd (embedded_frrk8s R (Spec m) h)))"
proof -
  obtain r h1 where e: "embedded_frrk8s R (Spec m) h = (r, h1)" by fastforce
  then show "syncMetalLBResources R m h = embedded_frrk8s R (Spec m) h"
    using assms by (cases r) (simp_all add: sync_invalid bindK_def io_simps)
  show "list_all network_call (drop (length h) (snd (embedded_frrk8s R (Spec m) h)))"
    using adds_onlyD [OF embedded_frrk8s_adds e] e by auto
qed

lemma invalid_sync:
  assumes "Validate (ExternalFRRK8sNamespace R) (Spec m) \<noteq> None"
    and "embedded_frrk8s R (Spec m) h = (Ret (), h1)"
  shows "syncMetalLBResources R m h = (Ret (), h1)"
    and "\<not> (\<exists>c\<in>set (drop (length h) h1). changes_objects c)"
proof -
  show "syncMetalLBResources R m h = (Ret (), h1)"
    using assms by (simp add: sync_invalid bindK_def io_simps)
  obtain cs where "h1 = h @ cs" "list_all network_call cs"
    using adds_onlyD [OF embedded_frrk8s_adds assms(2)] by blast
  then show "\<not> (\<exists>c\<in>set (drop (length h) h1). changes_objects c)"
    using network_call_changes by (auto simp: list_all_iff)
qed

lemma invalid_run:
  assumes "Validate (ExternalFRRK8sNamespace R) (Spec m) \<noteq> None"
    and "embedded_frrk8s R (Spec m) h = (Ret (), h1)"
    and "fst (IsMetalLBAvailable (Client R) ns h1) = Ret None"
  shows "fst (reconcileResource R ns m h) = Ret (0, ConditionAvailable, None)"
proof -
  obtain h2 where "IsMetalLBAvailable (Client R) ns h1 = (Ret None, h2)"
    using assms(3) by (metis fst_conv surj_pair)
  then show ?thesis using invalid_sync(1) [OF assms(1,2)] by (simp add: reconcileResource_run)
qed

section \<open>Examples\<close>

definition example_reconciler :: "env_config \<Rightarrow> (unit, string) reconciler" where
  "example_reconciler env =
     \<lparr>Client = (example_kube ready_daemonset ready_deployment)
        \<lparr>get_cluster_operator := \<lambda>_ _. Inr [\<lparr>VersionName = ''operator'', Version = ''4.16.0''\<rparr>]\<rparr>,
      HelmLib = example_helm [example_workload ''ConfigMap'' ''startup''], ULib = workload_lib,
      VersionLib = \<lparr>NewVersion = Inr, LessThan = (\<lambda>_ _. True)\<rparr>, ProviderFRR = ''FRR'',
      SetControllerReference = (\<lambda>_ x. Inr (x(''owner'' \<mapsto> GStr ''metallb''))),
      GroupVersionKindString = (\<lambda>_. []), ExternalFRRK8sNamespace = [],
      metalLBChart = example_chart, frrk8sChart = example_chart, EnvConfig = env,
      lib_error_text = (\<lambda>f _. f), lib_unwrap_text = (\<lambda>_ _. None)\<rparr>"

definition example_metallb :: "metallb_spec \<Rightarrow> metallb" where
  "example_metallb spec =
     \<lparr>Name = ''metallb'', Namespace = ''metallb-system'', Spec = spec, Conditions = []\<rparr>"

lemma example_reconciler_simps [simp]:
  "get_metallb (Client (example_reconciler env)) h ns n =
     Inr \<lparr>Name = n, Namespace = ns, Spec = zero_spec, Conditions = []\<rparr>"
  "get_cluster_operator (Client (example_reconciler env)) h n =
     Inr [\<lparr>VersionName = ''operator'', Version = ''4.16.0''\<rparr>]"
  "get_daemonset (Client (example_reconciler env)) h ns n = Inr ready_daemonset"
  "get_deployment (Client (example_reconciler env)) h ns n = Inr ready_deployment"
  "delete_object (Client (example_reconciler env)) h x = None"
  "apply_object (Client (example_reconciler env)) h x = None"
  "EnvConfig (example_reconciler env) = env" "ULib (example_reconciler env) = workload_lib"
  "ExternalFRRK8sNamespace (example_reconciler env) = []"
  "SetControllerReference (example_reconciler env) m x = Inr (x(''owner'' \<mapsto> GStr ''metallb''))"
  "Spec (example_metallb spec) = spec"
  by (simp_all add: example_reconciler_def example_kube_def example_metallb_def)

lemma example_available:
  "IsMetalLBAvailable (Client (example_reconciler env)) ns h =
     (Ret None, h @ [GetDaemonSet ns ''speaker'', GetDeployment ns ''controller''])"
proof -
  have "isDaemonSetReady ready_daemonset = None" "isDeploymentReady ready_deployment = None"
    by (simp_all add: isDaemonSetReady_def isDeploymentReady_def ready_daemonset_def ready_deployment_def)
  then show ?thesis by (simp add: IsMetalLBAvailable_run Let_def)
qed

text \<open>The one object that the example's charts render, where it is not changed.\<close>

definition example_rendered :: obj where
  "example_rendered =
     (example_workload ''ConfigMap'' ''startup'')(''metadata'' \<mapsto>
        GMap [''name'' \<mapsto> GStr ''startup'', ''namespace'' \<mapsto> GStr ''metallb-system''])"

lemma example_chart_objects:
  "FRRK8SChart_Objects (example_helm [example_workload ''ConfigMap'' ''startup'']) workload_lib example_chart
     (example_config False) zero_spec = Ret [example_rendered]"
  "MetalLBChart_Objects (example_helm [example_workload ''ConfigMap'' ''startup'']) workload_lib example_chart
     (example_config False) zero_spec = Ret [example_rendered]"
proof -
  let ?docs = "[example_workload ''ConfigMap'' ''startup'']"
  obtain v where v: "patchChartValues (example_config False) zero_spec Map.empty = Inr v"
    using patchChartValues_Inr_iff [of "example_config False" zero_spec Map.empty]
    by (auto simp: zero_spec_def)
  have "frrk8s_objects workload_lib (example_config False) zero_spec [] ?docs = Ret [example_rendered]"
    by (simp add: frrk8s_object_def example_run example_rendered_def isFRRK8SDaemonset_def)
  then show "FRRK8SChart_Objects (example_helm ?docs) workload_lib example_chart
      (example_config False) zero_spec = Ret [example_rendered]"
    using v example_helm_parse [of ?docs]
    unfolding FRRK8SChart_Objects_def by (simp add: example_helm_def)
  have "metallb_object workload_lib (example_config False) zero_spec
      (example_workload ''ConfigMap'' ''startup'') = Ret example_rendered"
    by (simp add: example_run example_rendered_def)
  then show "MetalLBChart_Objects (example_helm ?docs) workload_lib example_chart
      (example_config False) zero_spec = Ret [example_rendered]"
    using example_helm_parse [of ?docs]
    unfolding MetalLBChart_Objects_def by (simp add: example_helm_def)
qed

lemma example_valid: "Validate [] zero_spec = None"
  by (simp add: Validate_None_iff valid_spec_alt zero_spec_def preferred_terms_def known_backend_def)

definition example_applied :: obj where
  "example_applied = example_rendered(''owner'' \<mapsto> GStr ''metallb'')"

lemma example_sync:
  "syncMetalLBResources (example_reconciler (example_config False)) (example_metallb zero_spec) h =
     (Ret (), h @ [DeleteObject example_rendered, ApplyObject example_applied])"
proof -
  have b: "BGPType zero_spec (example_config False) = FRRMode"
    by (simp add: BGPType_def zero_spec_def)
  have v: "validateBGPMode zero_spec False = None"
    by (simp add: validateBGPMode_def zero_spec_def)
  have e: "embedded_frrk8s (example_reconciler (example_config False)) zero_spec = return ()"
    by (simp add: embedded_frrk8s_def)
  have o: "HelmLib (example_reconciler env) = example_helm [example_workload ''ConfigMap'' ''startup'']"
    "frrk8sChart (example_reconciler env) = example_chart"
    "metalLBChart (example_reconciler env) = example_chart" for env
    by (simp_all add: example_reconciler_def)
  have "set_owner (example_reconciler (example_config False)) m example_rendered = Inr example_applied" for m
    by (simp add: set_owner_def example_applied_def example_rendered_def get_str_def)
  moreover have "\<not> skipped (example_reconciler (example_config False)) example_rendered"
    by (simp add: skipped_def example_rendered_def get_str_def example_workload_def)
  ultimately show ?thesis
    by (simp add: syncMetalLBResources_def Let_def e example_valid v b o example_chart_objects io_simps)
       (simp add: bindK_def delete_step_run apply_step_run io_simps)
qed

lemma example_update: "\<exists>cs. Update (Client (example_reconciler env)) m c r s h = (Ret (), h @ cs)"
proof -
  have "update_status (Client (example_reconciler env)) h m = None" for h m
    by (simp add: example_reconciler_def example_kube_def)
  then show ?thesis by (auto simp: Update_run Let_def)
qed

lemma example_reconcile:
  "\<exists>h'. Reconcile (example_reconciler (example_config False)) ''metallb-system'' ''metallb'' [] = (Ret 0, h') \<and>
        ApplyObject example_applied \<in> set h'"
proof -
  let ?R = "example_reconciler (example_config False)"
  let ?h = "[GetMetalLB ''metallb-system'' ''metallb'', DeleteObject example_rendered,
             ApplyObject example_applied, GetDaemonSet ''metallb-system'' ''speaker'',
             GetDeployment ''metallb-system'' ''controller'']"
  have g: "get_metallb (Client ?R) [] ''metallb-system'' ''metallb'' = Inr (example_metallb zero_spec)"
    by (simp add: example_metallb_def)
  have "reconcileResource ?R ''metallb-system'' (example_metallb zero_spec) [GetMetalLB ''metallb-system'' ''metallb'']
      = (Ret (0, ConditionAvailable, None), ?h)"
    by (simp add: reconcileResource_run example_sync example_available)
  then have "Reconcile ?R ''metallb-system'' ''metallb'' [] =
      bindK (Update (Client ?R) (example_metallb zero_spec) ConditionAvailable ConditionAvailable [])
        (\<lambda>_. return 0) ?h"
    unfolding Reconcile_def defaultMetalLBCrName_def bindK_asks g
    by (simp add: bindK_def [of "reconcileResource ?R ''metallb-system'' (example_metallb zero_spec)"])
  moreover obtain cs where "Update (Client ?R) (example_metallb zero_spec) ConditionAvailable ConditionAvailable [] ?h
      = (Ret (), ?h @ cs)"
    using example_update by blast
  ultimately show ?thesis by (simp add: bindK_def io_simps)
qed

definition example_native :: metallb where
  "example_native = example_metallb (zero_spec\<lparr>BGPBackend := NativeMode\<rparr>)"

definition example_refusing :: "(unit, string) reconciler" where
  "example_refusing =
     (let R = example_reconciler (example_config True)
      in R\<lparr>Client := (Client R)\<lparr>get_metallb := \<lambda>_ _ _. Inr example_native\<rparr>\<rparr>)"

lemma example_refusing_sync:
  "syncMetalLBResources example_refusing example_native h =
     (Fail (ErrNew ''native mode is not supported on openshift''), h)"
proof -
  let ?spec = "zero_spec\<lparr>BGPBackend := NativeMode\<rparr>"
  have "Validate [] ?spec = None"
    by (simp add: Validate_None_iff valid_spec_alt zero_spec_def preferred_terms_def known_backend_def)
  moreover have "ExternalFRRK8sNamespace example_refusing = []" "EnvConfig example_refusing = example_config True"
    by (simp_all add: example_refusing_def Let_def)
  ultimately show ?thesis
    by (simp add: example_native_def syncMetalLBResources_def embedded_frrk8s_def Let_def io_simps
        validateBGPMode_def BGPType_def)
qed

section \<open>Properties\<close>

text \<open>
  C5. A synchronisation, whatever the API server answers: it first deals with the network operator only.
  For an invalid resource it makes no other call. For a valid one it then makes an initial part of one fixed
  sequence of calls, first the deletions of the objects that must not be there and then the application of
  the others, in chart order, without the roles and role bindings; and it makes all of them when it
  succeeds. The objects of the frr-k8s chart are applied in frr-k8s mode and deleted in every other.
\<close>

theorem sync_calls_in_order:
  assumes "syncMetalLBResources R m h = (r, h')"
  shows "\<exists>pre post. h' = h @ pre @ post \<and> list_all network_call pre \<and>
           ((post = [] \<and> (r \<noteq> Ret () \<or> Validate (ExternalFRRK8sNamespace R) (Spec m) \<noteq> None)) \<or>
            (Validate (ExternalFRRK8sNamespace R) (Spec m) = None \<and>
             (\<exists>toDel objs. chart_objects R (Spec m) toDel objs \<and>
               prefix post (map DeleteObject toDel @
                 map (\<lambda>x. ApplyObject (owned R m x)) (filter (\<lambda>x. \<not> skipped R x) objs)) \<and>
               (r = Ret () \<longrightarrow> post = map DeleteObject toDel @
                 map (\<lambda>x. ApplyObject (owned R m x)) (filter (\<lambda>x. \<not> skipped R x) objs)))))"
proof (cases "Validate (ExternalFRRK8sNamespace R) (Spec m) = None")
  case True
  with sync_run [OF assms True] show ?thesis unfolding object_calls_def by blast
next
  case False
  with adds_onlyD [OF sync_invalid_adds [OF False] assms] show ?thesis by auto
qed

theorem sync_calls_in_order_witness:
  "\<exists>toDel objs. chart_objects (example_reconciler (example_config False)) zero_spec toDel objs \<and>
     [DeleteObject example_rendered, ApplyObject example_applied] =
       map DeleteObject toDel @ map (\<lambda>x. ApplyObject (owned (example_reconciler (example_config False))
         (example_metallb zero_spec) x)) (filter (\<lambda>x. \<not> skipped (example_reconciler (example_config False)) x) objs)"
proof -
  let ?R = "example_reconciler (example_config False)"
  have "Validate (ExternalFRRK8sNamespace ?R) (Spec (example_metallb zero_spec)) = None"
    by (simp add: example_valid)
  with sync_calls_in_order [OF example_sync, of "[]"] obtain pre post toDel objs where
    e: "[DeleteObject example_rendered, ApplyObject example_applied] = pre @ post"
      "list_all network_call pre" and
    c: "chart_objects ?R zero_spec toDel objs" "post = map DeleteObject toDel @
          map (\<lambda>x. ApplyObject (owned ?R (example_metallb zero_spec) x)) (filter (\<lambda>x. \<not> skipped ?R x) objs)"
    by auto
  have "pre = []" using e by (cases pre) (auto simp: network_call_def)
  with e c show ?thesis by auto
qed

text \<open>
  C6. Safety: no reconciliation deletes or applies an object unless the request is for the resource
  named metallb, the resource could be read, it passes validation, and its backend is one that the
  platform supports.
\<close>

theorem objects_change_only_for_accepted_resource:
  assumes "Reconcile R ns n h = (r, h')"
    and "\<exists>c\<in>set (drop (length h) h'). changes_objects c"
  shows "n = ''metallb'' \<and>
         (\<exists>m. get_metallb (Client R) h ns n = Inr m \<and>
              Validate (ExternalFRRK8sNamespace R) (Spec m) = None \<and>
              validateBGPMode (Spec m) (IsOpenshift (EnvConfig R)) = None)"
proof (rule ccontr)
  assume neg: "\<not> ?thesis"
  have "adds_only (\<lambda>c. \<not> changes_objects c) (syncMetalLBResources R m)"
    if n: "n = defaultMetalLBCrName" and m: "get_metallb (Client R) h ns n = Inr m" for m
  proof (cases "Validate (ExternalFRRK8sNamespace R) (Spec m) = None")
    case True
    with neg n m have refused: "validateBGPMode (Spec m) (IsOpenshift (EnvConfig R)) \<noteq> None"
      by (simp add: defaultMetalLBCrName_def)
    show ?thesis
      unfolding adds_only_def
    proof (intro allI impI)
      fix k s k'
      assume "syncMetalLBResources R m k = (s, k')"
      from sync_run [OF this True] refused obtain pre where "k' = k @ pre" "list_all network_call pre"
        by auto
      then show "\<exists>cs. k' = k @ cs \<and> list_all (\<lambda>c. \<not> changes_objects c) cs"
        using network_call_changes by (auto simp: list_all_iff)
    qed
  next
    case False
    then show ?thesis
      by (rule adds_only_mono [OF sync_invalid_adds]) (rule network_call_changes)
  qed
  from Reconcile_adds [OF this assms(1)] assms(2) show False by (auto simp: list_all_iff)
qed

theorem objects_change_only_for_accepted_resource_witness:
  "\<exists>h'. Reconcile (example_reconciler (example_config False)) ''metallb-system'' ''metallb'' [] = (Ret 0, h') \<and>
        ApplyObject example_applied \<in> set h' \<and>
        Validate [] zero_spec = None \<and> validateBGPMode zero_spec False = None"
proof -
  obtain h' where h: "Reconcile (example_reconciler (example_config False)) ''metallb-system'' ''metallb'' []
      = (Ret 0, h')" "ApplyObject example_applied \<in> set h'" using example_reconcile by blast
  have "\<exists>c\<in>set (drop (length ([] :: trace)) h'). changes_objects c"
    using h(2) by (intro bexI [of _ "ApplyObject example_applied"]) simp_all
  from objects_change_only_for_accepted_resource [OF h(1) this] h show ?thesis by auto
qed

text \<open>
  Available is only reported when it is so: if a reconciliation of a valid resource ends with the
  condition Available, every object of the charts was deleted or applied as it should be, in this very
  run, and after that both workloads were read and found ready.
\<close>

theorem available_means_applied_and_ready:
  assumes "reconcileResource R ns m h = (Ret (res, ConditionAvailable, err), h')"
    and "Validate (ExternalFRRK8sNamespace R) (Spec m) = None"
  shows "err = None \<and> res = 0 \<and>
         (\<exists>pre toDel objs h1.
            list_all network_call pre \<and> chart_objects R (Spec m) toDel objs \<and>
            h1 = h @ pre @ map DeleteObject toDel @
                 map (\<lambda>x. ApplyObject (owned R m x)) (filter (\<lambda>x. \<not> skipped R x) objs) \<and>
            fst (IsMetalLBAvailable (Client R) ns h1) = Ret None \<and>
            h' = h1 @ [GetDaemonSet ns ''speaker'', GetDeployment ns ''controller''])"
  using assms by (rule available_run)

theorem available_means_applied_and_ready_witness:
  "\<exists>h' h1. reconcileResource (example_reconciler (example_config False)) ''ns'' (example_metallb zero_spec) [] =
        (Ret (0, ConditionAvailable, None), h') \<and>
      h' = h1 @ [GetDaemonSet ''ns'' ''speaker'', GetDeployment ''ns'' ''controller''] \<and>
      (\<exists>toDel objs. chart_objects (example_reconciler (example_config False)) zero_spec toDel objs)"
proof -
  let ?R = "example_reconciler (example_config False)"
  have v: "Validate (ExternalFRRK8sNamespace ?R) (Spec (example_metallb zero_spec)) = None"
    by (simp add: example_valid)
  obtain h' where run: "reconcileResource ?R ''ns'' (example_metallb zero_spec) [] =
      (Ret (0, ConditionAvailable, None), h')"
    by (simp add: reconcileResource_run example_sync example_available)
  from available_means_applied_and_ready [OF run v] run show ?thesis by auto
qed

text \<open>
  C32. An invalid resource, one that the webhook did not stop: its synchronisation is the part for the
  network operator, which may update the OpenShift network, and nothing else, so no object is deleted or
  applied; and the errors of the resource are not reported. Where that part succeeds, as it does without
  calls when the network operator is not involved, and MetalLB happens to run, it is reported as Available.
\<close>

theorem invalid_resource_reported_available:
  assumes "Validate (ExternalFRRK8sNamespace R) (Spec m) \<noteq> None"
  shows "syncMetalLBResources R m h = embedded_frrk8s R (Spec m) h \<and>
         list_all network_call (drop (length h) (snd (syncMetalLBResources R m h))) \<and>
         (\<forall>h1. embedded_frrk8s R (Spec m) h = (Ret (), h1) \<and> fst (IsMetalLBAvailable (Client R) ns h1) = Ret None \<longrightarrow>
            fst (reconcileResource R ns m h) = Ret (0, ConditionAvailable, None))"
  using invalid_run [OF assms] invalid_sync_network [OF assms] by auto

theorem invalid_resource_reported_available_witness:
  "fst (reconcileResource (example_reconciler (example_config False)) ''ns''
     (example_metallb (zero_spec\<lparr>BGPBackend := ''bgp''\<rparr>)) []) = Ret (0, ConditionAvailable, None)"
proof -
  let ?R = "example_reconciler (example_config False)"
  let ?m = "example_metallb (zero_spec\<lparr>BGPBackend := ''bgp''\<rparr>)"
  have "Validate (ExternalFRRK8sNamespace ?R) (Spec ?m) \<noteq> None"
    by (simp add: Validate_None_iff valid_spec_alt known_backend_def mode_defs)
  moreover have "embedded_frrk8s ?R (Spec ?m) [] = (Ret (), [])"
    by (simp add: embedded_frrk8s_def example_config_def io_simps)
  ultimately show ?thesis
    using invalid_resource_reported_available [of ?R ?m "[]" "''ns''"] by (simp add: example_available)
qed

text \<open>
  While the network operator cannot deploy frr-k8s yet, a reconciliation that needs it asks only
  for the operator's version, leaves the resource's status as it is, and comes back in two minutes.
\<close>

theorem waits_for_network_operator:
  assumes "get_metallb (Client R) h ns ''metallb'' = Inr m"
    and "MustDeployFRRK8sFromCNO (EnvConfig R)" and "IsOpenshift (EnvConfig R)"
    and "BGPType (Spec m) (EnvConfig R) = FRRK8sExternalMode"
    and "get_cluster_operator (Client R) (h @ [GetMetalLB ns ''metallb'']) ''network'' = Inr vs"
    and "cnoSupportsFRRK8s (VersionLib R) (EnvConfig R) vs = Ret False"
  shows "Reconcile R ns ''metallb'' h =
           (Ret 120, h @ [GetMetalLB ns ''metallb'', GetClusterOperator ''network''])"
proof -
  have "embedded_frrk8s R (Spec m) (h @ [GetMetalLB ns ''metallb'']) =
      (Fail EmbeddedFRRK8sSupportNotAvailable,
       h @ [GetMetalLB ns ''metallb'', GetClusterOperator ''network''])"
    using assms(2-6) by (simp add: embedded_frrk8s_def bindK_def SupportsFRRK8s_run io_simps)
  then have "syncMetalLBResources R m (h @ [GetMetalLB ns ''metallb'']) =
      (Fail EmbeddedFRRK8sSupportNotAvailable,
       h @ [GetMetalLB ns ''metallb'', GetClusterOperator ''network''])"
    by (simp add: syncMetalLBResources_def Let_def bindK_def)
  then have "reconcileResource R ns m (h @ [GetMetalLB ns ''metallb'']) =
      (Ret (120, [], None), h @ [GetMetalLB ns ''metallb'', GetClusterOperator ''network''])"
    by (simp add: reconcileResource_run)
  then show ?thesis
    using assms(1) by (simp add: Reconcile_def io_simps defaultMetalLBCrName_def) (simp add: bindK_def io_simps)
qed

theorem waits_for_network_operator_witness:
  "Reconcile (example_reconciler ((example_config True)\<lparr>MustDeployFRRK8sFromCNO := True\<rparr>)) ''ns'' ''metallb'' [] =
     (Ret 120, [GetMetalLB ''ns'' ''metallb'', GetClusterOperator ''network''])"
  by (subst waits_for_network_operator
      [where m = "\<lparr>Name = ''metallb'', Namespace = ''ns'', Spec = zero_spec, Conditions = []\<rparr>"
        and vs = "[\<lparr>VersionName = ''operator'', Version = ''4.16.0''\<rparr>]"])
     (simp_all add: BGPType_def zero_spec_def, simp add: example_reconciler_def)

text \<open>
  A resource with another name than metallb is marked Degraded, with a reason that names it; it is
  never requeued, even if that update fails, and no object is read or changed for it.
\<close>

theorem other_names_are_degraded:
  assumes "n \<noteq> ''metallb''" and "get_metallb (Client R) h ns n = Inr m"
    and "\<forall>c\<in>set (Conditions m). LastTransitionTime c \<noteq> clock (Client R) (h @ [GetMetalLB ns n])"
  shows "\<exists>m'. Reconcile R ns n h =
                (Ret 0, h @ [GetMetalLB ns n, TimeNow, TimeNow, UpdateStatus m']) \<and>
              Spec m' = Spec m \<and> Name m' = Name m \<and> condition_true ConditionDegraded (Conditions m') \<and>
              (\<exists>c\<in>set (Conditions m'). Reason c = ''IncorrectMetalLBResourceName'' \<and>
                 Message c = ''Incorrect MetalLB resource name: '' @ n)"
proof -
  let ?h = "h @ [GetMetalLB ns n]"
  let ?msg = "''Incorrect MetalLB resource name: '' @ n"
  let ?cs = "getConditions (clock (Client R) (?h @ [TimeNow])) ConditionDegraded
               ''IncorrectMetalLBResourceName'' ?msg"
  have differ: "getConditions (clock (Client R) ?h) ConditionDegraded ''IncorrectMetalLBResourceName'' ?msg
      \<noteq> Conditions m"
    using status_times_differ assms(3) by blast
  have "Reconcile R ns n h =
      bindK (tryK (Update (Client R) m ConditionDegraded ''IncorrectMetalLBResourceName'' ?msg))
        (\<lambda>_. return 0) ?h"
    using assms(1,2) unfolding Reconcile_def by (simp add: io_simps defaultMetalLBCrName_def)
  also have "\<dots> = (Ret 0, h @ [GetMetalLB ns n, TimeNow, TimeNow, UpdateStatus (m\<lparr>Conditions := ?cs\<rparr>)])"
    using differ by (simp add: Update_run Let_def tryK_def bindK_def io_simps split: option.splits)
  finally show ?thesis
    by (intro exI [of _ "m\<lparr>Conditions := ?cs\<rparr>"])
       (simp add: getConditions_cases condition_true_def base_condition_def)
qed

theorem other_names_are_degraded_witness:
  "\<exists>m'. Reconcile (example_reconciler (example_config True)) ''ns'' ''other'' [] =
          (Ret 0, [GetMetalLB ''ns'' ''other'', TimeNow, TimeNow, UpdateStatus m']) \<and> Name m' = ''other''"
  using other_names_are_degraded
    [where n = "''other''" and ns = "''ns''" and h = "[]" and R = "example_reconciler (example_config True)"]
  by auto

text \<open>
  On OpenShift the controller also watches the kind Network, whose one object is named cluster and has no
  namespace. \<open>handler.EnqueueRequestForObject\<close> makes of an event the request with the object's own
  namespace and name, so a change of the network asks for a MetalLB resource named cluster. Whatever is
  found under that name, the resource metallb is not read and nothing is synchronised.
\<close>

definition EnqueueRequestForObject :: "string \<Rightarrow> string \<Rightarrow> string \<times> string" where
  "EnqueueRequestForObject namespace name = (namespace, name)"

theorem network_events_are_lost:
  assumes "EnqueueRequestForObject [] ''cluster'' = (ns, n)" and "Reconcile R ns n h = (r, h')"
  shows "\<exists>cs. h' = h @ GetMetalLB [] ''cluster'' # cs \<and>
              list_all (\<lambda>c. c = TimeNow \<or> (\<exists>m. c = UpdateStatus m)) cs \<and>
              (\<forall>e. get_metallb (Client R) h [] ''cluster'' = Inl e \<and> IsNotFound (Client R) e \<longrightarrow> r = Ret 0 \<and> cs = [])"
proof -
  have n: "ns = []" "n = ''cluster''" using assms(1) by (simp_all add: EnqueueRequestForObject_def)
  show ?thesis
    using assms(2) unfolding n
    by (cases "get_metallb (Client R) h [] ''cluster''")
      (auto simp: Reconcile_def io_simps defaultMetalLBCrName_def Update_run Let_def tryK_def bindK_def
        split: if_splits option.splits)
qed

theorem network_events_are_lost_witness:
  "\<exists>cs. snd (Reconcile (example_reconciler (example_config True)) [] ''cluster'' []) = GetMetalLB [] ''cluster'' # cs \<and>
        list_all (\<lambda>c. \<not> changes_objects c) cs"
proof -
  obtain r h' where run: "Reconcile (example_reconciler (example_config True)) [] ''cluster'' [] = (r, h')" by fastforce
  from network_events_are_lost [OF EnqueueRequestForObject_def run] obtain cs
    where "h' = GetMetalLB [] ''cluster'' # cs" "list_all (\<lambda>c. c = TimeNow \<or> (\<exists>m. c = UpdateStatus m)) cs" by auto
  then show ?thesis using run by (auto simp: list_all_iff changes_objects_def)
qed

lemma Update_writes:
  "\<exists>m' t. (snd (Update K m c r msg h) = h @ [TimeNow, TimeNow, UpdateStatus m'] \<or>
           snd (Update K m c r msg h) = h @ [TimeNow] \<and> m' = m) \<and> Conditions m' = getConditions t c r msg"
proof (cases "getConditions (clock K h) c r msg = Conditions m")
  case True
  then show ?thesis
    by (intro exI [of _ m] exI [of _ "clock K h"]) (simp add: Update_run Let_def)
next
  case False
  let ?t = "clock K (h @ [TimeNow])"
  show ?thesis
    using False by (intro exI [of _ "m\<lparr>Conditions := getConditions ?t c r msg\<rparr>"] exI [of _ ?t])
      (simp add: Update_run Let_def)
qed

lemma snd_bindK_return: "snd (bindK f (\<lambda>_. return x) h) = snd (f h)"
  by (cases "f h") (simp add: bindK_def io_simps split: outcome.splits)

text \<open>
  C31. When a synchronisation returns an error, the operator marks the resource Degraded with the reason
  \<open>internal error\<close> and the error's text as its message: the status that it sends has that condition, or
  the resource has it already and no status is sent. The reason has a space in it, so it does not have the
  form that the resource definition demands of a condition's reason. One error is different: while the
  network operator cannot deploy frr-k8s the status is left alone, and the reconciliation comes back in two
  minutes.
\<close>

theorem failed_sync_is_degraded:
  assumes "get_metallb (Client R) h ns ''metallb'' = Inr m"
    and "syncMetalLBResources R m (h @ [GetMetalLB ns ''metallb'']) = (Fail e, h1)"
  shows "if is_embedded_not_available e then Reconcile R ns ''metallb'' h = (Ret 120, h1)
         else \<exists>m' c. (snd (Reconcile R ns ''metallb'' h) = h1 @ [TimeNow, TimeNow, UpdateStatus m'] \<or>
                       snd (Reconcile R ns ''metallb'' h) = h1 @ [TimeNow] \<and> m' = m) \<and>
           c \<in> set (Conditions m') \<and> Type c = ConditionDegraded \<and> Status c = ConditionTrue \<and>
           Message c = ''FailedToSyncMetalLBResources: '' @ error_text (lib_error_text R) e \<and>
           Reason c = ''internal error'' \<and> \<not> crd_reason (Reason c)"
proof (cases "is_embedded_not_available e")
  case True
  then have "reconcileResource R ns m (h @ [GetMetalLB ns ''metallb'']) = (Ret (120, [], None), h1)"
    using assms(2) by (simp add: reconcileResource_run)
  with True assms(1) show ?thesis
    by (simp add: Reconcile_def io_simps defaultMetalLBCrName_def) (simp add: bindK_def io_simps)
next
  case False
  let ?msg = "''FailedToSyncMetalLBResources: '' @ error_text (lib_error_text R) e"
  let ?cs = "\<lambda>t. getConditions t ConditionDegraded ''internal error'' ?msg"
  have "reconcileResource R ns m (h @ [GetMetalLB ns ''metallb'']) =
      (Ret (0, ConditionDegraded, Some (Wrapped ''FailedToSyncMetalLBResources'' e)), h1)"
    using assms(2) False by (simp add: reconcileResource_run)
  then have "Reconcile R ns ''metallb'' h =
      bindK (Update (Client R) m ConditionDegraded ''internal error'' ?msg) (\<lambda>_. return 0) h1"
    using assms(1) unfolding Reconcile_def
    by (simp add: io_simps defaultMetalLBCrName_def) (simp add: bindK_def [of "reconcileResource R ns m"])
  then have "\<exists>m' t. (snd (Reconcile R ns ''metallb'' h) = h1 @ [TimeNow, TimeNow, UpdateStatus m'] \<or>
      snd (Reconcile R ns ''metallb'' h) = h1 @ [TimeNow] \<and> m' = m) \<and> Conditions m' = ?cs t"
    using Update_writes [of "Client R" m ConditionDegraded "''internal error''" ?msg h1]
    by (simp add: snd_bindK_return)
  moreover have "?cs t ! 3 \<in> set (?cs t)" and "Type (?cs t ! 3) = ConditionDegraded"
    and "Status (?cs t ! 3) = ConditionTrue" and "Message (?cs t ! 3) = ?msg"
    and "Reason (?cs t ! 3) = ''internal error''" for t
    by (simp_all add: getConditions_cases base_condition_def)
  moreover have "\<not> crd_reason ''internal error''" by code_simp
  ultimately have "\<exists>m' c. (snd (Reconcile R ns ''metallb'' h) = h1 @ [TimeNow, TimeNow, UpdateStatus m'] \<or>
      snd (Reconcile R ns ''metallb'' h) = h1 @ [TimeNow] \<and> m' = m) \<and>
      c \<in> set (Conditions m') \<and> Type c = ConditionDegraded \<and> Status c = ConditionTrue \<and>
      Message c = ?msg \<and> Reason c = ''internal error'' \<and> \<not> crd_reason (Reason c)" by metis
  then show ?thesis using False by simp
qed

theorem failed_sync_is_degraded_witness:
  "\<exists>m' c. snd (Reconcile example_refusing ''ns'' ''metallb'' []) =
            [GetMetalLB ''ns'' ''metallb'', TimeNow, TimeNow, UpdateStatus m'] \<and>
     c \<in> set (Conditions m') \<and>
     Message c = ''FailedToSyncMetalLBResources: native mode is not supported on openshift''"
proof -
  have g: "get_metallb (Client example_refusing) [] ''ns'' ''metallb'' = Inr example_native"
    by (simp add: example_refusing_def Let_def)
  have none: "Conditions example_native = []" by (simp add: example_native_def example_metallb_def)
  from failed_sync_is_degraded [OF g, of "ErrNew ''native mode is not supported on openshift''", OF
      example_refusing_sync [of "[] @ [GetMetalLB ''ns'' ''metallb'']"]]
  obtain m' c where "snd (Reconcile example_refusing ''ns'' ''metallb'' []) =
      ([] @ [GetMetalLB ''ns'' ''metallb'']) @ [TimeNow, TimeNow, UpdateStatus m']" "c \<in> set (Conditions m')"
    "Message c = ''FailedToSyncMetalLBResources: '' @ error_text (lib_error_text example_refusing)
       (ErrNew ''native mode is not supported on openshift'')"
    using none by auto
  then show ?thesis by (intro exI [of _ m'] exI [of _ c]) simp
qed

text \<open>
  C33. The reconciler refuses two kinds of resource that the webhook admits, and no others: native mode
  on OpenShift, and the external frr-k8s named explicitly off OpenShift.
\<close>

theorem refused_though_admitted:
  assumes "Validate ext spec = None"
  shows "(validateBGPMode spec ocp \<noteq> None) =
           (BGPBackend spec = NativeMode \<and> ocp \<or> BGPBackend spec = FRRK8sExternalMode \<and> \<not> ocp)"
  using assms
  by (auto simp: Validate_None_iff valid_spec_alt known_backend_def validateBGPMode_def)

theorem refused_though_admitted_witness:
  "validateBGPMode (zero_spec\<lparr>BGPBackend := FRRK8sExternalMode\<rparr>) False \<noteq> None"
proof -
  have "Validate ''frr-k8s'' (zero_spec\<lparr>BGPBackend := FRRK8sExternalMode\<rparr>) = None"
    by (simp add: Validate_None_iff valid_spec_alt zero_spec_def preferred_terms_def known_backend_def)
  from refused_though_admitted [OF this, of False] show ?thesis by simp
qed

text \<open>
  C30. Ownership: every object applied in a reconciliation comes from a rendered one that is not a role
  or role binding, with the owner set on it by the controller reference when it has a namespace; so
  what has a namespace is garbage collected with the resource.
\<close>

theorem applied_objects_are_owned:
  assumes "syncMetalLBResources R m h = (r, h')"
    and "ApplyObject y \<in> set (drop (length h) h')"
  shows "\<exists>x. GetKind (ULib R) x \<notin> {''Role'', ''RoleBinding''} \<and>
             (if GetNamespace (ULib R) x = [] then y = x else SetControllerReference R m x = Inr y)"
proof -
  obtain cs where "h' = h @ cs" and "list_all (owned_call R m) cs"
    using adds_onlyD [OF sync_owned_calls assms(1)] by blast
  with assms(2) have "owned_call R m (ApplyObject y)" by (auto simp: list_all_iff)
  then obtain x where "\<not> skipped R x" "set_owner R m x = Inr y" by (auto simp: owned_call_def)
  then show ?thesis
    by (intro exI [of _ x]) (auto simp: skipped_def set_owner_def split: if_splits sum.splits)
qed

theorem applied_objects_are_owned_witness:
  "\<exists>x. GetKind workload_lib x \<notin> {''Role'', ''RoleBinding''} \<and>
       (if GetNamespace workload_lib x = [] then example_applied = x
        else SetControllerReference (example_reconciler (example_config False)) (example_metallb zero_spec) x =
               Inr example_applied)"
  using applied_objects_are_owned [OF example_sync [of "[]"], of example_applied] by simp

end
