(* ===== verification/Main_Contracts.thy ===== *)
theory Main_Contracts
  imports Operator_Main Controller_Contracts
begin

text \<open>
  The properties of the operator's start: the TLS settings that everything is started with are the same
  ones, and they are valid before anything is written.
\<close>

section \<open>Facts\<close>

lemma must_Ret: "must e h = (Ret x, h') \<longleftrightarrow> e = None \<and> h' = h"
  by (auto simp: must_def io_simps split: option.splits)

lemma SetupWithManager_EnvConfig:
  "SetupWithManager complete ns R = Inr R' \<Longrightarrow> EnvConfig R' = EnvConfig R"
  by (auto simp: SetupWithManager_def bindE_eq_Inr split: option.splits if_splits)

lemma main_Ret:
  assumes "main M fl h = (Ret (R, server), h')"
  obtains env ocpTLS tlsOpt h1 h2 where
    "startup_config M = Inr (env, ocpTLS, tlsOpt)"
    "syncTLSConfigMap (MKube M) env h = (Ret (), h1)"
    "(if ExternalWebhookServer fl then deleteWebhookServerPods (MKube M) (EnvNamespace env)
      else return ()) h1 = (Ret (), h2)"
    "EnvConfig R = env" "server = webhookServer 9443 (WithWebhookHTTP2 fl) tlsOpt" "h' = h2"
proof -
  from assms obtain env ocpTLS tlsOpt h1 h2 hw R0 where
    *: "startup_config M = Inr (env, ocpTLS, tlsOpt)"
      "syncTLSConfigMap (MKube M) env h = (Ret (), h1)"
      "(if ExternalWebhookServer fl then deleteWebhookServerPods (MKube M) (EnvNamespace env)
        else return ()) h1 = (Ret (), h2)" and
    w: "(case ocpTLS of None \<Rightarrow> return () | Some t \<Rightarrow> must (SetupProfileWatcher (MProfileWatcher M) t cancel)) h2 = (Ret (), hw)" and
    s: "SetupWithManager (MComplete M) (EnvNamespace env) ((MReconciler M env)\<lparr>EnvConfig := env\<rparr>) = Inr R0" and
    r: "setup_rotation M fl env hw = (Ret (), h')" and
    e: "R = R0" "server = webhookServer 9443 (WithWebhookHTTP2 fl) tlsOpt"
    unfolding main_def Let_def manager_options_for_def
    by (auto simp: bindK_Ret_iff must_Ret io_simps outcome_of_eq split: prod.splits)
  have "hw = h2" using w by (auto simp: must_Ret io_simps split: option.splits)
  moreover have "h' = hw" using r by (auto simp: setup_rotation_def must_Ret io_simps split: if_splits)
  moreover have "EnvConfig R = env" using SetupWithManager_EnvConfig [OF s] e by simp
  ultimately show thesis using that * e by blast
qed

section \<open>An example\<close>

definition example_tls_lib :: tls_lib where
  "example_tls_lib = \<lparr>cliflag_TLSCipherSuites = (\<lambda>_. Inr None), cliflag_TLSVersion = (\<lambda>_. Inr 0x0303),
                      fmt_quote = (\<lambda>s. s)\<rparr>"

text \<open>On OpenShift, with a given environment and reconciler, where all of the runtime works.\<close>

definition example_main_with ::
  "(env_config \<Rightarrow> ('c, string) reconciler) \<Rightarrow> environment \<Rightarrow> ('c, string, unit, unit, unit, unit) main_lib" where
  "example_main_with mk e =
     \<lparr>MDiscovery = \<lparr>GetConfig = Inr (), NewDiscoveryClientForConfig = (\<lambda>_. Inr ()),
        ServerVersion = (\<lambda>_. Inr \<lparr>Major = ''1'', Minor = ''31'', Platform = ''linux/amd64''\<rparr>),
        ServerGroups = (\<lambda>_. Inr [''apps'', ''route.openshift.io''])\<rparr>,
      MConfig = (), MSemver = (\<lambda>_. None), MEnviron = e,
      MTLSProfile = \<lparr>NewClient = Inr (),
        FetchAPIServerTLSProfile = (\<lambda>_. Inr \<lparr>Ciphers = [], MinTLSVersion = ''VersionTLS12''\<rparr>),
        FetchAPIServerTLSAdherencePolicy = (\<lambda>_. Inr ()), OpenSSLToIANACipherSuites = (\<lambda>cs. cs)\<rparr>,
      MTLSLib = example_tls_lib, MNewClient = None,
      MKube = example_kube ready_daemonset ready_deployment,
      MMarshal = (\<lambda>_. None), MNewManager = (\<lambda>_. None), MProfileWatcher = (\<lambda>_. None),
      MReconciler = mk, MComplete = (\<lambda>_ _. None), MAddRotator = (\<lambda>_. None),
      MStart = None\<rparr>"

definition example_flags :: flags where
  "example_flags = default_flags\<lparr>DisableCertRotation := True, ExternalWebhookServer := True\<rparr>"

definition example_main :: "(unit, string, unit, unit, unit, unit) main_lib" where
  "example_main = example_main_with example_reconciler example_environment"

lemma example_start_with:
  assumes "env_ok (\<lambda>_. None) e"
    and "\<And>env. \<exists>R. SetupWithManager (\<lambda>_ _. None) (EnvNamespace env) ((mk env)\<lparr>EnvConfig := env\<rparr>) = Inr R"
  obtains env0 t R server h' where "FromEnvironment (\<lambda>_. None) e True = Inr env0"
    and "main (example_main_with mk e) example_flags [] = (Ret (R, server), h')" and "h' \<noteq> []"
    and "EnvConfig R = with_cluster_tls (Some (t :: unit ocp_tls_config)) env0"
    and "SetupWithManager (\<lambda>_ _. None) (EnvNamespace env0)
           ((mk (with_cluster_tls (Some t) env0))\<lparr>EnvConfig := with_cluster_tls (Some t) env0\<rparr>) = Inr R"
proof -
  obtain env0 where env0: "FromEnvironment (\<lambda>_. None) e True = Inr env0"
    using FromEnvironment_Inr_iff assms(1) by blast
  let ?t = "\<lparr>OCPCipherSuites = [], OCPCurvePreferences = [], OCPMinVersion = ''VersionTLS12'',
             profileSpec = \<lparr>Ciphers = [], MinTLSVersion = ''VersionTLS12''\<rparr>, adherence = ()\<rparr>"
  let ?env = "with_cluster_tls (Some ?t) env0"
  let ?M = "example_main_with mk e"
  obtain f where f: "OptFor example_tls_lib [] [] ''VersionTLS12'' = Inr f"
    by (simp add: OptFor_def parseCipherSuites_def parseCurvePreferences_def parseTLSVersion_def
        example_tls_lib_def)
  have p: "GetPlatformInfo (MDiscovery ?M) (Some ()) =
      (\<lparr>PlatformName = OpenShift, K8SVersion = ''1.31'', OS = ''linux/amd64''\<rparr>, None)"
    by (simp add: GetPlatformInfo_def getPlatformInfo_def defaultArgs_def example_main_with_def Let_def)
  have c: "startup_config ?M = Inr (?env, Some ?t, f)"
    using env0 f p
    by (simp add: startup_config_def IsOpenShift_def FetchTLSConfig_def tlsStringsFromProfile_def
        example_main_with_def with_cluster_tls_def Let_def)
  obtain R where R: "SetupWithManager (\<lambda>_ _. None) (EnvNamespace ?env) ((mk ?env)\<lparr>EnvConfig := ?env\<rparr>) = Inr R"
    using assms(2) by blast
  then have E: "EnvConfig R = ?env" by (simp add: SetupWithManager_EnvConfig)
  have k: "create_or_update_config_map (example_kube d e) h n s m = None" "list_pods (example_kube d e) h n m = Inr []"
    for d e h n s m by (simp_all add: example_kube_def)
  have l: "MComplete ?M = (\<lambda>_ _. None)" "MReconciler ?M = mk"
    by (simp_all add: example_main_with_def)
  have "\<exists>server h'. main ?M example_flags [] = (Ret (R, server), h') \<and> h' \<noteq> []"
    using R unfolding main_def c
    by (simp add: io_simps example_flags_def default_flags_def l)
      (simp add: example_main_with_def bindK_def io_simps must_def syncTLSConfigMap_run k Let_def
        deleteWebhookServerPods_def SetupProfileWatcher_def setup_rotation_def)
  with that [OF env0 _ _ E] R show thesis by auto
qed

lemma example_start: "\<exists>R server h'. main example_main example_flags [] = (Ret (R, server), h') \<and> h' \<noteq> [] \<and>
    IsOpenshift (EnvConfig R)"
proof -
  have l: "LocateChart (HelmLib (example_reconciler env)) i s = Inr s" "LoadChart (HelmLib (example_reconciler env)) s = Inr ()"
    for env i s by (simp_all add: example_reconciler_def example_helm_def)
  have "\<exists>R. SetupWithManager (\<lambda>_ _. None) (EnvNamespace env) ((example_reconciler env)\<lparr>EnvConfig := env\<rparr>) = Inr R" for env
    by (simp add: SetupWithManager_def NewMetalLBChart_def NewFRRK8SChart_def l)
  then show ?thesis
  proof (rule example_start_with [OF example_environment_ok])
    fix env0 and t :: "unit ocp_tls_config" and R server h'
    assume "FromEnvironment (\<lambda>_. None) example_environment True = Inr env0"
      and "main (example_main_with example_reconciler example_environment) example_flags [] = (Ret (R, server), h')"
      and "h' \<noteq> []" and "EnvConfig R = with_cluster_tls (Some t) env0"
    moreover from this(1) have "IsOpenshift env0" using FromEnvironment_InrD(15) by simp
    ultimately show ?thesis unfolding example_main_def by (auto simp: with_cluster_tls_def)
  qed
qed

section \<open>Properties\<close>

text \<open>
  C17. One set of TLS settings: when the operator has started, the reconciler (and through it every
  chart), the webhook server of the operator, and the ConfigMap that the MetalLB webhook server reads
  all have the same settings; they parse, and on OpenShift they are the cluster's and not those of the
  environment. The pods of the MetalLB webhook server are deleted after the ConfigMap is written, so
  that they come back with it, and nothing else is written.
\<close>

theorem startup_tls_settings_agree:
  assumes "main M fl h = (Ret (R, server), h')"
  shows "\<exists>f ps.
    OptFor (MTLSLib M) (TLSCipherSuites (EnvConfig R)) (TLSCurvePreferences (EnvConfig R))
      (TLSMinVersion (EnvConfig R)) = Inr f \<and>
    TLSOpts server = [disableHTTP2 (WithWebhookHTTP2 fl), f] \<and>
    (IsOpenshift (EnvConfig R) \<longrightarrow>
       (\<exists>t. FetchTLSConfig (MTLSProfile M) = Inr t \<and>
            TLSCipherSuites (EnvConfig R) = OCPCipherSuites t \<and>
            TLSCurvePreferences (EnvConfig R) = OCPCurvePreferences t \<and>
            TLSMinVersion (EnvConfig R) = OCPMinVersion t)) \<and>
    h' = h @ CreateOrUpdateConfigMap (EnvNamespace (EnvConfig R)) ''metallb-tls-config''
               [''TLS_CIPHER_SUITES'' \<mapsto> TLSCipherSuites (EnvConfig R),
                ''TLS_MIN_VERSION'' \<mapsto> TLSMinVersion (EnvConfig R),
                ''TLS_CURVE_PREFERENCES'' \<mapsto> TLSCurvePreferences (EnvConfig R)] #
             (if ExternalWebhookServer fl
              then ListPods (EnvNamespace (EnvConfig R)) webhook_server_labels # map DeletePod ps else [])"
proof -
  obtain env ocpTLS tlsOpt h1 h2 where
    c: "startup_config M = Inr (env, ocpTLS, tlsOpt)" and
    s: "syncTLSConfigMap (MKube M) env h = (Ret (), h1)" and
    d: "(if ExternalWebhookServer fl then deleteWebhookServerPods (MKube M) (EnvNamespace env)
         else return ()) h1 = (Ret (), h2)" and
    e: "EnvConfig R = env" "server = webhookServer 9443 (WithWebhookHTTP2 fl) tlsOpt" "h' = h2"
    using assms by (rule main_Ret)
  note cfg = startup_config_Inr [OF c]
  have h1: "h1 = h @ [CreateOrUpdateConfigMap (EnvNamespace env) tlsConfigMapName (tls_config_map_data env)]"
    using s by (simp add: syncTLSConfigMap_run)
  obtain ps where h2: "h2 = h1 @ (if ExternalWebhookServer fl
      then ListPods (EnvNamespace env) webhook_server_labels # map DeletePod ps else [])"
    using d deleteWebhookServerPods_Ret [of "MKube M" "EnvNamespace env" h1 h2]
    by (cases "ExternalWebhookServer fl") (auto simp: io_simps)
  have "\<exists>t. FetchTLSConfig (MTLSProfile M) = Inr t \<and> TLSCipherSuites env = OCPCipherSuites t \<and>
      TLSCurvePreferences env = OCPCurvePreferences t \<and> TLSMinVersion env = OCPMinVersion t"
    if "IsOpenshift env"
    using that cfg(2,3) FromEnvironment_InrD(15)
    by (cases ocpTLS) (auto simp: with_cluster_tls_def)
  then show ?thesis
    using cfg(1) h1 h2 e
    by (intro exI [of _ tlsOpt] exI [of _ ps])
       (simp add: webhookServer_def tlsConfigMapName_def tls_config_map_data_def)
qed

theorem startup_tls_settings_agree_witness:
  "\<exists>R server h' t. main example_main example_flags [] = (Ret (R, server), h') \<and>
     FetchTLSConfig (MTLSProfile example_main) = Inr t \<and> TLSMinVersion (EnvConfig R) = OCPMinVersion t"
proof -
  obtain R server h' where m: "main example_main example_flags [] = (Ret (R, server), h')"
    and o: "IsOpenshift (EnvConfig R)" using example_start by blast
  from startup_tls_settings_agree [OF m] o obtain t where
    "FetchTLSConfig (MTLSProfile example_main) = Inr t" "TLSMinVersion (EnvConfig R) = OCPMinVersion t"
    by blast
  with m show ?thesis by blast
qed

text \<open>
  Unless HTTP/2 is asked for, the webhook server of a started operator offers HTTP/1.1 only,
  whatever its TLS settings are.
\<close>

theorem webhook_server_protocols:
  assumes "main M fl h = (Ret (R, server), h')"
  shows "NextProtos (server_tls_config server cfg) =
           (if WithWebhookHTTP2 fl then NextProtos cfg else [''http/1.1''])"
proof -
  obtain env ocpTLS tlsOpt where c: "startup_config M = Inr (env, ocpTLS, tlsOpt)"
    and s: "server = webhookServer 9443 (WithWebhookHTTP2 fl) tlsOpt"
    using assms by (rule main_Ret)
  then show ?thesis
    using OptFor_NextProtos [OF startup_config_Inr(1) [OF c]]
    by (simp add: server_tls_config_def webhookServer_def disableHTTP2_def)
qed

theorem webhook_server_protocols_witness:
  "\<exists>R server h'. main example_main example_flags [] = (Ret (R, server), h') \<and>
     NextProtos (server_tls_config server
       \<lparr>CipherSuites = None, CurvePreferences = None, MinVersion = 0, NextProtos = [''h2'']\<rparr>) = [''http/1.1'']"
proof -
  obtain R server h' where m: "main example_main example_flags [] = (Ret (R, server), h')"
    using example_start by blast
  from webhook_server_protocols [OF m] m show ?thesis by (simp add: example_flags_def default_flags_def)
qed

text \<open>
  A start that is given TLS settings it cannot parse, or a broken environment, ends before it has
  made any call: it exits with the error and nothing is published.
\<close>

theorem bad_settings_publish_nothing:
  assumes "main (M :: ('c, 'v, 'g, 'd, 'cl, 'a) main_lib) fl h = (r, h')" and "h' \<noteq> h"
  shows "\<exists>env (t :: 'a ocp_tls_config option) f. FromEnvironment (MSemver M) (MEnviron M) (t \<noteq> None) = Inr env \<and>
           OptFor (MTLSLib M) (TLSCipherSuites (with_cluster_tls t env))
             (TLSCurvePreferences (with_cluster_tls t env)) (TLSMinVersion (with_cluster_tls t env)) = Inr f \<and>
           MNewClient M = None"
proof (cases "startup_config M")
  case (Inl e)
  with assms show ?thesis by (simp add: main_def io_simps)
next
  case (Inr c)
  obtain env t f where c: "c = (env, t, f)" by (cases c) auto
  have "MNewClient M = None"
  proof (rule ccontr)
    assume "MNewClient M \<noteq> None"
    then have "main M fl h = (Fail (the (MNewClient M)), h)"
      using Inr c by (auto simp: main_def io_simps bindK_def must_def)
    with assms show False by simp
  qed
  moreover obtain env0 where "FromEnvironment (MSemver M) (MEnviron M) (t \<noteq> None) = Inr env0"
    and "env = with_cluster_tls t env0"
    using startup_config_Inr(2) [OF Inr [unfolded c]] by blast
  ultimately show ?thesis using startup_config_Inr(1) [OF Inr [unfolded c]] by blast
qed

theorem bad_settings_publish_nothing_witness:
  "\<exists>env. FromEnvironment (MSemver example_main) (MEnviron example_main) True = Inr env \<or>
          FromEnvironment (MSemver example_main) (MEnviron example_main) False = Inr env"
proof -
  obtain R server h' where m: "main example_main example_flags [] = (Ret (R, server), h')"
    and h: "h' \<noteq> []" using example_start by blast
  from bad_settings_publish_nothing [OF m h] obtain env and t :: "unit ocp_tls_config option" where
    "FromEnvironment (MSemver example_main) (MEnviron example_main) (t \<noteq> None) = Inr env" by blast
  then show ?thesis by (cases "t \<noteq> None") auto
qed

end
