(* ===== verification/Operator_Process.thy ===== *)
theory Operator_Process
  imports Main_Contracts
begin

text \<open>
  The operator while it runs: the goroutine of \<open>main.go\<close> that registers the webhook once the
  certificates are there, the worker that reconciles, the webhook that admits resources, and the watcher
  that ends the operator when the cluster's TLS settings change. They share the package variable
  \<open>ExternalFRRK8sNamespace\<close>, which \<open>Validate\<close> reads, and the operator's context.
\<close>

section \<open>The goroutine\<close>

text \<open>
  \<open>Running\<close>: the process has not exited and its context is not cancelled. \<open>NamespaceVar\<close> is the package
  variable, the empty string before anything sets it. \<open>Observed\<close> are the TLS profile and the adherence
  policy that the watcher saw last, and \<open>Admitted\<close> the resources that the webhook has let through.
\<close>

record 'a process =
  Running :: bool
  NamespaceVar :: string
  WebhookServed :: bool
  ReadyServed :: bool
  History :: trace
  Admitted :: "metallb list"
  Observed :: "tls_profile \<times> 'a"

text \<open>
  The body of the goroutine after its wait: the webhook is registered, or the process exits; then
  \<open>/readyz\<close> is served.
\<close>

definition register_webhook :: "go_error option \<Rightarrow> env_config \<Rightarrow> 'a process \<Rightarrow> 'a process" where
  "register_webhook complete env p =
     (case SetupWebhookWithManager complete (FRRK8sExternalNamespace env) (NamespaceVar p) of
        (v, Some e) \<Rightarrow> p\<lparr>NamespaceVar := v, Running := False\<rparr>
      | (v, None) \<Rightarrow> p\<lparr>NamespaceVar := v, WebhookServed := True, ReadyServed := True\<rparr>)"

text \<open>The process when \<open>main\<close> starts the manager; \<open>tc\<close> are the settings read at the start.\<close>

definition started :: "'a ocp_tls_config \<Rightarrow> trace \<Rightarrow> 'a process" where
  "started tc h =
     \<lparr>Running = True, NamespaceVar = [], WebhookServed = False, ReadyServed = False, History = h,
      Admitted = [], Observed = (profileSpec tc, adherence tc)\<rparr>"

section \<open>Steps\<close>

text \<open>
  The parts of the process in any order. \<open>fires\<close> is the watcher's library: whether it calls each of the
  two callbacks when it sees a profile and a policy. The reconciler reads the package variable as it is
  when the reconciliation begins; the webhook answers only once it is registered.
\<close>

definition after_callbacks :: "'a profile_watcher \<Rightarrow> bool \<times> bool \<Rightarrow> bool \<Rightarrow> bool" where
  "after_callbacks w called cancelled =
     (let c = (if fst called then OnProfileChange w cancelled else cancelled)
      in if snd called then OnAdherencePolicyChange w c else c)"

inductive process_step ::
  "('c, 'v) reconciler \<Rightarrow> 'a profile_watcher \<Rightarrow>
   ('a profile_watcher \<Rightarrow> tls_profile \<times> 'a \<Rightarrow> bool \<times> bool) \<Rightarrow> 'a process \<Rightarrow> 'a process \<Rightarrow> bool"
  for R w fires where
  register:
    "Running p \<Longrightarrow> \<not> WebhookServed p \<Longrightarrow>
     process_step R w fires p (register_webhook complete (EnvConfig R) p)"
| reconcile:
    "Running p \<Longrightarrow> Reconcile (R\<lparr>ExternalFRRK8sNamespace := NamespaceVar p\<rparr>) ns n (History p) = (r, h') \<Longrightarrow>
     process_step R w fires p (p\<lparr>History := h'\<rparr>)"
| create:
    "Running p \<Longrightarrow> WebhookServed p \<Longrightarrow> ValidateCreate (NamespaceVar p) m = (ws, None) \<Longrightarrow>
     process_step R w fires p (p\<lparr>Admitted := m # Admitted p\<rparr>)"
| update:
    "Running p \<Longrightarrow> WebhookServed p \<Longrightarrow> ValidateUpdate (NamespaceVar p) old m = (ws, None) \<Longrightarrow>
     process_step R w fires p (p\<lparr>Admitted := m # Admitted p\<rparr>)"
| observe:
    "Running p \<Longrightarrow>
     process_step R w fires p (p\<lparr>Observed := t, Running := \<not> after_callbacks w (fires w t) False\<rparr>)"

text \<open>What the operator's process keeps, for its environment \<open>env\<close>.\<close>

definition process_inv :: "env_config \<Rightarrow> 'a process \<Rightarrow> bool" where
  "process_inv env p \<longleftrightarrow>
     (Running p \<longrightarrow>
        NamespaceVar p = (if WebhookServed p then FRRK8sExternalNamespace env else [])) \<and>
     (WebhookServed p \<longrightarrow> NamespaceVar p = FRRK8sExternalNamespace env) \<and>
     (ReadyServed p = WebhookServed p) \<and> (Admitted p \<noteq> [] \<longrightarrow> WebhookServed p) \<and>
     (\<forall>m\<in>set (Admitted p). Validate (FRRK8sExternalNamespace env) (Spec m) = None)"

lemma ValidateCreate_None: "ValidateCreate ext m = (ws, None) \<longleftrightarrow> ws = [] \<and> Validate ext (Spec m) = None"
  by (auto simp: ValidateCreate_def split: option.splits)

lemma ValidateUpdate_None: "ValidateUpdate ext old m = (ws, None) \<longleftrightarrow> ws = [] \<and> Validate ext (Spec m) = None"
  by (auto simp: ValidateUpdate_def split: option.splits)

lemma process_inv_started: "process_inv env (started tc h)"
  by (simp add: process_inv_def started_def)

lemma process_inv_step:
  "process_step R w fires p q \<Longrightarrow> process_inv (EnvConfig R) p \<Longrightarrow> process_inv (EnvConfig R) q"
  by (induction rule: process_step.induct)
    (auto simp: process_inv_def register_webhook_def SetupWebhookWithManager_def ValidateCreate_None
      ValidateUpdate_None split: option.splits)

lemma process_inv_reachable:
  "(process_step R w fires)\<^sup>*\<^sup>* (started tc h) p \<Longrightarrow> process_inv (EnvConfig R) p"
  by (induction rule: rtranclp_induct) (blast intro: process_inv_started process_inv_step)+

text \<open>A library that reports every change makes the operator stop on one.\<close>

definition reports_changes ::
  "('a profile_watcher \<Rightarrow> tls_profile \<times> 'a \<Rightarrow> bool \<times> bool) \<Rightarrow> bool" where
  "reports_changes fires \<longleftrightarrow>
     (\<forall>w s a. (s \<noteq> InitialTLSProfileSpec w \<longrightarrow> fst (fires w (s, a))) \<and>
              (a \<noteq> InitialTLSAdherencePolicy w \<longrightarrow> snd (fires w (s, a))))"

lemma observed_step:
  assumes "process_step R w fires p q" and "w = profile_watcher_of tc cancel" and "reports_changes fires"
    and "Running p \<longrightarrow> Observed p = (profileSpec tc, adherence tc)"
  shows "Running q \<longrightarrow> Observed q = (profileSpec tc, adherence tc)"
  using assms
proof (induction rule: process_step.induct)
  case (observe p t)
  obtain spec adh where t: "t = (spec, adh)" by (cases t)
  have "(spec \<noteq> InitialTLSProfileSpec w \<longrightarrow> fst (fires w t)) \<and>
      (adh \<noteq> InitialTLSAdherencePolicy w \<longrightarrow> snd (fires w t))"
    using observe(3) unfolding reports_changes_def t by blast
  moreover have "InitialTLSProfileSpec w = profileSpec tc" "InitialTLSAdherencePolicy w = adherence tc"
    "OnProfileChange w = cancel" "OnAdherencePolicyChange w = cancel"
    using observe(2) by (simp_all add: profile_watcher_of_def)
  ultimately show ?case by (auto simp: t after_callbacks_def cancel_def)
qed (auto simp: register_webhook_def SetupWebhookWithManager_def split: option.splits)

lemma observed_reachable:
  assumes "(process_step R (profile_watcher_of tc cancel) fires)\<^sup>*\<^sup>* (started tc h) p"
    and "reports_changes fires"
  shows "Running p \<longrightarrow> Observed p = (profileSpec tc, adherence tc)"
  using assms(1)
proof (induction rule: rtranclp_induct)
  case base
  show ?case by (simp add: started_def)
next
  case (step p q)
  show ?case using step.hyps(2) refl assms(2) step.IH by (rule observed_step)
qed

text \<open>Which valid resources the package variable's first value refuses.\<close>

definition relies_on_default_namespace :: "metallb_spec \<Rightarrow> bool" where
  "relies_on_default_namespace spec =
     (BGPBackend spec = FRRK8sExternalMode \<and>
      (case FRRK8SConfig spec of None \<Rightarrow> True | Some c \<Rightarrow> FRRK8SNamespace c = []))"

lemma Validate_without_namespace:
  "Validate ext spec = None \<Longrightarrow> Validate [] spec = None \<longleftrightarrow> \<not> relies_on_default_namespace spec"
  by (auto simp: Validate_None_iff valid_spec_alt relies_on_default_namespace_def split: option.splits)

lemma FetchTLSConfig_strings:
  "FetchTLSConfig L = Inr tc \<Longrightarrow>
     tlsStringsFromProfile L (profileSpec tc) = (OCPCipherSuites tc, OCPCurvePreferences tc, OCPMinVersion tc)"
  by (auto simp: FetchTLSConfig_def tlsStringsFromProfile_def bindE_eq_Inr)

section \<open>Examples\<close>

definition example_tls_settings :: "unit ocp_tls_config" where
  "example_tls_settings =
     \<lparr>OCPCipherSuites = [], OCPCurvePreferences = [], OCPMinVersion = ''VersionTLS12'',
      profileSpec = \<lparr>Ciphers = [], MinTLSVersion = ''VersionTLS12''\<rparr>, adherence = ()\<rparr>"

definition example_watcher :: "unit profile_watcher" where
  "example_watcher = profile_watcher_of example_tls_settings cancel"

lemma example_startup: "\<exists>env tc f. startup_config example_main = Inr (env, Some tc, f)"
proof -
  obtain R server h' where m: "main example_main example_flags [] = (Ret (R, server), h')"
    and o: "IsOpenshift (EnvConfig R)" using example_start by blast
  from m obtain env t f where c: "startup_config example_main = Inr (env, t, f)" and "EnvConfig R = env"
    by (rule main_Ret)
  with o startup_config_Inr(2) [OF c] FromEnvironment_InrD(15) have "t \<noteq> None"
    by (auto simp: with_cluster_tls_def split: option.splits)
  with c show ?thesis by auto
qed

section \<open>Properties\<close>

text \<open>
  C7. The webhook and the reconciler agree: whatever the order in which the goroutine, the worker, the
  webhook and the watcher run, a resource that the webhook admitted passes the reconciler's own
  validation from then on; so when it is reported Available, all of its objects were deleted or applied
  in that run and both workloads were read as ready afterwards.
\<close>

theorem admitted_available_is_applied:
  assumes "(process_step R w fires)\<^sup>*\<^sup>* (started tc h0) p" and "Running p" and "m \<in> set (Admitted p)"
    and "reconcileResource (R\<lparr>ExternalFRRK8sNamespace := NamespaceVar p\<rparr>) ns m (History p) =
           (Ret (res, ConditionAvailable, err), h')"
  shows "Validate (NamespaceVar p) (Spec m) = None \<and>
         (\<exists>pre toDel objs h1.
            list_all network_call pre \<and> chart_objects R (Spec m) toDel objs \<and>
            h1 = History p @ pre @ map DeleteObject toDel @
                 map (\<lambda>x. ApplyObject (owned R m x)) (filter (\<lambda>x. \<not> skipped R x) objs) \<and>
            fst (IsMetalLBAvailable (Client R) ns h1) = Ret None)"
proof -
  let ?R = "R\<lparr>ExternalFRRK8sNamespace := NamespaceVar p\<rparr>"
  have v: "Validate (NamespaceVar p) (Spec m) = None"
    using process_inv_reachable [OF assms(1)] assms(2,3)
    by (auto simp: process_inv_def split: if_splits)
  have "chart_objects ?R = chart_objects R" "owned ?R = owned R" "skipped ?R = skipped R"
    by (simp_all add: fun_eq_iff chart_objects_def owned_def set_owner_def skipped_def
        cong: if_cong sum.case_cong)
  with available_run [OF assms(4)] v show ?thesis by simp blast
qed

theorem admitted_available_is_applied_witness:
  "\<exists>p h'. (process_step (example_reconciler (example_config False)) example_watcher (\<lambda>_ _. (False, False)))\<^sup>*\<^sup>*
            (started example_tls_settings []) p \<and> Admitted p = [example_metallb zero_spec] \<and>
          reconcileResource (example_reconciler (example_config False)) ''ns'' (example_metallb zero_spec) (History p) =
            (Ret (0, ConditionAvailable, None), h') \<and>
          (\<exists>toDel objs. chart_objects (example_reconciler (example_config False)) zero_spec toDel objs)"
proof -
  let ?R = "example_reconciler (example_config False)"
  let ?m = "example_metallb zero_spec"
  let ?step = "process_step ?R example_watcher (\<lambda>_ _. (False, False))"
  let ?s = "started example_tls_settings []"
  let ?p = "register_webhook None (EnvConfig ?R) ?s"
  let ?q = "?p\<lparr>Admitted := ?m # Admitted ?p\<rparr>"
  have p: "Running ?p" "WebhookServed ?p" "NamespaceVar ?p = []" "Admitted ?p = []" "History ?p = []"
    by (simp_all add: register_webhook_def SetupWebhookWithManager_def started_def example_config_def)
  have "?step ?s ?p" by (rule process_step.register) (simp_all add: started_def)
  moreover have "?step ?p ?q"
    using p example_valid by (intro process_step.create [of _ _ "[]"]) (simp_all add: ValidateCreate_None)
  ultimately have r: "?step\<^sup>*\<^sup>* ?s ?q" by (rule converse_rtranclp_into_rtranclp [OF _ r_into_rtranclp])
  have same: "?R\<lparr>ExternalFRRK8sNamespace := NamespaceVar ?q\<rparr> = ?R"
    using p by (simp add: example_reconciler_def)
  obtain h' where run: "reconcileResource ?R ''ns'' ?m (History ?q) = (Ret (0, ConditionAvailable, None), h')"
    by (simp add: reconcileResource_run example_sync example_available)
  have "Running ?q" "?m \<in> set (Admitted ?q)" using p by simp_all
  from admitted_available_is_applied [OF r this, unfolded same, OF run] have
    "\<exists>toDel objs. chart_objects ?R zero_spec toDel objs" by auto
  with r run p show ?thesis by (intro exI [of _ ?q]) auto
qed

text \<open>
  C20. Until the webhook is registered, the reconciler validates with an empty default namespace: of the
  valid resources it takes for invalid exactly those that rely on the operator's default for an external
  frr-k8s. The synchronisation of such a resource is then only the part for the network operator, which on
  OpenShift may update the network: no object is deleted or applied. Where that part succeeds and MetalLB
  runs, the resource is reported as Available.
\<close>

theorem early_reconcile_ignores_default_namespace:
  assumes "(process_step R w fires)\<^sup>*\<^sup>* (started tc h0) p" and "Running p" and "\<not> WebhookServed p"
    and "Validate (FRRK8sExternalNamespace (EnvConfig R)) (Spec m) = None"
  shows "(Validate (NamespaceVar p) (Spec m) \<noteq> None) = relies_on_default_namespace (Spec m) \<and>
         (relies_on_default_namespace (Spec m) \<longrightarrow>
            syncMetalLBResources (R\<lparr>ExternalFRRK8sNamespace := NamespaceVar p\<rparr>) m (History p) =
              embedded_frrk8s R (Spec m) (History p) \<and>
            list_all network_call (drop (length (History p)) (snd (embedded_frrk8s R (Spec m) (History p)))) \<and>
            (\<forall>h1. embedded_frrk8s R (Spec m) (History p) = (Ret (), h1) \<and>
                  fst (IsMetalLBAvailable (Client R) ns h1) = Ret None \<longrightarrow>
               fst (reconcileResource (R\<lparr>ExternalFRRK8sNamespace := NamespaceVar p\<rparr>) ns m (History p)) =
                 Ret (0, ConditionAvailable, None)))"
proof -
  let ?R = "R\<lparr>ExternalFRRK8sNamespace := NamespaceVar p\<rparr>"
  have ns: "NamespaceVar p = []"
    using process_inv_reachable [OF assms(1)] assms(2,3) by (simp add: process_inv_def)
  note iff = Validate_without_namespace [OF assms(4)]
  have e: "embedded_frrk8s (R\<lparr>ExternalFRRK8sNamespace := ext\<rparr>) = embedded_frrk8s R" for ext
    by (intro ext) (simp add: embedded_frrk8s_def cong: if_cong)
  have "relies_on_default_namespace (Spec m) \<Longrightarrow>
      Validate (ExternalFRRK8sNamespace ?R) (Spec m) \<noteq> None" using iff ns by simp
  note sync = invalid_sync_network [OF this, of "History p"] invalid_run [OF this, of "History p" _ ns]
  show ?thesis
    using iff ns sync by (auto simp: e)
qed

theorem early_reconcile_ignores_default_namespace_witness:
  "\<exists>h1. syncMetalLBResources
          (example_reconciler ((example_config False)\<lparr>FRRK8sExternalNamespace := ''frr-k8s-system''\<rparr>))
          (example_metallb (zero_spec\<lparr>BGPBackend := FRRK8sExternalMode\<rparr>)) [] = (Ret (), h1) \<and>
        Validate ''frr-k8s-system'' (zero_spec\<lparr>BGPBackend := FRRK8sExternalMode\<rparr>) = None \<and>
        \<not> (\<exists>c\<in>set h1. changes_objects c)"
proof -
  let ?R = "example_reconciler ((example_config False)\<lparr>FRRK8sExternalNamespace := ''frr-k8s-system''\<rparr>)"
  let ?m = "example_metallb (zero_spec\<lparr>BGPBackend := FRRK8sExternalMode\<rparr>)"
  let ?p = "started example_tls_settings []"
  have p: "Running ?p" "\<not> WebhookServed ?p" "NamespaceVar ?p = []" "History ?p = []"
    by (simp_all add: started_def)
  have v: "Validate (FRRK8sExternalNamespace (EnvConfig ?R)) (Spec ?m) = None"
    by (simp add: Validate_None_iff valid_spec_alt zero_spec_def preferred_terms_def known_backend_def)
  have e: "embedded_frrk8s ?R (Spec ?m) (History ?p) = (Ret (), [])"
    using p by (simp add: embedded_frrk8s_def io_simps example_config_def)
  have d: "relies_on_default_namespace (Spec ?m)"
    by (simp add: relies_on_default_namespace_def zero_spec_def)
  have same: "?R\<lparr>ExternalFRRK8sNamespace := NamespaceVar ?p\<rparr> = ?R"
    using p by (simp add: example_reconciler_def)
  from early_reconcile_ignores_default_namespace
    [OF rtranclp.rtrancl_refl p(1,2) v, unfolded same] d p(4) e v
  show ?thesis by auto
qed

text \<open>
  C18. No operator runs with outdated TLS settings: on OpenShift, as long as the operator runs, the
  settings of its charts, of its webhook server and of the ConfigMap are those of the profile that its
  watcher saw last.
\<close>

theorem running_operator_has_current_tls:
  assumes "startup_config M = Inr (env, Some tc, f)" and "EnvConfig R = env"
    and "(process_step R (profile_watcher_of tc cancel) fires)\<^sup>*\<^sup>* (started tc h0) p"
    and "reports_changes fires" and "Running p"
  shows "tlsStringsFromProfile (MTLSProfile M) (fst (Observed p)) =
           (TLSCipherSuites (EnvConfig R), TLSCurvePreferences (EnvConfig R), TLSMinVersion (EnvConfig R)) \<and>
         OptFor (MTLSLib M) (TLSCipherSuites (EnvConfig R)) (TLSCurvePreferences (EnvConfig R))
           (TLSMinVersion (EnvConfig R)) = Inr f"
proof -
  have "Observed p = (profileSpec tc, adherence tc)"
    using observed_reachable [OF assms(3,4)] assms(5) by blast
  moreover have "FetchTLSConfig (MTLSProfile M) = Inr tc"
    using startup_config_Inr(3) [OF assms(1)] by simp
  moreover obtain env0 where "env = with_cluster_tls (Some tc) env0"
    using startup_config_Inr(2) [OF assms(1)] by auto
  ultimately show ?thesis
    using startup_config_Inr(1) [OF assms(1)] assms(2) FetchTLSConfig_strings
    by (simp add: with_cluster_tls_def)
qed

theorem running_operator_has_current_tls_witness:
  "\<exists>env tc f. startup_config example_main = Inr (env, Some tc, f) \<and>
     tlsStringsFromProfile (MTLSProfile example_main) (fst (Observed (started tc []))) =
       (TLSCipherSuites env, TLSCurvePreferences env, TLSMinVersion env)"
proof -
  let ?fires = "\<lambda>(w :: unit profile_watcher) t. (fst t \<noteq> InitialTLSProfileSpec w, snd t \<noteq> InitialTLSAdherencePolicy w)"
  obtain env tc f where c: "startup_config example_main = Inr (env, Some tc, f)"
    using example_startup by blast
  have "reports_changes ?fires" by (simp add: reports_changes_def)
  moreover have "EnvConfig (example_reconciler env) = env" "Running (started tc [])" by (simp_all add: started_def)
  ultimately have "tlsStringsFromProfile (MTLSProfile example_main) (fst (Observed (started tc []))) =
       (TLSCipherSuites env, TLSCurvePreferences env, TLSMinVersion env)"
    using running_operator_has_current_tls [OF c _ rtranclp.rtrancl_refl] by fastforce
  with c show ?thesis by blast
qed

end
