(* ===== verification/Chart_Schema.thy ===== *)
theory Chart_Schema
  imports Go_Values
begin

text \<open>
  The JSON schemas of the charts. Helm lays the values it is given over the defaults of the chart and
  refuses to render a chart whose schema the outcome does not match. Here is the part of the schema
  language that the two charts use, a type checker for it, and the condition on values under which
  laying them over defaults that match gives values that match.
\<close>

section \<open>Schemas\<close>

text \<open>
  \<open>SEnum\<close> is a string out of a list, \<open>SInt\<close> an integer between optional bounds, \<open>SNever\<close> the schema
  \<open>false\<close>, \<open>SAny\<close> the one without constraints. An object has typed properties, required properties, and a
  schema for its other keys, which may be anything when it is \<open>SAny\<close>.
\<close>

datatype schema =
    SAny
  | SNever
  | SNull
  | SBool
  | SInt "int option" "int option"
  | SStr
  | SEnum "string list"
  | SObject "(string \<times> schema) list" "string list" schema
  | SArray schema
  | SAnyOf "schema list"
  | SAllOf "schema list"

text \<open>\<open>corev1.Toleration\<close> as an object, empty fields left out.\<close>

definition toleration_object :: "toleration \<Rightarrow> obj" where
  "toleration_object t =
     (\<lambda>k. if k = ''key'' \<and> Key t \<noteq> [] then Some (GStr (Key t))
          else if k = ''operator'' \<and> Operator t \<noteq> [] then Some (GStr (Operator t))
          else if k = ''value'' \<and> TolerationValue t \<noteq> [] then Some (GStr (TolerationValue t))
          else if k = ''effect'' \<and> Effect t \<noteq> [] then Some (GStr (Effect t))
          else if k = ''tolerationSeconds'' then map_option GInt (TolerationSeconds t)
          else None)"

text \<open>The items of a slice, whatever the type of its elements.\<close>

fun items :: "gval \<Rightarrow> gval list option" where
  "items (GSlice xs) = Some xs"
| "items (GStrSlice xs) = Some (map GStr xs)"
| "items (GMapSlice ms) = Some (map GMap ms)"
| "items (GTolerations ts) = Some (map (\<lambda>t. GMap (toleration_object t)) ts)"
| "items _ = None"

fun within :: "int option \<Rightarrow> int option \<Rightarrow> int \<Rightarrow> bool" where
  "within lo hi i = ((case lo of None \<Rightarrow> True | Some l \<Rightarrow> l \<le> i) \<and> (case hi of None \<Rightarrow> True | Some h \<Rightarrow> i \<le> h))"

fun conforms :: "schema \<Rightarrow> gval \<Rightarrow> bool"
  and conforms_props :: "(string \<times> schema) list \<Rightarrow> obj \<Rightarrow> bool"
  and conforms_some :: "schema list \<Rightarrow> gval \<Rightarrow> bool"
  and conforms_all :: "schema list \<Rightarrow> gval \<Rightarrow> bool" where
  "conforms SAny v = True"
| "conforms SNever v = False"
| "conforms SNull v = (v = GNil)"
| "conforms SBool v = (case v of GBool _ \<Rightarrow> True | _ \<Rightarrow> False)"
| "conforms (SInt lo hi) v = (case v of GInt i \<Rightarrow> within lo hi i | _ \<Rightarrow> False)"
| "conforms SStr v = (case v of GStr _ \<Rightarrow> True | _ \<Rightarrow> False)"
| "conforms (SEnum ss) v = (case v of GStr s \<Rightarrow> s \<in> set ss | _ \<Rightarrow> False)"
| "conforms (SObject ps rq ad) v =
     (case v of
        GMap m \<Rightarrow> conforms_props ps m \<and> (\<forall>k\<in>set rq. m k \<noteq> None) \<and>
                  (ad = SAny \<or>
                   (\<forall>k. k \<notin> fst ` set ps \<longrightarrow> (case m k of None \<Rightarrow> True | Some x \<Rightarrow> conforms ad x)))
      | _ \<Rightarrow> False)"
| "conforms (SArray s) v = (case items v of None \<Rightarrow> False | Some xs \<Rightarrow> list_all (conforms s) xs)"
| "conforms (SAnyOf ss) v = conforms_some ss v"
| "conforms (SAllOf ss) v = conforms_all ss v"
| "conforms_props [] m = True"
| "conforms_props ((k, s) # ps) m =
     ((case m k of None \<Rightarrow> True | Some x \<Rightarrow> conforms s x) \<and> conforms_props ps m)"
| "conforms_some [] v = False"
| "conforms_some (s # ss) v = (conforms s v \<or> conforms_some ss v)"
| "conforms_all [] v = True"
| "conforms_all (s # ss) v = (conforms s v \<and> conforms_all ss v)"

lemma conforms_props_iff:
  "conforms_props ps m \<longleftrightarrow> (\<forall>(k, s)\<in>set ps. \<forall>x. m k = Some x \<longrightarrow> conforms s x)"
  by (induction ps) (auto split: option.splits)

section \<open>Laying values over defaults\<close>

text \<open>
  The function of Helm that lays values over the defaults of a chart: a key that is missing keeps its
  default, two maps are laid over each other, a null removes the default, and any other value replaces
  it.
\<close>

locale coalesce_laws =
  fixes coalesce :: "obj \<Rightarrow> obj \<Rightarrow> obj"
  assumes coalesce_absent: "v k = None \<Longrightarrow> coalesce v d k = d k"
    and coalesce_maps: "v k = Some (GMap a) \<Longrightarrow> d k = Some (GMap b) \<Longrightarrow> coalesce v d k = Some (GMap (coalesce a b))"
    and coalesce_null: "v k = Some GNil \<Longrightarrow> d k \<noteq> None \<Longrightarrow> coalesce v d k = None"
    and coalesce_value: "v k = Some x \<Longrightarrow> d k = None \<or> x \<noteq> GNil \<and> \<not> (\<exists>a b. x = GMap a \<and> d k = Some (GMap b)) \<Longrightarrow>
      coalesce v d k = Some x"

text \<open>
  \<open>fits s x d\<close>: the value \<open>x\<close>, laid over the default \<open>d\<close>, matches \<open>s\<close> if the default does. A required
  property must not be removed, but it may be missing where the default has it.
\<close>

fun fits :: "schema \<Rightarrow> gval \<Rightarrow> gval option \<Rightarrow> bool"
  and fits_props :: "(string \<times> schema) list \<Rightarrow> obj \<Rightarrow> obj \<Rightarrow> bool"
  and fits_all :: "schema list \<Rightarrow> gval \<Rightarrow> gval option \<Rightarrow> bool" where
  "fits (SObject ps rq ad) x d =
     (case x of
        GMap m \<Rightarrow>
          (case d of
             Some (GMap b) \<Rightarrow>
               fits_props ps m b \<and> (\<forall>k\<in>set rq. m k \<noteq> Some GNil) \<and>
               (ad = SAny \<or>
                (\<forall>k. k \<notin> fst ` set ps \<longrightarrow>
                   (case m k of None \<Rightarrow> True | Some y \<Rightarrow> y = GNil \<and> b k \<noteq> None \<or> fits ad y (b k))))
           | _ \<Rightarrow> conforms (SObject ps rq ad) x)
      | _ \<Rightarrow> False)"
| "fits (SAllOf ss) x d = fits_all ss x d"
| "fits (SAnyOf ss) x d =
     (conforms (SAnyOf ss) x \<and> (case x of GMap _ \<Rightarrow> (case d of Some (GMap _) \<Rightarrow> False | _ \<Rightarrow> True) | _ \<Rightarrow> True))"
| "fits s x d = conforms s x"
| "fits_props [] m b = True"
| "fits_props ((k, s) # ps) m b =
     ((case m k of None \<Rightarrow> True | Some y \<Rightarrow> y = GNil \<and> b k \<noteq> None \<or> fits s y (b k)) \<and> fits_props ps m b)"
| "fits_all [] x d = True"
| "fits_all (s # ss) x d = (fits s x d \<and> fits_all ss x d)"

lemma fits_props_iff:
  "fits_props ps m b \<longleftrightarrow>
     (\<forall>(k, s)\<in>set ps. \<forall>y. m k = Some y \<longrightarrow> y = GNil \<and> b k \<noteq> None \<or> fits s y (b k))"
  by (induction ps) (auto split: option.splits)

text \<open>Where the default is not a map there is nothing to lay over.\<close>

lemma fits_conforms:
  shows "fits s x d \<Longrightarrow> \<not> (\<exists>a b. x = GMap a \<and> d = Some (GMap b)) \<Longrightarrow> conforms s x"
    and "fits_props ps m b \<Longrightarrow> True"
    and "fits_all ss x d \<Longrightarrow> \<not> (\<exists>a b. x = GMap a \<and> d = Some (GMap b)) \<Longrightarrow> conforms_all ss x"
proof (induction s x d and ps m b and ss x d rule: fits_fits_props_fits_all.induct)
  case (1 ps rq ad x d)
  obtain m where x: "x = GMap m" using "1.prems"(1) by (cases x) simp_all
  with "1.prems"(2) have "\<not> (\<exists>b. d = Some (GMap b))" by blast
  then have "(case d of Some (GMap b) \<Rightarrow> P b | _ \<Rightarrow> Q) = Q" for P and Q :: bool
    by (cases d; cases "the d") simp_all
  then have "fits (SObject ps rq ad) x d = conforms (SObject ps rq ad) x"
    unfolding x fits.simps(1) gval.case by (simp only:)
  with "1.prems"(1) show ?case by (simp only:)
qed simp_all

context coalesce_laws
begin

lemma coalesce_cases:
  obtains "v k = None" "coalesce v d k = d k"
  | "v k = Some GNil" "d k \<noteq> None" "coalesce v d k = None"
  | a b where "v k = Some (GMap a)" "d k = Some (GMap b)" "coalesce v d k = Some (GMap (coalesce a b))"
  | x where "v k = Some x" "\<not> (\<exists>a b. x = GMap a \<and> d k = Some (GMap b))" "x \<noteq> GNil \<or> d k = None"
      "coalesce v d k = Some x"
proof (cases "v k")
  case None
  with that(1) coalesce_absent show thesis by blast
next
  case (Some x)
  consider "x = GNil" "d k \<noteq> None" | a b where "x = GMap a" "d k = Some (GMap b)"
    | "\<not> (\<exists>a b. x = GMap a \<and> d k = Some (GMap b))" "x \<noteq> GNil \<or> d k = None" by blast
  then show thesis
  proof cases
    case 1
    then show thesis using that(2) Some coalesce_null [of v k d] by simp
  next
    case 2
    then show thesis using that(3) Some coalesce_maps [of v k a d b] by simp
  next
    case 3
    then show thesis using that(4) [OF Some] Some coalesce_value [of v k x d] by simp blast
  qed
qed

text \<open>One key of the outcome.\<close>

lemma coalesce_key:
  assumes "\<And>y. v k = Some y \<Longrightarrow> y = GNil \<and> d k \<noteq> None \<or> fits s y (d k)"
    and "\<And>y a b. v k = Some y \<Longrightarrow> y = GMap a \<Longrightarrow> d k = Some (GMap b) \<Longrightarrow> conforms s (GMap b) \<Longrightarrow>
           conforms s (GMap (coalesce a b))"
    and "\<And>y. d k = Some y \<Longrightarrow> conforms s y" and "coalesce v d k = Some z"
  shows "conforms s z"
proof (cases rule: coalesce_cases [of v k d])
  case (4 x)
  then have "fits s x (d k)" using assms(1) by blast
  with 4 fits_conforms(1) assms(4) show ?thesis by (metis option.inject)
qed (use assms in auto)

lemma coalesce_conforms:
  shows "fits s x d \<Longrightarrow> x = GMap a \<Longrightarrow> d = Some (GMap b) \<Longrightarrow> conforms s (GMap b) \<Longrightarrow>
           conforms s (GMap (coalesce a b))"
    and "fits_props ps m b' \<Longrightarrow> conforms_props ps b' \<Longrightarrow> conforms_props ps (coalesce m b')"
    and "fits_all ss x d \<Longrightarrow> x = GMap a \<Longrightarrow> d = Some (GMap b) \<Longrightarrow> conforms_all ss (GMap b) \<Longrightarrow>
           conforms_all ss (GMap (coalesce a b))"
proof (induction s x d and ps m b' and ss x d arbitrary: a b and and a b rule: fits_fits_props_fits_all.induct)
  case (1 ps rq ad x d)
  have props: "fits_props ps a b" "\<forall>k\<in>set rq. a k \<noteq> Some GNil" and
    rest: "\<And>k y. ad \<noteq> SAny \<Longrightarrow> k \<notin> fst ` set ps \<Longrightarrow> a k = Some y \<Longrightarrow> y = GNil \<and> b k \<noteq> None \<or> fits ad y (b k)"
    using "1.prems" by (auto split: option.splits)
  have old: "conforms_props ps b" "\<forall>k\<in>set rq. b k \<noteq> None"
    "\<And>k y. ad \<noteq> SAny \<Longrightarrow> k \<notin> fst ` set ps \<Longrightarrow> b k = Some y \<Longrightarrow> conforms ad y"
    using "1.prems" by (auto split: option.splits)
  have "coalesce a b k \<noteq> None" if "k \<in> set rq" for k
    using props(2) old(2) that by (cases rule: coalesce_cases [of a k b]) auto
  moreover have "conforms ad z" if o: "ad \<noteq> SAny" and k: "k \<notin> fst ` set ps" and z: "coalesce a b k = Some z" for k z
  proof (rule coalesce_key [OF _ _ _ z])
    show "conforms ad (GMap (coalesce a' b'))"
      if "a k = Some y" "y = GMap a'" "b k = Some (GMap b')" "conforms ad (GMap b')" for y a' b'
      using "1.IH"(2) "1.prems" o k that rest by blast
  qed (use rest old(3) o k in auto)
  moreover have "conforms_props ps (coalesce a b)"
    using "1.IH"(1) "1.prems" props(1) old(1) by blast
  ultimately show ?case by (auto split: option.splits)
next
  case (6 k s ps m b)
  have "conforms s z" if z: "coalesce m b k = Some z" for z
  proof (rule coalesce_key [OF _ _ _ z])
    show "y = GNil \<and> b k \<noteq> None \<or> fits s y (b k)" if "m k = Some y" for y
      using that 6(3) by simp
    show "conforms s (GMap (coalesce a' b'))"
      if "m k = Some y" "y = GMap a'" "b k = Some (GMap b')" "conforms s (GMap b')" for y a' b'
      using that 6(1,3) by simp
    show "conforms s y" if "b k = Some y" for y using that 6(4) by simp
  qed
  with 6(2-4) show ?case by (simp split: option.splits)
qed (simp_all split: option.splits)

end

text \<open>
  A function with these laws: \<open>lay\<close> pairs a value with the function that lays it over a map.
\<close>

definition lay_map :: "(string \<Rightarrow> (gval \<times> (obj \<Rightarrow> obj)) option) \<Rightarrow> gval \<times> (obj \<Rightarrow> obj)" where
  "lay_map f =
     (GMap (map_option fst \<circ> f),
      \<lambda>d k. case f k of
              None \<Rightarrow> d k
            | Some p \<Rightarrow>
                (case d k of
                   None \<Rightarrow> Some (fst p)
                 | Some y \<Rightarrow>
                     (case (fst p, y) of
                        (GNil, _) \<Rightarrow> None
                      | (GMap a, GMap b) \<Rightarrow> Some (GMap (snd p b))
                      | _ \<Rightarrow> Some (fst p))))"

primrec lay :: "gval \<Rightarrow> gval \<times> (obj \<Rightarrow> obj)" where
  "lay (GMap m) = lay_map (map_option lay \<circ> m)"
| "lay GNil = (GNil, \<lambda>d. d)"
| "lay (GBool b) = (GBool b, \<lambda>d. d)"
| "lay (GInt i) = (GInt i, \<lambda>d. d)"
| "lay (GFloat t) = (GFloat t, \<lambda>d. d)"
| "lay (GStr t) = (GStr t, \<lambda>d. d)"
| "lay (GStrSlice ts) = (GStrSlice ts, \<lambda>d. d)"
| "lay (GTolerations ts) = (GTolerations ts, \<lambda>d. d)"
| "lay (GSlice xs) = (GSlice (map fst (map lay xs)), \<lambda>d. d)"
| "lay (GMapSlice ms) = (GMapSlice (map (\<lambda>f. map_option fst \<circ> f) (map (\<lambda>m. map_option lay \<circ> m) ms)), \<lambda>d. d)"

lemma fst_lay [simp]: "fst (lay v) = v"
proof (induction v)
  case (GSlice xs)
  then show ?case by (simp add: map_idI)
next
  case (GMapSlice ms)
  have "map_option fst \<circ> (map_option lay \<circ> m) = m" if "m \<in> set ms" for m
    using GMapSlice that by (auto simp: fun_eq_iff option.map_comp intro!: option.map_ident_strong)
      (metis option.set_intros rangeI)
  then show ?case by (simp add: map_idI)
next
  case (GMap m)
  have "map_option fst \<circ> (map_option lay \<circ> m) = m"
    using GMap by (auto simp: fun_eq_iff option.map_comp intro!: option.map_ident_strong)
      (metis option.set_intros rangeI)
  then show ?case by (simp add: lay_map_def)
qed simp_all

definition coalesce_values :: "obj \<Rightarrow> obj \<Rightarrow> obj" where
  "coalesce_values v d = snd (lay (GMap v)) d"

lemma coalesce_values_key:
  "coalesce_values v d k =
     (case v k of
        None \<Rightarrow> d k
      | Some x \<Rightarrow>
          (case d k of
             None \<Rightarrow> Some x
           | Some y \<Rightarrow>
               (case (x, y) of
                  (GNil, _) \<Rightarrow> None
                | (GMap a, GMap b) \<Rightarrow> Some (GMap (coalesce_values a b))
                | _ \<Rightarrow> Some x)))"
proof (cases "v k")
  case (Some x)
  have "snd (lay (GMap v)) d k =
      (case d k of
         None \<Rightarrow> Some (fst (lay x))
       | Some y \<Rightarrow>
           (case (fst (lay x), y) of
              (GNil, _) \<Rightarrow> None
            | (GMap a, GMap b) \<Rightarrow> Some (GMap (snd (lay x) b))
            | _ \<Rightarrow> Some (fst (lay x))))"
    by (simp add: lay_map_def Some)
  then show ?thesis
    unfolding coalesce_values_def Some fst_lay by (cases x) (simp_all only: option.case prod.case gval.case)
qed (simp add: coalesce_values_def lay_map_def)

interpretation chart_values: coalesce_laws coalesce_values
proof
  fix v d :: obj and k x
  assume v: "v k = Some x"
    and d: "d k = None \<or> x \<noteq> GNil \<and> \<not> (\<exists>a b. x = GMap a \<and> d k = Some (GMap b))"
  show "coalesce_values v d k = Some x"
  proof (cases "d k")
    case (Some y)
    with v d show ?thesis by (cases x; cases y) (simp_all add: coalesce_values_key)
  qed (simp add: coalesce_values_key v)
qed (auto simp: coalesce_values_key split: option.splits)

end
