(* ===== verification/Chart_Template.thy ===== *)
theory Chart_Template
  imports Chart_Schema
begin

text \<open>
  The language of the charts' templates, as far as it decides which objects a chart renders and whether
  it renders at all: Go's template language with the functions \<open>fail\<close> and \<open>required\<close> of Helm. The text of
  an object is left out but for its kind, its name, and the values it uses.

  A value is used by its path below \<open>.Values\<close>. Rendering fails when a path goes through something that is
  not a map, when \<open>fail\<close> is reached, and when a required value is missing or empty. A checker decides
  which of that cannot happen for values of a given shape, and reduces a template to the part that
  decides on objects.
\<close>

section \<open>Templates\<close>

datatype texpr =
    TVal "string list"
  | TNot texpr
  | TAnd texpr texpr
  | TOr texpr texpr
  | TNe "string list" string

text \<open>The name of an object: a literal, or \<open>template "<chart>.fullname"\<close>.\<close>

datatype tname = TLit string | TFullname

text \<open>
  \<open>TDoc\<close> is an object, with what follows up to the next one as its text; \<open>TUse\<close> are values that the
  text uses; \<open>TIf\<close> is \<open>if\<close> and \<open>with\<close>; \<open>TRange\<close> has the fields that its body uses of the elements.
\<close>

datatype tnode =
    TDoc string tname
  | TUse "string list list"
  | TIf texpr "tnode list" "tnode list"
  | TRange "string list" "string list"
  | TFail string
  | TRequired string "string list"

section \<open>Rendering\<close>

text \<open>The value at a path: a key that is missing has no value, and no key is below that.\<close>

fun value_at :: "obj \<Rightarrow> string list \<Rightarrow> gval option" where
  "value_at vals [] = Some (GMap vals)"
| "value_at vals [k] = Some (case vals k of None \<Rightarrow> GNil | Some x \<Rightarrow> x)"
| "value_at vals (k # k' # ks) =
     (case vals k of Some (GMap m) \<Rightarrow> value_at m (k' # ks) | _ \<Rightarrow> None)"

text \<open>What \<open>if\<close> takes for true: all but false, zero and the empty values.\<close>

fun truth :: "gval \<Rightarrow> bool" where
  "truth GNil = False"
| "truth (GBool b) = b"
| "truth (GInt i) = (i \<noteq> 0)"
| "truth (GFloat t) = (t \<noteq> ''0'')"
| "truth (GStr s) = (s \<noteq> [])"
| "truth (GSlice xs) = (xs \<noteq> [])"
| "truth (GStrSlice xs) = (xs \<noteq> [])"
| "truth (GMapSlice xs) = (xs \<noteq> [])"
| "truth (GTolerations xs) = (xs \<noteq> [])"
| "truth (GMap m) = (m \<noteq> Map.empty)"

text \<open>Conditions; \<open>and\<close> and \<open>or\<close> stop at the first argument that decides.\<close>

fun holds :: "obj \<Rightarrow> texpr \<Rightarrow> bool option" where
  "holds vals (TVal p) = map_option truth (value_at vals p)"
| "holds vals (TNot c) = map_option Not (holds vals c)"
| "holds vals (TAnd c d) = (case holds vals c of Some True \<Rightarrow> holds vals d | r \<Rightarrow> r)"
| "holds vals (TOr c d) = (case holds vals c of Some False \<Rightarrow> holds vals d | r \<Rightarrow> r)"
| "holds vals (TNe p s) = (case value_at vals p of Some (GStr t) \<Rightarrow> Some (t \<noteq> s) | _ \<Rightarrow> None)"

text \<open>The template \<open>fullname\<close> of \<open>_helpers.tpl\<close>, alike in both charts.\<close>

record release =
  ReleaseNameOf :: string
  ChartNameOf :: string

definition trunc_name :: "string \<Rightarrow> string" where
  "trunc_name s = (let t = take 63 s in if t \<noteq> [] \<and> last t = CHR ''-'' then butlast t else t)"

definition text_at :: "obj \<Rightarrow> string \<Rightarrow> string" where
  "text_at vals k = (case vals k of Some (GStr s) \<Rightarrow> s | _ \<Rightarrow> [])"

definition fullname :: "release \<Rightarrow> obj \<Rightarrow> string" where
  "fullname rel vals =
     (if text_at vals ''fullnameOverride'' \<noteq> [] then trunc_name (text_at vals ''fullnameOverride'')
      else (let n = (if text_at vals ''nameOverride'' \<noteq> [] then text_at vals ''nameOverride'' else ChartNameOf rel) in
            if sublist n (ReleaseNameOf rel) then trunc_name (ReleaseNameOf rel)
            else trunc_name (ReleaseNameOf rel @ ''-'' @ n)))"

fun name_of :: "release \<Rightarrow> obj \<Rightarrow> tname \<Rightarrow> string" where
  "name_of rel vals (TLit s) = s"
| "name_of rel vals TFullname = fullname rel vals"

text \<open>
  The elements that \<open>range\<close> goes over, None for a value it cannot go over. The elements of a map are left
  out: where the charts go over a map, which is where they write labels, they use no field of its elements.
\<close>

fun range_over :: "gval \<Rightarrow> gval list option" where
  "range_over GNil = Some []"
| "range_over (GMap m) = Some []"
| "range_over (GBool b) = None"
| "range_over (GInt i) = None"
| "range_over (GFloat t) = None"
| "range_over (GStr s) = None"
| "range_over v = items v"

definition has_fields :: "string list \<Rightarrow> gval \<Rightarrow> bool" where
  "has_fields fs v = (fs = [] \<or> (case v of GMap _ \<Rightarrow> True | _ \<Rightarrow> False))"

text \<open>The kinds and names of the objects in the order they are rendered, or the error.\<close>

type_synonym ident = "string \<times> string"

definition template_error :: string where
  "template_error = ''nil pointer evaluating interface {}''"

fun render_node :: "release \<Rightarrow> obj \<Rightarrow> tnode \<Rightarrow> string + ident list"
  and render :: "release \<Rightarrow> obj \<Rightarrow> tnode list \<Rightarrow> string + ident list" where
  "render_node rel vals (TDoc kind n) = Inr [(kind, name_of rel vals n)]"
| "render_node rel vals (TUse ps) =
     (if \<exists>p\<in>set ps. value_at vals p = None then Inl template_error else Inr [])"
| "render_node rel vals (TIf c ns es) =
     (case holds vals c of
        None \<Rightarrow> Inl template_error
      | Some b \<Rightarrow> if b then render rel vals ns else render rel vals es)"
| "render_node rel vals (TRange p fs) =
     (case Option.bind (value_at vals p) range_over of
        None \<Rightarrow> Inl template_error
      | Some xs \<Rightarrow> if list_all (has_fields fs) xs then Inr [] else Inl template_error)"
| "render_node rel vals (TFail e) = Inl e"
| "render_node rel vals (TRequired e p) =
     (case value_at vals p of
        None \<Rightarrow> Inl template_error
      | Some v \<Rightarrow> if v = GNil \<or> v = GStr [] then Inl e else Inr [])"
| "render rel vals [] = Inr []"
| "render rel vals (n # ns) =
     bindE (render_node rel vals n) (\<lambda>xs. bindE (render rel vals ns) (\<lambda>ys. Inr (xs @ ys)))"

lemma render_append:
  "render rel vals (ns @ es) = bindE (render rel vals ns) (\<lambda>xs. bindE (render rel vals es) (\<lambda>ys. Inr (xs @ ys)))"
proof (induction ns)
  case Nil
  show ?case by (cases "render rel vals es") simp_all
next
  case (Cons n ns)
  then show ?case
    by (cases "render_node rel vals n"; cases "render rel vals ns"; cases "render rel vals es") simp_all
qed

section \<open>Checking\<close>

text \<open>
  The shape of values: paths of maps, paths of strings, and paths of ranges with the fields that all of
  their elements may be asked for.
\<close>

record shape =
  Maps :: "string list list"
  Strings :: "string list list"
  Ranges :: "(string list \<times> string list) list"

definition has_shape :: "shape \<Rightarrow> obj \<Rightarrow> bool" where
  "has_shape S vals \<longleftrightarrow>
     (\<forall>p\<in>set (Maps S). \<exists>m. value_at vals p = Some (GMap m)) \<and>
     (\<forall>p\<in>set (Strings S). \<exists>s. value_at vals p = Some (GStr s)) \<and>
     (\<forall>(p, fs)\<in>set (Ranges S). \<exists>xs. Option.bind (value_at vals p) range_over = Some xs \<and> list_all (has_fields fs) xs)"

definition path_ok :: "shape \<Rightarrow> string list \<Rightarrow> bool" where
  "path_ok S p = (p \<noteq> [] \<and> (butlast p = [] \<or> butlast p \<in> set (Maps S)))"

fun expr_ok :: "shape \<Rightarrow> texpr \<Rightarrow> bool" where
  "expr_ok S (TVal p) = path_ok S p"
| "expr_ok S (TNot c) = expr_ok S c"
| "expr_ok S (TAnd c d) = (expr_ok S c \<and> expr_ok S d)"
| "expr_ok S (TOr c d) = (expr_ok S c \<and> expr_ok S d)"
| "expr_ok S (TNe p s) = (p \<in> set (Strings S))"

fun node_ok :: "shape \<Rightarrow> tnode \<Rightarrow> bool"
  and nodes_ok :: "shape \<Rightarrow> tnode list \<Rightarrow> bool" where
  "node_ok S (TDoc kind n) = True"
| "node_ok S (TUse ps) = list_all (path_ok S) ps"
| "node_ok S (TIf c ns es) = (expr_ok S c \<and> nodes_ok S ns \<and> nodes_ok S es)"
| "node_ok S (TRange p fs) = ((p, fs) \<in> set (Ranges S))"
| "node_ok S (TFail e) = True"
| "node_ok S (TRequired e p) = path_ok S p"
| "nodes_ok S [] = True"
| "nodes_ok S (n # ns) = (node_ok S n \<and> nodes_ok S ns)"

text \<open>The part of a template that decides on objects and on failing.\<close>

fun core_node :: "tnode \<Rightarrow> tnode list"
  and core :: "tnode list \<Rightarrow> tnode list" where
  "core_node (TUse ps) = []"
| "core_node (TRange p fs) = []"
| "core_node (TIf c ns es) =
     (let ns' = core ns; es' = core es in if ns' = [] \<and> es' = [] then [] else [TIf c ns' es'])"
| "core_node (TDoc kind n) = [TDoc kind n]"
| "core_node (TFail e) = [TFail e]"
| "core_node (TRequired e p) = [TRequired e p]"
| "core [] = []"
| "core (n # ns) = core_node n @ core ns"

lemma value_at_snoc:
  "p = [] \<or> (\<exists>m. value_at vals p = Some (GMap m)) \<Longrightarrow> value_at vals (p @ [j]) \<noteq> None"
proof (induction vals p rule: value_at.induct)
  case (2 vals k)
  then show ?case by (auto split: option.splits gval.splits)
next
  case (3 vals k k' ks)
  then obtain m where m: "vals k = Some (GMap m)" by (auto split: option.splits gval.splits)
  with 3 have "value_at m ((k' # ks) @ [j]) \<noteq> None" by auto
  with m show ?case by simp
qed simp

lemma value_at_ok:
  assumes "has_shape S vals" and "path_ok S p"
  shows "value_at vals p \<noteq> None"
proof -
  have p: "p = butlast p @ [last p]" using assms(2) by (simp add: path_ok_def)
  have "butlast p = [] \<or> (\<exists>m. value_at vals (butlast p) = Some (GMap m))"
    using assms by (auto simp: path_ok_def has_shape_def)
  then have "value_at vals (butlast p @ [last p]) \<noteq> None" by (rule value_at_snoc)
  with p show ?thesis by simp
qed

lemma holds_ok: "has_shape S vals \<Longrightarrow> expr_ok S c \<Longrightarrow> holds vals c \<noteq> None"
proof (induction c)
  case (TVal p)
  then show ?case using value_at_ok by simp
next
  case (TNe p s)
  then obtain t where "value_at vals p = Some (GStr t)" by (auto simp: has_shape_def)
  then show ?case by simp
qed (auto split: option.splits bool.splits)

text \<open>
  A template that the checker accepts renders like its core on all values of the shape: what is left
  out cannot fail and renders nothing.
\<close>

lemma core_sound:
  assumes "has_shape S vals"
  shows "node_ok S n \<Longrightarrow> render rel vals (core_node n) = render_node rel vals n"
    and "nodes_ok S ns \<Longrightarrow> render rel vals (core ns) = render rel vals ns"
proof (induction n and ns rule: core_node_core.induct)
  case (1 ps)
  then have "\<not> (\<exists>p\<in>set ps. value_at vals p = None)"
    using value_at_ok [OF assms] by (auto simp: list_all_iff)
  then show ?case by (simp only: core_node.simps render.simps render_node.simps if_False)
next
  case (2 p fs)
  then obtain xs where "Option.bind (value_at vals p) range_over = Some xs" "list_all (has_fields fs) xs"
    using assms by (auto simp: has_shape_def)
  then show ?case by simp
next
  case (3 c ns es)
  obtain b where "holds vals c = Some b" using holds_ok [OF assms] 3 by auto
  with 3 show ?case by (cases "render rel vals ns"; cases "render rel vals es") (auto simp: Let_def)
next
  case (4 kind n)
  show ?case by simp
next
  case (5 e)
  show ?case by simp
next
  case (6 e p)
  show ?case by (cases "value_at vals p") auto
next
  case (8 n ns)
  then show ?case by (simp add: render_append)
qed simp

end
