(* ===== verification/Template_Data.thy ===== *)
theory Template_Data
  imports Chart_Template
begin

text \<open>
  The templates of the two charts, \<open>templates/*.yaml\<close> in \<open>bindata/deployment/helm/metallb\<close> and
  \<open>bindata/deployment/helm/frr-k8s\<close>, with the helpers of \<open>_helpers.tpl\<close> in place of their calls, and the
  shapes of values that they need. A path that has been used before on the same way is not repeated.
\<close>

section \<open>The MetalLB chart\<close>

text \<open>\<open>controller.yaml\<close>\<close>

definition metallb_controller_template :: "tnode list" where
  "metallb_controller_template =
    [TIf (TVal [''controller'', ''enabled''])
       [TDoc ''Deployment'' (TLit ''controller''),
        TUse [[''nameOverride'']],
        TRange [''controller'', ''labels''] [],
        TIf (TVal [''controller'', ''strategy'']) [] [],
        TIf (TOr (TVal [''prometheus'', ''scrapeAnnotations'']) (TVal [''controller'', ''podAnnotations'']))
          [TIf (TVal [''prometheus'', ''scrapeAnnotations''])
             [TUse [[''prometheus'', ''metricsPort'']]] [],
           TIf (TVal [''controller'', ''podAnnotations'']) [] []] [],
        TRange [''controller'', ''labels''] [],
        TIf (TVal [''controller'', ''runtimeClassName'']) [] [],
        TIf (TVal [''imagePullSecrets'']) [] [],
        TIf (TVal [''controller'', ''serviceAccount'', ''create''])
          [TUse [[''fullnameOverride''],
                 [''controller'', ''serviceAccount'', ''name'']]]
          [TUse [[''controller'', ''serviceAccount'', ''name'']]],
        TIf (TVal [''controller'', ''securityContext'']) [] [],
        TUse [[''controller'', ''image'', ''repository''],
              [''controller'', ''image'', ''tag'']],
        TIf (TVal [''controller'', ''image'', ''pullPolicy'']) [] [],
        TIf (TVal [''controller'', ''command'']) [] [],
        TUse [[''prometheus'', ''metricsPort''],
              [''controller'', ''livenessProbe'', ''port'']],
        TIf (TVal [''controller'', ''logLevel'']) [] [],
        TIf (TVal [''loadBalancerClass'']) [] [],
        TIf (TVal [''controller'', ''webhookMode'']) [] [],
        TIf (TVal [''tls'', ''cipherSuites'']) [] [],
        TIf (TVal [''tls'', ''curvePreferences'']) [] [],
        TIf (TVal [''tls'', ''minVersion'']) [] [],
        TIf (TVal [''tls'', ''controllerMetricsTLSSecret'']) [] [],
        TIf (TAnd (TVal [''speaker'', ''enabled'']) (TVal [''speaker'', ''memberlist'', ''enabled'']))
          [TUse [[''fullnameOverride''],
                 [''speaker'', ''secretName'']]] [],
        TIf (TAnd (TVal [''speaker'', ''enabled'']) (TVal [''speaker'', ''frr'', ''enabled''])) [] [],
        TIf (TOr (TVal [''frrk8s'', ''enabled'']) (TVal [''frrk8s'', ''external''])) [] [],
        TIf (TVal [''controller'', ''livenessProbe'', ''enabled''])
          [TUse [[''controller'', ''livenessProbe'', ''initialDelaySeconds''],
                 [''controller'', ''livenessProbe'', ''periodSeconds''],
                 [''controller'', ''livenessProbe'', ''timeoutSeconds''],
                 [''controller'', ''livenessProbe'', ''successThreshold''],
                 [''controller'', ''livenessProbe'', ''failureThreshold'']]] [],
        TIf (TVal [''controller'', ''readinessProbe'', ''enabled''])
          [TUse [[''controller'', ''readinessProbe'', ''port''],
                 [''controller'', ''readinessProbe'', ''initialDelaySeconds''],
                 [''controller'', ''readinessProbe'', ''periodSeconds''],
                 [''controller'', ''readinessProbe'', ''timeoutSeconds''],
                 [''controller'', ''readinessProbe'', ''successThreshold''],
                 [''controller'', ''readinessProbe'', ''failureThreshold'']]] [],
        TIf (TVal [''controller'', ''resources'']) [] [],
        TIf (TVal [''controller'', ''extraContainers'']) [] [],
        TIf (TVal [''controller'', ''nodeSelector'']) [] [],
        TIf (TVal [''controller'', ''affinity'']) [] [],
        TIf (TVal [''controller'', ''tolerations'']) [] [],
        TIf (TVal [''controller'', ''priorityClassName'']) [] []] []]"

text \<open>\<open>deprecated_configInline.yaml\<close>\<close>

definition metallb_deprecated_configInline_template :: "tnode list" where
  "metallb_deprecated_configInline_template =
    [TIf (TVal [''configInline''])
       [TFail ''Starting from v0.13.0 configInline is no longer supported. Please see https://metallb.universe.tf/#backward-compatibility''] []]"

text \<open>\<open>exclude-l2-config.yaml\<close>\<close>

definition metallb_exclude_l2_config_template :: "tnode list" where
  "metallb_exclude_l2_config_template =
    [TIf (TAnd (TVal [''speaker'', ''enabled'']) (TVal [''speaker'', ''excludeInterfaces'', ''enabled'']))
       [TDoc ''ConfigMap'' (TLit ''metallb-excludel2''),
        TUse [[''nameOverride'']]] []]"

text \<open>\<open>networkpolicy.yaml\<close>\<close>

definition metallb_networkpolicy_template :: "tnode list" where
  "metallb_networkpolicy_template =
    [TIf (TVal [''networkpolicies'', ''enabled''])
       [TIf (TVal [''networkpolicies'', ''defaultDeny''])
          [TDoc ''NetworkPolicy'' (TLit ''default-deny'')] [],
        TDoc ''NetworkPolicy'' (TLit ''controller''),
        TUse [[''nameOverride''],
              [''networkpolicies'', ''apiPort'']],
        TIf (TAnd (TVal [''controller'', ''webhookMode'']) (TNe [''controller'', ''webhookMode''] ''disabled'')) [] []] []]"

text \<open>\<open>podmonitor.yaml\<close>\<close>

definition metallb_podmonitor_template :: "tnode list" where
  "metallb_podmonitor_template =
    [TIf (TVal [''prometheus'', ''podMonitor'', ''enabled''])
       [TDoc ''PodMonitor'' (TLit ''controller''),
        TUse [[''nameOverride'']],
        TIf (TVal [''prometheus'', ''podMonitor'', ''additionalLabels'']) [] [],
        TIf (TVal [''prometheus'', ''podMonitor'', ''annotations'']) [] [],
        TUse [[''prometheus'', ''podMonitor'', ''jobLabel'']],
        TIf (TVal [''prometheus'', ''podMonitor'', ''interval'']) [] [],
        TIf (TVal [''prometheus'', ''podMonitor'', ''tlsConfig'']) [] [],
        TIf (TVal [''prometheus'', ''podMonitor'', ''metricRelabelings'']) [] [],
        TIf (TVal [''prometheus'', ''podMonitor'', ''relabelings'']) [] [],
        TIf (TVal [''speaker'', ''enabled''])
          [TDoc ''PodMonitor'' (TLit ''speaker''),
           TIf (TVal [''speaker'', ''frr'', ''enabled'']) [] []] [],
        TDoc ''ServiceAccount'' (TLit ''metrics-reader''),
        TDoc ''Secret'' (TLit ''metrics-token''),
        TDoc ''ClusterRole'' (TLit ''metrics-reader''),
        TDoc ''ClusterRoleBinding'' (TLit ''metrics-reader''),
        TIf (TVal [''prometheus'', ''rbacPrometheus''])
          [TDoc ''Role'' (TLit ''prometheus''),
           TDoc ''RoleBinding'' (TLit ''prometheus''),
           TRequired ''.Values.prometheus.serviceAccount must be defined when .Values.prometheus.podMonitor.enabled == true'' [''prometheus'', ''serviceAccount''],
           TRequired ''.Values.prometheus.namespace must be defined when .Values.prometheus.podMonitor.enabled == true'' [''prometheus'', ''namespace'']] []] []]"

text \<open>\<open>prometheusrules.yaml\<close>\<close>

definition metallb_prometheusrules_template :: "tnode list" where
  "metallb_prometheusrules_template =
    [TIf (TVal [''prometheus'', ''prometheusRule'', ''enabled''])
       [TDoc ''PrometheusRule'' TFullname,
        TUse [[''fullnameOverride''],
              [''nameOverride'']],
        TIf (TVal [''prometheus'', ''prometheusRule'', ''additionalLabels'']) [] [],
        TIf (TVal [''prometheus'', ''prometheusRule'', ''annotations'']) [] [],
        TIf (TVal [''prometheus'', ''prometheusRule'', ''staleConfig'', ''enabled''])
          [TIf (TVal [''prometheus'', ''prometheusRule'', ''staleConfig'', ''labels'']) [] []] [],
        TIf (TVal [''prometheus'', ''prometheusRule'', ''configNotLoaded'', ''enabled''])
          [TIf (TVal [''prometheus'', ''prometheusRule'', ''configNotLoaded'', ''labels'']) [] []] [],
        TIf (TVal [''prometheus'', ''prometheusRule'', ''addressPoolExhausted'', ''enabled''])
          [TUse [[''prometheus'', ''prometheusRule'', ''addressPoolExhausted'', ''excludePools'']],
           TIf (TVal [''prometheus'', ''prometheusRule'', ''addressPoolExhausted'', ''labels'']) [] []] [],
        TIf (TVal [''prometheus'', ''prometheusRule'', ''addressPoolUsage'', ''enabled''])
          [TUse [[''prometheus'', ''prometheusRule'', ''addressPoolUsage'', ''excludePools'']],
           TRange [''prometheus'', ''prometheusRule'', ''addressPoolUsage'', ''thresholds''] [''labels'', ''percent'']] [],
        TIf (TVal [''prometheus'', ''prometheusRule'', ''bgpSessionDown'', ''enabled''])
          [TIf (TVal [''prometheus'', ''prometheusRule'', ''bgpSessionDown'', ''labels'']) [] []] [],
        TIf (TVal [''prometheus'', ''prometheusRule'', ''extraAlerts'']) [] []] []]"

text \<open>\<open>servicemonitor.yaml\<close>\<close>

definition metallb_servicemonitor_template :: "tnode list" where
  "metallb_servicemonitor_template =
    [TIf (TAnd (TVal [''prometheus'', ''serviceMonitor'', ''enabled'']) (TVal [''prometheus'', ''podMonitor'', ''enabled'']))
       [TFail ''prometheus.serviceMonitor.enabled and prometheus.podMonitor.enabled cannot both be set''] [],
     TIf (TVal [''prometheus'', ''serviceMonitor'', ''enabled''])
       [TIf (TVal [''speaker'', ''enabled''])
          [TDoc ''ServiceMonitor'' (TLit ''speaker-monitor''),
           TUse [[''nameOverride'']],
           TIf (TVal [''prometheus'', ''serviceMonitor'', ''speaker'', ''additionalLabels'']) [] [],
           TIf (TVal [''prometheus'', ''serviceMonitor'', ''speaker'', ''annotations'']) [] [],
           TIf (TVal [''prometheus'', ''serviceMonitor'', ''metricRelabelings'']) [] [],
           TIf (TVal [''prometheus'', ''serviceMonitor'', ''relabelings'']) [] [],
           TIf (TVal [''prometheus'', ''serviceMonitor'', ''interval'']) [] [],
           TIf (TVal [''prometheus'', ''serviceMonitor'', ''speaker'', ''tlsConfig'']) [] [],
           TIf (TVal [''speaker'', ''frr'', ''enabled'']) [] [],
           TUse [[''prometheus'', ''serviceMonitor'', ''jobLabel'']],
           TDoc ''Service'' (TLit ''speaker-monitor-service''),
           TUse [[''prometheus'', ''metricsPort'']],
           TIf (TVal [''speaker'', ''frr'', ''enabled''])
             [TUse [[''speaker'', ''frr'', ''metricsPort'']]] []] [],
        TDoc ''ServiceMonitor'' (TLit ''controller-monitor''),
        TUse [[''nameOverride'']],
        TIf (TVal [''prometheus'', ''serviceMonitor'', ''controller'', ''additionalLabels'']) [] [],
        TIf (TVal [''prometheus'', ''serviceMonitor'', ''controller'', ''annotations'']) [] [],
        TIf (TVal [''prometheus'', ''serviceMonitor'', ''metricRelabelings'']) [] [],
        TIf (TVal [''prometheus'', ''serviceMonitor'', ''relabelings'']) [] [],
        TIf (TVal [''prometheus'', ''serviceMonitor'', ''interval'']) [] [],
        TIf (TVal [''prometheus'', ''serviceMonitor'', ''controller'', ''tlsConfig'']) [] [],
        TUse [[''prometheus'', ''serviceMonitor'', ''jobLabel'']],
        TDoc ''Service'' (TLit ''controller-monitor-service''),
        TUse [[''prometheus'', ''metricsPort'']],
        TIf (TVal [''prometheus'', ''rbacPrometheus''])
          [TDoc ''Role'' (TLit ''prometheus''),
           TDoc ''RoleBinding'' (TLit ''prometheus''),
           TRequired ''.Values.prometheus.serviceAccount must be defined when .Values.prometheus.serviceMonitor.enabled == true'' [''prometheus'', ''serviceAccount''],
           TRequired ''.Values.prometheus.namespace must be defined when .Values.prometheus.serviceMonitor.enabled == true'' [''prometheus'', ''namespace'']] []] []]"

text \<open>\<open>speaker.yaml\<close>\<close>

definition metallb_speaker_template :: "tnode list" where
  "metallb_speaker_template =
    [TIf (TVal [''speaker'', ''frr'', ''enabled''])
       [TIf (TOr (TVal [''frrk8s'', ''enabled'']) (TVal [''frrk8s'', ''external'']))
          [TFail ''speaker.frr.enabled and frrk8s.enabled / external are mutually exclusive!''] []] [],
     TIf (TAnd (TVal [''frrk8s'', ''enabled'']) (TVal [''frrk8s'', ''external'']))
       [TFail ''frrk8s.enabled frrk8s.external are mutually exclusive!''] [],
     TIf (TAnd (TOr (TVal [''frrk8s'', ''enabled'']) (TVal [''frrk8s'', ''external''])) (TNot (TVal [''speaker'', ''enabled''])))
       [TFail ''frrk8s requires speaker to be enabled. Set frrk8s.enabled=false when disabling speaker.''] [],
     TIf (TAnd (TNot (TVal [''speaker'', ''memberlist'', ''enabled''])) (TVal [''speaker'', ''nodeSelector'']))
       [TFail ''nodeSelector must be empty when memberlist is disabled''] [],
     TIf (TVal [''speaker'', ''frr'', ''enabled''])
       [TDoc ''ConfigMap'' (TLit ''frr-startup''),
        TUse [[''nameOverride'']]] [],
     TIf (TVal [''speaker'', ''enabled''])
       [TDoc ''DaemonSet'' (TLit ''speaker''),
        TUse [[''nameOverride'']],
        TRange [''speaker'', ''labels''] [],
        TIf (TVal [''speaker'', ''updateStrategy'']) [] [],
        TIf (TOr (TVal [''prometheus'', ''scrapeAnnotations'']) (TVal [''speaker'', ''podAnnotations'']))
          [TIf (TVal [''prometheus'', ''scrapeAnnotations''])
             [TIf (TNot (TVal [''speaker'', ''frr'', ''enabled'']))
                [TUse [[''prometheus'', ''metricsPort'']]] []] [],
           TIf (TVal [''speaker'', ''podAnnotations'']) [] []] [],
        TRange [''speaker'', ''labels''] [],
        TIf (TVal [''speaker'', ''runtimeClassName'']) [] [],
        TIf (TVal [''imagePullSecrets'']) [] [],
        TIf (TVal [''speaker'', ''serviceAccount'', ''create''])
          [TUse [[''fullnameOverride''],
                 [''speaker'', ''serviceAccount'', ''name'']]]
          [TUse [[''speaker'', ''serviceAccount'', ''name'']]],
        TIf (TVal [''speaker'', ''securityContext'']) [] [],
        TIf (TVal [''tls'', ''speakerMetricsTLSSecret'']) [] [],
        TIf (TVal [''speaker'', ''memberlist'', ''enabled''])
          [TUse [[''fullnameOverride''],
                 [''speaker'', ''secretName'']]] [],
        TIf (TVal [''speaker'', ''excludeInterfaces'', ''enabled'']) [] [],
        TIf (TVal [''speaker'', ''frr'', ''enabled''])
          [TUse [[''speaker'', ''frr'', ''image'', ''repository''],
                 [''speaker'', ''frr'', ''image'', ''tag'']],
           TIf (TVal [''speaker'', ''initContainers'', ''cpFrrFiles'', ''resources'']) [] [],
           TUse [[''speaker'', ''image'', ''repository''],
                 [''speaker'', ''image'', ''tag'']],
           TIf (TVal [''speaker'', ''initContainers'', ''cpReloader'', ''resources'']) [] [],
           TIf (TVal [''speaker'', ''initContainers'', ''cpMetrics'', ''resources'']) [] []] [],
        TUse [[''speaker'', ''image'', ''repository''],
              [''speaker'', ''image'', ''tag'']],
        TIf (TVal [''speaker'', ''image'', ''pullPolicy'']) [] [],
        TIf (TVal [''speaker'', ''command'']) [] [],
        TUse [[''prometheus'', ''metricsPort''],
              [''speaker'', ''livenessProbe'', ''port'']],
        TIf (TVal [''speaker'', ''logLevel'']) [] [],
        TIf (TVal [''loadBalancerClass'']) [] [],
        TIf (TVal [''speaker'', ''wanConfig'']) [] [],
        TIf (TVal [''speaker'', ''ignoreExcludeLB'']) [] [],
        TIf (TVal [''speaker'', ''bgpDebounceTimeout'']) [] [],
        TIf (TVal [''frrk8s'', ''external''])
          [TRequired ''namespace is required when frrk8s is external'' [''frrk8s'', ''namespace''],
           TIf (TVal [''frrk8s'', ''secretPassthrough'']) [] []] [],
        TIf (TVal [''tls'', ''cipherSuites'']) [] [],
        TIf (TVal [''tls'', ''curvePreferences'']) [] [],
        TIf (TVal [''tls'', ''minVersion'']) [] [],
        TIf (TVal [''speaker'', ''memberlist'', ''enabled''])
          [TIf (TVal [''speaker'', ''memberlist'', ''mlBindAddrOverride'']) [] [],
           TUse [[''speaker'', ''memberlist'', ''mlBindPort''],
                 [''speaker'', ''memberlist'', ''mlSecretKeyPath'']]] [],
        TIf (TVal [''speaker'', ''memberlist'', ''enabled''])
          [TUse [[''speaker'', ''memberlist'', ''mlBindPort'']]] [],
        TIf (TVal [''speaker'', ''livenessProbe'', ''enabled''])
          [TUse [[''speaker'', ''livenessProbe'', ''initialDelaySeconds''],
                 [''speaker'', ''livenessProbe'', ''periodSeconds''],
                 [''speaker'', ''livenessProbe'', ''timeoutSeconds''],
                 [''speaker'', ''livenessProbe'', ''successThreshold''],
                 [''speaker'', ''livenessProbe'', ''failureThreshold'']]] [],
        TIf (TVal [''speaker'', ''readinessProbe'', ''enabled''])
          [TUse [[''speaker'', ''readinessProbe'', ''port''],
                 [''speaker'', ''readinessProbe'', ''initialDelaySeconds''],
                 [''speaker'', ''readinessProbe'', ''periodSeconds''],
                 [''speaker'', ''readinessProbe'', ''timeoutSeconds''],
                 [''speaker'', ''readinessProbe'', ''successThreshold''],
                 [''speaker'', ''readinessProbe'', ''failureThreshold'']]] [],
        TIf (TVal [''speaker'', ''resources'']) [] [],
        TIf (TOr (TVal [''speaker'', ''frr'', ''enabled'']) (TOr (TVal [''speaker'', ''memberlist'', ''enabled'']) (TOr (TVal [''speaker'', ''excludeInterfaces'', ''enabled'']) (TVal [''tls'', ''speakerMetricsTLSSecret'']))))
          [TIf (TVal [''speaker'', ''memberlist'', ''enabled''])
             [TUse [[''speaker'', ''memberlist'', ''mlSecretKeyPath'']]] []] [],
        TIf (TVal [''speaker'', ''frr'', ''enabled''])
          [TUse [[''speaker'', ''frr'', ''image'', ''repository''],
                 [''speaker'', ''frr'', ''image'', ''tag'']],
           TIf (TVal [''speaker'', ''frr'', ''image'', ''pullPolicy'']) [] [],
           TIf (TVal [''speaker'', ''frr'', ''resources'']) [] [],
           TIf (TVal [''speaker'', ''livenessProbe'', ''enabled''])
             [TUse [[''speaker'', ''frr'', ''metricsPort''],
                    [''speaker'', ''livenessProbe'', ''initialDelaySeconds''],
                    [''speaker'', ''livenessProbe'', ''periodSeconds''],
                    [''speaker'', ''livenessProbe'', ''timeoutSeconds''],
                    [''speaker'', ''livenessProbe'', ''successThreshold''],
                    [''speaker'', ''livenessProbe'', ''failureThreshold'']]] [],
           TIf (TVal [''speaker'', ''startupProbe'', ''enabled''])
             [TUse [[''speaker'', ''frr'', ''metricsPort''],
                    [''speaker'', ''startupProbe'', ''failureThreshold''],
                    [''speaker'', ''startupProbe'', ''periodSeconds'']]] [],
           TIf (TVal [''speaker'', ''reloader'', ''resources'']) [] [],
           TUse [[''speaker'', ''frr'', ''metricsPort'']],
           TIf (TVal [''speaker'', ''frrMetrics'', ''resources'']) [] []] [],
        TIf (TVal [''speaker'', ''extraContainers'']) [] [],
        TIf (TVal [''speaker'', ''nodeSelector'']) [] [],
        TIf (TVal [''speaker'', ''affinity'']) [] [],
        TIf (TOr (TVal [''speaker'', ''tolerateMaster'']) (TVal [''speaker'', ''tolerations'']))
          [TIf (TVal [''speaker'', ''tolerations'']) [] []] [],
        TIf (TVal [''speaker'', ''priorityClassName'']) [] []] []]"

definition metallb_templates :: "tnode list" where
  "metallb_templates =
     metallb_controller_template @
     metallb_deprecated_configInline_template @
     metallb_exclude_l2_config_template @
     metallb_networkpolicy_template @
     metallb_podmonitor_template @
     metallb_prometheusrules_template @
     metallb_servicemonitor_template @
     metallb_speaker_template"

definition metallb_shape :: shape where
  "metallb_shape =
     \<lparr>Maps =
        [[''controller''],
         [''controller'', ''image''],
         [''controller'', ''livenessProbe''],
         [''controller'', ''readinessProbe''],
         [''controller'', ''serviceAccount''],
         [''frrk8s''],
         [''networkpolicies''],
         [''prometheus''],
         [''prometheus'', ''podMonitor''],
         [''prometheus'', ''prometheusRule''],
         [''prometheus'', ''prometheusRule'', ''addressPoolExhausted''],
         [''prometheus'', ''prometheusRule'', ''addressPoolUsage''],
         [''prometheus'', ''prometheusRule'', ''bgpSessionDown''],
         [''prometheus'', ''prometheusRule'', ''configNotLoaded''],
         [''prometheus'', ''prometheusRule'', ''staleConfig''],
         [''prometheus'', ''serviceMonitor''],
         [''prometheus'', ''serviceMonitor'', ''controller''],
         [''prometheus'', ''serviceMonitor'', ''speaker''],
         [''speaker''],
         [''speaker'', ''excludeInterfaces''],
         [''speaker'', ''frr''],
         [''speaker'', ''frr'', ''image''],
         [''speaker'', ''frrMetrics''],
         [''speaker'', ''image''],
         [''speaker'', ''initContainers''],
         [''speaker'', ''initContainers'', ''cpFrrFiles''],
         [''speaker'', ''initContainers'', ''cpMetrics''],
         [''speaker'', ''initContainers'', ''cpReloader''],
         [''speaker'', ''livenessProbe''],
         [''speaker'', ''memberlist''],
         [''speaker'', ''readinessProbe''],
         [''speaker'', ''reloader''],
         [''speaker'', ''serviceAccount''],
         [''speaker'', ''startupProbe''],
         [''tls'']],
      Strings = [[''controller'', ''webhookMode'']],
      Ranges =
        [([''controller'', ''labels''], []),
         ([''prometheus'', ''prometheusRule'', ''addressPoolUsage'', ''thresholds''], [''labels'', ''percent'']),
         ([''speaker'', ''labels''], [])]\<rparr>"

section \<open>The frr-k8s chart\<close>

text \<open>\<open>controller.yaml\<close>\<close>

definition frrk8s_controller_template :: "tnode list" where
  "frrk8s_controller_template =
    [TDoc ''ConfigMap'' (TLit ''frr-startup''),
     TUse [[''nameOverride'']],
     TIf (TNot (TVal [''frrk8s'', ''frr'', ''acceptIncomingBGPConnections''])) [] [],
     TDoc ''DaemonSet'' TFullname,
     TUse [[''fullnameOverride'']],
     TRange [''frrk8s'', ''labels''] [],
     TIf (TVal [''frrk8s'', ''updateStrategy'']) [] [],
     TRange [''frrk8s'', ''labels''] [],
     TIf (TVal [''frrk8s'', ''runtimeClassName'']) [] [],
     TIf (TVal [''imagePullSecrets'']) [] [],
     TIf (TVal [''frrk8s'', ''serviceAccount'', ''create''])
       [TUse [[''frrk8s'', ''serviceAccount'', ''name'']]]
       [TUse [[''frrk8s'', ''serviceAccount'', ''name'']]],
     TIf (TVal [''tls'', ''metricsTLSSecret'']) [] [],
     TUse [[''frrk8s'', ''frr'', ''image'', ''repository''],
           [''frrk8s'', ''frr'', ''image'', ''tag''],
           [''frrk8s'', ''image'', ''repository''],
           [''frrk8s'', ''image'', ''tag'']],
     TIf (TVal [''frrk8s'', ''image'', ''pullPolicy'']) [] [],
     TUse [[''prometheus'', ''secureMetricsPort'']],
     TIf (TVal [''frrk8s'', ''logLevel'']) [] [],
     TIf (TVal [''frrk8s'', ''alwaysBlock'']) [] [],
     TIf (TVal [''frrk8s'', ''bgpDebounceTimeout'']) [] [],
     TIf (TVal [''tls'', ''cipherSuites'']) [] [],
     TIf (TVal [''tls'', ''curvePreferences'']) [] [],
     TIf (TVal [''tls'', ''minVersion'']) [] [],
     TIf (TVal [''frrk8s'', ''livenessProbe'', ''enabled''])
       [TUse [[''frrk8s'', ''livenessProbe'', ''initialDelaySeconds''],
              [''frrk8s'', ''livenessProbe'', ''periodSeconds''],
              [''frrk8s'', ''livenessProbe'', ''timeoutSeconds''],
              [''frrk8s'', ''livenessProbe'', ''successThreshold''],
              [''frrk8s'', ''livenessProbe'', ''failureThreshold'']]] [],
     TIf (TVal [''frrk8s'', ''readinessProbe'', ''enabled''])
       [TUse [[''frrk8s'', ''readinessProbe'', ''initialDelaySeconds''],
              [''frrk8s'', ''readinessProbe'', ''periodSeconds''],
              [''frrk8s'', ''readinessProbe'', ''timeoutSeconds''],
              [''frrk8s'', ''readinessProbe'', ''successThreshold''],
              [''frrk8s'', ''readinessProbe'', ''failureThreshold'']]] [],
     TIf (TVal [''frrk8s'', ''resources'']) [] [],
     TIf (TVal [''frrk8s'', ''frr'', ''image'', ''pullPolicy'']) [] [],
     TIf (TVal [''frrk8s'', ''frr'', ''resources'']) [] [],
     TIf (TVal [''frrk8s'', ''livenessProbe'', ''enabled''])
       [TUse [[''frrk8s'', ''frr'', ''secureMetricsPort''],
              [''frrk8s'', ''livenessProbe'', ''periodSeconds''],
              [''frrk8s'', ''livenessProbe'', ''failureThreshold'']]] [],
     TIf (TVal [''frrk8s'', ''startupProbe'', ''enabled''])
       [TUse [[''frrk8s'', ''frr'', ''secureMetricsPort''],
              [''frrk8s'', ''startupProbe'', ''failureThreshold''],
              [''frrk8s'', ''startupProbe'', ''periodSeconds'']]] [],
     TIf (TVal [''frrk8s'', ''reloader'', ''resources'']) [] [],
     TUse [[''frrk8s'', ''frr'', ''secureMetricsPort'']],
     TIf (TVal [''frrk8s'', ''frrMetrics'', ''resources'']) [] [],
     TIf (TVal [''frrk8s'', ''frrStatus'', ''pollInterval'']) [] [],
     TIf (TVal [''frrk8s'', ''frrStatus'', ''resources'']) [] [],
     TIf (TVal [''frrk8s'', ''nodeSelector'']) [] [],
     TIf (TVal [''frrk8s'', ''affinity'']) [] [],
     TIf (TOr (TVal [''frrk8s'', ''tolerateMaster'']) (TVal [''frrk8s'', ''tolerations'']))
       [TIf (TVal [''frrk8s'', ''tolerations'']) [] []] [],
     TIf (TVal [''frrk8s'', ''priorityClassName'']) [] []]"

text \<open>\<open>service-monitor.yaml\<close>\<close>

definition frrk8s_service_monitor_template :: "tnode list" where
  "frrk8s_service_monitor_template =
    [TIf (TVal [''prometheus'', ''serviceMonitor'', ''enabled''])
       [TDoc ''ServiceMonitor'' (TLit ''frr-k8s-monitor''),
        TUse [[''nameOverride'']],
        TIf (TVal [''prometheus'', ''serviceMonitor'', ''additionalLabels'']) [] [],
        TIf (TVal [''prometheus'', ''serviceMonitor'', ''annotations'']) [] [],
        TIf (TVal [''prometheus'', ''serviceMonitor'', ''metricRelabelings'']) [] [],
        TIf (TVal [''prometheus'', ''serviceMonitor'', ''relabelings'']) [] [],
        TIf (TVal [''prometheus'', ''serviceMonitor'', ''interval'']) [] [],
        TIf (TVal [''prometheus'', ''secureMetricsPort''])
          [TIf (TVal [''prometheus'', ''serviceMonitor'', ''tlsConfig'']) [] []] [],
        TIf (TVal [''frrk8s'', ''frr'', ''secureMetricsPort''])
          [TIf (TVal [''prometheus'', ''serviceMonitor'', ''tlsConfig'']) [] []] [],
        TUse [[''prometheus'', ''serviceMonitor'', ''jobLabel'']],
        TDoc ''Service'' (TLit ''frr-k8s-monitor-service''),
        TIf (TVal [''prometheus'', ''rbacPrometheus''])
          [TDoc ''Role'' (TLit ''prometheus''),
           TDoc ''RoleBinding'' (TLit ''prometheus''),
           TRequired ''.Values.prometheus.serviceAccount must be defined when .Values.prometheus.serviceMonitor.enabled == true'' [''prometheus'', ''serviceAccount''],
           TRequired ''.Values.prometheus.namespace must be defined when .Values.prometheus.serviceMonitor.enabled == true'' [''prometheus'', ''namespace'']] []] []]"

text \<open>\<open>status-cleaner.yaml\<close>\<close>

definition frrk8s_status_cleaner_template :: "tnode list" where
  "frrk8s_status_cleaner_template =
    [TDoc ''Deployment'' (TLit ''statuscleaner''),
     TUse [[''nameOverride'']],
     TRange [''frrk8s'', ''labels''] [],
     TIf (TVal [''frrk8s'', ''runtimeClassName'']) [] [],
     TIf (TVal [''imagePullSecrets'']) [] [],
     TUse [[''frrk8s'', ''webhookPort'']],
     TIf (TVal [''frrk8s'', ''logLevel'']) [] [],
     TIf (TVal [''frrk8s'', ''disableCertRotation'']) [] [],
     TIf (TVal [''frrk8s'', ''restartOnRotatorSecretRefresh'']) [] [],
     TIf (TVal [''tls'', ''cipherSuites'']) [] [],
     TIf (TVal [''tls'', ''curvePreferences'']) [] [],
     TIf (TVal [''tls'', ''minVersion'']) [] [],
     TUse [[''frrk8s'', ''image'', ''repository''],
           [''frrk8s'', ''image'', ''tag'']],
     TIf (TVal [''frrk8s'', ''image'', ''pullPolicy'']) [] [],
     TIf (TVal [''frrk8s'', ''livenessProbe'', ''enabled''])
       [TUse [[''frrk8s'', ''livenessProbe'', ''initialDelaySeconds''],
              [''frrk8s'', ''livenessProbe'', ''periodSeconds''],
              [''frrk8s'', ''livenessProbe'', ''failureThreshold'']]] [],
     TIf (TVal [''frrk8s'', ''readinessProbe'', ''enabled''])
       [TUse [[''frrk8s'', ''readinessProbe'', ''initialDelaySeconds''],
              [''frrk8s'', ''readinessProbe'', ''periodSeconds''],
              [''frrk8s'', ''readinessProbe'', ''failureThreshold'']]] [],
     TIf (TVal [''frrk8s'', ''resources'']) [] [],
     TIf (TVal [''frrk8s'', ''affinity'']) [] [],
     TIf (TOr (TVal [''frrk8s'', ''tolerateMaster'']) (TVal [''frrk8s'', ''tolerations'']))
       [TIf (TVal [''frrk8s'', ''tolerations'']) [] []] [],
     TIf (TVal [''frrk8s'', ''priorityClassName'']) [] [],
     TIf (TVal [''frrk8s'', ''serviceAccount'', ''create''])
       [TUse [[''fullnameOverride''],
              [''frrk8s'', ''serviceAccount'', ''name'']]]
       [TUse [[''frrk8s'', ''serviceAccount'', ''name'']]]]"

text \<open>\<open>webhooks.yaml\<close>\<close>

definition frrk8s_webhooks_template :: "tnode list" where
  "frrk8s_webhooks_template =
    [TDoc ''Secret'' (TLit ''frr-k8s-webhook-server-cert''),
     TDoc ''Service'' (TLit ''frr-k8s-webhook-service''),
     TDoc ''ValidatingWebhookConfiguration'' (TLit ''frr-k8s-validating-webhook-configuration''),
     TUse [[''crds'', ''validationFailurePolicy'']]]"

definition frrk8s_templates :: "tnode list" where
  "frrk8s_templates =
     frrk8s_controller_template @
     frrk8s_service_monitor_template @
     frrk8s_status_cleaner_template @
     frrk8s_webhooks_template"

definition frrk8s_shape :: shape where
  "frrk8s_shape =
     \<lparr>Maps =
        [[''crds''],
         [''frrk8s''],
         [''frrk8s'', ''frr''],
         [''frrk8s'', ''frr'', ''image''],
         [''frrk8s'', ''frrMetrics''],
         [''frrk8s'', ''frrStatus''],
         [''frrk8s'', ''image''],
         [''frrk8s'', ''livenessProbe''],
         [''frrk8s'', ''readinessProbe''],
         [''frrk8s'', ''reloader''],
         [''frrk8s'', ''serviceAccount''],
         [''frrk8s'', ''startupProbe''],
         [''prometheus''],
         [''prometheus'', ''serviceMonitor''],
         [''tls'']],
      Strings = [],
      Ranges =
        [([''frrk8s'', ''labels''], [])]\<rparr>"

end
