(* ===== verification/Chart_Data.thy ===== *)
theory Chart_Data
  imports Chart_Schema
begin

text \<open>
  The schemas and the default values of the two charts, \<open>values.schema.json\<close> and \<open>values.yaml\<close> in
  \<open>bindata/deployment/helm/metallb\<close> and \<open>bindata/deployment/helm/frr-k8s\<close>. The parts that both schemas
  define alike are shared. In the schema of the frr-k8s chart, the entries \<open>frrk8s\<close> and \<open>crds\<close> that stand
  beside the properties of \<open>prometheus\<close> are no keywords of the schema language and constrain nothing.
\<close>

section \<open>Schemas\<close>

definition alert_schema :: schema where
  "alert_schema = SObject
      [(''enabled'', SBool),
       (''labels'', SObject [] [] (SStr))]
      [''enabled''] SAny"

definition probe_schema :: schema where
  "probe_schema = SObject
      [(''enabled'', SBool),
       (''failureThreshold'', SInt None None),
       (''initialDelaySeconds'', SInt None None),
       (''periodSeconds'', SInt None None),
       (''successThreshold'', SInt None None),
       (''timeoutSeconds'', SInt None None)]
      [''failureThreshold'', ''initialDelaySeconds'', ''periodSeconds'', ''successThreshold'', ''timeoutSeconds''] SAny"

definition image_schema :: schema where
  "image_schema = SObject
      [(''repository'', SStr),
       (''tag'', SAnyOf [SStr, SNull]),
       (''pullPolicy'', SAnyOf [SNull, SEnum [''Always'', ''IfNotPresent'', ''Never'']])]
      [] SAny"

definition component_schema :: schema where
  "component_schema = SObject
      [(''enabled'', SBool),
       (''logLevel'', SEnum [''all'', ''debug'', ''info'', ''warn'', ''error'', ''none'']),
       (''image'', image_schema),
       (''serviceAccount'', SObject
          [(''create'', SBool),
           (''name'', SStr),
           (''annotations'', SObject [] [] SAny)]
          [] SAny),
       (''resources'', SObject [] [] SAny),
       (''nodeSelector'', SObject [] [] SAny),
       (''tolerations'', SArray (SObject [] [] SAny)),
       (''priorityClassName'', SStr),
       (''runtimeClassName'', SStr),
       (''affinity'', SObject [] [] SAny),
       (''podAnnotations'', SObject [] [] SAny),
       (''livenessProbe'', probe_schema),
       (''readinessProbe'', probe_schema)]
      [''image'', ''serviceAccount''] SAny"

definition metallb_prometheus_schema :: schema where
  "metallb_prometheus_schema = SObject
      [(''scrapeAnnotations'', SBool),
       (''metricsPort'', SInt None None),
       (''secureMetricsPort'', SInt None None),
       (''rbacPrometheus'', SBool),
       (''serviceAccount'', SStr),
       (''namespace'', SStr),
       (''podMonitor'', SObject
          [(''enabled'', SBool),
           (''additionalMonitors'', SObject [] [] SAny),
           (''jobLabel'', SStr),
           (''interval'', SAnyOf [SInt None None, SNull]),
           (''metricRelabelings'', SArray (SObject [] [] SAny)),
           (''relabelings'', SArray (SObject [] [] SAny)),
           (''tlsConfig'', SObject [] [] SAny)]
          [] SAny),
       (''serviceMonitor'', SObject
          [(''enabled'', SBool),
           (''jobLabel'', SStr),
           (''interval'', SAnyOf [SInt None None, SNull]),
           (''metricRelabelings'', SArray (SObject [] [] SAny)),
           (''relabelings'', SArray (SObject [] [] SAny))]
          [] SAny),
       (''prometheusRule'', SObject
          [(''enabled'', SBool),
           (''additionalMonitors'', SObject [] [] SAny),
           (''staleConfig'', alert_schema),
           (''configNotLoaded'', alert_schema),
           (''addressPoolExhausted'', alert_schema),
           (''addressPoolUsage'', SObject
              [(''enabled'', SBool),
               (''thresholds'', SArray (SObject
                    [(''percent'', SInt (Some 0) (Some 100)),
                     (''labels'', SObject [] [] (SStr))]
                    [''percent''] SAny))]
              [''enabled''] SAny),
           (''bgpSessionDown'', alert_schema),
           (''extraAlerts'', SArray (SObject [] [] SAny))]
          [''enabled'', ''staleConfig'', ''configNotLoaded'', ''addressPoolExhausted'', ''addressPoolUsage'', ''bgpSessionDown''] SAny)]
      [''podMonitor'', ''prometheusRule''] SAny"

definition metallb_controller_schema :: schema where
  "metallb_controller_schema = SAllOf [component_schema,
    SObject
        [(''strategy'', SObject
            [(''type'', SStr)]
            [''type''] SAny),
         (''command'', SStr),
         (''webhookMode'', SStr),
         (''extraContainers'', SArray (SObject [] [] SAny))]
        [] SAny]"

definition metallb_speaker_schema :: schema where
  "metallb_speaker_schema = SAllOf [component_schema,
    SObject
        [(''tolerateMaster'', SBool),
         (''memberlist'', SObject
            [(''enabled'', SBool),
             (''mlBindPort'', SInt None None),
             (''mlBindAddrOverride'', SStr),
             (''mlSecretKeyPath'', SStr)]
            [] SAny),
         (''excludeInterfaces'', SObject
            [(''enabled'', SBool)]
            [] SAny),
         (''ignoreExcludeLB'', SBool),
         (''bgpDebounceTimeout'', SAnyOf [SInt (Some 1) None, SNull]),
         (''updateStrategy'', SObject
            [(''type'', SStr)]
            [''type''] SAny),
         (''runtimeClassName'', SStr),
         (''securityContext'', SObject [] [] SAny),
         (''secretName'', SStr),
         (''frr'', SObject
            [(''enabled'', SBool),
             (''image'', image_schema),
             (''metricsPort'', SInt None None),
             (''secureMetricsPort'', SInt None None),
             (''resources:'', SObject [] [] SAny)]
            [''enabled''] SAny),
         (''command'', SStr),
         (''reloader'', SObject
            [(''resources'', SObject [] [] SAny)]
            [] SAny),
         (''frrMetrics'', SObject
            [(''resources'', SObject [] [] SAny)]
            [] SAny),
         (''initContainers'', SObject
            [(''cpFrrFiles'', SObject
                [(''resources'', SObject [] [] SAny)]
                [] SAny),
             (''cpReloader'', SObject
                [(''resources'', SObject [] [] SAny)]
                [] SAny),
             (''cpMetrics'', SObject
                [(''resources'', SObject [] [] SAny)]
                [] SAny)]
            [] SAny),
         (''extraContainers'', SArray (SObject [] [] SAny))]
        [''tolerateMaster''] SAny]"

definition metallb_schema :: schema where
  "metallb_schema = SObject
      [(''imagePullSecrets'', SArray (SObject
            [(''name'', SStr)]
            [''name''] SNever)),
       (''nameOverride'', SStr),
       (''fullNameOverride'', SStr),
       (''configInLine'', SObject [] [] SAny),
       (''loadBalancerClass'', SStr),
       (''rbac'', SObject
          [(''create'', SBool)]
          [] SAny),
       (''prometheus'', metallb_prometheus_schema),
       (''controller'', metallb_controller_schema),
       (''speaker'', metallb_speaker_schema),
       (''crds'', SObject
          [(''enabled'', SBool),
           (''validationFailurePolicy'', SEnum [''Ignore'', ''Fail''])]
          [] SAny)]
      [''controller'', ''speaker''] SAny"

definition frrk8s_prometheus_schema :: schema where
  "frrk8s_prometheus_schema = SObject
      [(''scrapeAnnotations'', SBool),
       (''secureMetricsPort'', SInt None None),
       (''rbacPrometheus'', SBool),
       (''serviceAccount'', SStr),
       (''namespace'', SStr),
       (''serviceMonitor'', SObject
          [(''enabled'', SBool),
           (''jobLabel'', SStr),
           (''interval'', SAnyOf [SInt None None, SNull]),
           (''metricRelabelings'', SArray (SObject [] [] SAny)),
           (''relabelings'', SArray (SObject [] [] SAny))]
          [] SAny)]
      [] SAny"

definition frrk8s_frrk8s_schema :: schema where
  "frrk8s_frrk8s_schema = SAllOf [component_schema,
    SObject
        [(''strategy'', SObject
            [(''type'', SStr)]
            [''type''] SAny),
         (''command'', SStr),
         (''webhookMode'', SStr)]
        [] SAny]"

definition frrk8s_schema :: schema where
  "frrk8s_schema = SObject
      [(''imagePullSecrets'', SArray (SObject
            [(''name'', SStr)]
            [''name''] SNever)),
       (''nameOverride'', SStr),
       (''fullNameOverride'', SStr),
       (''tls'', SObject
          [(''cipherSuites'', SStr),
           (''curvePreferences'', SStr),
           (''minVersion'', SStr),
           (''metricsTLSSecret'', SStr)]
          [] SAny),
       (''rbac'', SObject
          [(''create'', SBool)]
          [] SAny),
       (''prometheus'', frrk8s_prometheus_schema),
       (''frrk8s'', frrk8s_frrk8s_schema)]
      [''frrk8s''] SAny"

section \<open>Default values\<close>

definition metallb_prometheus_defaults :: obj where
  "metallb_prometheus_defaults =
    [''scrapeAnnotations'' \<mapsto> GBool False,
     ''metricsPort'' \<mapsto> GInt 9120,
     ''rbacPrometheus'' \<mapsto> GBool True,
     ''serviceAccount'' \<mapsto> GStr '''',
     ''namespace'' \<mapsto> GStr '''',
     ''podMonitor'' \<mapsto> GMap [''enabled'' \<mapsto> GBool False,
        ''additionalLabels'' \<mapsto> GMap Map.empty,
        ''annotations'' \<mapsto> GMap Map.empty,
        ''jobLabel'' \<mapsto> GStr ''app.kubernetes.io/name'',
        ''interval'' \<mapsto> GNil,
        ''metricRelabelings'' \<mapsto> GSlice [],
        ''relabelings'' \<mapsto> GSlice [],
        ''tlsConfig'' \<mapsto> GMap [''insecureSkipVerify'' \<mapsto> GBool True]],
     ''serviceMonitor'' \<mapsto> GMap [''enabled'' \<mapsto> GBool False,
        ''speaker'' \<mapsto> GMap [''additionalLabels'' \<mapsto> GMap Map.empty,
           ''annotations'' \<mapsto> GMap Map.empty,
           ''tlsConfig'' \<mapsto> GMap [''insecureSkipVerify'' \<mapsto> GBool True]],
        ''controller'' \<mapsto> GMap [''additionalLabels'' \<mapsto> GMap Map.empty,
           ''annotations'' \<mapsto> GMap Map.empty,
           ''tlsConfig'' \<mapsto> GMap [''insecureSkipVerify'' \<mapsto> GBool True]],
        ''jobLabel'' \<mapsto> GStr ''app.kubernetes.io/name'',
        ''interval'' \<mapsto> GNil,
        ''metricRelabelings'' \<mapsto> GSlice [],
        ''relabelings'' \<mapsto> GSlice []],
     ''prometheusRule'' \<mapsto> GMap [''enabled'' \<mapsto> GBool False,
        ''additionalLabels'' \<mapsto> GMap Map.empty,
        ''annotations'' \<mapsto> GMap Map.empty,
        ''staleConfig'' \<mapsto> GMap [''enabled'' \<mapsto> GBool True,
           ''labels'' \<mapsto> GMap [''severity'' \<mapsto> GStr ''warning'']],
        ''configNotLoaded'' \<mapsto> GMap [''enabled'' \<mapsto> GBool True,
           ''labels'' \<mapsto> GMap [''severity'' \<mapsto> GStr ''warning'']],
        ''addressPoolExhausted'' \<mapsto> GMap [''enabled'' \<mapsto> GBool True,
           ''labels'' \<mapsto> GMap [''severity'' \<mapsto> GStr ''critical''],
           ''excludePools'' \<mapsto> GStr ''''],
        ''addressPoolUsage'' \<mapsto> GMap [''enabled'' \<mapsto> GBool True,
           ''thresholds'' \<mapsto> GSlice [GMap [''percent'' \<mapsto> GInt 75,
                ''labels'' \<mapsto> GMap [''severity'' \<mapsto> GStr ''warning'']],
             GMap [''percent'' \<mapsto> GInt 85,
                ''labels'' \<mapsto> GMap [''severity'' \<mapsto> GStr ''warning'']],
             GMap [''percent'' \<mapsto> GInt 95,
                ''labels'' \<mapsto> GMap [''severity'' \<mapsto> GStr ''critical'']]],
           ''excludePools'' \<mapsto> GStr ''''],
        ''bgpSessionDown'' \<mapsto> GMap [''enabled'' \<mapsto> GBool True,
           ''labels'' \<mapsto> GMap [''severity'' \<mapsto> GStr ''critical'']],
        ''extraAlerts'' \<mapsto> GSlice []]]"

definition metallb_controller_defaults :: obj where
  "metallb_controller_defaults =
    [''enabled'' \<mapsto> GBool True,
     ''logLevel'' \<mapsto> GStr ''info'',
     ''webhookMode'' \<mapsto> GStr ''enabled'',
     ''image'' \<mapsto> GMap [''repository'' \<mapsto> GStr ''quay.io/metallb/controller'',
        ''tag'' \<mapsto> GNil,
        ''pullPolicy'' \<mapsto> GNil],
     ''strategy'' \<mapsto> GMap [''type'' \<mapsto> GStr ''RollingUpdate''],
     ''serviceAccount'' \<mapsto> GMap [''create'' \<mapsto> GBool True,
        ''name'' \<mapsto> GStr '''',
        ''annotations'' \<mapsto> GMap Map.empty],
     ''securityContext'' \<mapsto> GMap [''runAsNonRoot'' \<mapsto> GBool True,
        ''runAsUser'' \<mapsto> GInt 65534,
        ''fsGroup'' \<mapsto> GInt 65534],
     ''resources'' \<mapsto> GMap Map.empty,
     ''nodeSelector'' \<mapsto> GMap Map.empty,
     ''tolerations'' \<mapsto> GSlice [],
     ''priorityClassName'' \<mapsto> GStr '''',
     ''runtimeClassName'' \<mapsto> GStr '''',
     ''affinity'' \<mapsto> GMap Map.empty,
     ''podAnnotations'' \<mapsto> GMap Map.empty,
     ''labels'' \<mapsto> GMap Map.empty,
     ''livenessProbe'' \<mapsto> GMap [''enabled'' \<mapsto> GBool True,
        ''port'' \<mapsto> GInt 17472,
        ''failureThreshold'' \<mapsto> GInt 3,
        ''initialDelaySeconds'' \<mapsto> GInt 10,
        ''periodSeconds'' \<mapsto> GInt 10,
        ''successThreshold'' \<mapsto> GInt 1,
        ''timeoutSeconds'' \<mapsto> GInt 1],
     ''readinessProbe'' \<mapsto> GMap [''enabled'' \<mapsto> GBool True,
        ''port'' \<mapsto> GInt 17472,
        ''failureThreshold'' \<mapsto> GInt 3,
        ''initialDelaySeconds'' \<mapsto> GInt 10,
        ''periodSeconds'' \<mapsto> GInt 10,
        ''successThreshold'' \<mapsto> GInt 1,
        ''timeoutSeconds'' \<mapsto> GInt 1],
     ''extraContainers'' \<mapsto> GSlice []]"

definition metallb_speaker_defaults :: obj where
  "metallb_speaker_defaults =
    [''enabled'' \<mapsto> GBool True,
     ''logLevel'' \<mapsto> GStr ''info'',
     ''tolerateMaster'' \<mapsto> GBool True,
     ''memberlist'' \<mapsto> GMap [''enabled'' \<mapsto> GBool True,
        ''mlBindPort'' \<mapsto> GInt 7946,
        ''mlBindAddrOverride'' \<mapsto> GStr '''',
        ''mlSecretKeyPath'' \<mapsto> GStr ''/etc/ml_secret_key''],
     ''excludeInterfaces'' \<mapsto> GMap [''enabled'' \<mapsto> GBool True],
     ''ignoreExcludeLB'' \<mapsto> GBool False,
     ''bgpDebounceTimeout'' \<mapsto> GNil,
     ''image'' \<mapsto> GMap [''repository'' \<mapsto> GStr ''quay.io/metallb/speaker'',
        ''tag'' \<mapsto> GNil,
        ''pullPolicy'' \<mapsto> GNil],
     ''updateStrategy'' \<mapsto> GMap [''type'' \<mapsto> GStr ''RollingUpdate''],
     ''serviceAccount'' \<mapsto> GMap [''create'' \<mapsto> GBool True,
        ''name'' \<mapsto> GStr '''',
        ''annotations'' \<mapsto> GMap Map.empty],
     ''securityContext'' \<mapsto> GMap Map.empty,
     ''resources'' \<mapsto> GMap Map.empty,
     ''nodeSelector'' \<mapsto> GMap Map.empty,
     ''tolerations'' \<mapsto> GSlice [],
     ''priorityClassName'' \<mapsto> GStr '''',
     ''affinity'' \<mapsto> GMap Map.empty,
     ''runtimeClassName'' \<mapsto> GStr '''',
     ''podAnnotations'' \<mapsto> GMap Map.empty,
     ''labels'' \<mapsto> GMap Map.empty,
     ''livenessProbe'' \<mapsto> GMap [''enabled'' \<mapsto> GBool True,
        ''port'' \<mapsto> GInt 17472,
        ''failureThreshold'' \<mapsto> GInt 3,
        ''initialDelaySeconds'' \<mapsto> GInt 10,
        ''periodSeconds'' \<mapsto> GInt 10,
        ''successThreshold'' \<mapsto> GInt 1,
        ''timeoutSeconds'' \<mapsto> GInt 1],
     ''readinessProbe'' \<mapsto> GMap [''enabled'' \<mapsto> GBool True,
        ''port'' \<mapsto> GInt 17472,
        ''failureThreshold'' \<mapsto> GInt 3,
        ''initialDelaySeconds'' \<mapsto> GInt 10,
        ''periodSeconds'' \<mapsto> GInt 10,
        ''successThreshold'' \<mapsto> GInt 1,
        ''timeoutSeconds'' \<mapsto> GInt 1],
     ''startupProbe'' \<mapsto> GMap [''enabled'' \<mapsto> GBool True,
        ''failureThreshold'' \<mapsto> GInt 30,
        ''periodSeconds'' \<mapsto> GInt 5],
     ''frr'' \<mapsto> GMap [''enabled'' \<mapsto> GBool False,
        ''image'' \<mapsto> GMap [''repository'' \<mapsto> GStr ''quay.io/frrouting/frr'',
           ''tag'' \<mapsto> GStr ''10.5.3'',
           ''pullPolicy'' \<mapsto> GNil],
        ''metricsPort'' \<mapsto> GInt 9121,
        ''resources'' \<mapsto> GMap Map.empty],
     ''reloader'' \<mapsto> GMap [''resources'' \<mapsto> GMap Map.empty],
     ''frrMetrics'' \<mapsto> GMap [''resources'' \<mapsto> GMap Map.empty],
     ''initContainers'' \<mapsto> GMap [''cpFrrFiles'' \<mapsto> GMap [''resources'' \<mapsto> GMap Map.empty],
        ''cpReloader'' \<mapsto> GMap [''resources'' \<mapsto> GMap Map.empty],
        ''cpMetrics'' \<mapsto> GMap [''resources'' \<mapsto> GMap Map.empty]],
     ''extraContainers'' \<mapsto> GSlice []]"

definition metallb_defaults :: obj where
  "metallb_defaults =
    [''imagePullSecrets'' \<mapsto> GSlice [],
     ''nameOverride'' \<mapsto> GStr '''',
     ''fullnameOverride'' \<mapsto> GStr '''',
     ''loadBalancerClass'' \<mapsto> GStr '''',
     ''rbac'' \<mapsto> GMap [''create'' \<mapsto> GBool True],
     ''tls'' \<mapsto> GMap [''cipherSuites'' \<mapsto> GStr '''',
         ''curvePreferences'' \<mapsto> GStr '''',
         ''minVersion'' \<mapsto> GStr '''',
         ''controllerMetricsTLSSecret'' \<mapsto> GStr '''',
         ''speakerMetricsTLSSecret'' \<mapsto> GStr ''''],
     ''prometheus'' \<mapsto> GMap metallb_prometheus_defaults,
     ''controller'' \<mapsto> GMap metallb_controller_defaults,
     ''speaker'' \<mapsto> GMap metallb_speaker_defaults,
     ''crds'' \<mapsto> GMap [''enabled'' \<mapsto> GBool True, ''validationFailurePolicy'' \<mapsto> GStr ''Fail''],
     ''frrk8s'' \<mapsto> GMap [''enabled'' \<mapsto> GBool True,
         ''external'' \<mapsto> GBool False,
         ''namespace'' \<mapsto> GStr '''',
         ''secretPassthrough'' \<mapsto> GBool False],
     ''frr-k8s'' \<mapsto> GMap [''prometheus'' \<mapsto> GMap [''serviceMonitor'' \<mapsto> GMap [''enabled'' \<mapsto> GBool False]]],
     ''networkpolicies'' \<mapsto> GMap [''enabled'' \<mapsto> GBool False,
         ''defaultDeny'' \<mapsto> GBool False,
         ''apiPort'' \<mapsto> GInt 6443]]"

definition frrk8s_prometheus_defaults :: obj where
  "frrk8s_prometheus_defaults =
    [''scrapeAnnotations'' \<mapsto> GBool False,
     ''secureMetricsPort'' \<mapsto> GInt 9140,
     ''rbacPrometheus'' \<mapsto> GBool False,
     ''serviceAccount'' \<mapsto> GStr '''',
     ''namespace'' \<mapsto> GStr '''',
     ''serviceMonitor'' \<mapsto> GMap [''enabled'' \<mapsto> GBool False,
        ''additionalLabels'' \<mapsto> GMap Map.empty,
        ''annotations'' \<mapsto> GMap Map.empty,
        ''tlsConfig'' \<mapsto> GMap [''insecureSkipVerify'' \<mapsto> GBool True],
        ''jobLabel'' \<mapsto> GStr ''app.kubernetes.io/name'',
        ''interval'' \<mapsto> GNil,
        ''metricRelabelings'' \<mapsto> GSlice [],
        ''relabelings'' \<mapsto> GSlice []]]"

definition frrk8s_frrk8s_defaults :: obj where
  "frrk8s_frrk8s_defaults =
    [''logLevel'' \<mapsto> GStr ''info'',
     ''tolerateMaster'' \<mapsto> GBool True,
     ''image'' \<mapsto> GMap [''repository'' \<mapsto> GStr ''quay.io/metallb/frr-k8s'',
        ''tag'' \<mapsto> GNil,
        ''pullPolicy'' \<mapsto> GNil],
     ''updateStrategy'' \<mapsto> GMap [''type'' \<mapsto> GStr ''RollingUpdate''],
     ''serviceAccount'' \<mapsto> GMap [''create'' \<mapsto> GBool True,
        ''name'' \<mapsto> GStr '''',
        ''annotations'' \<mapsto> GMap Map.empty],
     ''resources'' \<mapsto> GMap Map.empty,
     ''nodeSelector'' \<mapsto> GMap Map.empty,
     ''tolerations'' \<mapsto> GSlice [],
     ''priorityClassName'' \<mapsto> GStr '''',
     ''affinity'' \<mapsto> GMap Map.empty,
     ''runtimeClassName'' \<mapsto> GStr '''',
     ''podAnnotations'' \<mapsto> GMap Map.empty,
     ''labels'' \<mapsto> GMap [''app'' \<mapsto> GStr ''frr-k8s''],
     ''webhookPort'' \<mapsto> GInt 19443,
     ''livenessProbe'' \<mapsto> GMap [''enabled'' \<mapsto> GBool True,
        ''failureThreshold'' \<mapsto> GInt 3,
        ''initialDelaySeconds'' \<mapsto> GInt 10,
        ''periodSeconds'' \<mapsto> GInt 10,
        ''successThreshold'' \<mapsto> GInt 1,
        ''timeoutSeconds'' \<mapsto> GInt 1],
     ''readinessProbe'' \<mapsto> GMap [''enabled'' \<mapsto> GBool True,
        ''failureThreshold'' \<mapsto> GInt 3,
        ''initialDelaySeconds'' \<mapsto> GInt 10,
        ''periodSeconds'' \<mapsto> GInt 10,
        ''successThreshold'' \<mapsto> GInt 1,
        ''timeoutSeconds'' \<mapsto> GInt 1],
     ''startupProbe'' \<mapsto> GMap [''enabled'' \<mapsto> GBool True,
        ''failureThreshold'' \<mapsto> GInt 30,
        ''periodSeconds'' \<mapsto> GInt 5],
     ''alwaysBlock'' \<mapsto> GStr '''',
     ''bgpDebounceTimeout'' \<mapsto> GNil,
     ''disableCertRotation'' \<mapsto> GBool False,
     ''restartOnRotatorSecretRefresh'' \<mapsto> GBool False,
     ''frr'' \<mapsto> GMap [''image'' \<mapsto> GMap [''repository'' \<mapsto> GStr ''quay.io/frrouting/frr'',
           ''tag'' \<mapsto> GStr ''10.4.3'',
           ''pullPolicy'' \<mapsto> GNil],
        ''metricsBindAddress'' \<mapsto> GStr ''127.0.0.1'',
        ''metricsPort'' \<mapsto> GInt 7573,
        ''resources'' \<mapsto> GMap Map.empty,
        ''secureMetricsPort'' \<mapsto> GInt 9141,
        ''acceptIncomingBGPConnections'' \<mapsto> GBool False],
     ''reloader'' \<mapsto> GMap [''resources'' \<mapsto> GMap Map.empty],
     ''frrMetrics'' \<mapsto> GMap [''resources'' \<mapsto> GMap Map.empty],
     ''frrStatus'' \<mapsto> GMap [''pollInterval'' \<mapsto> GStr ''2m'', ''resources'' \<mapsto> GMap Map.empty]]"

definition frrk8s_defaults :: obj where
  "frrk8s_defaults =
    [''nameOverride'' \<mapsto> GStr '''',
     ''fullnameOverride'' \<mapsto> GStr '''',
     ''tls'' \<mapsto> GMap [''cipherSuites'' \<mapsto> GStr '''',
         ''curvePreferences'' \<mapsto> GStr '''',
         ''minVersion'' \<mapsto> GStr '''',
         ''metricsTLSSecret'' \<mapsto> GStr ''''],
     ''rbac'' \<mapsto> GMap [''create'' \<mapsto> GBool True],
     ''prometheus'' \<mapsto> GMap frrk8s_prometheus_defaults,
     ''frrk8s'' \<mapsto> GMap frrk8s_frrk8s_defaults,
     ''crds'' \<mapsto> GMap [''enabled'' \<mapsto> GBool True, ''validationFailurePolicy'' \<mapsto> GStr ''Fail'']]"

end
