(* ===== verification/Values_Schema.thy ===== *)
theory Values_Schema
  imports Chart_Data Helm_Values
begin

text \<open>
  The values that the operator gives to the two charts, laid over the charts' own defaults, match the
  charts' schemas, so Helm does not refuse them.
\<close>

section \<open>The defaults\<close>

lemmas schema_parts = alert_schema_def probe_schema_def image_schema_def component_schema_def

lemma metallb_prometheus_defaults_conform:
  "conforms metallb_prometheus_schema (GMap metallb_prometheus_defaults)"
  by (simp add: metallb_prometheus_schema_def metallb_prometheus_defaults_def alert_schema_def)

lemma metallb_controller_defaults_conform:
  "conforms metallb_controller_schema (GMap metallb_controller_defaults)"
  by (simp add: metallb_controller_schema_def metallb_controller_defaults_def schema_parts)

lemma metallb_speaker_defaults_conform:
  "conforms metallb_speaker_schema (GMap metallb_speaker_defaults)"
  by (simp add: metallb_speaker_schema_def metallb_speaker_defaults_def schema_parts)

lemma metallb_defaults_conform: "conforms metallb_schema (GMap metallb_defaults)"
  by (simp add: metallb_schema_def metallb_defaults_def metallb_prometheus_defaults_conform
      metallb_controller_defaults_conform metallb_speaker_defaults_conform)

lemma frrk8s_prometheus_defaults_conform:
  "conforms frrk8s_prometheus_schema (GMap frrk8s_prometheus_defaults)"
  by (simp add: frrk8s_prometheus_schema_def frrk8s_prometheus_defaults_def)

lemma frrk8s_frrk8s_defaults_conform:
  "conforms frrk8s_frrk8s_schema (GMap frrk8s_frrk8s_defaults)"
  by (simp add: frrk8s_frrk8s_schema_def frrk8s_frrk8s_defaults_def schema_parts)

lemma frrk8s_defaults_conform: "conforms frrk8s_schema (GMap frrk8s_defaults)"
  by (simp add: frrk8s_schema_def frrk8s_defaults_def frrk8s_prometheus_defaults_conform
      frrk8s_frrk8s_defaults_conform)

section \<open>The operator's values\<close>

text \<open>
  The log levels that the resource definition allows, and the empty string for one that is left out.
\<close>

definition log_level_ok :: "metallb_spec \<Rightarrow> bool" where
  "log_level_ok spec =
     (LogLevel spec \<in> {[], LogLevelAll, LogLevelDebug, LogLevelInfo, LogLevelWarn, LogLevelError, LogLevelNone})"

lemmas log_levels = LogLevelAll_def LogLevelDebug_def LogLevelInfo_def LogLevelWarn_def LogLevelError_def
  LogLevelNone_def

lemma logLevelValue_ok:
  "log_level_ok spec \<Longrightarrow> logLevelValue spec \<in> {''all'', ''debug'', ''info'', ''warn'', ''error'', ''none''}"
  by (auto simp: log_level_ok_def logLevelValue_def log_levels)

lemma conforms_objects [simp]:
  "list_all (conforms (SObject [] [] SAny)) (map (\<lambda>t. GMap (f t)) ts)"
  by (simp add: list_all_iff)

text \<open>Setting one key of values that fit.\<close>

definition fits_at :: "(string \<times> schema) list \<Rightarrow> string list \<Rightarrow> obj \<Rightarrow> string \<Rightarrow> gval \<Rightarrow> bool" where
  "fits_at ps rq b k x =
     ((x = GNil \<longrightarrow> k \<notin> set rq) \<and>
      (case map_of ps k of None \<Rightarrow> True | Some s \<Rightarrow> x = GNil \<and> b k \<noteq> None \<or> fits s x (b k)))"

lemma fits_start: "fits (SObject ps rq SAny) (GMap Map.empty) (Some (GMap b))"
  by (simp add: fits_props_iff)

lemma fits_set:
  assumes "distinct (map fst ps)" and "fits (SObject ps rq SAny) (GMap m) (Some (GMap b))"
    and "fits_at ps rq b k x"
  shows "fits (SObject ps rq SAny) (GMap (m(k \<mapsto> x))) (Some (GMap b))"
proof -
  have new: "x = GNil \<and> b k \<noteq> None \<or> fits s x (b k)" if "(k, s) \<in> set ps" for s
    using assms(1,3) that by (simp add: fits_at_def)
  have old: "y = GNil \<and> b j \<noteq> None \<or> fits s y (b j)" if "(j, s) \<in> set ps" "m j = Some y" for j s y
    using assms(2) that by (auto simp: fits_props_iff)
  have "fits_props ps (m(k \<mapsto> x)) b"
    unfolding fits_props_iff
  proof (intro ballI, clarify)
    fix j s y assume "(j, s) \<in> set ps" "(m(k \<mapsto> x)) j = Some y" "\<not> fits s y (b j)"
    with new [of s] old [of j s y] show "y = GNil \<and> b j \<noteq> None" by (cases "j = k") auto
  qed
  moreover have "\<forall>j\<in>set rq. (m(k \<mapsto> x)) j \<noteq> Some GNil"
    using assms(2,3) by (auto simp: fits_at_def)
  ultimately show ?thesis by simp
qed

lemma fits_set_if:
  assumes "distinct (map fst ps)" and "fits (SObject ps rq SAny) (GMap m) (Some (GMap b))"
    and "c \<Longrightarrow> fits_at ps rq b k x"
  shows "fits (SObject ps rq SAny) (GMap (set_if c k x m)) (Some (GMap b))"
  using assms fits_set [OF assms(1,2)] by (simp add: set_if_def del: fits.simps)

lemma fits_set_some:
  assumes "distinct (map fst ps)" and "fits (SObject ps rq SAny) (GMap m) (Some (GMap b))"
    and "\<And>y. p = Some y \<Longrightarrow> fits_at ps rq b k (f y)"
  shows "fits (SObject ps rq SAny) (GMap (set_some p k f m)) (Some (GMap b))"
  using assms fits_set [OF assms(1,2)] by (simp add: set_some_def del: fits.simps split: option.splits)

text \<open>Two keys that are set under a condition, or where a pointer is not nil.\<close>

lemma fits_if_set2:
  assumes "distinct (map fst ps)" and "fits (SObject ps rq SAny) (GMap m) (Some (GMap b))"
    and "c \<Longrightarrow> fits_at ps rq b k x" and "c \<Longrightarrow> fits_at ps rq b j y"
  shows "fits (SObject ps rq SAny) (GMap (if c then m(k \<mapsto> x, j \<mapsto> y) else m)) (Some (GMap b))"
  using assms fits_set [OF assms(1) fits_set [OF assms(1,2)]] by (simp del: fits.simps)

lemma fits_case_set2:
  assumes "distinct (map fst ps)" and "fits (SObject ps rq SAny) (GMap m) (Some (GMap b))"
    and "\<And>c. p = Some c \<Longrightarrow> fits_at ps rq b k (f c)" and "\<And>c. p = Some c \<Longrightarrow> fits_at ps rq b j (g c)"
  shows "fits (SObject ps rq SAny)
           (GMap (case p of None \<Rightarrow> m | Some c \<Rightarrow> m(k \<mapsto> f c, j \<mapsto> g c))) (Some (GMap b))"
  using assms fits_set [OF assms(1) fits_set [OF assms(1,2)]] by (cases p) (simp_all del: fits.simps)

lemma fits_other_config:
  assumes "distinct (map fst ps)" and "fits (SObject ps rq SAny) (GMap m) (Some (GMap b))"
    and "\<And>c. fits_at ps rq b ''priorityClassName'' (GStr c)" and "\<And>c. fits_at ps rq b ''runtimeClassName'' (GStr c)"
    and "\<And>a. fits_at ps rq b ''podAnnotations'' (GMap (toInterfaceMap a))"
  shows "fits (SObject ps rq SAny) (GMap (other_config_values cfg m)) (Some (GMap b))"
proof (cases cfg)
  case None
  with assms(2) show ?thesis by (simp add: other_config_values_def del: fits.simps)
next
  case (Some c)
  with assms show ?thesis
    unfolding other_config_values_def Some option.case Let_def
    by (intro fits_set_some fits_set_if) (simp_all del: fits.simps)
qed

lemmas fits_intros = fits_case_set2 fits_if_set2 fits_other_config fits_set_some fits_set_if fits_set fits_start

lemma controllerValues_fit:
  assumes "log_level_ok spec"
  shows "fits metallb_controller_schema (GMap (controllerValues env spec)) (Some (GMap metallb_controller_defaults))"
  unfolding metallb_controller_schema_def component_schema_def controllerValues_def Let_def fits.simps(2) fits_all.simps
  using logLevelValue_ok [OF assms]
  by (intro conjI TrueI fits_intros)
    (simp_all add: fits_at_def metallb_controller_defaults_def image_val_def service_account_val_def
      probe_val_def del: fits.simps, simp_all add: schema_parts)

lemma speakerValues_fit:
  assumes "log_level_ok spec"
  shows "fits metallb_speaker_schema (GMap (speakerValues env spec)) (Some (GMap metallb_speaker_defaults))"
  unfolding metallb_speaker_schema_def component_schema_def speakerValues_def Let_def fits.simps(2) fits_all.simps
  using logLevelValue_ok [OF assms]
  by (intro conjI TrueI fits_intros)
    (simp_all add: fits_at_def metallb_speaker_defaults_def image_val_def service_account_val_def
      probe_val_def del: fits.simps, simp_all add: schema_parts)

lemma metalLBprometheusValues_fit:
  "fits metallb_prometheus_schema (GMap (metalLBprometheusValues env)) (Some (GMap metallb_prometheus_defaults))"
  unfolding metallb_prometheus_schema_def metalLBprometheusValues_def Let_def
  by (intro conjI TrueI fits_intros)
    (simp_all add: fits_at_def metallb_prometheus_defaults_def del: fits.simps, simp_all)

lemma metallb_values_fit:
  assumes "log_level_ok spec"
  shows "fits metallb_schema (GMap (patchMetalLBChartValues env spec Map.empty)) (Some (GMap metallb_defaults))"
  unfolding metallb_schema_def patchMetalLBChartValues_def
  by (intro fits_intros)
    (simp_all add: fits_at_def metallb_defaults_def controllerValues_fit speakerValues_fit
      metalLBprometheusValues_fit assms del: fits.simps, simp_all)

lemma frrk8sValues_fit:
  assumes "log_level_ok spec" and "frrk8sValues env spec = Inr v"
  shows "fits frrk8s_frrk8s_schema (GMap v) (Some (GMap frrk8s_frrk8s_defaults))"
proof -
  note level = logLevelValue_ok [OF assms(1)]
  have always: "fits frrk8s_frrk8s_schema (GMap (m(''alwaysBlock'' \<mapsto> GStr s))) (Some (GMap frrk8s_frrk8s_defaults))"
    if "fits frrk8s_frrk8s_schema (GMap m) (Some (GMap frrk8s_frrk8s_defaults))" for m s
    using that unfolding frrk8s_frrk8s_schema_def component_schema_def fits.simps(2) fits_all.simps
    by (intro conjI TrueI fits_set) (simp_all add: fits_at_def del: fits.simps)
  show ?thesis
  proof (cases "FRRK8SConfig spec")
    case None
    with level show ?thesis
      using assms(2) unfolding frrk8sValues_def Let_def None option.case sum.inject
      apply (elim subst)
      unfolding frrk8s_frrk8s_schema_def component_schema_def fits.simps(2) fits_all.simps
      by (intro conjI TrueI fits_intros)
        (simp_all add: fits_at_def frrk8s_frrk8s_defaults_def image_val_def service_account_val_def
          del: fits.simps, simp_all add: schema_parts)
  next
    case (Some c)
    with level show ?thesis
      using assms(2) unfolding frrk8sValues_def Let_def Some option.case bindE_eq_Inr sum.inject
      apply (elim exE conjE subst)
      apply (rule always)
      unfolding frrk8s_frrk8s_schema_def component_schema_def fits.simps(2) fits_all.simps
      by (intro conjI TrueI fits_intros)
        (simp_all add: fits_at_def frrk8s_frrk8s_defaults_def image_val_def service_account_val_def
          del: fits.simps, simp_all add: schema_parts)
  qed
qed

lemma prometheusValues_fit:
  "fits frrk8s_prometheus_schema (GMap (prometheusValues env)) (Some (GMap frrk8s_prometheus_defaults))"
  unfolding frrk8s_prometheus_schema_def prometheusValues_def Let_def
  by (intro conjI TrueI fits_intros)
    (simp_all add: fits_at_def frrk8s_prometheus_defaults_def del: fits.simps, simp_all)

lemma frrk8s_values_fit:
  assumes "log_level_ok spec" and "patchChartValues env spec Map.empty = Inr v"
  shows "fits frrk8s_schema (GMap v) (Some (GMap frrk8s_defaults))"
proof -
  obtain w where w: "frrk8sValues env spec = Inr w" and
    v: "v = [''frrk8s'' \<mapsto> GMap w, ''prometheus'' \<mapsto> GMap (prometheusValues env),
             ''tls'' \<mapsto> GMap (frrk8sTLSHelmValues env)]"
    using assms(2) by (auto simp: patchChartValues_def bindE_eq_Inr)
  show ?thesis
    unfolding frrk8s_schema_def v
    by (intro fits_intros)
      (simp_all add: fits_at_def frrk8s_defaults_def frrk8sValues_fit [OF assms(1) w] prometheusValues_fit
        frrk8sTLSHelmValues_def Let_def del: fits.simps, simp_all)
qed

section \<open>Properties\<close>

text \<open>The log level of a component reaches the chart, whatever else is laid over.\<close>

lemma controller_log_level:
  assumes "coalesce_laws coalesce"
  shows "\<exists>c. coalesce (patchMetalLBChartValues env spec Map.empty) metallb_defaults ''controller'' = Some (GMap c) \<and>
             c ''logLevel'' = Some (GStr (logLevelValue spec))"
proof -
  have "controllerValues env spec ''logLevel'' = Some (GStr (logLevelValue spec))"
    by (simp add: controllerValues_def other_config_values_def Let_def split: option.splits)
  then have "coalesce (controllerValues env spec) metallb_controller_defaults ''logLevel'' =
      Some (GStr (logLevelValue spec))"
    by (rule coalesce_laws.coalesce_value [OF assms(1)]) simp
  moreover have "coalesce (patchMetalLBChartValues env spec Map.empty) metallb_defaults ''controller'' =
      Some (GMap (coalesce (controllerValues env spec) metallb_controller_defaults))"
    by (rule coalesce_laws.coalesce_maps [OF assms(1)])
      (simp_all add: patchMetalLBChartValues_def metallb_defaults_def)
  ultimately show ?thesis by blast
qed

text \<open>
  C11. Helm accepts the values of the MetalLB chart exactly when the log level is one that the resource
  definition allows: laid over the defaults of \<open>values.yaml\<close>, they match \<open>values.schema.json\<close>, whatever
  else the resource and the environment say.
\<close>

theorem metallb_values_conform:
  assumes "coalesce_laws coalesce"
  shows "conforms metallb_schema
           (GMap (coalesce (patchMetalLBChartValues env spec Map.empty) metallb_defaults)) = log_level_ok spec"
proof
  assume "log_level_ok spec"
  from coalesce_laws.coalesce_conforms(1) [OF assms metallb_values_fit [OF this] refl refl metallb_defaults_conform]
  show "conforms metallb_schema (GMap (coalesce (patchMetalLBChartValues env spec Map.empty) metallb_defaults))" .
next
  let ?v = "coalesce (patchMetalLBChartValues env spec Map.empty) metallb_defaults"
  assume c: "conforms metallb_schema (GMap ?v)"
  obtain m where m: "?v ''controller'' = Some (GMap m)" "m ''logLevel'' = Some (GStr (logLevelValue spec))"
    using controller_log_level [OF assms] by blast
  have "conforms metallb_controller_schema (GMap m)"
    using c m(1) by (simp add: metallb_schema_def)
  then have "conforms component_schema (GMap m)" by (simp add: metallb_controller_schema_def)
  then have "logLevelValue spec \<in> {''all'', ''debug'', ''info'', ''warn'', ''error'', ''none''}"
    using m(2) by (simp add: component_schema_def)
  then show "log_level_ok spec"
    by (auto simp: log_level_ok_def logLevelValue_def log_levels split: if_splits)
qed

theorem metallb_values_conform_witness:
  "conforms metallb_schema
     (GMap (coalesce_values (patchMetalLBChartValues (example_config True) zero_spec Map.empty) metallb_defaults)) \<and>
   \<not> conforms metallb_schema
     (GMap (coalesce_values (patchMetalLBChartValues (example_config True) (zero_spec\<lparr>LogLevel := ''trace''\<rparr>) Map.empty)
        metallb_defaults))"
  using metallb_values_conform [OF chart_values.coalesce_laws_axioms]
  by (simp add: log_level_ok_def zero_spec_def log_levels)

lemma frrk8s_log_level:
  assumes "coalesce_laws coalesce" and "patchChartValues env spec Map.empty = Inr v"
  shows "\<exists>c. coalesce v frrk8s_defaults ''frrk8s'' = Some (GMap c) \<and>
             c ''logLevel'' = Some (GStr (logLevelValue spec))"
proof -
  obtain w where w: "frrk8sValues env spec = Inr w" and "v ''frrk8s'' = Some (GMap w)"
    using assms(2) by (auto simp: patchChartValues_def bindE_eq_Inr)
  then have "coalesce v frrk8s_defaults ''frrk8s'' = Some (GMap (coalesce w frrk8s_frrk8s_defaults))"
    by (intro coalesce_laws.coalesce_maps [OF assms(1)]) (simp_all add: frrk8s_defaults_def)
  moreover have "w ''logLevel'' = Some (GStr (logLevelValue spec))"
    using w by (cases "FRRK8SConfig spec"; cases "SpeakerConfig spec"; cases "IsOpenshift env")
      (auto simp: frrk8sValues_def Let_def bindE_eq_Inr)
  then have "coalesce w frrk8s_frrk8s_defaults ''logLevel'' = Some (GStr (logLevelValue spec))"
    by (rule coalesce_laws.coalesce_value [OF assms(1)]) simp
  ultimately show ?thesis by blast
qed

text \<open>
  C37. The same for the frr-k8s chart: where the operator has values for it, so where the chart's own check
  accepts the always-block list, Helm accepts them exactly when the log level is one that the resource
  definition allows.
\<close>

theorem frrk8s_values_conform:
  assumes "coalesce_laws coalesce" and "patchChartValues env spec Map.empty = Inr v"
  shows "conforms frrk8s_schema (GMap (coalesce v frrk8s_defaults)) = log_level_ok spec"
proof
  assume "log_level_ok spec"
  from coalesce_laws.coalesce_conforms(1)
    [OF assms(1) frrk8s_values_fit [OF this assms(2)] refl refl frrk8s_defaults_conform]
  show "conforms frrk8s_schema (GMap (coalesce v frrk8s_defaults))" .
next
  assume c: "conforms frrk8s_schema (GMap (coalesce v frrk8s_defaults))"
  obtain m where m: "coalesce v frrk8s_defaults ''frrk8s'' = Some (GMap m)"
    "m ''logLevel'' = Some (GStr (logLevelValue spec))"
    using frrk8s_log_level [OF assms] by blast
  have "conforms frrk8s_frrk8s_schema (GMap m)"
    using c m(1) by (simp add: frrk8s_schema_def)
  then have "conforms component_schema (GMap m)" by (simp add: frrk8s_frrk8s_schema_def)
  then have "logLevelValue spec \<in> {''all'', ''debug'', ''info'', ''warn'', ''error'', ''none''}"
    using m(2) by (simp add: component_schema_def)
  then show "log_level_ok spec"
    by (auto simp: log_level_ok_def logLevelValue_def log_levels split: if_splits)
qed

theorem frrk8s_values_conform_witness:
  "\<exists>v v'. patchChartValues (example_config True) zero_spec Map.empty = Inr v \<and>
       conforms frrk8s_schema (GMap (coalesce_values v frrk8s_defaults)) \<and>
       patchChartValues (example_config True) (zero_spec\<lparr>LogLevel := ''trace''\<rparr>) Map.empty = Inr v' \<and>
       \<not> conforms frrk8s_schema (GMap (coalesce_values v' frrk8s_defaults))"
proof -
  let ?trace = "zero_spec\<lparr>LogLevel := ''trace''\<rparr>"
  obtain v v' where v: "patchChartValues (example_config True) zero_spec Map.empty = Inr v"
    "patchChartValues (example_config True) ?trace Map.empty = Inr v'"
    using patchChartValues_Inr_iff [of "example_config True" zero_spec Map.empty]
      patchChartValues_Inr_iff [of "example_config True" ?trace Map.empty] by (auto simp: zero_spec_def)
  have "log_level_ok zero_spec" "\<not> log_level_ok ?trace"
    by (simp_all add: log_level_ok_def zero_spec_def log_levels)
  with frrk8s_values_conform [OF chart_values.coalesce_laws_axioms v(1)]
    frrk8s_values_conform [OF chart_values.coalesce_laws_axioms v(2)] v
  show ?thesis by blast
qed

end
