(* ===== verification/Chart_Rendering.thy ===== *)
theory Chart_Rendering
  imports Template_Data Values_Schema
begin

text \<open>
  The two charts rendered with the operator's values: what the templates find in the values that Helm
  lays over the charts' defaults, when rendering fails, and which objects it gives.
\<close>

section \<open>Values laid over defaults\<close>

text \<open>
  The value at a path of \<open>v\<close> laid over \<open>d\<close>, where it can be told from the two alone: one that \<open>v\<close> does not
  touch is that of \<open>d\<close>, and one that \<open>v\<close> sets, or removes, is that of \<open>v\<close>.
\<close>

fun laid_at :: "obj \<Rightarrow> obj \<Rightarrow> string list \<Rightarrow> gval option" where
  "laid_at v d [] = None"
| "laid_at v d [k] =
     (case v k of
        None \<Rightarrow> Some (case d k of None \<Rightarrow> GNil | Some y \<Rightarrow> y)
      | Some x \<Rightarrow> (case x of GMap a \<Rightarrow> None | _ \<Rightarrow> Some x))"
| "laid_at v d (k # k' # ks) =
     (case v k of
        None \<Rightarrow> value_at d (k # k' # ks)
      | Some (GMap a) \<Rightarrow> (case d k of Some (GMap b) \<Rightarrow> laid_at a b (k' # ks) | _ \<Rightarrow> None)
      | _ \<Rightarrow> None)"

text \<open>Whether a path leads to a map, in the defaults, and in the values as far as they have it.\<close>

definition map_at :: "obj \<Rightarrow> string list \<Rightarrow> bool" where
  "map_at d p = (case value_at d p of Some (GMap _) \<Rightarrow> True | _ \<Rightarrow> False)"

fun leaves_map :: "obj \<Rightarrow> string list \<Rightarrow> bool" where
  "leaves_map v [] = True"
| "leaves_map v (k # ks) = (case v k of None \<Rightarrow> True | Some (GMap a) \<Rightarrow> leaves_map a ks | _ \<Rightarrow> False)"

lemma map_at_iff: "map_at d p \<longleftrightarrow> (\<exists>m. value_at d p = Some (GMap m))"
  by (auto simp: map_at_def split: option.splits gval.splits)

lemma value_at_Cons:
  "value_at d (k # ks) = Some (GMap m) \<Longrightarrow> \<exists>b. d k = Some (GMap b) \<and> value_at b ks = Some (GMap m)"
  by (cases ks) (auto split: option.splits gval.splits)

lemma value_at_into: "d k = Some (GMap b) \<Longrightarrow> value_at d (k # ks) = value_at b ks"
  by (cases ks) simp_all

context coalesce_laws
begin

lemma coalesce_laid_at: "laid_at v d p = Some x \<Longrightarrow> value_at (coalesce v d) p = Some x"
proof (induction v d p rule: laid_at.induct)
  case (2 v d k)
  show ?case
  proof (cases "v k = Some GNil")
    case True
    with 2 show ?thesis
      using coalesce_null [of v k d] coalesce_value [of v k GNil d] by (cases "d k") auto
  next
    case False
    with 2 show ?thesis
      using coalesce_value [of v k x d] by (auto simp: coalesce_absent split: option.splits gval.splits)
  qed
next
  case (3 v d k k' ks)
  show ?case
  proof (cases "v k")
    case None
    with 3 show ?thesis by (simp add: coalesce_absent)
  next
    case (Some y)
    with "3.prems" obtain a b where y: "y = GMap a" and d: "d k = Some (GMap b)" and "laid_at a b (k' # ks) = Some x"
      by (auto split: gval.splits option.splits)
    with 3 Some have "value_at (coalesce a b) (k' # ks) = Some x" by simp
    with Some y d show ?thesis by (simp add: coalesce_maps)
  qed
qed simp

lemma coalesce_map_at: "map_at d p \<Longrightarrow> leaves_map v p \<Longrightarrow> map_at (coalesce v d) p"
proof (induction p arbitrary: v d)
  case Nil
  show ?case by (simp add: map_at_iff)
next
  case (Cons k p)
  obtain m b where d: "d k = Some (GMap b)" and b: "value_at b p = Some (GMap m)"
    using Cons.prems(1) by (auto simp: map_at_iff dest: value_at_Cons)
  show ?case
  proof (cases "v k")
    case None
    with d b show ?thesis by (simp add: map_at_iff value_at_into [of _ _ b] coalesce_absent)
  next
    case (Some y)
    with Cons.prems(2) obtain a where y: "y = GMap a" and "leaves_map a p" by (auto split: gval.splits)
    with Cons.IH b have "map_at (coalesce a b) p" by (auto simp: map_at_iff)
    moreover have "coalesce v d k = Some (GMap (coalesce a b))" using Some y d by (simp add: coalesce_maps)
    ultimately show ?thesis by (simp add: map_at_iff value_at_into)
  qed
qed

end

section \<open>The MetalLB chart\<close>

text \<open>The values that the chart's templates are rendered with.\<close>

abbreviation metallb_values :: "env_config \<Rightarrow> metallb_spec \<Rightarrow> obj" where
  "metallb_values env spec \<equiv> patchMetalLBChartValues env spec Map.empty"

lemma other_config_untouched:
  "k \<notin> {''priorityClassName'', ''runtimeClassName'', ''podAnnotations''} \<Longrightarrow> other_config_values cfg m k = m k"
  by (simp add: other_config_values_def Let_def split: option.splits)

text \<open>The parts of the values and of the defaults, unopened.\<close>

lemma metallb_values_parts:
  "metallb_values env spec ''loadBalancerClass'' = Some (GStr (loadBalancerClassValue spec))"
  "metallb_values env spec ''prometheus'' = Some (GMap (metalLBprometheusValues env))"
  "metallb_values env spec ''controller'' = Some (GMap (controllerValues env spec))"
  "metallb_values env spec ''speaker'' = Some (GMap (speakerValues env spec))"
  "metallb_values env spec ''frrk8s'' = Some (GMap (metalLBFrrk8sValues env spec))"
  "metallb_values env spec ''networkpolicies'' = Some (GMap (netpolValues env))"
  "metallb_values env spec ''tls'' = Some (GMap (metallbTLSHelmValues env))"
  "metallb_values env spec ''configInline'' = None" "metallb_values env spec ''nameOverride'' = None"
  "metallb_values env spec ''fullnameOverride'' = None"
  by (simp_all add: patchMetalLBChartValues_def)

lemma metallb_defaults_parts:
  "metallb_defaults ''prometheus'' = Some (GMap metallb_prometheus_defaults)"
  "metallb_defaults ''controller'' = Some (GMap metallb_controller_defaults)"
  "metallb_defaults ''speaker'' = Some (GMap metallb_speaker_defaults)"
  "metallb_defaults ''frrk8s'' = Some (GMap [''enabled'' \<mapsto> GBool True, ''external'' \<mapsto> GBool False,
     ''namespace'' \<mapsto> GStr [], ''secretPassthrough'' \<mapsto> GBool False])"
  "metallb_defaults ''networkpolicies'' = Some (GMap [''enabled'' \<mapsto> GBool False, ''defaultDeny'' \<mapsto> GBool False,
     ''apiPort'' \<mapsto> GInt 6443])"
  "metallb_defaults ''tls'' = Some (GMap [''cipherSuites'' \<mapsto> GStr [], ''curvePreferences'' \<mapsto> GStr [],
     ''minVersion'' \<mapsto> GStr [], ''controllerMetricsTLSSecret'' \<mapsto> GStr [], ''speakerMetricsTLSSecret'' \<mapsto> GStr []])"
  "metallb_defaults ''configInline'' = None" "metallb_defaults ''nameOverride'' = Some (GStr [])"
  "metallb_defaults ''fullnameOverride'' = Some (GStr [])"
  by (simp_all add: metallb_defaults_def)

lemmas metallb_parts = metallb_values_parts controllerValues_def speakerValues_def metalLBFrrk8sValues_def
  netpolValues_def metalLBprometheusValues_def metallbTLSHelmValues_def service_account_val_def image_val_def
  probe_val_def other_config_untouched Let_def

lemmas metallb_default_parts = metallb_defaults_parts metallb_controller_defaults_def metallb_speaker_defaults_def
  metallb_prometheus_defaults_def

lemma metallb_defaults_shape: "list_all (map_at metallb_defaults) (Maps metallb_shape)"
  by code_simp

lemma metallb_values_shape: "list_all (leaves_map (metallb_values env spec)) (Maps metallb_shape)"
  by (simp add: metallb_shape_def metallb_parts)

definition frrk8s_namespace_value :: "env_config \<Rightarrow> metallb_spec \<Rightarrow> string" where
  "frrk8s_namespace_value env spec =
     (case FRRK8SConfig spec of
        None \<Rightarrow> FRRK8sExternalNamespace env
      | Some c \<Rightarrow> if FRRK8SNamespace c \<noteq> [] then FRRK8SNamespace c else FRRK8sExternalNamespace env)"

text \<open>What the conditions of the templates find.\<close>

lemma metallb_laid:
  "laid_at (metallb_values env spec) metallb_defaults [''controller'', ''enabled''] = Some (GBool True)"
  "laid_at (metallb_values env spec) metallb_defaults [''controller'', ''webhookMode''] = Some (GStr ''disabled'')"
  "laid_at (metallb_values env spec) metallb_defaults [''controller'', ''labels''] = Some (GMap Map.empty)"
  "laid_at (metallb_values env spec) metallb_defaults [''configInline''] = Some GNil"
  "laid_at (metallb_values env spec) metallb_defaults [''speaker'', ''enabled''] = Some (GBool True)"
  "laid_at (metallb_values env spec) metallb_defaults [''speaker'', ''excludeInterfaces'', ''enabled''] = Some (GBool True)"
  "laid_at (metallb_values env spec) metallb_defaults [''speaker'', ''memberlist'', ''enabled''] = Some (GBool True)"
  "laid_at (metallb_values env spec) metallb_defaults [''speaker'', ''labels''] = Some (GMap Map.empty)"
  "laid_at (metallb_values env spec) metallb_defaults [''speaker'', ''frr'', ''enabled''] =
     Some (GBool (BGPType spec env = FRRMode))"
  "laid_at (metallb_values env spec) metallb_defaults [''frrk8s'', ''enabled''] =
     Some (GBool (BGPType spec env = FRRK8sMode))"
  "laid_at (metallb_values env spec) metallb_defaults [''frrk8s'', ''external''] =
     Some (GBool (BGPType spec env = FRRK8sExternalMode))"
  "laid_at (metallb_values env spec) metallb_defaults [''frrk8s'', ''namespace''] =
     Some (GStr (frrk8s_namespace_value env spec))"
  "laid_at (metallb_values env spec) metallb_defaults [''networkpolicies'', ''enabled''] =
     Some (GBool (\<not> DisableNetworkPolicies env))"
  "laid_at (metallb_values env spec) metallb_defaults [''networkpolicies'', ''defaultDeny''] = Some (GBool False)"
  "laid_at (metallb_values env spec) metallb_defaults [''prometheus'', ''podMonitor'', ''enabled''] =
     Some (GBool (DeployPodMonitors env))"
  "laid_at (metallb_values env spec) metallb_defaults [''prometheus'', ''serviceMonitor'', ''enabled''] =
     Some (GBool (DeployServiceMonitors env))"
  "laid_at (metallb_values env spec) metallb_defaults [''prometheus'', ''rbacPrometheus''] = Some (GBool True)"
  "laid_at (metallb_values env spec) metallb_defaults [''prometheus'', ''serviceAccount''] = Some (GStr ''foo'')"
  "laid_at (metallb_values env spec) metallb_defaults [''prometheus'', ''namespace''] = Some (GStr ''bar'')"
  "laid_at (metallb_values env spec) metallb_defaults [''prometheus'', ''prometheusRule'', ''enabled''] =
     Some (GBool False)"
  "laid_at (metallb_values env spec) metallb_defaults
     [''prometheus'', ''prometheusRule'', ''addressPoolUsage'', ''thresholds''] =
     Some (GSlice [GMap [''percent'' \<mapsto> GInt 75, ''labels'' \<mapsto> GMap [''severity'' \<mapsto> GStr ''warning'']],
                   GMap [''percent'' \<mapsto> GInt 85, ''labels'' \<mapsto> GMap [''severity'' \<mapsto> GStr ''warning'']],
                   GMap [''percent'' \<mapsto> GInt 95, ''labels'' \<mapsto> GMap [''severity'' \<mapsto> GStr ''critical'']]])"
  by (simp_all add: metallb_parts metallb_default_parts frrk8s_namespace_value_def)

text \<open>The checker accepts the templates, and what they decide on is little.\<close>

lemma metallb_nodes_ok: "nodes_ok metallb_shape metallb_templates"
  by code_simp

text \<open>The decisions on the workloads and policies, on the monitors, and on the backend.\<close>

definition metallb_base_decisions :: "tnode list" where
  "metallb_base_decisions =
    [TIf (TVal [''controller'', ''enabled'']) [TDoc ''Deployment'' (TLit ''controller'')] [],
     TIf (TVal [''configInline''])
       [TFail ''Starting from v0.13.0 configInline is no longer supported. Please see https://metallb.universe.tf/#backward-compatibility''] [],
     TIf (TAnd (TVal [''speaker'', ''enabled'']) (TVal [''speaker'', ''excludeInterfaces'', ''enabled'']))
       [TDoc ''ConfigMap'' (TLit ''metallb-excludel2'')] [],
     TIf (TVal [''networkpolicies'', ''enabled''])
       [TIf (TVal [''networkpolicies'', ''defaultDeny'']) [TDoc ''NetworkPolicy'' (TLit ''default-deny'')] [],
        TDoc ''NetworkPolicy'' (TLit ''controller'')] []]"

definition metallb_monitor_decisions :: "tnode list" where
  "metallb_monitor_decisions =
    [TIf (TVal [''prometheus'', ''podMonitor'', ''enabled''])
       [TDoc ''PodMonitor'' (TLit ''controller''),
        TIf (TVal [''speaker'', ''enabled'']) [TDoc ''PodMonitor'' (TLit ''speaker'')] [],
        TDoc ''ServiceAccount'' (TLit ''metrics-reader''), TDoc ''Secret'' (TLit ''metrics-token''),
        TDoc ''ClusterRole'' (TLit ''metrics-reader''), TDoc ''ClusterRoleBinding'' (TLit ''metrics-reader''),
        TIf (TVal [''prometheus'', ''rbacPrometheus''])
          [TDoc ''Role'' (TLit ''prometheus''), TDoc ''RoleBinding'' (TLit ''prometheus''),
           TRequired ''.Values.prometheus.serviceAccount must be defined when .Values.prometheus.podMonitor.enabled == true''
             [''prometheus'', ''serviceAccount''],
           TRequired ''.Values.prometheus.namespace must be defined when .Values.prometheus.podMonitor.enabled == true''
             [''prometheus'', ''namespace'']] []] [],
     TIf (TVal [''prometheus'', ''prometheusRule'', ''enabled'']) [TDoc ''PrometheusRule'' TFullname] [],
     TIf (TAnd (TVal [''prometheus'', ''serviceMonitor'', ''enabled'']) (TVal [''prometheus'', ''podMonitor'', ''enabled'']))
       [TFail ''prometheus.serviceMonitor.enabled and prometheus.podMonitor.enabled cannot both be set''] [],
     TIf (TVal [''prometheus'', ''serviceMonitor'', ''enabled''])
       [TIf (TVal [''speaker'', ''enabled''])
          [TDoc ''ServiceMonitor'' (TLit ''speaker-monitor''), TDoc ''Service'' (TLit ''speaker-monitor-service'')] [],
        TDoc ''ServiceMonitor'' (TLit ''controller-monitor''), TDoc ''Service'' (TLit ''controller-monitor-service''),
        TIf (TVal [''prometheus'', ''rbacPrometheus''])
          [TDoc ''Role'' (TLit ''prometheus''), TDoc ''RoleBinding'' (TLit ''prometheus''),
           TRequired ''.Values.prometheus.serviceAccount must be defined when .Values.prometheus.serviceMonitor.enabled == true''
             [''prometheus'', ''serviceAccount''],
           TRequired ''.Values.prometheus.namespace must be defined when .Values.prometheus.serviceMonitor.enabled == true''
             [''prometheus'', ''namespace'']] []] []]"

definition metallb_backend_decisions :: "tnode list" where
  "metallb_backend_decisions =
    [TIf (TVal [''speaker'', ''frr'', ''enabled''])
       [TIf (TOr (TVal [''frrk8s'', ''enabled'']) (TVal [''frrk8s'', ''external'']))
          [TFail ''speaker.frr.enabled and frrk8s.enabled / external are mutually exclusive!''] []] [],
     TIf (TAnd (TVal [''frrk8s'', ''enabled'']) (TVal [''frrk8s'', ''external'']))
       [TFail ''frrk8s.enabled frrk8s.external are mutually exclusive!''] [],
     TIf (TAnd (TOr (TVal [''frrk8s'', ''enabled'']) (TVal [''frrk8s'', ''external''])) (TNot (TVal [''speaker'', ''enabled''])))
       [TFail ''frrk8s requires speaker to be enabled. Set frrk8s.enabled=false when disabling speaker.''] [],
     TIf (TAnd (TNot (TVal [''speaker'', ''memberlist'', ''enabled''])) (TVal [''speaker'', ''nodeSelector'']))
       [TFail ''nodeSelector must be empty when memberlist is disabled''] [],
     TIf (TVal [''speaker'', ''frr'', ''enabled'']) [TDoc ''ConfigMap'' (TLit ''frr-startup'')] [],
     TIf (TVal [''speaker'', ''enabled''])
       [TDoc ''DaemonSet'' (TLit ''speaker''),
        TIf (TVal [''frrk8s'', ''external''])
          [TRequired ''namespace is required when frrk8s is external'' [''frrk8s'', ''namespace'']] []] []]"

lemma metallb_core:
  "core metallb_templates = metallb_base_decisions @ metallb_monitor_decisions @ metallb_backend_decisions"
  by code_simp

lemma metallb_has_shape:
  assumes "coalesce_laws coalesce"
  shows "has_shape metallb_shape (coalesce (metallb_values env spec) metallb_defaults)"
proof -
  let ?vals = "coalesce (metallb_values env spec) metallb_defaults"
  note laid = coalesce_laws.coalesce_laid_at [OF assms, OF metallb_laid(2)]
    coalesce_laws.coalesce_laid_at [OF assms, OF metallb_laid(3)]
    coalesce_laws.coalesce_laid_at [OF assms, OF metallb_laid(8)]
    coalesce_laws.coalesce_laid_at [OF assms, OF metallb_laid(21)]
  have "\<exists>m. value_at ?vals p = Some (GMap m)" if "p \<in> set (Maps metallb_shape)" for p
    using metallb_defaults_shape metallb_values_shape [of env spec] that
      coalesce_laws.coalesce_map_at [OF assms, of metallb_defaults p "metallb_values env spec"]
    unfolding list_all_iff map_at_iff by blast
  moreover have "\<exists>s. value_at ?vals p = Some (GStr s)" if "p \<in> set (Strings metallb_shape)" for p
    using that laid(1) by (simp add: metallb_shape_def del: value_at.simps)
  moreover have "\<exists>xs. Option.bind (value_at ?vals p) range_over = Some xs \<and> list_all (has_fields fs) xs"
    if "(p, fs) \<in> set (Ranges metallb_shape)" for p fs
    using that by (auto simp: metallb_shape_def laid has_fields_def simp del: value_at.simps)
  ultimately show ?thesis unfolding has_shape_def by blast
qed

text \<open>The kinds and names of the objects that the operator's values ask for.\<close>

definition metallb_base_ids :: "env_config \<Rightarrow> ident list" where
  "metallb_base_ids env =
     [(''Deployment'', ''controller''), (''ConfigMap'', ''metallb-excludel2'')] @
     (if DisableNetworkPolicies env then [] else [(''NetworkPolicy'', ''controller'')])"

definition metallb_monitor_ids :: "env_config \<Rightarrow> ident list" where
  "metallb_monitor_ids env =
     (if DeployPodMonitors env
      then [(''PodMonitor'', ''controller''), (''PodMonitor'', ''speaker''),
            (''ServiceAccount'', ''metrics-reader''), (''Secret'', ''metrics-token''),
            (''ClusterRole'', ''metrics-reader''), (''ClusterRoleBinding'', ''metrics-reader''),
            (''Role'', ''prometheus''), (''RoleBinding'', ''prometheus'')]
      else []) @
     (if DeployServiceMonitors env
      then [(''ServiceMonitor'', ''speaker-monitor''), (''Service'', ''speaker-monitor-service''),
            (''ServiceMonitor'', ''controller-monitor''), (''Service'', ''controller-monitor-service''),
            (''Role'', ''prometheus''), (''RoleBinding'', ''prometheus'')]
      else [])"

definition metallb_ids :: "env_config \<Rightarrow> metallb_spec \<Rightarrow> ident list" where
  "metallb_ids env spec =
     metallb_base_ids env @ metallb_monitor_ids env @
     (if BGPType spec env = FRRMode then [(''ConfigMap'', ''frr-startup'')] else []) @
     [(''DaemonSet'', ''speaker'')]"

lemmas backends = FRRMode_def FRRK8sMode_def FRRK8sExternalMode_def

lemma metallb_part_renders:
  fixes coalesce env spec
  defines "vals \<equiv> coalesce (metallb_values env spec) metallb_defaults"
  assumes "coalesce_laws coalesce"
  shows "render rel vals metallb_base_decisions = Inr (metallb_base_ids env)" (is ?base)
    and "render rel vals metallb_monitor_decisions =
           (if DeployPodMonitors env \<and> DeployServiceMonitors env
            then Inl ''prometheus.serviceMonitor.enabled and prometheus.podMonitor.enabled cannot both be set''
            else Inr (metallb_monitor_ids env))" (is ?monitors)
    and "render rel vals metallb_backend_decisions =
           (if BGPType spec env = FRRK8sExternalMode \<and> frrk8s_namespace_value env spec = []
            then Inl ''namespace is required when frrk8s is external''
            else Inr ((if BGPType spec env = FRRMode then [(''ConfigMap'', ''frr-startup'')] else []) @
                      [(''DaemonSet'', ''speaker'')]))" (is ?backend)
proof -
  note laid = metallb_laid [where env = env and spec = spec, THEN coalesce_laws.coalesce_laid_at [OF assms(2)],
      folded vals_def]
  show ?base
    by (cases "DisableNetworkPolicies env")
      (simp_all add: metallb_base_decisions_def laid metallb_base_ids_def del: value_at.simps)
  show ?monitors
    by (cases "DeployPodMonitors env"; cases "DeployServiceMonitors env")
      (simp_all add: metallb_monitor_decisions_def laid metallb_monitor_ids_def del: value_at.simps)
  show ?backend
    by (cases "BGPType spec env = FRRMode"; cases "BGPType spec env = FRRK8sMode";
        cases "BGPType spec env = FRRK8sExternalMode")
      (simp_all add: metallb_backend_decisions_def laid backends del: value_at.simps)
qed

text \<open>
  What the MetalLB chart renders from the operator's values: Helm fails exactly when both kinds of
  monitors are asked for, or when the backend is an external frr-k8s without a namespace; the other guards
  of the templates never fire and no template goes through a value that is missing. Otherwise the objects
  are those of the list, and in particular those that the operator looks for by name.
\<close>

lemma metallb_chart_renders:
  assumes "coalesce_laws coalesce"
  shows "render rel (coalesce (patchMetalLBChartValues env spec Map.empty) metallb_defaults) metallb_templates =
     (if DeployPodMonitors env \<and> DeployServiceMonitors env
      then Inl ''prometheus.serviceMonitor.enabled and prometheus.podMonitor.enabled cannot both be set''
      else if BGPType spec env = FRRK8sExternalMode \<and> frrk8s_namespace_value env spec = []
      then Inl ''namespace is required when frrk8s is external''
      else Inr (metallb_ids env spec))"
  unfolding core_sound(2) [OF metallb_has_shape [OF assms] metallb_nodes_ok, symmetric] metallb_core
  by (simp add: render_append metallb_part_renders [OF assms] metallb_ids_def)

end
