(* ===== verification/Chart_Rendering_FRRK8s.thy ===== *)
theory Chart_Rendering_FRRK8s
  imports Chart_Rendering Helm_Objects
begin

text \<open>
  The frr-k8s chart rendered with the operator's values: it always renders, and its objects have the
  names that the operator looks for.
\<close>

definition frrk8s_decisions :: "tnode list" where
  "frrk8s_decisions =
    [TDoc ''ConfigMap'' (TLit ''frr-startup''), TDoc ''DaemonSet'' TFullname,
     TIf (TVal [''prometheus'', ''serviceMonitor'', ''enabled''])
       [TDoc ''ServiceMonitor'' (TLit ''frr-k8s-monitor''), TDoc ''Service'' (TLit ''frr-k8s-monitor-service''),
        TIf (TVal [''prometheus'', ''rbacPrometheus''])
          [TDoc ''Role'' (TLit ''prometheus''), TDoc ''RoleBinding'' (TLit ''prometheus''),
           TRequired ''.Values.prometheus.serviceAccount must be defined when .Values.prometheus.serviceMonitor.enabled == true''
             [''prometheus'', ''serviceAccount''],
           TRequired ''.Values.prometheus.namespace must be defined when .Values.prometheus.serviceMonitor.enabled == true''
             [''prometheus'', ''namespace'']] []] [],
     TDoc ''Deployment'' (TLit ''statuscleaner''), TDoc ''Secret'' (TLit ''frr-k8s-webhook-server-cert''),
     TDoc ''Service'' (TLit ''frr-k8s-webhook-service''),
     TDoc ''ValidatingWebhookConfiguration'' (TLit ''frr-k8s-validating-webhook-configuration'')]"

lemma frrk8s_core: "core frrk8s_templates = frrk8s_decisions"
  by code_simp

lemma frrk8s_nodes_ok: "nodes_ok frrk8s_shape frrk8s_templates"
  by code_simp

lemma frrk8s_defaults_shape: "list_all (map_at frrk8s_defaults) (Maps frrk8s_shape)"
  by code_simp

text \<open>What the templates find of the operator's values, whose \<open>frrk8s\<close> part is \<open>w\<close>.\<close>

lemma frrk8sValues_untouched:
  assumes "frrk8sValues env spec = Inr w"
    and "k \<notin> {''logLevel'', ''restartOnRotatorSecretRefresh'', ''disableCertRotation'', ''nodeSelector'',
              ''tolerations'', ''priorityClassName'', ''runtimeClassName'', ''alwaysBlock''}"
  shows "w k = set_if (Repo (FRRK8sImage env) \<noteq> []) ''image'' (image_val (FRRK8sImage env))
     [''serviceAccount'' \<mapsto> service_account_val ''frr-k8s-daemon'',
      ''frr'' \<mapsto> GMap [''image'' \<mapsto> image_val (FRRImage env), ''metricsPort'' \<mapsto> GInt (FRRK8sFRRMetricsPort env),
                      ''secureMetricsPort'' \<mapsto> GInt (SecureFRRK8sFRRMetricsPort env)]] k"
  using assms
  by (cases "FRRK8SConfig spec"; cases "SpeakerConfig spec"; cases "IsOpenshift env")
    (auto simp: frrk8sValues_def Let_def bindE_eq_Inr simp del: set_if_apply)

lemma frrk8sValues_keys:
  assumes "frrk8sValues env spec = Inr w"
  shows "w ''frr'' = Some (GMap [''image'' \<mapsto> image_val (FRRImage env),
           ''metricsPort'' \<mapsto> GInt (FRRK8sFRRMetricsPort env),
           ''secureMetricsPort'' \<mapsto> GInt (SecureFRRK8sFRRMetricsPort env)])"
    and "w ''serviceAccount'' = Some (service_account_val ''frr-k8s-daemon'')"
    and "w ''image'' = (if Repo (FRRK8sImage env) \<noteq> [] then Some (image_val (FRRK8sImage env)) else None)"
    and "w ''frrMetrics'' = None" and "w ''frrStatus'' = None" and "w ''livenessProbe'' = None"
    and "w ''readinessProbe'' = None" and "w ''reloader'' = None" and "w ''startupProbe'' = None"
    and "w ''labels'' = None"
  by (simp_all add: frrk8sValues_untouched [OF assms])

lemma frrk8sValues_leaves_map:
  assumes "frrk8sValues env spec = Inr w"
  shows "list_all (leaves_map w)
           [[], [''frr''], [''frr'', ''image''], [''frrMetrics''], [''frrStatus''], [''image''], [''livenessProbe''],
            [''readinessProbe''], [''reloader''], [''serviceAccount''], [''startupProbe'']]"
  by (simp add: frrk8sValues_keys [OF assms] service_account_val_def image_val_def)

lemma frrk8s_values_parts:
  assumes "patchChartValues env spec Map.empty = Inr v"
  obtains w where "frrk8sValues env spec = Inr w" and
    "v = [''frrk8s'' \<mapsto> GMap w, ''prometheus'' \<mapsto> GMap (prometheusValues env),
          ''tls'' \<mapsto> GMap (frrk8sTLSHelmValues env)]"
  using assms by (auto simp: patchChartValues_def bindE_eq_Inr)

lemma frrk8s_values_shape:
  assumes "patchChartValues env spec Map.empty = Inr v"
  shows "list_all (leaves_map v) (Maps frrk8s_shape)"
proof -
  obtain w where w: "frrk8sValues env spec = Inr w" and v: "v = [''frrk8s'' \<mapsto> GMap w,
      ''prometheus'' \<mapsto> GMap (prometheusValues env), ''tls'' \<mapsto> GMap (frrk8sTLSHelmValues env)]"
    using assms by (rule frrk8s_values_parts)
  show ?thesis
    using frrk8sValues_leaves_map [OF w]
    by (simp add: frrk8s_shape_def v prometheusValues_def Let_def)
qed

lemma frrk8s_laid:
  assumes "patchChartValues env spec Map.empty = Inr v"
  shows "laid_at v frrk8s_defaults [''nameOverride''] = Some (GStr [])"
    and "laid_at v frrk8s_defaults [''fullnameOverride''] = Some (GStr [])"
    and "laid_at v frrk8s_defaults [''frrk8s'', ''labels''] = Some (GMap [''app'' \<mapsto> GStr ''frr-k8s''])"
    and "laid_at v frrk8s_defaults [''prometheus'', ''serviceMonitor'', ''enabled''] =
           Some (GBool (DeployServiceMonitors env))"
    and "laid_at v frrk8s_defaults [''prometheus'', ''rbacPrometheus''] = Some (GBool False)"
proof -
  obtain w where w: "frrk8sValues env spec = Inr w" and v: "v = [''frrk8s'' \<mapsto> GMap w,
      ''prometheus'' \<mapsto> GMap (prometheusValues env), ''tls'' \<mapsto> GMap (frrk8sTLSHelmValues env)]"
    using assms by (rule frrk8s_values_parts)
  note parts = v prometheusValues_def Let_def frrk8s_defaults_def frrk8s_prometheus_defaults_def
    frrk8s_frrk8s_defaults_def frrk8sValues_keys [OF w]
  show "laid_at v frrk8s_defaults [''nameOverride''] = Some (GStr [])" by (simp add: parts)
  show "laid_at v frrk8s_defaults [''fullnameOverride''] = Some (GStr [])" by (simp add: parts)
  show "laid_at v frrk8s_defaults [''frrk8s'', ''labels''] = Some (GMap [''app'' \<mapsto> GStr ''frr-k8s''])"
    by (simp add: parts)
  show "laid_at v frrk8s_defaults [''prometheus'', ''serviceMonitor'', ''enabled''] =
      Some (GBool (DeployServiceMonitors env))" by (simp add: parts)
  show "laid_at v frrk8s_defaults [''prometheus'', ''rbacPrometheus''] = Some (GBool False)"
    by (simp add: parts)
qed

lemma frrk8s_has_shape:
  assumes "coalesce_laws coalesce" and "patchChartValues env spec Map.empty = Inr v"
  shows "has_shape frrk8s_shape (coalesce v frrk8s_defaults)"
proof -
  let ?vals = "coalesce v frrk8s_defaults"
  have "\<exists>m. value_at ?vals p = Some (GMap m)" if "p \<in> set (Maps frrk8s_shape)" for p
    using frrk8s_defaults_shape frrk8s_values_shape [OF assms(2)] that
      coalesce_laws.coalesce_map_at [OF assms(1), of frrk8s_defaults p v]
    unfolding list_all_iff map_at_iff by blast
  moreover have "\<exists>s. value_at ?vals p = Some (GStr s)" if "p \<in> set (Strings frrk8s_shape)" for p
    using that by (simp add: frrk8s_shape_def)
  moreover have "\<exists>xs. Option.bind (value_at ?vals p) range_over = Some xs \<and> list_all (has_fields fs) xs"
    if "(p, fs) \<in> set (Ranges frrk8s_shape)" for p fs
    using that coalesce_laws.coalesce_laid_at [OF assms(1) frrk8s_laid(3) [OF assms(2)]]
    by (simp add: frrk8s_shape_def del: value_at.simps)
  ultimately show ?thesis unfolding has_shape_def by blast
qed

text \<open>The kinds and names of the objects that the operator's values ask for.\<close>

definition frrk8s_ids :: "env_config \<Rightarrow> ident list" where
  "frrk8s_ids env =
     [(''ConfigMap'', ''frr-startup''), (''DaemonSet'', frrk8sDaemonsetName)] @
     (if DeployServiceMonitors env
      then [(''ServiceMonitor'', ''frr-k8s-monitor''), (''Service'', ''frr-k8s-monitor-service'')] else []) @
     [(''Deployment'', frrk8sStatusCleanerDeploymentName), (''Secret'', frrk8sWebhookSecretName),
      (''Service'', frrk8sWebhookServiceName),
      (''ValidatingWebhookConfiguration'', frrk8sValidatingWebhookName)]"

text \<open>
  The frr-k8s chart, installed under its own name as the reconciler does, renders for every resource
  whose values can be built: no guard of its templates fires. Its objects are the startup configuration,
  the daemon, the status cleaner and the parts of the webhook under the names by which the operator tells
  them apart, and on request the service monitor; never a role.
\<close>

lemma frrk8s_chart_renders:
  assumes "coalesce_laws coalesce" and "patchChartValues env spec Map.empty = Inr v"
  shows "render \<lparr>ReleaseNameOf = ''frr-k8s'', ChartNameOf = ''frr-k8s''\<rparr> (coalesce v frrk8s_defaults) frrk8s_templates =
     Inr (frrk8s_ids env)"
proof -
  let ?rel = "\<lparr>ReleaseNameOf = ''frr-k8s'', ChartNameOf = ''frr-k8s''\<rparr>"
  note laid = frrk8s_laid [OF assms(2), THEN coalesce_laws.coalesce_laid_at [OF assms(1)]]
  have "text_at (coalesce v frrk8s_defaults) ''nameOverride'' = []"
    "text_at (coalesce v frrk8s_defaults) ''fullnameOverride'' = []"
    using laid(1,2) by (auto simp: text_at_def split: option.splits)
  then have "fullname ?rel (coalesce v frrk8s_defaults) = ''frr-k8s''"
    by (simp add: fullname_def trunc_name_def Let_def)
  then show ?thesis
    unfolding core_sound(2) [OF frrk8s_has_shape [OF assms] frrk8s_nodes_ok, symmetric] frrk8s_core
    by (cases "DeployServiceMonitors env")
      (simp_all add: frrk8s_decisions_def frrk8s_ids_def frrk8s_names laid del: value_at.simps)
qed

end
