(* ===== verification/Helm_Rendering.thy ===== *)
theory Helm_Rendering
  imports Chart_Rendering_FRRK8s Controller_Contracts
begin

text \<open>
  Helm as the operator relies on it: it loads the two charts of the repository, lays the operator's values
  over their defaults, and gives a manifest whose documents are those that the templates render. With it,
  the objects that the two \<open>Objects\<close> functions return are known by kind and name.
\<close>

section \<open>The interface\<close>

text \<open>The files of a chart that decide on its objects, and the charts in \<open>bindata/deployment/helm\<close>.\<close>

record chart_files =
  NameOfChart :: string
  Templates :: "tnode list"
  Defaults :: obj

definition metallb_files :: chart_files where
  "metallb_files = \<lparr>NameOfChart = ''metallb'', Templates = metallb_templates, Defaults = metallb_defaults\<rparr>"

definition frrk8s_files :: chart_files where
  "frrk8s_files = \<lparr>NameOfChart = ''frr-k8s'', Templates = frrk8s_templates, Defaults = frrk8s_defaults\<rparr>"

definition rendered :: "(obj \<Rightarrow> obj \<Rightarrow> obj) \<Rightarrow> install \<Rightarrow> chart_files \<Rightarrow> obj \<Rightarrow> string + ident list" where
  "rendered coalesce cl f v =
     render \<lparr>ReleaseNameOf = ReleaseName cl, ChartNameOf = NameOfChart f\<rparr> (coalesce v (Defaults f)) (Templates f)"

definition doc_id :: "unstructured_lib \<Rightarrow> obj \<Rightarrow> ident" where
  "doc_id U x = (GetKind U x, GetName U x)"

text \<open>
  Helm sorts the documents by their kinds, so only their multiset is known. Nothing else is given than
  the operator's values, since \<open>MergeValues\<close> is called without any.
\<close>

locale helm_renders = coalesce_laws coalesce for coalesce :: "obj \<Rightarrow> obj \<Rightarrow> obj" +
  fixes H :: "'c helm_lib" and U :: unstructured_lib and files :: "'c \<Rightarrow> chart_files"
  assumes merge_nothing: "MergeValues H = Inr Map.empty"
    and loads_metallb:
      "LocateChart H cl MetalLBChartPathController = Inr path \<Longrightarrow> LoadChart H path = Inr c \<Longrightarrow>
         files c = metallb_files"
    and loads_frrk8s:
      "LocateChart H cl FRRK8SChartPathController = Inr path \<Longrightarrow> LoadChart H path = Inr c \<Longrightarrow>
         files c = frrk8s_files"
    and install_renders:
      "RunInstall H cl c v = Inr manifest \<Longrightarrow>
         \<exists>ids docs. rendered coalesce cl (files c) v = Inr ids \<and>
           parseManifest (DecodeManifest H) manifest = Ret docs \<and>
           mset (map (doc_id U) docs) = mset ids"
begin

text \<open>The charts that the reconciler sets up.\<close>

lemma new_metallb_chart:
  assumes "NewMetalLBChart H MetalLBChartPathController defaultMetalLBCrName ns = Inr h"
  shows "files (ChartContent h) = metallb_files" and "ReleaseName (ChartClient h) = ''metallb''"
  using assms loads_metallb
  by (auto simp: NewMetalLBChart_def Let_def bindE_eq_Inr defaultMetalLBCrName_def)

lemma new_frrk8s_chart:
  assumes "NewFRRK8SChart H FRRK8SChartPathController ''frr-k8s'' ns = Inr h"
  shows "files (ChartContent h) = frrk8s_files" and "ReleaseName (ChartClient h) = ''frr-k8s''"
  using assms loads_frrk8s by (auto simp: NewFRRK8SChart_def Let_def bindE_eq_Inr)

lemma metallb_rendered:
  assumes "files (ChartContent h) = metallb_files"
    and "rendered coalesce (ChartClient h) (files (ChartContent h)) (metallb_values env spec) = Inr ids"
  shows "ids = metallb_ids env spec" and "\<not> (DeployPodMonitors env \<and> DeployServiceMonitors env)"
    and "BGPType spec env = FRRK8sExternalMode \<Longrightarrow> frrk8s_namespace_value env spec \<noteq> []"
  using assms metallb_chart_renders [OF coalesce_laws_axioms]
  by (auto simp: rendered_def metallb_files_def split: if_splits)

lemma frrk8s_rendered:
  assumes "files (ChartContent h) = frrk8s_files" and "ReleaseName (ChartClient h) = ''frr-k8s''"
    and "patchChartValues env spec Map.empty = Inr v"
    and "rendered coalesce (ChartClient h) (files (ChartContent h)) v = Inr ids"
  shows "ids = frrk8s_ids env"
  using assms frrk8s_chart_renders [OF coalesce_laws_axioms assms(3)]
  by (simp add: rendered_def frrk8s_files_def)

end

section \<open>Names of the returned objects\<close>

context unstructured_laws
begin

text \<open>A document that has a name keeps its identity when its namespace is set.\<close>

lemma named_settable:
  assumes "GetName U x \<noteq> []"
  shows "settable x [''metadata'', ''namespace'']"
proof (cases "x ''metadata''")
  case (Some v)
  with assms show ?thesis by (cases v) (simp_all add: name)
qed simp

lemma namespaced_doc_id:
  assumes "GetName U x \<noteq> []" and "EnvNamespace env \<noteq> []"
  shows "doc_id U (namespaced U env x) = doc_id U x"
  using namespaced_identity [OF assms(2) named_settable [OF assms(1)]] by (simp add: doc_id_def)

lemma namespaced_namespace:
  assumes "GetName U x \<noteq> []" and "EnvNamespace env \<noteq> []" and "GetKind U x \<noteq> ''PodSecurityPolicy''"
  shows "GetNamespace U (namespaced U env x) = EnvNamespace env"
  using namespaced_identity [OF assms(2) named_settable [OF assms(1)]] assms(3) by simp

lemma doc_id_identity: "identity U y = identity U x \<Longrightarrow> doc_id U y = doc_id U x"
  by (simp add: identity_def doc_id_def)

end

text \<open>The identity of an object in the operator's namespace.\<close>

definition in_namespace :: "string \<Rightarrow> ident \<Rightarrow> string \<times> string \<times> string" where
  "in_namespace ns i = (fst i, ns, snd i)"

lemma named_docs:
  assumes "unstructured_laws U" and "EnvNamespace env \<noteq> []" and "mset (map (doc_id U) docs) = mset ids"
    and "\<forall>(k, n)\<in>set ids. n \<noteq> [] \<and> k \<noteq> ''PodSecurityPolicy''" and "x \<in> set docs"
  shows "identity U (namespaced U env x) = in_namespace (EnvNamespace env) (doc_id U x)"
proof -
  have "doc_id U x \<in> set ids" using assms(3,5) by (metis image_eqI list.set_map mset_eq_setD)
  then have "GetName U x \<noteq> []" "GetKind U x \<noteq> ''PodSecurityPolicy''"
    using assms(4) by (auto simp: doc_id_def)
  with unstructured_laws.namespaced_doc_id [OF assms(1) _ assms(2)]
    unstructured_laws.namespaced_namespace [OF assms(1) _ assms(2)]
  show ?thesis by (simp add: identity_def in_namespace_def doc_id_def)
qed

lemma metallb_ids_named: "\<forall>(k, n)\<in>set (metallb_ids env spec). n \<noteq> [] \<and> k \<noteq> ''PodSecurityPolicy''"
  by (auto simp: metallb_ids_def metallb_base_ids_def metallb_monitor_ids_def)

lemma frrk8s_ids_named: "\<forall>(k, n)\<in>set (frrk8s_ids env). n \<noteq> [] \<and> k \<noteq> ''PodSecurityPolicy''"
  by (auto simp: frrk8s_ids_def frrk8s_names)

context helm_renders
begin

text \<open>What the two charts return, by kind, namespace and name.\<close>

lemma metallb_identities:
  assumes "workload_laws U" and "files (ChartContent h) = metallb_files" and "EnvNamespace env \<noteq> []"
    and "MetalLBChart_Objects H U h env spec = Ret objs"
  shows "\<exists>ys. objs = ys @ (if IsOpenshift env then [SpeakerSCC] else []) \<and>
           mset (map (identity U) ys) = mset (map (in_namespace (EnvNamespace env)) (metallb_ids env spec))"
    and "\<not> (DeployPodMonitors env \<and> DeployServiceMonitors env)"
    and "BGPType spec env = FRRK8sExternalMode \<Longrightarrow> frrk8s_namespace_value env spec \<noteq> []"
proof -
  have laws: "unstructured_laws U" using assms(1) by (rule workload_laws.axioms)
  from assms(4) obtain manifest docs ys where
    run: "RunInstall H (ChartClient h) (ChartContent h) (metallb_values env spec) = Inr manifest" and
    docs: "parseManifest (DecodeManifest H) manifest = Ret docs" and
    objs: "objs = ys @ (if IsOpenshift env then [SpeakerSCC] else [])" and
    ys: "list_all2 (\<lambda>x y. metallb_object U env spec x = Ret y) docs ys"
    by (auto simp: MetalLBChart_Objects_def bindO_eq_Ret outcome_of_eq mapO_eq_Ret merge_nothing)
  obtain ids where ids: "rendered coalesce (ChartClient h) (files (ChartContent h)) (metallb_values env spec) = Inr ids"
    "mset (map (doc_id U) docs) = mset ids"
    using install_renders [OF run] docs by auto
  note r = metallb_rendered [OF assms(2) ids(1)]
  show "\<not> (DeployPodMonitors env \<and> DeployServiceMonitors env)" by (rule r(2))
  show "BGPType spec env = FRRK8sExternalMode \<Longrightarrow> frrk8s_namespace_value env spec \<noteq> []" by (rule r(3))
  have "list_all2 (\<lambda>x y. identity U y = identity U (namespaced U env x)) docs ys"
    using ys workload_laws.metallb_object_identity [OF assms(1)] by (rule list_all2_mono)
  then have "map (identity U) ys = map (\<lambda>x. identity U (namespaced U env x)) docs"
    by (auto simp: list_all2_conv_all_nth intro: nth_equalityI)
  also have "\<dots> = map (in_namespace (EnvNamespace env)) (map (doc_id U) docs)"
    using named_docs [OF laws assms(3) ids(2) metallb_ids_named [of env spec, folded r(1)]] by simp
  finally have "mset (map (identity U) ys) = mset (map (in_namespace (EnvNamespace env)) (metallb_ids env spec))"
    using ids(2) r(1) by (metis mset_map)
  with objs show "\<exists>ys. objs = ys @ (if IsOpenshift env then [SpeakerSCC] else []) \<and>
      mset (map (identity U) ys) = mset (map (in_namespace (EnvNamespace env)) (metallb_ids env spec))" by blast
qed

lemma frrk8s_identities:
  assumes "workload_laws U" and "files (ChartContent h) = frrk8s_files"
    and "ReleaseName (ChartClient h) = ''frr-k8s''" and "EnvNamespace env \<noteq> []"
    and "FRRK8SChart_Objects H U h env spec = Ret objs"
  shows "mset (map (identity U) objs) =
     mset (map (in_namespace (EnvNamespace env))
       (filter (\<lambda>i. \<not> (IsOpenshift env \<and> i = (''Secret'', frrk8sWebhookSecretName))) (frrk8s_ids env)))"
proof -
  let ?ns = "EnvNamespace env"
  let ?keep = "\<lambda>i. \<not> (IsOpenshift env \<and> i = (''Secret'', frrk8sWebhookSecretName))"
  have laws: "unstructured_laws U" using assms(1) by (rule workload_laws.axioms)
  from assms(5) obtain v manifest docs rs where
    v: "patchChartValues env spec Map.empty = Inr v" and
    run: "RunInstall H (ChartClient h) (ChartContent h) v = Inr manifest" and
    docs: "parseManifest (DecodeManifest H) manifest = Ret docs" and
    rs: "list_all2 (\<lambda>x r. frrk8s_object U env spec x = Ret r) docs rs" and
    objs: "objs = List.map_filter (\<lambda>r. r) rs"
    by (auto simp: FRRK8SChart_Objects_def bindO_eq_Ret outcome_of_eq frrk8s_objects_Ret merge_nothing)
  obtain ids where ids: "rendered coalesce (ChartClient h) (files (ChartContent h)) v = Inr ids"
    "mset (map (doc_id U) docs) = mset ids"
    using install_renders [OF run] docs by auto
  note r = frrk8s_rendered [OF assms(2,3) v ids(1)]
  note named = named_docs [OF laws assms(4) ids(2) frrk8s_ids_named [of env, folded r]]
  have secret: "isFRRK8SWebhookSecret U (namespaced U env x) \<longleftrightarrow> doc_id U x = (''Secret'', frrk8sWebhookSecretName)"
    if "x \<in> set docs" for x
    using named [OF that] by (auto simp: isFRRK8SWebhookSecret_def identity_def in_namespace_def doc_id_def)
  have "map (identity U) objs = map (\<lambda>x. identity U (namespaced U env x))
      (filter (\<lambda>x. \<not> (IsOpenshift env \<and> isFRRK8SWebhookSecret U (namespaced U env x))) docs)"
    using frrk8s_kept [OF assms(1) rs] objs by blast
  also have "\<dots> = map (in_namespace ?ns) (map (doc_id U) (filter (\<lambda>x. ?keep (doc_id U x)) docs))"
    using named secret by (auto cong: filter_cong)
  also have "map (doc_id U) (filter (\<lambda>x. ?keep (doc_id U x)) docs) = filter ?keep (map (doc_id U) docs)"
    by (simp add: filter_map comp_def)
  finally have "mset (map (identity U) objs) = image_mset (in_namespace ?ns) (filter_mset ?keep (mset (map (doc_id U) docs)))"
    by simp
  then show ?thesis unfolding ids(2) r by simp
qed

end

section \<open>A Helm that renders\<close>

text \<open>
  A manifest that lists the kinds and names of its documents, every character after a dot, every word
  before a comma.
\<close>

fun print_word :: "string \<Rightarrow> string" where
  "print_word [] = '',''"
| "print_word (c # s) = CHR ''.'' # c # print_word s"

fun read_word :: "string \<Rightarrow> string \<times> string" where
  "read_word (d # c # s) =
     (if d = CHR ''.'' then (let (w, r) = read_word s in (c # w, r)) else ([], c # s))"
| "read_word s = ([], [])"

lemma read_print [simp]: "read_word (print_word w @ s) = (w, s)"
proof (induction w)
  case Nil
  show ?case by (cases s) simp_all
qed simp

definition print_ids :: "ident list \<Rightarrow> string" where
  "print_ids ids = concat (map (\<lambda>(k, n). print_word k @ print_word n) ids)"

fun read_document :: "string \<Rightarrow> nat \<Rightarrow> decode_result" where
  "read_document s i =
     (if s = [] then DecodeEOF
      else (let (k, s1) = read_word s; (n, s2) = read_word s1 in
            case i of 0 \<Rightarrow> Decoded (example_workload k n) | Suc j \<Rightarrow> read_document s2 j))"

declare read_document.simps [simp del]

definition rendering_helm :: "chart_files helm_lib" where
  "rendering_helm =
     \<lparr>LocateChart = (\<lambda>_ p. Inr p),
      LoadChart = (\<lambda>p. if p = MetalLBChartPathController then Inr metallb_files
                       else if p = FRRK8SChartPathController then Inr frrk8s_files
                       else Inl (LibError ''loader.Load'' p)),
      MergeValues = Inr Map.empty,
      RunInstall = (\<lambda>cl f v.
        case rendered coalesce_values cl f v of
          Inl e \<Rightarrow> Inl (LibError ''Install.Run'' e)
        | Inr ids \<Rightarrow> Inr (print_ids ids)),
      DecodeManifest = read_document\<rparr>"

lemma print_word_not_Nil [simp]: "print_word w \<noteq> []"
  by (cases w) simp_all

lemma read_document_print:
  "read_document (print_ids ids) i =
     (if i < length ids then Decoded (example_workload (fst (ids ! i)) (snd (ids ! i))) else DecodeEOF)"
proof (induction ids arbitrary: i)
  case Nil
  show ?case by (subst read_document.simps) (simp add: print_ids_def)
next
  case (Cons p ids)
  obtain k n where p: "p = (k, n)" by fastforce
  have "print_ids (p # ids) = print_word k @ print_word n @ print_ids ids" by (simp add: print_ids_def p)
  then have "read_document (print_ids (p # ids)) i =
      (case i of 0 \<Rightarrow> Decoded (example_workload k n) | Suc j \<Rightarrow> read_document (print_ids ids) j)"
    by (subst read_document.simps) (simp split: nat.splits)
  then show ?case using Cons.IH by (cases i) (simp_all add: p)
qed

lemma strip_front_plain_head:
  assumes "list_all no_plain_head ps" and "s \<noteq> []" and "plain_char (hd s)"
  shows "strip_front ps s = s"
proof (rule strip_front_id)
  fix p assume "p \<in> set ps"
  with assms(1) have "no_plain_head p" by (simp add: list_all_iff)
  with assms(2,3) show "\<not> prefix p s"
    by (cases s) (auto simp: no_plain_head_def split: list.splits)
qed

lemma TrimSpace_plain_ends:
  assumes "s \<noteq> []" and "plain_char (hd s)" and "plain_char (last s)"
  shows "TrimSpace s = s"
  using strip_front_plain_head [OF space_seqs_heads assms(1,2)]
    strip_front_plain_head [OF space_seqs_lasts, of "rev s"] assms
  by (simp add: TrimSpace_def hd_rev)

lemma print_word_ends: "hd (print_word w) \<in> {CHR ''.'', CHR '',''}" "last (print_word w) = CHR '',''"
  by (cases w, simp_all) (induction w, simp_all)

lemma print_ids_ends:
  "ids \<noteq> [] \<Longrightarrow> print_ids ids \<noteq> [] \<and> hd (print_ids ids) \<in> {CHR ''.'', CHR '',''} \<and> last (print_ids ids) = CHR '',''"
proof (induction ids)
  case (Cons p ids)
  show ?case
  proof (cases "ids = []")
    case True
    then show ?thesis using print_word_ends by (cases p) (simp add: print_ids_def)
  next
    case False
    then have "last (print_ids (p # ids)) = last (print_ids ids)" using Cons by (simp add: print_ids_def)
    with False Cons.IH show ?thesis using print_word_ends by (cases p) (simp add: print_ids_def)
  qed
qed simp

lemma TrimSpace_print_ids: "ids \<noteq> [] \<Longrightarrow> TrimSpace (print_ids ids) \<noteq> []"
  using print_ids_ends [of ids] TrimSpace_plain_ends [of "print_ids ids"] by (auto simp: plain_char_def)

lemma parse_print_ids:
  "parseManifest (DecodeManifest rendering_helm) (print_ids ids) = Ret (map (\<lambda>(k, n). example_workload k n) ids)"
proof (cases "ids = []")
  case True
  then show ?thesis using TrimSpace_plain [of "[]"] by (simp add: parseManifest_def print_ids_def)
next
  case False
  then show ?thesis
    by (simp add: parseManifest_Ret_iff TrimSpace_print_ids rendering_helm_def read_document_print
        case_prod_beta)
qed

interpretation rendering: helm_renders coalesce_values rendering_helm workload_lib "\<lambda>f. f"
proof
  fix cl f v manifest
  assume "RunInstall rendering_helm cl f v = Inr manifest"
  then obtain ids where ids: "rendered coalesce_values cl f v = Inr ids" "manifest = print_ids ids"
    by (auto simp: rendering_helm_def split: sum.splits)
  let ?docs = "map (\<lambda>(k, n). example_workload k n) ids"
  have "parseManifest (DecodeManifest rendering_helm) manifest = Ret ?docs"
    unfolding ids(2) by (rule parse_print_ids)
  moreover have "map (doc_id workload_lib) ?docs = ids"
    by (auto simp: doc_id_def example_workload_def get_str_def intro!: map_idI)
  ultimately show "\<exists>ids docs. rendered coalesce_values cl f v = Inr ids \<and>
      parseManifest (DecodeManifest rendering_helm) manifest = Ret docs \<and>
      mset (map (doc_id workload_lib) docs) = mset ids"
    using ids(1) by metis
qed (auto simp: rendering_helm_def MetalLBChartPathController_def FRRK8SChartPathController_def split: if_splits)

end
