(* ===== verification/API_Server.thy ===== *)
theory API_Server
  imports Chart_Schema Controller_Contracts
begin

text \<open>
  What the operator relies on of an API server that honours its calls. The operator applies objects on the
  server's side, as one of several owners of their fields: the server merges the configuration into the
  object that it has. How it merges is the server's affair; that the fields of the configuration are in
  the result is what it promises.
\<close>

section \<open>The server\<close>

text \<open>
  A live value carries a configured one when it has its fields and its elements, whatever else it has. A
  null asks for nothing; on anything else the server decides which values are the same (it may write a
  quantity in another way).
\<close>

inductive carries :: "(gval \<Rightarrow> gval \<Rightarrow> bool) \<Rightarrow> gval \<Rightarrow> gval \<Rightarrow> bool" for same where
  same: "same v w \<Longrightarrow> carries same v w"
| null: "carries same GNil w"
| fields: "(\<forall>k v. m k = Some v \<longrightarrow> v = GNil \<or> (\<exists>w. n k = Some w \<and> carries same v w)) \<Longrightarrow>
    carries same (GMap m) (GMap n)"
| elements: "items v = Some xs \<Longrightarrow> items w = Some ys \<Longrightarrow> (\<forall>x\<in>set xs. \<exists>y\<in>set ys. carries same x y) \<Longrightarrow>
    carries same v w"

text \<open>
  \<open>ServerSideApply\<close> makes the new object from the one that is there, if any, and the configuration that is
  applied. Kinds without a namespace are stored without one.
\<close>

record api_server =
  SameValue :: "gval \<Rightarrow> gval \<Rightarrow> bool"
  ServerSideApply :: "obj option \<Rightarrow> obj \<Rightarrow> obj"
  KindNamespaced :: "string \<Rightarrow> bool"

definition reflects :: "api_server \<Rightarrow> obj \<Rightarrow> obj \<Rightarrow> bool" where
  "reflects S x y = carries (SameValue S) (GMap x) (GMap y)"

definition server_key :: "api_server \<Rightarrow> string \<times> string \<times> string \<Rightarrow> string \<times> string \<times> string" where
  "server_key S i = (case i of (k, ns, n) \<Rightarrow> (k, if KindNamespaced S k then ns else [], n))"

text \<open>The documented law: with forced ownership, applying a configuration gives it effect.\<close>

locale applying_server =
  fixes S :: api_server
  assumes takes_effect: "reflects S x (ServerSideApply S live x)"

text \<open>What is wanted under a key, and what is there.\<close>

definition meets :: "api_server \<Rightarrow> obj option \<Rightarrow> obj option \<Rightarrow> bool" where
  "meets S want have =
     (case want of None \<Rightarrow> have = None | Some x \<Rightarrow> (\<exists>y. have = Some y \<and> reflects S x y))"

section \<open>The calls on a cluster\<close>

type_synonym cluster = "string \<times> string \<times> string \<Rightarrow> obj option"

abbreviation key_of :: "api_server \<Rightarrow> unstructured_lib \<Rightarrow> obj \<Rightarrow> string \<times> string \<times> string" where
  "key_of S U x \<equiv> server_key S (identity U x)"

fun call_effect :: "api_server \<Rightarrow> unstructured_lib \<Rightarrow> kube_call \<Rightarrow> cluster \<Rightarrow> cluster" where
  "call_effect S U (ApplyObject x) c = c(key_of S U x \<mapsto> ServerSideApply S (c (key_of S U x)) x)"
| "call_effect S U (DeleteObject x) c = c(key_of S U x := None)"
| "call_effect S U _ c = c"

definition cluster_after :: "api_server \<Rightarrow> unstructured_lib \<Rightarrow> trace \<Rightarrow> cluster \<Rightarrow> cluster" where
  "cluster_after S U cs c = fold (call_effect S U) cs c"

lemma cluster_after_append [simp]:
  "cluster_after S U (cs @ ds) c = cluster_after S U ds (cluster_after S U cs c)"
  by (simp add: cluster_after_def)

lemma call_effect_network: "network_call k \<Longrightarrow> call_effect S U k c = c"
  by (cases k) (simp_all add: network_call_def)

lemma cluster_after_network: "list_all network_call cs \<Longrightarrow> cluster_after S U cs c = c"
  unfolding cluster_after_def by (induction cs arbitrary: c) (simp_all add: call_effect_network)

lemma cluster_after_deletes:
  "cluster_after S U (map DeleteObject xs) c i = (if i \<in> key_of S U ` set xs then None else c i)"
  unfolding cluster_after_def by (induction xs arbitrary: c) auto

lemma cluster_after_applies_exists:
  "cluster_after S U (map ApplyObject ys) c i \<noteq> None \<longleftrightarrow> i \<in> key_of S U ` set ys \<or> c i \<noteq> None"
  unfolding cluster_after_def by (induction ys arbitrary: c) auto

lemma cluster_after_applies:
  "distinct (map (key_of S U) ys) \<Longrightarrow>
     cluster_after S U (map ApplyObject ys) c i =
       (case map_of (map (\<lambda>y. (key_of S U y, y)) ys) i of
          Some y \<Rightarrow> Some (ServerSideApply S (c i) y) | None \<Rightarrow> c i)"
proof (induction ys arbitrary: c)
  case Nil
  show ?case by (simp add: cluster_after_def)
next
  case (Cons y ys)
  have "i = key_of S U y \<Longrightarrow> map_of (map (\<lambda>y. (key_of S U y, y)) ys) i = None"
    using Cons.prems by (simp add: map_of_eq_None_iff image_image)
  moreover have "cluster_after S U (map ApplyObject (y # ys)) c i =
      cluster_after S U (map ApplyObject ys) (c(key_of S U y \<mapsto> ServerSideApply S (c (key_of S U y)) y)) i"
    by (simp add: cluster_after_def)
  ultimately show ?case using Cons by (auto split: option.splits)
qed

context applying_server
begin

text \<open>Deletions, then applications under different keys: what is wanted is there afterwards.\<close>

lemma deletes_applies_meet:
  assumes "distinct (map (key_of S U) ys)" and "i \<in> key_of S U ` set xs \<union> key_of S U ` set ys"
  shows "meets S (map_of (map (\<lambda>y. (key_of S U y, y)) ys) i)
           (cluster_after S U (map DeleteObject xs @ map ApplyObject ys) c i)"
proof (cases "map_of (map (\<lambda>y. (key_of S U y, y)) ys) i")
  case None
  then have "i \<notin> key_of S U ` set ys" by (simp add: map_of_eq_None_iff image_image)
  with assms None show ?thesis by (simp add: meets_def cluster_after_applies cluster_after_deletes)
next
  case (Some y)
  then show ?thesis by (simp add: meets_def cluster_after_applies [OF assms(1)] takes_effect)
qed

end

section \<open>A server that merges\<close>

text \<open>
  Maps are merged and everything else is replaced, in the kinds of the Kubernetes API that the charts
  render and that have no namespace.
\<close>

definition merging_server :: api_server where
  "merging_server =
     \<lparr>SameValue = (=),
      ServerSideApply = (\<lambda>live x. case live of None \<Rightarrow> x | Some y \<Rightarrow> coalesce_values x y),
      KindNamespaced = (\<lambda>k. k \<notin> {''ClusterRole'', ''ClusterRoleBinding'', ''ValidatingWebhookConfiguration'',
                                ''SecurityContextConstraints''})\<rparr>"

lemma carries_merged: "carries (=) (GMap x) (GMap (coalesce_values x y))"
proof -
  have "\<forall>m. v = GMap m \<longrightarrow> (\<forall>y. carries (=) (GMap m) (GMap (coalesce_values m y)))" for v
  proof (induction v)
    case (GMap n)
    have "w = GNil \<or> (\<exists>u. coalesce_values n y k = Some u \<and> carries (=) w u)" if k: "n k = Some w" for k w y
    proof -
      have IH: "\<forall>m. w = GMap m \<longrightarrow> (\<forall>y. carries (=) (GMap m) (GMap (coalesce_values m y)))"
        using GMap k by (metis option.set_intros rangeI)
      show ?thesis
        using k IH by (cases "y k"; cases w; cases "the (y k)")
          (auto simp: coalesce_values_key intro: carries.same)
    qed
    then show ?case by (auto intro!: carries.fields)
  qed auto
  then show ?thesis by blast
qed

interpretation merging: applying_server merging_server
  by unfold_locales (auto simp: reflects_def merging_server_def carries_merged intro: carries.same split: option.splits)

end
