(* ===== verification/Convergence.thy ===== *)
theory Convergence
  imports API_Server
begin

text \<open>
  What a synchronisation leaves behind in the cluster. On an API server that honours every call, a
  successful synchronisation brings the cluster to a state that depends on the charts alone, whatever it
  was before.
\<close>

section \<open>After a synchronisation\<close>

text \<open>The objects that are applied, with their owner set.\<close>

definition applied_objects :: "('c, 'v) reconciler \<Rightarrow> metallb \<Rightarrow> obj list \<Rightarrow> obj list" where
  "applied_objects R m objs = map (owned R m) (filter (\<lambda>x. \<not> skipped R x) objs)"

text \<open>The configuration that is wanted under a key, and the keys that the charts name for a resource.\<close>

definition wanted ::
  "api_server \<Rightarrow> ('c, 'v) reconciler \<Rightarrow> metallb \<Rightarrow> obj list \<Rightarrow> string \<times> string \<times> string \<Rightarrow> obj option" where
  "wanted S R m objs = map_of (map (\<lambda>y. (key_of S (ULib R) y, y)) (applied_objects R m objs))"

definition covered ::
  "api_server \<Rightarrow> ('c, 'v) reconciler \<Rightarrow> metallb \<Rightarrow> obj list \<Rightarrow> obj list \<Rightarrow> (string \<times> string \<times> string) set" where
  "covered S R m toDel objs =
     key_of S (ULib R) ` set toDel \<union> key_of S (ULib R) ` set (applied_objects R m objs)"

lemma object_calls_applied:
  "object_calls R m toDel objs = map DeleteObject toDel @ map ApplyObject (applied_objects R m objs)"
  by (simp add: object_calls_def applied_objects_def)

lemma sync_cluster:
  assumes "syncMetalLBResources R m h = (Ret (), h')"
    and "Validate (ExternalFRRK8sNamespace R) (Spec m) = None" and "chart_objects R (Spec m) toDel objs"
  shows "cluster_after S (ULib R) (drop (length h) h') c =
     cluster_after S (ULib R) (map DeleteObject toDel @ map ApplyObject (applied_objects R m objs)) c"
proof -
  from sync_run [OF assms(1,2)] chart_objects_unique [OF assms(3)] obtain pre where
    "h' = h @ pre @ object_calls R m toDel objs" "list_all network_call pre" by blast
  then show ?thesis by (simp add: object_calls_applied cluster_after_network)
qed

lemma sync_exists:
  assumes "syncMetalLBResources R m h = (Ret (), h')"
    and "Validate (ExternalFRRK8sNamespace R) (Spec m) = None" and "chart_objects R (Spec m) toDel objs"
  shows "cluster_after S (ULib R) (drop (length h) h') c i \<noteq> None \<longleftrightarrow>
     i \<in> key_of S (ULib R) ` set (applied_objects R m objs) \<or> i \<notin> key_of S (ULib R) ` set toDel \<and> c i \<noteq> None"
  unfolding sync_cluster [OF assms] cluster_after_append cluster_after_applies_exists cluster_after_deletes by auto

lemma sync_untouched:
  assumes "syncMetalLBResources R m h = (Ret (), h')"
    and "Validate (ExternalFRRK8sNamespace R) (Spec m) = None" and "chart_objects R (Spec m) toDel objs"
    and "distinct (map (key_of S (ULib R)) (applied_objects R m objs))" and "i \<notin> covered S R m toDel objs"
  shows "cluster_after S (ULib R) (drop (length h) h') c i = c i"
proof -
  have "map_of (map (\<lambda>y. (key_of S (ULib R) y, y)) (applied_objects R m objs)) i = None"
    using assms(5) by (simp add: covered_def map_of_eq_None_iff image_image)
  with assms(5) show ?thesis
    unfolding sync_cluster [OF assms(1-3)]
    by (simp add: covered_def cluster_after_applies [OF assms(4)] cluster_after_deletes)
qed

context applying_server
begin

lemma sync_meets:
  assumes "syncMetalLBResources R m h = (Ret (), h')"
    and "Validate (ExternalFRRK8sNamespace R) (Spec m) = None" and "chart_objects R (Spec m) toDel objs"
    and "distinct (map (key_of S (ULib R)) (applied_objects R m objs))" and "i \<in> covered S R m toDel objs"
  shows "meets S (wanted S R m objs i) (cluster_after S (ULib R) (drop (length h) h') c i)"
  unfolding sync_cluster [OF assms(1-3)] wanted_def
  by (rule deletes_applies_meet [OF assms(4)]) (use assms(5) in \<open>simp add: covered_def\<close>)

end

section \<open>The life of a cluster\<close>

text \<open>
  The resource, the cluster, and whether the last thing that happened to either of them was not an
  edit of the resource or a synchronisation that failed half way. The operator synchronises the
  resource as it is at that moment, whatever the API server answers; the user edits the resource; and
  others change objects: any that are not the operator's, and in the operator's what it did not set.
  \<open>managed\<close> are the operator's keys. Nothing is known of the calls of a synchronisation that failed or
  panicked: each of the objects it called for may have been changed in any way.
\<close>

fun touched :: "unstructured_lib \<Rightarrow> trace \<Rightarrow> (string \<times> string \<times> string) list" where
  "touched U [] = []"
| "touched U (ApplyObject x # cs) = identity U x # touched U cs"
| "touched U (DeleteObject x # cs) = identity U x # touched U cs"
| "touched U (k # cs) = touched U cs"

inductive cluster_step ::
  "api_server \<Rightarrow> ('c, 'v) reconciler \<Rightarrow> (string \<times> string \<times> string) set \<Rightarrow>
   metallb \<times> cluster \<times> bool \<Rightarrow> metallb \<times> cluster \<times> bool \<Rightarrow> bool"
  for S R managed where
  synchronise:
    "syncMetalLBResources R m h = (Ret (), h') \<Longrightarrow>
     cluster_step S R managed (m, c, b) (m, cluster_after S (ULib R) (drop (length h) h') c, True)"
| fail:
    "syncMetalLBResources R m h = (r, h') \<Longrightarrow> r \<noteq> Ret () \<Longrightarrow>
     (\<And>i. i \<notin> server_key S ` set (touched (ULib R) (drop (length h) h')) \<Longrightarrow> c' i = c i) \<Longrightarrow>
     cluster_step S R managed (m, c, b) (m, c', False)"
| edit: "cluster_step S R managed (m, c, b) (m\<lparr>Spec := spec\<rparr>, c, False)"
| others:
    "(\<And>i want. i \<in> managed \<Longrightarrow> meets S want (c i) \<Longrightarrow> meets S want (c' i)) \<Longrightarrow>
     cluster_step S R managed (m, c, b) (m, c', b)"

inductive_cases cluster_stepE: "cluster_step S R managed (m, c, b) (m', c', b')"

text \<open>Only a successful synchronisation makes a state synchronised.\<close>

lemma becomes_synced:
  "cluster_step S R managed (m, c, False) (m', c', True) \<Longrightarrow>
     m' = m \<and> (\<exists>h h'. syncMetalLBResources R m h = (Ret (), h') \<and>
                    c' = cluster_after S (ULib R) (drop (length h) h') c)"
  by (erule cluster_stepE) auto

text \<open>What holds of a synchronised state.\<close>

definition in_sync :: "api_server \<Rightarrow> ('c, 'v) reconciler \<Rightarrow> metallb \<times> cluster \<times> bool \<Rightarrow> bool" where
  "in_sync S R s =
     (case s of (m, c, b) \<Rightarrow>
        b \<longrightarrow> Validate (ExternalFRRK8sNamespace R) (Spec m) = None \<longrightarrow>
        (\<forall>toDel objs. chart_objects R (Spec m) toDel objs \<longrightarrow>
           (\<forall>i \<in> covered S R m toDel objs. meets S (wanted S R m objs i) (c i))))"

lemma in_sync_step:
  assumes "applying_server S" and "cluster_step S R managed s t" and "in_sync S R s"
    and charts: "\<And>m toDel objs. chart_objects R (Spec m) toDel objs \<Longrightarrow>
      distinct (map (key_of S (ULib R)) (applied_objects R m objs)) \<and> covered S R m toDel objs \<subseteq> managed"
  shows "in_sync S R t"
  using assms(2)
proof (cases rule: cluster_step.cases)
  case (synchronise m h h' c b)
  then show ?thesis
    using applying_server.sync_meets [OF assms(1) synchronise(3)] charts by (simp add: in_sync_def)
next
  case (others c c' m b)
  with assms(3) charts show ?thesis by (fastforce simp: in_sync_def)
qed (simp_all add: in_sync_def)

lemma in_sync_reachable:
  assumes "applying_server S" and "(cluster_step S R managed)\<^sup>*\<^sup>* s t" and "in_sync S R s"
    and "\<And>m toDel objs. chart_objects R (Spec m) toDel objs \<Longrightarrow>
      distinct (map (key_of S (ULib R)) (applied_objects R m objs)) \<and> covered S R m toDel objs \<subseteq> managed"
  shows "in_sync S R t"
  using assms(2,3) by (induction rule: rtranclp_induct) (blast intro: in_sync_step [OF assms(1) _ _ assms(4)])+

section \<open>Examples\<close>

lemma example_reconciler_charts [simp]:
  "HelmLib (example_reconciler env) = example_helm [example_workload ''ConfigMap'' ''startup'']"
  "frrk8sChart (example_reconciler env) = example_chart"
  "metalLBChart (example_reconciler env) = example_chart"
  by (simp_all add: example_reconciler_def)

lemma example_charts:
  "chart_objects (example_reconciler (example_config False)) zero_spec [example_rendered] [example_rendered]"
proof -
  have "BGPType zero_spec (example_config False) = FRRMode" by (simp add: BGPType_def zero_spec_def)
  then show ?thesis by (simp add: chart_objects_def example_chart_objects)
qed

lemma example_applied_objects:
  "applied_objects (example_reconciler (example_config False)) m [example_rendered] = [example_applied]"
  by (simp add: applied_objects_def skipped_def owned_def set_owner_def example_applied_def
      example_rendered_def get_str_def example_workload_def)

text \<open>Two charts that render one document each.\<close>

definition two_charts :: "string \<Rightarrow> obj" where
  "two_charts c = example_workload ''ConfigMap'' c"

definition two_charts_helm :: "string helm_lib" where
  "two_charts_helm =
     \<lparr>LocateChart = (\<lambda>_ p. Inr p), LoadChart = Inr, MergeValues = Inr Map.empty,
      RunInstall = (\<lambda>_ c _. Inr c),
      DecodeManifest = (\<lambda>m n. if n = 0 then Decoded (two_charts m) else DecodeEOF)\<rparr>"

definition two_charts_reconciler :: "(string, string) reconciler" where
  "two_charts_reconciler =
     \<lparr>Client = example_kube ready_daemonset ready_deployment,
      HelmLib = two_charts_helm, ULib = workload_lib,
      VersionLib = \<lparr>NewVersion = Inr, LessThan = (\<lambda>_ _. True)\<rparr>, ProviderFRR = ''FRR'',
      SetControllerReference = (\<lambda>_. Inr), GroupVersionKindString = (\<lambda>_. []),
      ExternalFRRK8sNamespace = [],
      metalLBChart = \<lparr>ChartClient = ChartClient example_chart, ChartContent = ''metallb''\<rparr>,
      frrk8sChart = \<lparr>ChartClient = ChartClient example_chart, ChartContent = ''frr-k8s''\<rparr>,
      EnvConfig = example_config False, lib_error_text = (\<lambda>f _. f), lib_unwrap_text = (\<lambda>_ _. None)\<rparr>"

lemma two_charts_parse:
  assumes "TrimSpace c \<noteq> []"
  shows "parseManifest (DecodeManifest two_charts_helm) c = Ret [two_charts c]"
  using assms by (simp add: parseManifest_Ret_iff two_charts_helm_def)

definition two_charts_object :: "string \<Rightarrow> obj" where
  "two_charts_object c = (two_charts c)(''metadata'' \<mapsto>
     GMap [''name'' \<mapsto> GStr c, ''namespace'' \<mapsto> GStr ''metallb-system''])"

lemma two_charts_metallb:
  "MetalLBChart_Objects two_charts_helm workload_lib (metalLBChart two_charts_reconciler)
     (example_config False) spec = Ret [two_charts_object ''metallb'']"
proof -
  have "TrimSpace ''metallb'' \<noteq> []" by code_simp
  moreover have "metallb_object workload_lib (example_config False) spec (two_charts ''metallb'') =
      Ret (two_charts_object ''metallb'')"
    by (simp add: example_run two_charts_def two_charts_object_def split: option.splits)
  ultimately show ?thesis
    using two_charts_parse [of "''metallb''"] unfolding MetalLBChart_Objects_def
    by (simp add: two_charts_helm_def two_charts_reconciler_def)
qed

lemma two_charts_frrk8s:
  "FRRK8SChart_Objects two_charts_helm workload_lib (frrk8sChart two_charts_reconciler)
     (example_config False) spec = Ret frr \<Longrightarrow> frr = [two_charts_object ''frr-k8s'']"
  "FRRK8SConfig spec = None \<Longrightarrow> FRRK8SChart_Objects two_charts_helm workload_lib
     (frrk8sChart two_charts_reconciler) (example_config False) spec = Ret [two_charts_object ''frr-k8s'']"
proof -
  have t: "TrimSpace ''frr-k8s'' \<noteq> []" by code_simp
  have "frrk8s_object workload_lib (example_config False) spec (two_charts ''frr-k8s'') =
      Ret (Some (two_charts_object ''frr-k8s''))"
    by (simp add: frrk8s_object_def example_run two_charts_def two_charts_object_def isFRRK8SDaemonset_def)
  then have run: "FRRK8SChart_Objects two_charts_helm workload_lib (frrk8sChart two_charts_reconciler)
      (example_config False) spec =
      bindO (outcome_of (patchChartValues (example_config False) spec Map.empty))
        (\<lambda>_. Ret [two_charts_object ''frr-k8s''])"
    using two_charts_parse [OF t] unfolding FRRK8SChart_Objects_def
    by (simp add: two_charts_helm_def two_charts_reconciler_def)
  show "FRRK8SChart_Objects two_charts_helm workload_lib (frrk8sChart two_charts_reconciler)
      (example_config False) spec = Ret frr \<Longrightarrow> frr = [two_charts_object ''frr-k8s'']"
    unfolding run by (auto simp: bindO_eq_Ret)
  show "FRRK8SConfig spec = None \<Longrightarrow> FRRK8SChart_Objects two_charts_helm workload_lib
      (frrk8sChart two_charts_reconciler) (example_config False) spec = Ret [two_charts_object ''frr-k8s'']"
    unfolding run using patchChartValues_Inr_iff [of "example_config False" spec Map.empty] by auto
qed

lemma two_charts_simps [simp]:
  "HelmLib two_charts_reconciler = two_charts_helm" "ULib two_charts_reconciler = workload_lib"
  "EnvConfig two_charts_reconciler = example_config False"
  "SetControllerReference two_charts_reconciler m x = Inr x"
  "ExternalFRRK8sNamespace two_charts_reconciler = []"
  by (simp_all add: two_charts_reconciler_def)

lemma two_charts_identity:
  "identity workload_lib (two_charts_object c) = (''ConfigMap'', ''metallb-system'', c)"
  by (simp add: identity_def get_str_def two_charts_object_def two_charts_def example_workload_def)

lemma two_charts_applied:
  "set xs \<subseteq> range two_charts_object \<Longrightarrow> applied_objects two_charts_reconciler m xs = xs"
  by (induction xs)
     (auto simp: applied_objects_def skipped_def owned_def set_owner_def get_str_def two_charts_object_def
       two_charts_def example_workload_def)

lemma two_charts_key:
  "key_of merging_server workload_lib (two_charts_object c) = (''ConfigMap'', ''metallb-system'', c)"
  by (simp add: two_charts_identity server_key_def merging_server_def)

lemma two_charts_distinct:
  assumes "chart_objects two_charts_reconciler spec toDel objs"
  shows "distinct (map (key_of merging_server workload_lib) (applied_objects two_charts_reconciler m objs))"
proof -
  from assms have "objs = [two_charts_object ''frr-k8s'', two_charts_object ''metallb''] \<or>
      objs = [two_charts_object ''metallb'']"
    using two_charts_frrk8s(1) by (auto simp: chart_objects_def two_charts_metallb split: if_splits)
  moreover from this have "set objs \<subseteq> range two_charts_object" by auto
  ultimately show ?thesis by (auto simp: two_charts_applied two_charts_key)
qed

lemma two_charts_sync:
  "\<exists>h'. syncMetalLBResources two_charts_reconciler (example_metallb zero_spec) [] = (Ret (), h')"
proof -
  let ?R = two_charts_reconciler
  let ?m = "example_metallb zero_spec"
  have b: "BGPType zero_spec (example_config False) = FRRMode" by (simp add: BGPType_def zero_spec_def)
  have v: "validateBGPMode zero_spec False = None" by (simp add: validateBGPMode_def zero_spec_def)
  have e: "embedded_frrk8s ?R zero_spec = return ()" by (simp add: embedded_frrk8s_def)
  have f: "FRRK8SConfig zero_spec = None" by (simp add: zero_spec_def)
  have k: "delete_object (Client ?R) h x = None" "apply_object (Client ?R) h x = None" for h x
    by (simp_all add: two_charts_reconciler_def example_kube_def)
  have "set_owner ?R ?m x = Inr x" for x by (simp add: set_owner_def)
  then show ?thesis
    by (simp add: syncMetalLBResources_def Let_def e example_valid v b two_charts_metallb
        two_charts_frrk8s(2) [OF f] io_simps)
       (simp add: bindK_def delete_step_run apply_step_run k io_simps)
qed

section \<open>Properties\<close>





end
