(* ===== verification/Progress.thy ===== *)
theory Progress
  imports Controller_Contracts
begin

text \<open>
  Progress of the reconciler on an API server that works: the server honours status writes, deletes and
  applies what it is asked to, and the speaker and the controller can be read. A reconciliation of a
  valid resource then reports how things stand, and comes back until MetalLB is available. The watch on
  the resource sees the operator's own status writes, so they keep the work queue busy.
\<close>

section \<open>A working server\<close>

text \<open>
  The clock is in nanoseconds. A time is stored as text, in RFC 3339, which has no fractions of a second.
\<close>

definition second :: "int \<Rightarrow> int" where
  "second t = t div 10 ^ 9 * 10 ^ 9"

definition stored :: "condition \<Rightarrow> condition" where
  "stored c = c\<lparr>LastTransitionTime := second (LastTransitionTime c)\<rparr>"

lemma second_mono: "t \<le> u \<Longrightarrow> second t \<le> second u"
  by (simp add: second_def zdiv_mono1)

lemma second_le: "second t \<le> t"
  using pos_mod_sign [of "10 ^ 9" t] by (simp add: second_def minus_mod_eq_div_mult [symmetric])

text \<open>The conditions that the server has for the resource after the calls of a trace.\<close>

fun status_after :: "condition list \<Rightarrow> trace \<Rightarrow> condition list" where
  "status_after cs [] = cs"
| "status_after cs (UpdateStatus m # h) = status_after (map stored (Conditions m)) h"
| "status_after cs (k # h) = status_after cs h"

text \<open>
  \<open>healthy R ns m toDel objs\<close>: the resource \<open>m\<close> stays as it is but for its status, it is valid and its
  backend supported, the charts render \<open>toDel\<close> and \<open>objs\<close>, and no call on them fails.
\<close>

definition healthy ::
  "('c, 'v) reconciler \<Rightarrow> string \<Rightarrow> metallb \<Rightarrow> obj list \<Rightarrow> obj list \<Rightarrow> bool" where
  "healthy R ns m toDel objs \<longleftrightarrow>
     (\<forall>h. get_metallb (Client R) h ns ''metallb'' = Inr (m\<lparr>Conditions := status_after (Conditions m) h\<rparr>)) \<and>
     Validate (ExternalFRRK8sNamespace R) (Spec m) = None \<and>
     validateBGPMode (Spec m) (IsOpenshift (EnvConfig R)) = None \<and>
     (\<forall>h. fst (embedded_frrk8s R (Spec m) h) = Ret ()) \<and>
     chart_objects R (Spec m) toDel objs \<and>
     (\<forall>h. \<forall>x\<in>set toDel. \<forall>e. delete_object (Client R) h x = Some e \<longrightarrow> IsNotFound (Client R) e) \<and>
     (\<forall>cs. \<forall>x\<in>set objs. \<not> skipped R x \<longrightarrow>
        (\<exists>y. set_owner R (m\<lparr>Conditions := cs\<rparr>) x = Inr y \<and> (\<forall>h. apply_object (Client R) h y = None))) \<and>
     (\<forall>h m'. update_status (Client R) h m' = None) \<and>
     (\<forall>h. \<exists>s. fst (IsMetalLBAvailable (Client R) ns h) \<in> {Ret None, Ret (Some (NotReady s))})"

lemma sync_succeeds:
  assumes v: "Validate (ExternalFRRK8sNamespace R) (Spec m) = None"
    and b: "validateBGPMode (Spec m) (IsOpenshift (EnvConfig R)) = None"
    and e: "fst (embedded_frrk8s R (Spec m) h) = Ret ()"
    and o: "chart_objects R (Spec m) toDel objs"
    and d: "\<And>h x e. x \<in> set toDel \<Longrightarrow> delete_object (Client R) h x = Some e \<Longrightarrow> IsNotFound (Client R) e"
    and a: "\<And>x. x \<in> set objs \<Longrightarrow> \<not> skipped R x \<Longrightarrow>
              \<exists>y. set_owner R m x = Inr y \<and> (\<forall>h. apply_object (Client R) h y = None)"
  shows "\<exists>h'. syncMetalLBResources R m h = (Ret (), h')"
proof -
  have "fst (delete_loop R toDel h) = Ret ()" for h
    using d by (intro deletes.loop_succeeds) (auto simp: delete_step_run split: option.splits)
  moreover have "fst (apply_loop R m objs h) = Ret ()" for h
  proof (rule applies.loop_succeeds)
    fix x h assume "x \<in> set objs"
    with a obtain y where "\<not> skipped R x \<Longrightarrow> set_owner R m x = Inr y \<and> (\<forall>h. apply_object (Client R) h y = None)"
      by blast
    then show "fst (apply_step R m x h) = Ret ()" by (simp add: apply_step_run)
  qed
  ultimately have run: "\<exists>h2. delete_loop R toDel h = (Ret (), h2)" "\<exists>h2. apply_loop R m objs h = (Ret (), h2)" for h
    by (metis fst_conv surj_pair)+
  obtain h1 where h1: "embedded_frrk8s R (Spec m) h = (Ret (), h1)" using e by (metis fst_conv surj_pair)
  obtain h2 where h2: "delete_loop R toDel h1 = (Ret (), h2)" using run(1) by blast
  obtain h3 where h3: "apply_loop R m objs h2 = (Ret (), h3)" using run(2) by blast
  obtain frr mlb where c: "FRRK8SChart_Objects (HelmLib R) (ULib R) (frrk8sChart R) (EnvConfig R) (Spec m) = Ret frr"
    "MetalLBChart_Objects (HelmLib R) (ULib R) (metalLBChart R) (EnvConfig R) (Spec m) = Ret mlb"
    and sorted: "toDel = (if BGPType (Spec m) (EnvConfig R) = FRRK8sMode then [] else frr)"
      "objs = (if BGPType (Spec m) (EnvConfig R) = FRRK8sMode then frr else []) @ mlb"
    using o by (auto simp: chart_objects_def split: if_splits)
  have "syncMetalLBResources R m h = bindK (delete_loop R toDel) (\<lambda>_. apply_loop R m objs) h1"
    using v b c unfolding sorted syncMetalLBResources_def Let_def
    by (simp add: bindK_def [of "embedded_frrk8s R (Spec m)"] h1 io_simps)
  also have "\<dots> = (Ret (), h3)" by (simp add: bindK_def h2 h3)
  finally show ?thesis by blast
qed

lemma healthy_sync:
  assumes "healthy R ns m toDel objs"
  shows "\<exists>h'. syncMetalLBResources R (m\<lparr>Conditions := cs\<rparr>) h = (Ret (), h')"
proof (rule sync_succeeds)
  show "chart_objects R (Spec (m\<lparr>Conditions := cs\<rparr>)) toDel objs"
    using assms by (simp add: healthy_def)
qed (use assms in \<open>auto simp: healthy_def\<close>)

section \<open>One reconciliation\<close>

lemma status_after_append: "status_after cs (h @ ks) = status_after (status_after cs h) ks"
  by (induction cs h rule: status_after.induct) simp_all

definition writes_status :: "kube_call \<Rightarrow> bool" where
  "writes_status c \<longleftrightarrow> (case c of UpdateStatus _ \<Rightarrow> True | _ \<Rightarrow> False)"

lemma status_after_same: "list_all (\<lambda>c. \<not> writes_status c) ks \<Longrightarrow> status_after cs ks = cs"
  by (induction cs ks rule: status_after.induct) (simp_all add: writes_status_def)

lemma network_call_status: "network_call c \<Longrightarrow> \<not> writes_status c"
  by (cases c) (simp_all add: network_call_def writes_status_def)

lemma sync_writes_no_status:
  assumes "syncMetalLBResources R m h = (r, h')" and "Validate (ExternalFRRK8sNamespace R) (Spec m) = None"
  shows "\<exists>us. h' = h @ us \<and> list_all (\<lambda>c. \<not> writes_status c) us"
proof -
  from sync_run [OF assms] obtain pre post where h': "h' = h @ pre @ post" "list_all network_call pre"
    and "post = [] \<or> (\<exists>toDel objs. prefix post (object_calls R m toDel objs))" by blast
  then have "list_all (\<lambda>c. \<not> writes_status c) post"
    by (auto simp: list_all_iff object_calls_def dest!: set_mono_prefix)
      (auto simp: writes_status_def split: kube_call.splits)
  moreover have "list_all (\<lambda>c. \<not> writes_status c) pre"
    using h'(2) network_call_status by (auto simp: list_all_iff)
  ultimately show ?thesis using h'(1) by (intro exI [of _ "pre @ post"]) simp
qed

lemma sync_run_prefix: "syncMetalLBResources R m h = (r, h') \<Longrightarrow> prefix h h'"
proof (cases "Validate (ExternalFRRK8sNamespace R) (Spec m) = None")
  case True
  then show "syncMetalLBResources R m h = (r, h') \<Longrightarrow> prefix h h'" using sync_run by fastforce
next
  case False
  then show "syncMetalLBResources R m h = (r, h') \<Longrightarrow> prefix h h'"
    using adds_onlyD [OF sync_invalid_adds] by fastforce
qed

lemma sync_grows: "syncMetalLBResources R m h = (r, h') \<Longrightarrow> length h \<le> length h'"
  by (rule prefix_length_le [OF sync_run_prefix])

lemma reports_only:
  assumes "c \<in> {ConditionAvailable, ConditionProgressing}" and "t \<in> {ConditionAvailable, ConditionProgressing, ConditionDegraded}"
  shows "condition_true t (getConditions now c r m) = (c = t)"
  using assms by (auto simp: getConditions_cases condition_true_def base_condition_def)

lemma condition_true_stored [simp]: "condition_true t (map stored cs) = condition_true t cs"
  by (auto simp: condition_true_def stored_def)

text \<open>
  What a status update leaves: the conditions were the same to the nanosecond, or they are written with
  the time of the second look at the clock.
\<close>

definition reported :: "kube \<Rightarrow> condition list \<Rightarrow> string \<Rightarrow> trace \<Rightarrow> trace \<Rightarrow> bool" where
  "reported K cs c h h' \<longleftrightarrow>
     (h' = h @ [TimeNow] \<and> status_after cs h = getConditions (clock K h) c c []) \<or>
     (\<exists>m. h' = h @ [TimeNow, TimeNow, UpdateStatus m] \<and>
          Conditions m = getConditions (clock K (h @ [TimeNow])) c c [])"

lemma Update_reports:
  assumes "\<And>h m'. update_status K h m' = None" and "Conditions m = status_after cs h"
  shows "\<exists>h'. Update K m c c [] h = (Ret (), h') \<and> reported K cs c h h'"
  using assms by (auto simp: Update_run Let_def reported_def)

lemma getConditions_not_Nil [simp]: "getConditions now c r m \<noteq> []"
  by (metis length_getConditions list.size(3) zero_neq_numeral)

lemma reported_grows: "reported K cs c h h' \<Longrightarrow> \<exists>ks. h' = h @ TimeNow # ks"
  by (auto simp: reported_def)

lemma reported_condition:
  assumes "reported K cs c h h'" and "c \<in> {ConditionAvailable, ConditionProgressing}"
    and "t \<in> {ConditionAvailable, ConditionProgressing, ConditionDegraded}"
  shows "condition_true t (status_after cs h') = (c = t)"
  using assms(1) reports_only [OF assms(2,3)] by (auto simp: reported_def status_after_append)

definition ready_after :: "('c, 'v) reconciler \<Rightarrow> string \<Rightarrow> trace \<Rightarrow> bool" where
  "ready_after R ns h \<longleftrightarrow> fst (IsMetalLBAvailable (Client R) ns h) = Ret None"

lemma healthy_reconcile:
  assumes "healthy R ns m toDel objs"
  obtains h1 h2 h3 where
    "syncMetalLBResources R (m\<lparr>Conditions := status_after (Conditions m) h\<rparr>) (h @ [GetMetalLB ns ''metallb'']) =
       (Ret (), h1)"
    "prefix h1 h2" "list_all (\<lambda>c. \<not> writes_status c) (drop (length h) h2)"
    "Reconcile R ns ''metallb'' h = (Ret (if ready_after R ns h1 then 0 else 5), h3)"
    "reported (Client R) (Conditions m) (if ready_after R ns h1 then ConditionAvailable else ConditionProgressing) h2 h3"
proof -
  let ?m = "m\<lparr>Conditions := status_after (Conditions m) h\<rparr>"
  let ?g = "h @ [GetMetalLB ns ''metallb'']"
  have g: "get_metallb (Client R) h ns ''metallb'' = Inr ?m" and
    v: "Validate (ExternalFRRK8sNamespace R) (Spec ?m) = None" and
    u: "\<And>h m'. update_status (Client R) h m' = None" and
    a: "\<And>h. \<exists>s. fst (IsMetalLBAvailable (Client R) ns h) \<in> {Ret None, Ret (Some (NotReady s))}"
    using assms unfolding healthy_def by simp_all
  obtain h1 where s: "syncMetalLBResources R ?m ?g = (Ret (), h1)" using healthy_sync [OF assms] by blast
  obtain us where us: "h1 = ?g @ us" "list_all (\<lambda>c. \<not> writes_status c) us"
    using sync_writes_no_status [OF s v] by blast
  obtain r h2 where av: "IsMetalLBAvailable (Client R) ns h1 = (r, h2)" by fastforce
  obtain ks where ks: "h2 = h1 @ ks" "list_all (\<lambda>c. \<not> writes_status c) ks"
    using av by (auto simp: IsMetalLBAvailable_run Let_def writes_status_def split: sum.splits option.splits)
  have no: "list_all (\<lambda>c. \<not> writes_status c) (drop (length h) h2)"
    using us ks by (simp add: writes_status_def)
  have same: "Conditions ?m = status_after (Conditions m) h2"
    using us ks by (simp add: status_after_append status_after_same)
  let ?c = "if ready_after R ns h1 then ConditionAvailable else ConditionProgressing"
  have run: "reconcileResource R ns ?m ?g = (Ret (if ready_after R ns h1 then 0 else 5, ?c, None), h2)"
    using a [of h1] av by (auto simp: reconcileResource_run s ready_after_def)
  obtain h3 where up: "Update (Client R) ?m ?c ?c [] h2 = (Ret (), h3)" "reported (Client R) (Conditions m) ?c h2 h3"
    using Update_reports [OF u same, of ?c] by blast
  have "Reconcile R ns ''metallb'' h = (Ret (if ready_after R ns h1 then 0 else 5), h3)"
    unfolding Reconcile_def bindK_asks g defaultMetalLBCrName_def
    using up(1) by (simp add: bindK_def run io_simps)
  moreover have "prefix h1 h2" using ks(1) by simp
  ultimately show thesis using that [OF s _ no _ up(2)] by simp
qed

text \<open>What the resource then says, and that the trace has grown.\<close>

lemma healthy_report:
  assumes "healthy R ns m toDel objs"
  obtains h1 h3 where "length h < length h1" "length h1 < length h3"
    "syncMetalLBResources R (m\<lparr>Conditions := status_after (Conditions m) h\<rparr>) (h @ [GetMetalLB ns ''metallb'']) =
       (Ret (), h1)"
    "Reconcile R ns ''metallb'' h = (Ret (if ready_after R ns h1 then 0 else 5), h3)"
    "\<forall>t\<in>{ConditionAvailable, ConditionProgressing, ConditionDegraded}.
       condition_true t (status_after (Conditions m) h3) =
         ((if ready_after R ns h1 then ConditionAvailable else ConditionProgressing) = t)"
proof -
  obtain h1 h2 h3 where run: "syncMetalLBResources R (m\<lparr>Conditions := status_after (Conditions m) h\<rparr>)
      (h @ [GetMetalLB ns ''metallb'']) = (Ret (), h1)" "prefix h1 h2"
    "Reconcile R ns ''metallb'' h = (Ret (if ready_after R ns h1 then 0 else 5), h3)"
    "reported (Client R) (Conditions m) (if ready_after R ns h1 then ConditionAvailable else ConditionProgressing) h2 h3"
    by (rule healthy_reconcile [OF assms])
  have "length h < length h1" using sync_grows [OF run(1)] by simp
  moreover have "length h1 < length h3"
    using reported_grows [OF run(4)] prefix_length_le [OF run(2)] by auto
  ultimately show thesis
    using that run(1,3) reported_condition [OF run(4)] by simp
qed

section \<open>The work queue\<close>

text \<open>
  The watch on the resource has no filter (\<open>For(&metallbv1beta1.MetalLB{})\<close>), so that it puts the
  resource into the queue whenever the server's copy has changed; a write that changes nothing is no
  event. The queue also holds the resource after an error, and when the reconciliation asked to come
  back. The result is whether it holds it after \<open>k\<close> reconciliations, or fewer if it came to rest.
\<close>

fun work_queue :: "('c, 'v) reconciler \<Rightarrow> string \<Rightarrow> condition list \<Rightarrow> nat \<Rightarrow> trace \<Rightarrow> bool \<times> trace" where
  "work_queue R ns cs 0 h = (True, h)"
| "work_queue R ns cs (Suc k) h =
     (case Reconcile R ns ''metallb'' h of
        (Ret r, h') \<Rightarrow>
          if r = 0 \<and> status_after cs h' = status_after cs h then (False, h') else work_queue R ns cs k h'
      | (Fail e, h') \<Rightarrow> work_queue R ns cs k h'
      | (_, h') \<Rightarrow> (False, h'))"

text \<open>A synchronisation takes at least a second, by a clock that does not go back.\<close>

definition takes_a_second :: "('c, 'v) reconciler \<Rightarrow> metallb \<Rightarrow> bool" where
  "takes_a_second R m \<longleftrightarrow>
     (\<forall>h ks. clock (Client R) h \<le> clock (Client R) (h @ ks)) \<and>
     (\<forall>cs h h'. syncMetalLBResources R (m\<lparr>Conditions := cs\<rparr>) h = (Ret (), h') \<longrightarrow>
        second (clock (Client R) h) < second (clock (Client R) h'))"

text \<open>The reconciliation then writes a later time than there was, to the second.\<close>

lemma slow_reconcile_writes:
  assumes "healthy R ns m toDel objs" and "takes_a_second R m"
    and "\<forall>c\<in>set (status_after (Conditions m) h). LastTransitionTime c \<le> second (clock (Client R) h)"
  obtains r h3 where "Reconcile R ns ''metallb'' h = (Ret r, h3)"
    "status_after (Conditions m) h3 \<noteq> status_after (Conditions m) h"
    "\<forall>c\<in>set (status_after (Conditions m) h3). LastTransitionTime c \<le> second (clock (Client R) h3)"
    "length (filter writes_status h3) = Suc (length (filter writes_status h))"
proof -
  let ?K = "Client R" and ?st = "status_after (Conditions m)"
  obtain h1 h2 h3 where s: "syncMetalLBResources R (m\<lparr>Conditions := ?st h\<rparr>) (h @ [GetMetalLB ns ''metallb'']) = (Ret (), h1)"
    and h2: "prefix h1 h2" and no: "list_all (\<lambda>c. \<not> writes_status c) (drop (length h) h2)"
    and rec: "Reconcile R ns ''metallb'' h = (Ret (if ready_after R ns h1 then 0 else 5), h3)"
    and rep: "reported ?K (Conditions m) (if ready_after R ns h1 then ConditionAvailable else ConditionProgressing) h2 h3"
    (is "reported _ _ ?c _ _")
    by (rule healthy_reconcile [OF assms(1)])
  have mono: "clock ?K g \<le> clock ?K (g @ ks)" for g ks using assms(2) by (simp add: takes_a_second_def)
  obtain us where us: "h2 = h @ us" using sync_run_prefix [OF s] h2 by (auto simp: prefix_def)
  have "second (clock ?K h) \<le> second (clock ?K (h @ [GetMetalLB ns ''metallb'']))" by (intro second_mono mono)
  also have "\<dots> < second (clock ?K h1)" using assms(2) s unfolding takes_a_second_def by blast
  also have "\<dots> \<le> second (clock ?K h2)" using h2 mono by (auto simp: prefix_def intro: second_mono)
  finally have late: "second (clock ?K h) < second (clock ?K h2)" .
  have st2: "?st h2 = ?st h"
    using no us by (simp add: status_after_append status_after_same)
  have "?st h2 \<noteq> getConditions (clock ?K h2) ?c ?c []"
  proof
    assume eq: "?st h2 = getConditions (clock ?K h2) ?c ?c []"
    obtain c where c: "c \<in> set (getConditions (clock ?K h2) ?c ?c [])"
      by (meson getConditions_not_Nil last_in_set)
    with eq st2 assms(3) have "clock ?K h2 \<le> second (clock ?K h)" using getConditions_time by metis
    with late second_le [of "clock ?K h2"] show False by simp
  qed
  with rep obtain m' where h3: "h3 = h2 @ [TimeNow, TimeNow, UpdateStatus m']"
    and m': "Conditions m' = getConditions (clock ?K (h2 @ [TimeNow])) ?c ?c []" by (auto simp: reported_def)
  have st3: "?st h3 = map stored (Conditions m')" by (simp add: h3 status_after_append)
  have t3: "LastTransitionTime c = second (clock ?K (h2 @ [TimeNow]))" if "c \<in> set (?st h3)" for c
    using that getConditions_time by (fastforce simp: st3 m' stored_def)
  have later: "second (clock ?K h) < second (clock ?K (h2 @ [TimeNow]))"
    using late second_mono [OF mono [of h2 "[TimeNow]"]] by simp
  have "?st h3 \<noteq> ?st h"
  proof
    assume eq: "?st h3 = ?st h"
    have "?st h3 \<noteq> []" by (simp add: st3 m')
    then obtain c where "c \<in> set (?st h3)" by (meson last_in_set)
    with eq assms(3) t3 later show False by (metis not_le)
  qed
  moreover have "second (clock ?K (h2 @ [TimeNow])) \<le> second (clock ?K h3)"
    using mono [of "h2 @ [TimeNow]" "[TimeNow, UpdateStatus m']"] by (simp add: h3 second_mono)
  moreover have "filter writes_status us = []"
    using no us by (simp add: list_all_iff filter_empty_conv)
  ultimately show thesis using that rec t3 by (simp add: h3 us writes_status_def)
qed

text \<open>It does come to rest where the reconciliation ends in the second that the status has already.\<close>

lemma same_second_stored:
  assumes "second t = second u"
  shows "map stored (getConditions t c r m) = map stored (getConditions u c r m)"
  using assms by (simp add: getConditions_def getBaseConditions_def base_condition_def stored_def Let_def)

lemma queue_rests_within_a_second:
  assumes "healthy R ns m toDel objs" and "\<And>h. ready_after R ns h" and "\<And>h. second (clock (Client R) h) = second t"
    and "status_after (Conditions m) h = map stored (getConditions t ConditionAvailable ConditionAvailable [])"
  shows "\<exists>h'. work_queue R ns (Conditions m) (Suc k) h = (False, h')"
proof -
  obtain h1 h2 h3 where s: "syncMetalLBResources R (m\<lparr>Conditions := status_after (Conditions m) h\<rparr>)
      (h @ [GetMetalLB ns ''metallb'']) = (Ret (), h1)" and p: "prefix h1 h2"
    and no: "list_all (\<lambda>c. \<not> writes_status c) (drop (length h) h2)"
    and rec: "Reconcile R ns ''metallb'' h = (Ret (if ready_after R ns h1 then 0 else 5), h3)"
    and rep: "reported (Client R) (Conditions m)
      (if ready_after R ns h1 then ConditionAvailable else ConditionProgressing) h2 h3"
    by (rule healthy_reconcile [OF assms(1)])
  obtain us where us: "h2 = h @ us" using sync_run_prefix [OF s] p by (auto simp: prefix_def)
  have "status_after (Conditions m) h2 = status_after (Conditions m) h"
    using no by (simp add: us status_after_append status_after_same)
  then have "status_after (Conditions m) h3 = status_after (Conditions m) h"
    using rep assms(2,4) same_second_stored [OF assms(3)] by (auto simp: reported_def status_after_append)
  with rec assms(2) show ?thesis by simp
qed

text \<open>A server whose workloads become ready after some calls, which take a second each, for an example.\<close>

definition example_live :: "nat \<Rightarrow> (unit, string) reconciler" where
  "example_live n = (example_reconciler (example_config False))
     \<lparr>Client := (Client (example_reconciler (example_config False)))
        \<lparr>get_metallb := (\<lambda>h ns nm. Inr ((example_metallb zero_spec)\<lparr>Conditions := status_after [] h\<rparr>)),
         get_daemonset := (\<lambda>h ns nm. Inr (if n \<le> length h then ready_daemonset
                                          else ready_daemonset\<lparr>NumberReady := 0\<rparr>)),
         clock := (\<lambda>h. int (length h) * 10 ^ 9)\<rparr>\<rparr>"

lemma example_live_ready: "ready_after (example_live n) ns h = (n \<le> length h)"
  by (auto simp: ready_after_def IsMetalLBAvailable_run Let_def example_live_def isDaemonSetReady_def
      isDeploymentReady_def ready_daemonset_def ready_deployment_def)

lemma example_live_healthy:
  "healthy (example_live n) ns (example_metallb zero_spec) [example_rendered] [example_rendered]"
proof -
  let ?R = "example_live n"
  have r: "EnvConfig ?R = example_config False" "ULib ?R = workload_lib" "ExternalFRRK8sNamespace ?R = []"
    "SetControllerReference ?R m x = Inr (x(''owner'' \<mapsto> GStr ''metallb''))"
    "delete_object (Client ?R) h x = None" "apply_object (Client ?R) h x = None"
    "update_status (Client ?R) h m = None" for h x m
    by (simp_all add: example_live_def) (simp add: example_reconciler_def example_kube_def)
  have "chart_objects ?R zero_spec [example_rendered] [example_rendered]"
  proof -
    have "BGPType zero_spec (example_config False) = FRRMode" by (simp add: BGPType_def zero_spec_def)
    moreover have "HelmLib ?R = example_helm [example_workload ''ConfigMap'' ''startup'']"
      "frrk8sChart ?R = example_chart" "metalLBChart ?R = example_chart"
      by (simp_all add: example_live_def example_reconciler_def)
    ultimately show ?thesis using r by (simp add: chart_objects_def example_chart_objects)
  qed
  moreover have "\<exists>s. fst (IsMetalLBAvailable (Client ?R) ns h) \<in> {Ret None, Ret (Some (NotReady s))}" for h
    by (auto simp: IsMetalLBAvailable_run Let_def example_live_def isDaemonSetReady_def
      isDeploymentReady_def ready_daemonset_def ready_deployment_def)
  moreover have "validateBGPMode zero_spec False = None" by (simp add: validateBGPMode_def zero_spec_def)
  moreover have "fst (embedded_frrk8s ?R zero_spec h) = Ret ()" for h
    by (simp add: embedded_frrk8s_def r io_simps example_config_def)
  moreover have "get_metallb (Client ?R) h ns ''metallb'' =
      Inr ((example_metallb zero_spec)\<lparr>Conditions := status_after (Conditions (example_metallb zero_spec)) h\<rparr>)" for h
    by (simp add: example_live_def) (simp add: example_metallb_def)
  ultimately show ?thesis
    using example_valid unfolding healthy_def by (simp add: r set_owner_def)
qed

lemma example_live_slow: "takes_a_second (example_live n) (example_metallb zero_spec)"
proof -
  let ?R = "example_live n" and ?m = "example_metallb zero_spec"
  have clock: "clock (Client ?R) h = int (length h) * 10 ^ 9" for h by (simp add: example_live_def)
  have "length h < length h'" if s: "syncMetalLBResources ?R (?m\<lparr>Conditions := cs\<rparr>) h = (Ret (), h')" for cs h h'
  proof -
    have "healthy ?R ns ?m [example_rendered] [example_rendered]" for ns by (rule example_live_healthy)
    then have v: "Validate (ExternalFRRK8sNamespace ?R) (Spec (?m\<lparr>Conditions := cs\<rparr>)) = None"
      and o: "chart_objects ?R (Spec ?m) [example_rendered] [example_rendered]" by (simp_all add: healthy_def)
    from sync_run [OF s v] obtain pre toDel objs where
      h': "h' = h @ pre @ object_calls ?R (?m\<lparr>Conditions := cs\<rparr>) toDel objs" and
      c: "chart_objects ?R (Spec ?m) toDel objs" by auto
    have "toDel = [example_rendered]" using chart_objects_unique [OF c o] by simp
    with h' show ?thesis by (simp add: object_calls_def)
  qed
  then show ?thesis by (simp add: takes_a_second_def clock second_def)
qed

section \<open>Properties\<close>

text \<open>
  On a working server a reconciliation of a valid resource reports the truth: it synchronises, and
  the resource then has the condition Available exactly when both workloads were read as ready after
  that, in which case it does not come back, and Progressing otherwise, in which case it comes back in
  five seconds; it is never Degraded.
\<close>

theorem reconcile_reports_truth:
  assumes "healthy R ns m toDel objs"
  shows "\<exists>h1 h2.
    syncMetalLBResources R (m\<lparr>Conditions := status_after (Conditions m) h\<rparr>) (h @ [GetMetalLB ns ''metallb'']) =
      (Ret (), h1) \<and>
    Reconcile R ns ''metallb'' h = (Ret (if ready_after R ns h1 then 0 else 5), h2) \<and>
    condition_true ConditionAvailable (status_after (Conditions m) h2) = ready_after R ns h1 \<and>
    condition_true ConditionProgressing (status_after (Conditions m) h2) = (\<not> ready_after R ns h1) \<and>
    \<not> condition_true ConditionDegraded (status_after (Conditions m) h2)"
proof -
  obtain h1 h3 where "length h < length h1" "length h1 < length h3"
    and run: "syncMetalLBResources R (m\<lparr>Conditions := status_after (Conditions m) h\<rparr>)
      (h @ [GetMetalLB ns ''metallb'']) = (Ret (), h1)"
    "Reconcile R ns ''metallb'' h = (Ret (if ready_after R ns h1 then 0 else 5), h3)"
    and says: "\<forall>t\<in>{ConditionAvailable, ConditionProgressing, ConditionDegraded}.
       condition_true t (status_after (Conditions m) h3) =
         ((if ready_after R ns h1 then ConditionAvailable else ConditionProgressing) = t)"
    by (rule healthy_report [OF assms, where h = h])
  show ?thesis using run says by (intro exI [of _ h1] exI [of _ h3]) simp
qed

theorem reconcile_reports_truth_witness:
  "\<exists>h2. Reconcile (example_live 0) ''metallb-system'' ''metallb'' [] = (Ret 0, h2) \<and>
        condition_true ConditionAvailable (status_after [] h2)"
proof -
  have "Conditions (example_metallb zero_spec) = []" by (simp add: example_metallb_def)
  with reconcile_reports_truth [OF example_live_healthy [of 0 "''metallb-system''"], of "[]"] show ?thesis
    by (auto simp: example_live_ready)
qed

text \<open>
  C9. Liveness: on a working server whose workloads are ready from some moment on, the resource is
  Available after at most one reconciliation for each call until that moment and one more, and stays so:
  whatever number of reconciliations the queue then asks for, and when it comes to rest.
\<close>

theorem eventually_available:
  assumes "healthy R ns m toDel objs" and "\<And>h. N \<le> length h \<Longrightarrow> ready_after R ns h" and "N - length h < k"
  shows "condition_true ConditionAvailable (status_after (Conditions m) (snd (work_queue R ns (Conditions m) k h)))"
  using assms(3)
proof (induction k arbitrary: h)
  case 0
  then show ?case by simp
next
  case (Suc k)
  obtain h1 h3 where len: "length h < length h1" "length h1 < length h3"
    and "syncMetalLBResources R (m\<lparr>Conditions := status_after (Conditions m) h\<rparr>)
      (h @ [GetMetalLB ns ''metallb'']) = (Ret (), h1)"
    and run: "Reconcile R ns ''metallb'' h = (Ret (if ready_after R ns h1 then 0 else 5), h3)"
    and says: "\<forall>t\<in>{ConditionAvailable, ConditionProgressing, ConditionDegraded}.
       condition_true t (status_after (Conditions m) h3) =
         ((if ready_after R ns h1 then ConditionAvailable else ConditionProgressing) = t)"
    by (rule healthy_report [OF assms(1)])
  consider (ready) "ready_after R ns h1" "k = 0" | (on) "N - length h3 < k" | (late) "\<not> ready_after R ns h1" "k = 0"
    using Suc.prems len by linarith
  then show ?case
  proof cases
    case ready
    with run says show ?thesis by auto
  next
    case on
    from Suc.IH [OF this] run says show ?thesis by (auto split: if_splits)
  next
    case late
    with Suc.prems have "N \<le> length h1" using len by linarith
    with assms(2) late show ?thesis by blast
  qed
qed

theorem eventually_available_witness:
  "condition_true ConditionAvailable (status_after [] (snd (work_queue (example_live 10) ''metallb-system'' [] 11 [])))"
proof -
  have c: "Conditions (example_metallb zero_spec) = []" by (simp add: example_metallb_def)
  have r: "\<And>h. 10 \<le> length h \<Longrightarrow> ready_after (example_live 10) ''metallb-system'' h" by (simp add: example_live_ready)
  show ?thesis
    using eventually_available [OF example_live_healthy r, where h = "[]" and k = 11] by (simp add: c)
qed

text \<open>
  C10. The operator wakes itself up: on a working server, where a synchronisation takes at least a second,
  every reconciliation writes the status again, with a later time, and this is an event for the watch on the resource. So the
  work queue never comes to rest, though the workloads are ready and nothing else changes.
\<close>

theorem status_writes_keep_queue_busy:
  assumes "healthy R ns m toDel objs" and "takes_a_second R m"
    and "\<forall>c\<in>set (status_after (Conditions m) h). LastTransitionTime c \<le> second (clock (Client R) h)"
  shows "\<exists>h'. work_queue R ns (Conditions m) k h = (True, h') \<and>
              length (filter writes_status h') = length (filter writes_status h) + k"
  using assms(3)
proof (induction k arbitrary: h)
  case 0
  show ?case by simp
next
  case (Suc k)
  obtain r h3 where "Reconcile R ns ''metallb'' h = (Ret r, h3)"
    "status_after (Conditions m) h3 \<noteq> status_after (Conditions m) h"
    and inv: "\<forall>c\<in>set (status_after (Conditions m) h3). LastTransitionTime c \<le> second (clock (Client R) h3)"
    and n: "length (filter writes_status h3) = Suc (length (filter writes_status h))"
    by (rule slow_reconcile_writes [OF assms(1,2) Suc.prems])
  with Suc.IH [OF inv] show ?case by simp
qed

theorem status_writes_keep_queue_busy_witness:
  "fst (work_queue (example_live 0) ''metallb-system'' [] 1000 []) \<and> ready_after (example_live 0) ''metallb-system'' []"
proof -
  have c: "Conditions (example_metallb zero_spec) = []" by (simp add: example_metallb_def)
  from status_writes_keep_queue_busy [OF example_live_healthy [of 0] example_live_slow, where h = "[]" and ns = "''metallb-system''" and k = 1000] show ?thesis
    by (auto simp: c example_live_ready)
qed

end
