(* ===== verification/Rendered_State.thy ===== *)
theory Rendered_State
  imports Helm_Rendering Convergence Progress
begin

text \<open>
  From the resource to the cluster: which objects, by kind and name, a synchronisation deletes and applies
  when Helm renders the repository's charts, and which of them are there afterwards.
\<close>

section \<open>Objects by mode\<close>

text \<open>
  The frr-k8s objects as the operator handles them: OpenShift has its own secret for the webhook. They
  are applied in frr-k8s mode and deleted in every other; roles are never applied.
\<close>

definition kept_frrk8s_ids :: "env_config \<Rightarrow> ident list" where
  "kept_frrk8s_ids env =
     filter (\<lambda>i. \<not> (IsOpenshift env \<and> i = (''Secret'', frrk8sWebhookSecretName))) (frrk8s_ids env)"

definition applied_ids :: "env_config \<Rightarrow> metallb_spec \<Rightarrow> ident list" where
  "applied_ids env spec =
     filter (\<lambda>i. fst i \<notin> {''Role'', ''RoleBinding''})
       ((if BGPType spec env = FRRK8sMode then kept_frrk8s_ids env else []) @ metallb_ids env spec)"

definition deleted_ids :: "env_config \<Rightarrow> metallb_spec \<Rightarrow> ident list" where
  "deleted_ids env spec = (if BGPType spec env = FRRK8sMode then [] else kept_frrk8s_ids env)"

definition scc_identity :: "string \<times> string \<times> string" where
  "scc_identity = (''SecurityContextConstraints'', [], SpeakerSCCName)"

lemma in_namespace_eq [simp]: "in_namespace ns i = in_namespace ns j \<longleftrightarrow> i = j"
  by (cases i; cases j) (simp add: in_namespace_def)

lemma in_namespace_image [simp]: "(k, ns, n) \<in> in_namespace ns ` S \<longleftrightarrow> (k, n) \<in> S"
  by (force simp: in_namespace_def image_iff)

lemma placed_iff:
  "KindNamespaced S k \<Longrightarrow> (k, ns, n) \<in> server_key S ` in_namespace ns ` X \<longleftrightarrow> (k, n) \<in> X"
  by (force simp: server_key_def in_namespace_def image_iff)

lemma inj_in_namespace: "inj_on (in_namespace ns) A"
  by (simp add: inj_on_def)

lemma applied_ids_distinct:
  assumes "\<not> (DeployPodMonitors env \<and> DeployServiceMonitors env)"
  shows "distinct (applied_ids env spec)"
  using assms
  by (cases "DeployPodMonitors env"; cases "DeployServiceMonitors env"; cases "BGPType spec env = FRRK8sMode";
      cases "BGPType spec env = FRRMode")
    (simp_all add: applied_ids_def kept_frrk8s_ids_def frrk8s_ids_def frrk8s_names metallb_ids_def
      metallb_base_ids_def metallb_monitor_ids_def backends)

section \<open>The reconciler on the repository's charts\<close>

text \<open>
  A reconciler that was set up, on a Helm that renders; setting the owner of an object keeps what
  identifies it.
\<close>

locale rendering_reconciler =
  fixes coalesce :: "obj \<Rightarrow> obj \<Rightarrow> obj" and files :: "'c \<Rightarrow> chart_files" and R :: "('c, 'v) reconciler"
    and complete :: "string \<Rightarrow> string list \<Rightarrow> go_error option" and ns :: string and R0 :: "('c, 'v) reconciler"
  assumes renders: "helm_renders coalesce (HelmLib R) (ULib R) files"
    and library: "workload_laws (ULib R)"
    and set_up: "SetupWithManager complete ns R0 = Inr R"
    and namespace: "EnvNamespace (EnvConfig R) \<noteq> []"
    and owner: "SetControllerReference R m x = Inr y \<Longrightarrow> identity (ULib R) y = identity (ULib R) x"
begin

lemma charts:
  shows "files (ChartContent (metalLBChart R)) = metallb_files"
    and "files (ChartContent (frrk8sChart R)) = frrk8s_files"
    and "ReleaseName (ChartClient (frrk8sChart R)) = ''frr-k8s''"
proof -
  obtain mc fc where R: "R = R0\<lparr>metalLBChart := mc, frrk8sChart := fc\<rparr>" and
    mc: "NewMetalLBChart (HelmLib R) MetalLBChartPathController defaultMetalLBCrName ns = Inr mc" and
    fc: "NewFRRK8SChart (HelmLib R) FRRK8SChartPathController ''frr-k8s'' ns = Inr fc"
    using set_up by (auto simp: SetupWithManager_def bindE_eq_Inr split: option.splits if_splits)
  show "files (ChartContent (metalLBChart R)) = metallb_files"
    "files (ChartContent (frrk8sChart R)) = frrk8s_files"
    "ReleaseName (ChartClient (frrk8sChart R)) = ''frr-k8s''"
    using helm_renders.new_metallb_chart [OF renders mc] helm_renders.new_frrk8s_chart [OF renders fc]
    by (subst R, simp)+
qed

abbreviation (input) "env \<equiv> EnvConfig R"
abbreviation (input) "U \<equiv> ULib R"

lemma owned_identity: "identity U (owned R m x) = identity U x"
  using owner by (auto simp: owned_def set_owner_def split: sum.splits)

lemma identity_skipped: "skipped R x \<longleftrightarrow> fst (identity U x) \<in> {''Role'', ''RoleBinding''}"
  by (simp add: skipped_def identity_def)

lemma applied_identities:
  "map (identity U) (applied_objects R m xs) =
     filter (\<lambda>i. fst i \<notin> {''Role'', ''RoleBinding''}) (map (identity U) xs)"
  by (simp add: applied_objects_def owned_identity identity_skipped filter_map comp_def)

lemma scc: "identity U SpeakerSCC = scc_identity"
  using workload_laws.axioms(1) [OF library]
  by (simp add: identity_def scc_identity_def SpeakerSCC_def SpeakerSCCName_def
      unstructured_laws.kind unstructured_laws.name unstructured_laws.namespace)

text \<open>What is deleted and applied, by identity.\<close>

lemma chart_identities:
  assumes "chart_objects R spec toDel objs"
  shows "mset (map (identity U) toDel) = mset (map (in_namespace (EnvNamespace env)) (deleted_ids env spec))"
    and "mset (map (identity U) (applied_objects R m objs)) =
           mset (map (in_namespace (EnvNamespace env)) (applied_ids env spec) @
             (if IsOpenshift env then [scc_identity] else []))"
    and "\<not> (DeployPodMonitors env \<and> DeployServiceMonitors env)"
    and "BGPType spec env = FRRK8sExternalMode \<Longrightarrow> frrk8s_namespace_value env spec \<noteq> []"
proof -
  let ?in = "in_namespace (EnvNamespace env)"
  let ?role = "\<lambda>i. fst i \<notin> {''Role'', ''RoleBinding''}"
  obtain frr mlb where frr: "FRRK8SChart_Objects (HelmLib R) U (frrk8sChart R) env spec = Ret frr"
    and mlb: "MetalLBChart_Objects (HelmLib R) U (metalLBChart R) env spec = Ret mlb"
    and split: "if BGPType spec env = FRRK8sMode then toDel = [] \<and> objs = frr @ mlb else toDel = frr \<and> objs = mlb"
    using assms by (auto simp: chart_objects_def)
  have f: "mset (map (identity U) frr) = mset (map ?in (kept_frrk8s_ids env))"
    using helm_renders.frrk8s_identities [OF renders library charts(2,3) namespace frr]
    by (simp add: kept_frrk8s_ids_def)
  note m = helm_renders.metallb_identities [OF renders library charts(1) namespace mlb]
  from m(1) obtain ys where ys: "mlb = ys @ (if IsOpenshift env then [SpeakerSCC] else [])"
    "mset (map (identity U) ys) = mset (map ?in (metallb_ids env spec))" by blast
  show "\<not> (DeployPodMonitors env \<and> DeployServiceMonitors env)" by (rule m(2))
  show "BGPType spec env = FRRK8sExternalMode \<Longrightarrow> frrk8s_namespace_value env spec \<noteq> []" by (rule m(3))
  show "mset (map (identity U) toDel) = mset (map ?in (deleted_ids env spec))"
    using f split by (auto simp: deleted_ids_def split: if_splits)
  have objs: "mset (map (identity U) objs) = mset (map ?in
      ((if BGPType spec env = FRRK8sMode then kept_frrk8s_ids env else []) @ metallb_ids env spec) @
      (if IsOpenshift env then [scc_identity] else []))"
    using f ys split by (auto simp: scc)
  have "mset (map (identity U) (applied_objects R m objs)) = filter_mset ?role (mset (map (identity U) objs))"
    by (simp only: applied_identities mset_filter)
  also have "\<dots> = mset (filter ?role (map ?in
      ((if BGPType spec env = FRRK8sMode then kept_frrk8s_ids env else []) @ metallb_ids env spec)) @
      (if IsOpenshift env then [scc_identity] else []))"
    unfolding objs by (simp add: scc_identity_def)
  also have "filter ?role (map ?in is) = map ?in (filter ?role is)" for "is"
    by (simp add: filter_map comp_def in_namespace_def)
  finally show "mset (map (identity U) (applied_objects R m objs)) =
      mset (map ?in (applied_ids env spec) @ (if IsOpenshift env then [scc_identity] else []))"
    by (simp only: applied_ids_def)
qed

lemma applied_distinct:
  assumes "chart_objects R spec toDel objs"
  shows "distinct (map (identity U) (applied_objects R m objs))"
proof -
  have "distinct (map (in_namespace (EnvNamespace env)) (applied_ids env spec) @
      (if IsOpenshift env then [scc_identity] else []))"
    using applied_ids_distinct [OF chart_identities(3) [OF assms], of spec] inj_in_namespace namespace
    by (auto simp: distinct_map scc_identity_def in_namespace_def)
  with chart_identities(2) [OF assms, of m] show ?thesis by (metis mset_eq_imp_distinct_iff)
qed

text \<open>The cluster after a successful synchronisation of a valid resource.\<close>

lemma synced_calls:
  assumes "syncMetalLBResources R m h = (Ret (), h')" and "Validate (ExternalFRRK8sNamespace R) (Spec m) = None"
  obtains pre toDel objs where "h' = h @ pre @ map DeleteObject toDel @ map ApplyObject (applied_objects R m objs)"
    and "list_all network_call pre" and "chart_objects R (Spec m) toDel objs"
  using sync_run [OF assms] by (auto simp: object_calls_applied)

lemma server_key_scc: "server_key S scc_identity = scc_identity"
  by (simp add: server_key_def scc_identity_def)

lemma synced_cluster:
  assumes "syncMetalLBResources R m h = (Ret (), h')" and "Validate (ExternalFRRK8sNamespace R) (Spec m) = None"
  shows "cluster_after S U (drop (length h) h') c i \<noteq> None \<longleftrightarrow>
     i \<in> server_key S ` in_namespace (EnvNamespace env) ` set (applied_ids env (Spec m)) \<or>
     (IsOpenshift env \<and> i = scc_identity) \<or>
     (i \<notin> server_key S ` in_namespace (EnvNamespace env) ` set (deleted_ids env (Spec m)) \<and> c i \<noteq> None)"
proof -
  obtain pre toDel objs where objs: "chart_objects R (Spec m) toDel objs"
    using synced_calls [OF assms] by blast
  note ids = chart_identities [OF objs]
  have keys: "key_of S U ` A = server_key S ` identity U ` A" for A by (simp add: image_image)
  have "identity U ` set (applied_objects R m objs) =
      in_namespace (EnvNamespace env) ` set (applied_ids env (Spec m)) \<union> (if IsOpenshift env then {scc_identity} else {})"
    using mset_eq_setD [OF ids(2) [of m]] by auto
  then have applied: "key_of S U ` set (applied_objects R m objs) =
      server_key S ` in_namespace (EnvNamespace env) ` set (applied_ids env (Spec m)) \<union>
      (if IsOpenshift env then {scc_identity} else {})"
    unfolding keys by (simp add: image_Un server_key_scc)
  have deleted: "key_of S U ` set toDel = server_key S ` in_namespace (EnvNamespace env) ` set (deleted_ids env (Spec m))"
    using mset_eq_setD [OF ids(1)] unfolding keys by simp
  show ?thesis unfolding sync_exists [OF assms objs] applied deleted by auto
qed

lemma applied_identity:
  assumes "chart_objects R spec toDel objs" and "i \<in> set (applied_ids env spec)"
  shows "\<exists>y\<in>set (applied_objects R m objs). identity U y = in_namespace (EnvNamespace env) i"
proof -
  have "in_namespace (EnvNamespace env) i \<in> identity U ` set (applied_objects R m objs)"
    using mset_eq_setD [OF chart_identities(2) [OF assms(1), of m]] assms(2) by simp
  then show ?thesis by force
qed

text \<open>In frr mode the two charts share the name of a config map.\<close>

lemma frr_startup_shared:
  assumes "chart_objects R spec toDel objs" and "BGPType spec env = FRRMode"
  shows "\<exists>x\<in>set toDel. identity U x = (''ConfigMap'', EnvNamespace env, ''frr-startup'')"
    and "\<exists>y\<in>set (applied_objects R m objs). identity U y = (''ConfigMap'', EnvNamespace env, ''frr-startup'')"
proof -
  let ?i = "(''ConfigMap'', EnvNamespace env, ''frr-startup'')"
  have i: "?i = in_namespace (EnvNamespace env) (''ConfigMap'', ''frr-startup'')" by (simp add: in_namespace_def)
  have "(''ConfigMap'', ''frr-startup'') \<in> set (deleted_ids env spec)"
    using assms(2) by (simp add: deleted_ids_def kept_frrk8s_ids_def frrk8s_ids_def backends)
  then have "?i \<in> identity U ` set toDel"
    using mset_eq_setD [OF chart_identities(1) [OF assms(1)]] i by auto
  then show "\<exists>x\<in>set toDel. identity U x = ?i" by auto
  have "(''ConfigMap'', ''frr-startup'') \<in> set (applied_ids env spec)"
    using assms(2) by (simp add: applied_ids_def metallb_ids_def backends)
  from applied_identity [OF assms(1) this] i show "\<exists>y\<in>set (applied_objects R m objs). identity U y = ?i" by simp
qed

lemma external_needs_namespace:
  assumes "BGPType (Spec m) env = FRRK8sExternalMode" and "frrk8s_namespace_value env (Spec m) = []"
    and "Validate (ExternalFRRK8sNamespace R) (Spec m) = None"
  shows "syncMetalLBResources R m h \<noteq> (Ret (), h')"
proof
  assume "syncMetalLBResources R m h = (Ret (), h')"
  from synced_calls [OF this assms(3)] obtain toDel objs where "chart_objects R (Spec m) toDel objs" by blast
  from chart_identities(4) [OF this assms(1)] assms(2) show False by simp
qed

end

section \<open>The operator on its own charts, for examples\<close>

definition repo_reconciler :: "env_config \<Rightarrow> (chart_files, string) reconciler" where
  "repo_reconciler env =
     \<lparr>Client = Client (example_live 0), HelmLib = rendering_helm, ULib = workload_lib,
      VersionLib = \<lparr>NewVersion = Inr, LessThan = (\<lambda>_ _. True)\<rparr>, ProviderFRR = ''FRR'',
      SetControllerReference = (\<lambda>_. Inr), GroupVersionKindString = (\<lambda>_. []), ExternalFRRK8sNamespace = [],
      metalLBChart = \<lparr>ChartClient = \<lparr>ReleaseName = ''metallb'', DryRun = True, ClientOnly = True,
                        InstallNamespace = EnvNamespace env\<rparr>, ChartContent = metallb_files\<rparr>,
      frrk8sChart = \<lparr>ChartClient = \<lparr>ReleaseName = ''frr-k8s'', DryRun = True, ClientOnly = True,
                       InstallNamespace = EnvNamespace env\<rparr>, ChartContent = frrk8s_files\<rparr>,
      EnvConfig = env, lib_error_text = (\<lambda>f _. f), lib_unwrap_text = (\<lambda>_ _. None)\<rparr>"

lemma repo_set_up_client:
  "SetupWithManager (\<lambda>_ _. None) (EnvNamespace env) ((repo_reconciler env)\<lparr>Client := K\<rparr>) =
     Inr ((repo_reconciler env)\<lparr>Client := K\<rparr>)"
  by (simp add: SetupWithManager_def NewMetalLBChart_def NewFRRK8SChart_def repo_reconciler_def rendering_helm_def
      MetalLBChartPathController_def FRRK8SChartPathController_def defaultMetalLBCrName_def)

lemma repo_rendering_client:
  assumes "EnvNamespace env \<noteq> []"
  shows "rendering_reconciler coalesce_values (\<lambda>f. f) ((repo_reconciler env)\<lparr>Client := K\<rparr>) (\<lambda>_ _. None)
           (EnvNamespace env) ((repo_reconciler env)\<lparr>Client := K\<rparr>)"
proof (rule rendering_reconciler.intro)
  let ?R = "(repo_reconciler env)\<lparr>Client := K\<rparr>"
  show "helm_renders coalesce_values (HelmLib ?R) (ULib ?R) (\<lambda>f. f)"
    using rendering.helm_renders_axioms by (simp add: repo_reconciler_def)
  show "workload_laws (ULib ?R)"
    using workload_lib_workload_laws by (simp add: repo_reconciler_def)
  show "SetupWithManager (\<lambda>_ _. None) (EnvNamespace env) ?R = Inr ?R" by (rule repo_set_up_client)
qed (use assms in \<open>auto simp: repo_reconciler_def\<close>)

lemma repo_set_up:
  "SetupWithManager (\<lambda>_ _. None) (EnvNamespace env) (repo_reconciler env) = Inr (repo_reconciler env)"
  using repo_set_up_client [of env "Client (repo_reconciler env)"] by simp

lemma repo_rendering:
  assumes "EnvNamespace env \<noteq> []"
  shows "rendering_reconciler coalesce_values (\<lambda>f. f) (repo_reconciler env) (\<lambda>_ _. None) (EnvNamespace env)
           (repo_reconciler env)"
  using repo_rendering_client [OF assms, of "Client (repo_reconciler env)"] by simp

interpretation repo: rendering_reconciler coalesce_values "\<lambda>f. f" "repo_reconciler (example_config b)"
    "\<lambda>_ _. None" "EnvNamespace (example_config b)" "repo_reconciler (example_config b)" for b
  by (rule repo_rendering) simp

text \<open>Off OpenShift and without configured workloads the documents only get their namespace.\<close>

lemma plain_objects:
  assumes "\<not> IsOpenshift env" and "ControllerConfig spec = None" and "SpeakerConfig spec = None"
  shows "metallb_object U env spec x = Ret (namespaced U env x)"
    and "frrk8s_object U env spec x = Ret (Some (namespaced U env x))"
  using assms
  by (simp_all add: metallb_object_def frrk8s_object_def overrideControllerParameters_def
      overrideSpeakerParameters_def no_openshift_edits Let_def)

lemma plain_charts:
  assumes "\<not> IsOpenshift env" and "ControllerConfig spec = None" and "SpeakerConfig spec = None"
    and "FRRK8SConfig spec = None" and "BGPType spec env = FRRMode"
    and "\<not> (DeployPodMonitors env \<and> DeployServiceMonitors env)"
  shows "\<exists>toDel objs. chart_objects (repo_reconciler env) spec toDel objs"
proof -
  let ?R = "repo_reconciler env"
  have r: "HelmLib ?R = rendering_helm" "ULib ?R = workload_lib" "EnvConfig ?R = env"
    by (simp_all add: repo_reconciler_def)
  obtain v where v: "patchChartValues env spec Map.empty = Inr v"
    using patchChartValues_Inr_iff [of env spec Map.empty] assms(4) by auto
  have plain: "mapO (metallb_object U env spec) xs = Ret (map (namespaced U env) xs)" for U xs
    by (induction xs) (simp_all add: plain_objects [OF assms(1-3)])
  have "rendered coalesce_values (ChartClient (frrk8sChart ?R)) (ChartContent (frrk8sChart ?R)) v = Inr (frrk8s_ids env)"
    using frrk8s_chart_renders [OF chart_values.coalesce_laws_axioms v]
    by (simp add: rendered_def frrk8s_files_def repo_reconciler_def)
  then have "FRRK8SChart_Objects rendering_helm workload_lib (frrk8sChart ?R) env spec =
      frrk8s_objects workload_lib env spec [] (map (\<lambda>(k, n). example_workload k n) (frrk8s_ids env))"
    using v parse_print_ids [of "frrk8s_ids env"]
    by (simp add: FRRK8SChart_Objects_def rendering_helm_def)
  moreover have "frrk8s_objects U env spec res xs = Ret (res @ map (namespaced U env) xs)" for U res xs
    by (induction xs arbitrary: res) (simp_all add: plain_objects [OF assms(1-3)])
  moreover have "rendered coalesce_values (ChartClient (metalLBChart ?R)) (ChartContent (metalLBChart ?R))
      (metallb_values env spec) = Inr (metallb_ids env spec)"
    using metallb_chart_renders [OF chart_values.coalesce_laws_axioms] assms(5,6)
    by (simp add: rendered_def metallb_files_def repo_reconciler_def backends)
  then have "MetalLBChart_Objects rendering_helm workload_lib (metalLBChart ?R) env spec =
      Ret (map (namespaced workload_lib env) (map (\<lambda>(k, n). example_workload k n) (metallb_ids env spec)))"
    using assms(1) parse_print_ids [of "metallb_ids env spec"]
    by (simp add: MetalLBChart_Objects_def rendering_helm_def plain)
  ultimately show ?thesis using assms(5) by (simp add: chart_objects_def r backends)
qed

lemma repo_simps [simp]:
  "EnvConfig (repo_reconciler env) = env" "ULib (repo_reconciler env) = workload_lib"
  "ExternalFRRK8sNamespace (repo_reconciler env) = []" "SetControllerReference (repo_reconciler env) m x = Inr x"
  "Client (repo_reconciler env) = Client (example_live 0)"
  by (simp_all add: repo_reconciler_def)

lemma repo_sync:
  assumes "\<not> IsOpenshift env" and "\<not> (DeployPodMonitors env \<and> DeployServiceMonitors env)"
  shows "\<exists>h'. syncMetalLBResources (repo_reconciler env) (example_metallb zero_spec) h = (Ret (), h')"
proof -
  let ?R = "repo_reconciler env"
  have "BGPType zero_spec env = FRRMode" using assms(1) by (simp add: BGPType_def zero_spec_def)
  then obtain toDel objs where objs: "chart_objects ?R zero_spec toDel objs"
    using plain_charts [OF assms(1) _ _ _ _ assms(2), of zero_spec] by (auto simp: zero_spec_def)
  have k: "delete_object (Client (example_live 0)) h x = None" "apply_object (Client (example_live 0)) h x = None" for h x
    by (simp_all add: example_live_def example_reconciler_def example_kube_def)
  show ?thesis
  proof (rule sync_succeeds)
    show "chart_objects ?R (Spec (example_metallb zero_spec)) toDel objs" using objs by simp
    show "fst (embedded_frrk8s ?R (Spec (example_metallb zero_spec)) h) = Ret ()"
      using assms(1) by (simp add: embedded_frrk8s_def io_simps)
    show "validateBGPMode (Spec (example_metallb zero_spec)) (IsOpenshift (EnvConfig ?R)) = None"
      by (simp add: validateBGPMode_def zero_spec_def)
  qed (simp_all add: example_valid k set_owner_def)
qed

section \<open>Properties\<close>

text \<open>
  C3. What is in the cluster after a successful synchronisation of a valid resource, whatever was there
  before, when Helm renders the repository's charts: exactly the objects that the mode asks for, by kind,
  namespace (where the server keeps one for the kind) and name (the workloads, the policy, the monitors, the
  startup configuration, in frr-k8s mode the frr-k8s objects, on OpenShift the security context
  constraints); none of the frr-k8s objects in any other mode; and of everything else what there was.
\<close>

theorem synced_cluster_has_chart_objects:
  assumes "rendering_reconciler coalesce files R complete ns R0"
    and "syncMetalLBResources R m h = (Ret (), h')" and "Validate (ExternalFRRK8sNamespace R) (Spec m) = None"
  shows "cluster_after S (ULib R) (drop (length h) h') c i \<noteq> None \<longleftrightarrow>
     i \<in> server_key S ` in_namespace (EnvNamespace (EnvConfig R)) ` set (applied_ids (EnvConfig R) (Spec m)) \<or>
     (IsOpenshift (EnvConfig R) \<and> i = scc_identity) \<or>
     (i \<notin> server_key S ` in_namespace (EnvNamespace (EnvConfig R)) ` set (deleted_ids (EnvConfig R) (Spec m)) \<and> c i \<noteq> None)"
  by (rule rendering_reconciler.synced_cluster [OF assms])

theorem synced_cluster_has_chart_objects_witness:
  "\<exists>h'. syncMetalLBResources (repo_reconciler (example_config False)) (example_metallb zero_spec) [] = (Ret (), h') \<and>
     cluster_after merging_server workload_lib h' Map.empty (''DaemonSet'', ''metallb-system'', ''speaker'') \<noteq> None \<and>
     cluster_after merging_server workload_lib h' (\<lambda>_. Some Map.empty) (''DaemonSet'', ''metallb-system'', ''frr-k8s'') = None"
proof -
  let ?R = "repo_reconciler (example_config False)"
  have b: "BGPType zero_spec (example_config False) = FRRMode" by (simp add: BGPType_def zero_spec_def)
  obtain h' where h': "syncMetalLBResources ?R (example_metallb zero_spec) [] = (Ret (), h')"
    using repo_sync [of "example_config False" "[]"] by (auto simp: example_config_def)
  have v: "Validate (ExternalFRRK8sNamespace ?R) (Spec (example_metallb zero_spec)) = None" by (simp add: example_valid)
  have d: "KindNamespaced merging_server ''DaemonSet''" by (simp add: merging_server_def)
  note t = synced_cluster_has_chart_objects [OF repo.rendering_reconciler_axioms h' v, where S = merging_server]
  have "(''DaemonSet'', ''speaker'') \<in> set (applied_ids (example_config False) zero_spec)"
    by (simp add: applied_ids_def metallb_ids_def)
  moreover have "(''DaemonSet'', ''frr-k8s'') \<in> set (deleted_ids (example_config False) zero_spec)"
    by (simp add: deleted_ids_def b kept_frrk8s_ids_def frrk8s_ids_def frrk8s_names backends)
  moreover have "(''DaemonSet'', ''frr-k8s'') \<notin> set (applied_ids (example_config False) zero_spec)"
    by (simp add: applied_ids_def b metallb_ids_def metallb_base_ids_def metallb_monitor_ids_def backends)
  ultimately show ?thesis
    using h' t [of Map.empty "(''DaemonSet'', ''metallb-system'', ''speaker'')"]
      t [of "\<lambda>_. Some Map.empty" "(''DaemonSet'', ''metallb-system'', ''frr-k8s'')"]
    by (intro exI [of _ h']) (simp add: placed_iff [OF d] scc_identity_def)
qed

text \<open>
  C28. Both charts name a config map frr-startup, in the same namespace. So in frr mode every successful
  synchronisation of a valid resource deletes the one that the speaker pods mount, as one of the frr-k8s
  objects, and applies it again later on, even if nothing has changed.
\<close>

theorem frr_mode_recreates_startup_config:
  assumes "rendering_reconciler coalesce files R complete ns R0"
    and "syncMetalLBResources R m h = (Ret (), h')" and "Validate (ExternalFRRK8sNamespace R) (Spec m) = None"
    and "BGPType (Spec m) (EnvConfig R) = FRRMode"
  shows "\<exists>us x vs y. h' = h @ us @ DeleteObject x # vs \<and> ApplyObject y \<in> set vs \<and>
           identity (ULib R) x = (''ConfigMap'', EnvNamespace (EnvConfig R), ''frr-startup'') \<and>
           identity (ULib R) y = identity (ULib R) x"
proof -
  from rendering_reconciler.synced_calls [OF assms(1-3)] obtain pre toDel objs where
    h': "h' = h @ pre @ map DeleteObject toDel @ map ApplyObject (applied_objects R m objs)"
    and objs: "chart_objects R (Spec m) toDel objs" by blast
  note shared = rendering_reconciler.frr_startup_shared [OF assms(1) objs assms(4)]
  obtain x where x: "x \<in> set toDel" "identity (ULib R) x = (''ConfigMap'', EnvNamespace (EnvConfig R), ''frr-startup'')"
    using shared(1) by blast
  obtain y where y: "y \<in> set (applied_objects R m objs)"
    "identity (ULib R) y = (''ConfigMap'', EnvNamespace (EnvConfig R), ''frr-startup'')"
    using shared(2) by blast
  from x(1) obtain as bs where "toDel = as @ x # bs" by (meson split_list)
  with h' have "h' = h @ (pre @ map DeleteObject as) @
      DeleteObject x # (map DeleteObject bs @ map ApplyObject (applied_objects R m objs))" by simp
  moreover have "ApplyObject y \<in> set (map DeleteObject bs @ map ApplyObject (applied_objects R m objs))"
    using y(1) by simp
  ultimately show ?thesis using x(2) y(2) by metis
qed

theorem frr_mode_recreates_startup_config_witness:
  "\<exists>h' us x vs. syncMetalLBResources (repo_reconciler (example_config False)) (example_metallb zero_spec) [] =
       (Ret (), h') \<and> h' = us @ DeleteObject x # vs \<and> GetName workload_lib x = ''frr-startup''"
proof -
  let ?R = "repo_reconciler (example_config False)"
  obtain h' where h': "syncMetalLBResources ?R (example_metallb zero_spec) [] = (Ret (), h')"
    using repo_sync [of "example_config False" "[]"] by (auto simp: example_config_def)
  have v: "Validate (ExternalFRRK8sNamespace ?R) (Spec (example_metallb zero_spec)) = None" by (simp add: example_valid)
  have b: "BGPType (Spec (example_metallb zero_spec)) (EnvConfig ?R) = FRRMode" by (simp add: BGPType_def zero_spec_def)
  from frr_mode_recreates_startup_config [OF repo.rendering_reconciler_axioms h' v b]
  obtain us x vs where "h' = us @ DeleteObject x # vs" "GetName (ULib ?R) x = ''frr-startup''"
    by (auto simp: identity_def)
  with h' show ?thesis by auto
qed

text \<open>
  C27. Where the environment makes the external frr-k8s the default backend and names no namespace for it,
  a resource that leaves both out passes validation, but the chart refuses the empty namespace: no
  synchronisation succeeds, and the resource is never reported Available.
\<close>

theorem default_external_backend_needs_namespace:
  assumes "rendering_reconciler coalesce files R complete ns R0"
    and "IsOpenshift (EnvConfig R) \<and> MustDeployFRRK8sFromCNO (EnvConfig R) \<and> FRRK8sExternalNamespace (EnvConfig R) = []"
    and "BGPBackend (Spec m) = [] \<and> FRRK8SConfig (Spec m) = None"
    and "Validate (ExternalFRRK8sNamespace R) (Spec m) = None"
  shows "fst (syncMetalLBResources R m h) \<noteq> Ret () \<and>
         (\<forall>res err. fst (reconcileResource R rns m h) \<noteq> Ret (res, ConditionAvailable, err))"
proof -
  have "BGPType (Spec m) (EnvConfig R) = FRRK8sExternalMode" using assms(2,3) by (simp add: BGPType_def)
  moreover have "frrk8s_namespace_value (EnvConfig R) (Spec m) = []"
    using assms(2,3) by (simp add: frrk8s_namespace_value_def)
  ultimately have "syncMetalLBResources R m h \<noteq> (Ret (), h')" for h'
    using rendering_reconciler.external_needs_namespace [OF assms(1)] assms(4) by blast
  then have "fst (syncMetalLBResources R m h) \<noteq> Ret ()" by (metis surj_pair fst_conv)
  then show ?thesis
    by (auto simp: reconcileResource_run ConditionDegraded_def ConditionAvailable_def
        split: prod.splits outcome.splits)
qed

theorem default_external_backend_needs_namespace_witness:
  "fst (syncMetalLBResources (repo_reconciler ((example_config True)\<lparr>MustDeployFRRK8sFromCNO := True\<rparr>))
          (example_metallb zero_spec) []) \<noteq> Ret () \<and> Validate [] zero_spec = None"
proof -
  let ?env = "(example_config True)\<lparr>MustDeployFRRK8sFromCNO := True\<rparr>"
  have e: "EnvNamespace ?env \<noteq> []" by simp
  have "Validate (ExternalFRRK8sNamespace (repo_reconciler ?env)) (Spec (example_metallb zero_spec)) = None"
    by (simp add: example_valid)
  from default_external_backend_needs_namespace [OF repo_rendering [OF e] _ _ this]
  show ?thesis by (simp add: example_config_def zero_spec_def example_valid [unfolded zero_spec_def])
qed

end
