(* ===== verification/Permissions.thy ===== *)
theory Permissions
  imports Rendered_State Main_Contracts
begin

text \<open>
  The permissions of the operator: the roles that the markers in the code ask for, the requests that its
  calls make to the API server, and that the roles cover the calls, except where pod monitors are deployed.
\<close>

section \<open>The roles\<close>

text \<open>A rule, of the cluster role where it has no namespace; without resource names it is for all of them.\<close>

record policy_rule =
  RuleNamespace :: string
  RuleGroup :: string
  RuleResources :: "string list"
  RuleNames :: "string list"
  RuleVerbs :: "string list"

definition rule :: "string \<Rightarrow> string \<Rightarrow> string list \<Rightarrow> string list \<Rightarrow> policy_rule" where
  "rule ns g rs vs = \<lparr>RuleNamespace = ns, RuleGroup = g, RuleResources = rs, RuleNames = [], RuleVerbs = vs\<rparr>"

definition all_verbs :: "string list" where
  "all_verbs = [''get'', ''list'', ''watch'', ''create'', ''update'', ''patch'', ''delete'']"

text \<open>The \<open>+kubebuilder:rbac\<close> markers of the controller and of \<open>main.go\<close>, in their order.\<close>

definition controller_markers :: "policy_rule list" where
  "controller_markers =
    [rule ''metallb-system'' ''apps'' [''deployments'', ''daemonsets''] all_verbs,
     rule [] ''monitoring.coreos.com'' [''podmonitors''] all_verbs,
     rule [] ''monitoring.coreos.com'' [''servicemonitors''] all_verbs,
     rule ''metallb-system'' [] [''services''] [''create'', ''delete'', ''get'', ''update'', ''patch''],
     rule ''metallb-system'' ''coordination.k8s.io'' [''leases''] all_verbs,
     rule ''metallb-system'' [] [''events''] [''create'', ''patch''],
     rule ''metallb-system'' [] [''configmaps''] all_verbs,
     rule [] ''apps'' [''deployments'', ''daemonsets''] [''list'', ''watch''],
     rule [] ''metallb.io'' [''metallbs''] all_verbs,
     rule [] ''metallb.io'' [''metallbs/status''] [''get'', ''update'', ''patch''],
     rule [] ''policy'' [''podsecuritypolicies''] all_verbs,
     rule [] ''metallb.io'' [''metallbs/finalizers''] [''delete'', ''get'', ''update'', ''patch''],
     rule [] ''apiextensions.k8s.io'' [''customresourcedefinitions''] [''get'', ''list'', ''watch''],
     rule [] ''admissionregistration.k8s.io'' [''validatingwebhookconfigurations'']
       [''create'', ''delete'', ''get'', ''update'', ''patch'', ''list'', ''watch''],
     rule [] [] [''secrets''] [''create'', ''delete'', ''get'', ''update'', ''patch'', ''list'', ''watch''],
     rule [] ''operator.openshift.io'' [''networks''] [''get'', ''list'', ''watch'', ''update''],
     (rule [] ''security.openshift.io'' [''securitycontextconstraints''] [''create'', ''patch''])
       \<lparr>RuleNames := [''metallb-speaker'']\<rparr>,
     rule [] ''config.openshift.io'' [''apiservers'', ''clusteroperators''] [''get'', ''list'', ''watch'']]"

definition networkpolicies_marker :: policy_rule where
  "networkpolicies_marker = rule [] ''networking.k8s.io'' [''networkpolicies''] [''*'']"

definition pods_marker :: policy_rule where
  "pods_marker = rule ''metallb-system'' [] [''pods''] [''list'', ''delete'']"

definition manager_rules :: "policy_rule list" where
  "manager_rules = controller_markers @ [networkpolicies_marker, pods_marker]"

section \<open>Requests\<close>

record request =
  RequestVerb :: string
  RequestGroup :: string
  RequestResource :: string
  RequestNamespace :: string
  RequestName :: string

definition grants :: "policy_rule \<Rightarrow> request \<Rightarrow> bool" where
  "grants r q \<longleftrightarrow>
     RuleGroup r = RequestGroup q \<and> RequestResource q \<in> set (RuleResources r) \<and>
     (RequestVerb q \<in> set (RuleVerbs r) \<or> ''*'' \<in> set (RuleVerbs r)) \<and>
     (RuleNames r = [] \<or> RequestName q \<in> set (RuleNames r)) \<and>
     (RuleNamespace r = [] \<or> RuleNamespace r = RequestNamespace q)"

text \<open>Group, resource, and whether it has a namespace, of the kinds that the charts render.\<close>

definition kind_resource :: "string \<Rightarrow> (string \<times> string \<times> bool) option" where
  "kind_resource = map_of
    [(''Deployment'', ''apps'', ''deployments'', True), (''DaemonSet'', ''apps'', ''daemonsets'', True),
     (''ConfigMap'', [], ''configmaps'', True), (''Secret'', [], ''secrets'', True),
     (''Service'', [], ''services'', True), (''ServiceAccount'', [], ''serviceaccounts'', True),
     (''NetworkPolicy'', ''networking.k8s.io'', ''networkpolicies'', True),
     (''ServiceMonitor'', ''monitoring.coreos.com'', ''servicemonitors'', True),
     (''PodMonitor'', ''monitoring.coreos.com'', ''podmonitors'', True),
     (''ClusterRole'', ''rbac.authorization.k8s.io'', ''clusterroles'', False),
     (''ClusterRoleBinding'', ''rbac.authorization.k8s.io'', ''clusterrolebindings'', False),
     (''ValidatingWebhookConfiguration'', ''admissionregistration.k8s.io'', ''validatingwebhookconfigurations'', False),
     (''SecurityContextConstraints'', ''security.openshift.io'', ''securitycontextconstraints'', False)]"

definition requests_for :: "string list \<Rightarrow> string \<Rightarrow> string \<Rightarrow> string \<Rightarrow> string \<Rightarrow> request list" where
  "requests_for verbs g r ns n =
     map (\<lambda>v. \<lparr>RequestVerb = v, RequestGroup = g, RequestResource = r, RequestNamespace = ns, RequestName = n\<rparr>) verbs"

definition object_requests :: "string list \<Rightarrow> string \<times> string \<times> string \<Rightarrow> request list" where
  "object_requests verbs i =
     (case i of (k, ns, n) \<Rightarrow>
        (case kind_resource k of
           Some (g, r, scoped) \<Rightarrow> requests_for verbs g r (if scoped then ns else []) n
         | None \<Rightarrow> requests_for verbs [] [] ns n))"

text \<open>
  The requests of a call. The manager's client reads from a cache, which lists and watches all objects of
  a kind; to apply an object is to patch it, and to create it where it is not there.
\<close>

fun call_requests :: "unstructured_lib \<Rightarrow> kube_call \<Rightarrow> request list" where
  "call_requests U (GetMetalLB ns n) = requests_for [''list'', ''watch''] ''metallb.io'' ''metallbs'' [] []"
| "call_requests U (GetDaemonSet ns n) = requests_for [''list'', ''watch''] ''apps'' ''daemonsets'' [] []"
| "call_requests U (GetDeployment ns n) = requests_for [''list'', ''watch''] ''apps'' ''deployments'' [] []"
| "call_requests U (GetClusterOperator n) =
     requests_for [''list'', ''watch''] ''config.openshift.io'' ''clusteroperators'' [] []"
| "call_requests U (GetNetwork n) = requests_for [''list'', ''watch''] ''operator.openshift.io'' ''networks'' [] []"
| "call_requests U (UpdateNetwork w) = requests_for [''update''] ''operator.openshift.io'' ''networks'' [] ''cluster''"
| "call_requests U (UpdateStatus m) =
     requests_for [''update''] ''metallb.io'' ''metallbs/status'' (Namespace m) (Name m)"
| "call_requests U (DeleteObject x) = object_requests [''delete''] (identity U x)"
| "call_requests U (ApplyObject x) = object_requests [''patch'', ''create''] (identity U x)"
| "call_requests U TimeNow = []"
| "call_requests U (ListPods ns labels) = requests_for [''list''] [] ''pods'' ns []"
| "call_requests U (DeletePod p) = requests_for [''delete''] [] ''pods'' (PodNamespace p) (PodName p)"
| "call_requests U (CreateOrUpdateConfigMap ns n data) =
     requests_for [''get'', ''create'', ''update''] [] ''configmaps'' ns n"

text \<open>
  What the start asks outside the recorded calls. On OpenShift \<open>FetchTLSConfig\<close> reads the object cluster of the
  kind APIServer twice, for the profile and for the adherence policy, with a client that has no cache;
  \<open>SetupProfileWatcher\<close> registers a controller that watches that kind; and the builder of
  \<open>SetupWithManager\<close> makes the manager watch the resources and, on OpenShift, the networks.
\<close>

definition tls_profile_requests :: "bool \<Rightarrow> request list" where
  "tls_profile_requests openshift =
     (if openshift
      then requests_for [''get'', ''get''] ''config.openshift.io'' ''apiservers'' [] ''cluster'' @
           requests_for [''list'', ''watch''] ''config.openshift.io'' ''apiservers'' [] []
      else [])"

definition controller_watch_requests :: "bool \<Rightarrow> request list" where
  "controller_watch_requests openshift =
     (if openshift
      then requests_for [''list'', ''watch''] ''metallb.io'' ''metallbs'' [] [] @
           requests_for [''list'', ''watch''] ''operator.openshift.io'' ''networks'' [] []
      else requests_for [''list'', ''watch''] ''metallb.io'' ''metallbs'' [] [])"

section \<open>The authorizer\<close>

text \<open>The API server lets a request through exactly when some rule of the operator's roles grants it.\<close>

locale rbac_authorizer =
  fixes allowed :: "request \<Rightarrow> bool"
  assumes allows: "r \<in> set manager_rules \<Longrightarrow> grants r q \<Longrightarrow> allowed q"
    and denies: "\<forall>r\<in>set manager_rules. \<not> grants r q \<Longrightarrow> \<not> allowed q"
begin

lemma allowed_iff: "allowed q \<longleftrightarrow> (\<exists>r\<in>set manager_rules. grants r q)"
  using allows denies by blast

end

definition permitted :: "(request \<Rightarrow> bool) \<Rightarrow> unstructured_lib \<Rightarrow> kube_call \<Rightarrow> bool" where
  "permitted allowed U c = list_all allowed (call_requests U c)"

lemmas rule_defs = manager_rules_def controller_markers_def networkpolicies_marker_def pods_marker_def rule_def
  all_verbs_def grants_def requests_for_def

interpretation rbac: rbac_authorizer "\<lambda>q. \<exists>r\<in>set manager_rules. grants r q"
  by unfold_locales blast+

section \<open>What the roles grant\<close>

text \<open>The objects that the charts render without pod monitors.\<close>

definition known_ids :: "ident list" where
  "known_ids =
    [(''Deployment'', ''controller''), (''ConfigMap'', ''metallb-excludel2''), (''NetworkPolicy'', ''controller''),
     (''ServiceMonitor'', ''speaker-monitor''), (''Service'', ''speaker-monitor-service''),
     (''ServiceMonitor'', ''controller-monitor''), (''Service'', ''controller-monitor-service''),
     (''ConfigMap'', ''frr-startup''), (''DaemonSet'', ''speaker''), (''DaemonSet'', ''frr-k8s''),
     (''ServiceMonitor'', ''frr-k8s-monitor''), (''Service'', ''frr-k8s-monitor-service''),
     (''Deployment'', ''statuscleaner''), (''Secret'', ''frr-k8s-webhook-server-cert''),
     (''Service'', ''frr-k8s-webhook-service''),
     (''ValidatingWebhookConfiguration'', ''frr-k8s-validating-webhook-configuration'')]"

definition granted :: "request \<Rightarrow> bool" where
  "granted q = list_ex (\<lambda>r. grants r q) manager_rules"

lemma known_ids_granted:
  "list_all (\<lambda>i. list_all granted (object_requests [''delete'', ''patch'', ''create''] (in_namespace ''metallb-system'' i)))
     known_ids"
  by code_simp

lemma other_calls_granted:
  "list_all granted (call_requests U (GetMetalLB ns n))" "list_all granted (call_requests U (GetDaemonSet ns n))"
  "list_all granted (call_requests U (GetDeployment ns n))" "list_all granted (call_requests U (GetClusterOperator n))"
  "list_all granted (call_requests U (GetNetwork n))" "list_all granted (call_requests U (UpdateNetwork w))"
  "list_all granted (call_requests U (UpdateStatus m))" "list_all granted (call_requests U TimeNow)"
  "list_all granted (object_requests [''patch'', ''create''] scc_identity)"
  by (simp_all add: granted_def rule_defs object_requests_def kind_resource_def scc_identity_def SpeakerSCCName_def)

lemma start_requests_granted:
  "list_all granted (tls_profile_requests openshift @ controller_watch_requests openshift)"
  by (simp add: tls_profile_requests_def controller_watch_requests_def granted_def rule_defs)

lemma no_service_accounts: "\<not> granted \<lparr>RequestVerb = ''patch'', RequestGroup = [],
    RequestResource = ''serviceaccounts'', RequestNamespace = ns, RequestName = n\<rparr>"
  by (simp add: granted_def rule_defs)

lemma applied_ids_known:
  "\<not> DeployPodMonitors env \<Longrightarrow> set (applied_ids env spec) \<union> set (deleted_ids env spec) \<subseteq> set known_ids"
  by (cases "DisableNetworkPolicies env"; cases "DeployServiceMonitors env"; cases "IsOpenshift env";
      cases "BGPType spec env = FRRK8sMode"; cases "BGPType spec env = FRRMode")
    (simp_all add: applied_ids_def deleted_ids_def kept_frrk8s_ids_def frrk8s_ids_def frrk8s_names metallb_ids_def
      metallb_base_ids_def metallb_monitor_ids_def known_ids_def backends)

context rbac_authorizer
begin

lemma allowed_granted: "allowed q \<longleftrightarrow> granted q"
  by (simp add: allowed_iff granted_def list_ex_iff)

lemma permitted_granted: "permitted allowed U c \<longleftrightarrow> list_all granted (call_requests U c)"
  by (simp add: permitted_def allowed_granted list_all_iff)

lemma network_call_permitted: "network_call c \<Longrightarrow> permitted allowed U c"
  using other_calls_granted by (auto simp: network_call_def permitted_granted split: kube_call.splits)

lemma Update_permitted: "adds_only (permitted allowed U) (Update K m condition reason message)"
  unfolding Update_def Let_def using other_calls_granted by (auto simp: permitted_granted intro!: adds)

lemma IsMetalLBAvailable_permitted: "adds_only (permitted allowed U) (IsMetalLBAvailable K ns)"
  unfolding IsMetalLBAvailable_def using other_calls_granted
  by (auto simp: permitted_granted intro!: adds split: sum.splits option.splits)

lemma object_permitted:
  assumes "i \<in> set known_ids" and "identity U x = in_namespace ''metallb-system'' i"
  shows "permitted allowed U (DeleteObject x)" and "permitted allowed U (ApplyObject x)"
proof -
  have "list_all granted (object_requests [''delete'', ''patch'', ''create''] (identity U x))"
    using known_ids_granted assms by (simp add: list_all_iff)
  then show "permitted allowed U (DeleteObject x)" "permitted allowed U (ApplyObject x)"
    by (auto simp: permitted_granted object_requests_def requests_for_def split: prod.splits option.splits)
qed

end

lemma sync_permitted:
  assumes "rendering_reconciler coalesce files R complete ns R0" and "rbac_authorizer allowed"
    and "EnvNamespace (EnvConfig R) = ''metallb-system''" and "\<not> DeployPodMonitors (EnvConfig R)"
  shows "adds_only (permitted allowed (ULib R)) (syncMetalLBResources R m)"
proof (cases "Validate (ExternalFRRK8sNamespace R) (Spec m) = None")
  case False
  then show ?thesis
    by (rule adds_only_mono [OF sync_invalid_adds]) (rule rbac_authorizer.network_call_permitted [OF assms(2)])
next
  case True
  show ?thesis
    unfolding adds_only_def
  proof (intro allI impI)
    fix h r h'
    assume "syncMetalLBResources R m h = (r, h')"
    from sync_run [OF this True] obtain pre post where h': "h' = h @ pre @ post" and pre: "list_all network_call pre"
      and post: "post = [] \<or> (\<exists>toDel objs. chart_objects R (Spec m) toDel objs \<and> prefix post (object_calls R m toDel objs))"
      by blast
    have "permitted allowed (ULib R) c"
      if objs: "chart_objects R (Spec m) toDel objs" and c: "c \<in> set (object_calls R m toDel objs)" for toDel objs c
    proof -
      note ids = rendering_reconciler.chart_identities [OF assms(1) objs]
      note known = applied_ids_known [OF assms(4), of "Spec m"]
      from c consider (deleted) x where "x \<in> set toDel" "c = DeleteObject x"
        | (applied) y where "y \<in> set (applied_objects R m objs)" "c = ApplyObject y"
        by (auto simp: object_calls_applied)
      then show ?thesis
      proof cases
        case deleted
        then have "identity (ULib R) x \<in> in_namespace ''metallb-system'' ` set (deleted_ids (EnvConfig R) (Spec m))"
          using mset_eq_setD [OF ids(1)] assms(3) by auto
        with known deleted(2) show ?thesis
          using rbac_authorizer.object_permitted(1) [OF assms(2)] by blast
      next
        case applied
        then have "identity (ULib R) y \<in> in_namespace ''metallb-system'' ` set (applied_ids (EnvConfig R) (Spec m)) \<or>
            identity (ULib R) y = scc_identity"
          using mset_eq_setD [OF ids(2) [of m]] assms(3) by (auto split: if_splits)
        then show ?thesis
        proof
          assume "identity (ULib R) y = scc_identity"
          with applied(2) show ?thesis
            using other_calls_granted(9) by (simp add: rbac_authorizer.permitted_granted [OF assms(2)])
        qed (use known applied(2) rbac_authorizer.object_permitted(2) [OF assms(2)] in blast)
      qed
    qed
    then have "list_all (permitted allowed (ULib R)) post"
      using post by (fastforce simp: list_all_iff dest!: set_mono_prefix)
    moreover have "list_all (permitted allowed (ULib R)) pre"
      using pre rbac_authorizer.network_call_permitted [OF assms(2)] by (auto simp: list_all_iff)
    ultimately show "\<exists>cs. h' = h @ cs \<and> list_all (permitted allowed (ULib R)) cs"
      using h' by auto
  qed
qed

lemma Reconcile_permitted:
  assumes "rendering_reconciler coalesce files R complete ns R0" and "rbac_authorizer allowed"
    and "EnvNamespace (EnvConfig R) = ''metallb-system''" and "\<not> DeployPodMonitors (EnvConfig R)"
  shows "adds_only (permitted allowed (ULib R)) (Reconcile R rns n)"
proof -
  have "permitted allowed (ULib R) (GetMetalLB rns n)"
    using other_calls_granted by (simp add: rbac_authorizer.permitted_granted [OF assms(2)])
  then show ?thesis
    unfolding Reconcile_def reconcileResource_def
    by (auto intro!: adds tryK_adds sync_permitted [OF assms] rbac_authorizer.Update_permitted [OF assms(2)]
        rbac_authorizer.IsMetalLBAvailable_permitted [OF assms(2)]
        split: sum.splits prod.splits option.splits go_error.splits)
qed

text \<open>The start writes the config map with the TLS settings, and deletes pods in its own namespace.\<close>

lemma main_permitted:
  assumes "rbac_authorizer allowed" and "main M fl h = (Ret (R, server), h')"
    and "EnvNamespace (EnvConfig R) = ''metallb-system''"
    and "\<forall>h ns labels ps. list_pods (MKube M) h ns labels = Inr ps \<longrightarrow> (\<forall>p\<in>set ps. PodNamespace p = ns)"
  shows "\<exists>cs. h' = h @ cs \<and> list_all (permitted allowed U) cs"
proof -
  let ?ns = "''metallb-system''"
  have granted: "list_all granted (call_requests U (CreateOrUpdateConfigMap ?ns n d))"
    "list_all granted (call_requests U (ListPods ?ns l))"
    "PodNamespace p = ?ns \<Longrightarrow> list_all granted (call_requests U (DeletePod p))" for n d l p
    by (simp_all add: granted_def rule_defs)
  obtain env h1 where h1: "syncTLSConfigMap (MKube M) env h = (Ret (), h1)" and env: "EnvConfig R = env"
    and h': "(if ExternalWebhookServer fl then deleteWebhookServerPods (MKube M) (EnvNamespace env)
              else return ()) h1 = (Ret (), h')"
    using assms(2) by (rule main_Ret) blast
  have "h1 = h @ [CreateOrUpdateConfigMap ?ns tlsConfigMapName (tls_config_map_data env)]"
    using h1 env assms(3) by (simp add: syncTLSConfigMap_run)
  moreover have "\<exists>ps. h' = h1 @ ps \<and> list_all (\<lambda>c. list_all granted (call_requests U c)) ps"
  proof (cases "ExternalWebhookServer fl")
    case True
    with h' env assms(3) have "deleteWebhookServerPods (MKube M) ?ns h1 = (Ret (), h')" by simp
    from deleteWebhookServerPods_Ret [OF this] obtain ps where
      "list_pods (MKube M) h1 ?ns webhook_server_labels = Inr ps"
      "h' = h1 @ ListPods ?ns webhook_server_labels # map DeletePod ps" by blast
    moreover from this(1) have "\<forall>p\<in>set ps. list_all granted (call_requests U (DeletePod p))"
      using granted(3) assms(4) by blast
    then have "list_all (\<lambda>c. list_all granted (call_requests U c)) (map DeletePod ps)"
      by (simp add: list.pred_set del: call_requests.simps)
    ultimately show ?thesis
      using granted(2) by (intro exI [of _ "ListPods ?ns webhook_server_labels # map DeletePod ps"])
        (simp del: call_requests.simps)
  next
    case False
    with h' show ?thesis by (simp add: io_simps)
  qed
  ultimately show ?thesis
    using granted(1) by (auto simp: rbac_authorizer.permitted_granted [OF assms(1)] list_all_iff)
qed

text \<open>What a successful synchronisation applied was accepted.\<close>

lemma apply_loop_accepted:
  "apply_loop R m xs h = (Ret (), h') \<Longrightarrow> y \<in> set (applied_objects R m xs) \<Longrightarrow>
     \<exists>k. apply_object (Client R) k y = None"
proof (induction xs arbitrary: h)
  case Nil
  then show ?case by (simp add: applied_objects_def)
next
  case (Cons x xs)
  from Cons.prems(1) obtain h1 where step: "apply_step R m x h = (Ret (), h1)" and
    rest: "apply_loop R m xs h1 = (Ret (), h')" by (auto simp: bindK_Ret_iff)
  from Cons.prems(2) consider "\<not> skipped R x" "y = owned R m x" | "y \<in> set (applied_objects R m xs)"
    by (auto simp: applied_objects_def split: if_splits)
  then show ?case
  proof cases
    case 1
    with step show ?thesis by (auto simp: apply_step_run owned_def split: sum.splits option.splits)
  qed (rule Cons.IH [OF rest])
qed

lemma sync_accepted:
  assumes "syncMetalLBResources R m h = (Ret (), h')" and "Validate (ExternalFRRK8sNamespace R) (Spec m) = None"
  obtains toDel objs where "chart_objects R (Spec m) toDel objs"
    and "\<forall>y\<in>set (applied_objects R m objs). \<exists>k. apply_object (Client R) k y = None"
  using assms
proof (cases rule: sync_valid_cases)
  case (loops h1 h2 toDel objs s)
  then have "apply_loop R m objs h2 = (Ret (), h')" by auto
  with loops(3) that apply_loop_accepted show thesis by blast
qed auto

section \<open>Examples\<close>

definition in_metallb_system :: environment where
  "in_metallb_system = example_environment(''OPERATOR_NAMESPACE'' \<mapsto> ''metallb-system'')"

text \<open>An API server that accepts every permitted application.\<close>

definition enforcing_reconciler :: "env_config \<Rightarrow> (chart_files, string) reconciler" where
  "enforcing_reconciler env =
     (repo_reconciler env)\<lparr>Client := (Client (repo_reconciler env))
        \<lparr>apply_object := (\<lambda>h y. if permitted (\<lambda>q. \<exists>r\<in>set manager_rules. grants r q) workload_lib (ApplyObject y)
                                then None else Some (LibError ''forbidden'' []))\<rparr>\<rparr>"

section \<open>Properties\<close>

text \<open>
  C8. The roles of the operator cover what its own code asks of the API server, when it is deployed in
  metallb-system without pod monitors and the server lists pods of the namespace that was asked for: every
  recorded call of a successful start, the requests for the TLS profile and for the watches that the start
  sets up, and every call of every reconciliation afterwards, whatever the server answers and whichever
  backend is chosen, are granted by some rule of its markers. The requests that leader election, the
  certificate rotator and the discovery of the platform make by themselves are not covered.
\<close>

theorem operator_calls_permitted:
  assumes "rbac_authorizer allowed" and "main M fl h = (Ret (R, server), h')"
    and "rendering_reconciler coalesce files R complete ns R0"
    and "EnvNamespace (EnvConfig R) = ''metallb-system'' \<and> \<not> DeployPodMonitors (EnvConfig R)"
    and "\<forall>h ns labels ps. list_pods (MKube M) h ns labels = Inr ps \<longrightarrow> (\<forall>p\<in>set ps. PodNamespace p = ns)"
  shows "list_all (permitted allowed (ULib R)) (drop (length h) h') \<and>
         list_all allowed (tls_profile_requests (IsOpenshift (EnvConfig R))) \<and>
         list_all allowed (controller_watch_requests (IsOpenshift (EnvConfig R))) \<and>
         (\<forall>rns n k r k'. Reconcile R rns n k = (r, k') \<longrightarrow> list_all (permitted allowed (ULib R)) (drop (length k) k'))"
proof -
  have ns: "EnvNamespace (EnvConfig R) = ''metallb-system''" using assms(4) by simp
  obtain cs where "h' = h @ cs" "list_all (permitted allowed (ULib R)) cs"
    using main_permitted [OF assms(1,2) ns assms(5)] by blast
  then have "list_all (permitted allowed (ULib R)) (drop (length h) h')" by simp
  moreover have "list_all (permitted allowed (ULib R)) (drop (length k) k')" if "Reconcile R rns n k = (r, k')" for rns n k r k'
    using adds_onlyD [OF Reconcile_permitted [OF assms(3,1)] that] assms(4) by auto
  moreover have "list_all allowed (tls_profile_requests ocp) \<and> list_all allowed (controller_watch_requests ocp)" for ocp
    using start_requests_granted [of ocp] rbac_authorizer.allowed_granted [OF assms(1)] by (simp add: list_all_iff)
  ultimately show ?thesis by blast
qed

theorem operator_calls_permitted_witness:
  "\<exists>R server h'. main (example_main_with repo_reconciler in_metallb_system) example_flags [] = (Ret (R, server), h') \<and>
     h' \<noteq> [] \<and> list_all (permitted (\<lambda>q. \<exists>r\<in>set manager_rules. grants r q) workload_lib) h'"
proof -
  have e: "env_ok (\<lambda>_. None) in_metallb_system"
    by (simp add: env_ok_def mandatory_variables_def port_variables_def int_variable_ok_def Getenv_def
        in_metallb_system_def example_environment_def)
  have u: "(repo_reconciler env)\<lparr>EnvConfig := env\<rparr> = repo_reconciler env" for env by (simp add: repo_reconciler_def)
  have "\<exists>R. SetupWithManager (\<lambda>_ _. None) (EnvNamespace env) ((repo_reconciler env)\<lparr>EnvConfig := env\<rparr>) = Inr R" for env
    unfolding u using repo_set_up by blast
  with e show ?thesis
  proof (rule example_start_with)
    fix env0 and t :: "unit ocp_tls_config" and R server h'
    let ?env = "with_cluster_tls (Some t) env0"
    assume env0: "FromEnvironment (\<lambda>_. None) in_metallb_system True = Inr env0"
      and m: "main (example_main_with repo_reconciler in_metallb_system) example_flags [] = (Ret (R, server), h')"
      and h': "h' \<noteq> []"
      and "SetupWithManager (\<lambda>_ _. None) (EnvNamespace env0) ((repo_reconciler ?env)\<lparr>EnvConfig := ?env\<rparr>) = Inr R"
    then have R: "R = repo_reconciler ?env" using repo_set_up [of ?env] by (simp add: u)
    have n: "EnvNamespace env0 = ''metallb-system''" "\<not> DeployPodMonitors env0"
      using FromEnvironment_InrD(1,16) [OF env0]
      by (simp_all add: in_metallb_system_def example_environment_def Getenv_def)
    then have r: "rendering_reconciler coalesce_values (\<lambda>f. f) R (\<lambda>_ _. None) (EnvNamespace ?env) (repo_reconciler ?env)"
      unfolding R by (intro repo_rendering) simp
    have c: "EnvNamespace (EnvConfig R) = ''metallb-system'' \<and> \<not> DeployPodMonitors (EnvConfig R)"
      using n by (simp add: R with_cluster_tls_def)
    have p: "\<forall>h ns l ps. list_pods (MKube (example_main_with repo_reconciler in_metallb_system)) h ns l = Inr ps \<longrightarrow>
        (\<forall>p\<in>set ps. PodNamespace p = ns)"
      by (simp add: example_main_with_def example_kube_def)
    show ?thesis
      using operator_calls_permitted [OF rbac.rbac_authorizer_axioms m r c p] m h' by (auto simp: R)
  qed
qed

text \<open>
  C26. With pod monitors the roles do not suffice. The chart then has a service account for reading the
  metrics, which no rule lets the operator apply; on an API server that refuses what is not permitted no
  synchronisation of a valid resource succeeds, and no valid resource is ever reported Available.
\<close>

theorem pod_monitors_are_refused:
  assumes "rendering_reconciler coalesce files R complete ns R0" and "rbac_authorizer allowed"
    and "\<And>h y. \<not> permitted allowed (ULib R) (ApplyObject y) \<Longrightarrow> apply_object (Client R) h y \<noteq> None"
    and "DeployPodMonitors (EnvConfig R)" and "Validate (ExternalFRRK8sNamespace R) (Spec m) = None"
  shows "fst (syncMetalLBResources R m h) \<noteq> Ret () \<and>
         (\<forall>res err. fst (reconcileResource R rns m h) \<noteq> Ret (res, ConditionAvailable, err))"
proof -
  have "syncMetalLBResources R m h \<noteq> (Ret (), h')" for h'
  proof
    assume "syncMetalLBResources R m h = (Ret (), h')"
    then obtain toDel objs where objs: "chart_objects R (Spec m) toDel objs"
      and accepted: "\<forall>y\<in>set (applied_objects R m objs). \<exists>k. apply_object (Client R) k y = None"
      using assms(5) by (rule sync_accepted)
    let ?i = "(''ServiceAccount'', ''metrics-reader'')"
    have "?i \<in> set (applied_ids (EnvConfig R) (Spec m))"
      using assms(4) by (simp add: applied_ids_def metallb_ids_def metallb_monitor_ids_def)
    then obtain y where y: "y \<in> set (applied_objects R m objs)"
      "identity (ULib R) y = in_namespace (EnvNamespace (EnvConfig R)) ?i"
      using rendering_reconciler.applied_identity [OF assms(1) objs] by blast
    have "\<not> permitted allowed (ULib R) (ApplyObject y)"
      using y(2) no_service_accounts
      by (simp add: rbac_authorizer.permitted_granted [OF assms(2)] object_requests_def in_namespace_def
          kind_resource_def requests_for_def)
    with assms(3) accepted y(1) show False by blast
  qed
  then have "fst (syncMetalLBResources R m h) \<noteq> Ret ()" by (metis surj_pair fst_conv)
  then show ?thesis
    by (auto simp: reconcileResource_run ConditionDegraded_def ConditionAvailable_def
        split: prod.splits outcome.splits)
qed

theorem pod_monitors_are_refused_witness:
  "fst (syncMetalLBResources (enforcing_reconciler ((example_config False)\<lparr>DeployPodMonitors := True\<rparr>))
          (example_metallb zero_spec) []) \<noteq> Ret ()"
proof -
  let ?env = "(example_config False)\<lparr>DeployPodMonitors := True\<rparr>"
  let ?R = "enforcing_reconciler ?env"
  have r: "rendering_reconciler coalesce_values (\<lambda>f. f) ?R (\<lambda>_ _. None) (EnvNamespace ?env) ?R"
    unfolding enforcing_reconciler_def by (rule repo_rendering_client) simp
  have a: "apply_object (Client ?R) h y \<noteq> None"
    if "\<not> permitted (\<lambda>q. \<exists>r\<in>set manager_rules. grants r q) (ULib ?R) (ApplyObject y)" for h y
    using that by (simp add: enforcing_reconciler_def del: call_requests.simps)
  have d: "DeployPodMonitors (EnvConfig ?R)" by (simp add: enforcing_reconciler_def)
  have v: "Validate (ExternalFRRK8sNamespace ?R) (Spec (example_metallb zero_spec)) = None"
    by (simp add: enforcing_reconciler_def example_valid)
  show ?thesis
    using pod_monitors_are_refused [OF r rbac.rbac_authorizer_axioms a d v] by blast
qed

end
