(* ===== verification/Deep_Copy_Heap.thy ===== *)
theory Deep_Copy_Heap
  imports Operator_Prelude "HOL-Library.AList" "HOL-Library.Monad_Syntax"
begin

text \<open>
  Memory for the generated deep copies: a heap of cells, copies of what pointers, slices and maps refer
  to, and the interface \<open>copier\<close> that every deep copy keeps.

  A heap is a list of cells, an address is a position in it, and allocation is at the end, so that a
  heap \<open>h\<close> that has grown is \<open>h @ e\<close> and its old cells are unchanged by construction. A pointer, a map
  or a slice is an optional address, nil being None; a slice is the address of its elements. Cells are
  typed by their constructors \<open>mk\<close>, with a selector \<open>un\<close> for each; Go's types see to it that a pointer
  refers to a cell of its type.

  The function \<open>DeepCopyInto(out)\<close> of a type begins with \<open>*out = *in\<close> and then sets fields of \<open>out\<close> only;
  it is modelled by the value that \<open>*out\<close> has at the end, for an \<open>out\<close> other than the receiver, as it is
  in all its calls here. A cell that is allocated first and filled afterwards is allocated here with its
  final contents.
\<close>

type_synonym addr = nat
type_synonym ptr = "addr option"

section \<open>Copying\<close>

definition load :: "('c \<Rightarrow> 'a option) \<Rightarrow> 'c list \<Rightarrow> addr \<Rightarrow> 'a option" where
  "load un h a = (if a < length h then un (h ! a) else None)"

definition alloc :: "'c list \<Rightarrow> 'c \<Rightarrow> ptr \<times> 'c list" where
  "alloc h c = (Some (length h), h @ [c])"

text \<open>\<open>if in.F != nil { *out = new(T); (*in).DeepCopyInto(*out) }\<close>, where \<open>out.F\<close> is nil like \<open>in.F\<close> before.\<close>

definition copy_pointer ::
  "('a \<Rightarrow> 'c) \<Rightarrow> ('c \<Rightarrow> 'a option) \<Rightarrow> ('c list \<Rightarrow> 'a \<Rightarrow> 'a \<times> 'c list) \<Rightarrow> 'c list \<Rightarrow> ptr \<Rightarrow> ptr \<times> 'c list" where
  "copy_pointer mk un cp h p =
     (case Option.bind p (load un h) of
        None \<Rightarrow> (p, h)
      | Some x \<Rightarrow> (let (y, h') = cp h x in alloc h' (mk y)))"

text \<open>\<open>for i := range *in { (*in)[i].DeepCopyInto(&(*out)[i]) }\<close>\<close>

fun copy_elements :: "('c list \<Rightarrow> 'a \<Rightarrow> 'a \<times> 'c list) \<Rightarrow> 'c list \<Rightarrow> 'a list \<Rightarrow> 'a list \<times> 'c list" where
  "copy_elements cp h [] = ([], h)"
| "copy_elements cp h (x # xs) =
     (let (y, h1) = cp h x; (ys, h2) = copy_elements cp h1 xs in (y # ys, h2))"

text \<open>An assignment of a value without pointers.\<close>

definition copy_flat :: "'c list \<Rightarrow> 'a \<Rightarrow> 'a \<times> 'c list" where
  "copy_flat h x = (x, h)"

text \<open>
  \<open>for key, val := range *in { (*out)[key] = val }\<close>: a map is kept as its entries, in the order in which
  \<open>range\<close> yields them.
\<close>

type_synonym entries = "(string \<times> string) list"

definition copy_entries :: "entries \<Rightarrow> entries" where
  "copy_entries es = foldl (\<lambda>out (key, val). AList.update key val out) [] es"

definition copy_map_entries :: "'c list \<Rightarrow> entries \<Rightarrow> entries \<times> 'c list" where
  "copy_map_entries h es = (copy_entries es, h)"

section \<open>What a value is\<close>

text \<open>
  The view of a value in a heap: the value with what its pointers refer to in place of the pointers,
  None if one of them refers to no cell of its type.
\<close>

definition view_pointer ::
  "('c \<Rightarrow> 'a option) \<Rightarrow> ('c list \<Rightarrow> 'a \<Rightarrow> 'v option) \<Rightarrow> 'c list \<Rightarrow> ptr \<Rightarrow> 'v option option" where
  "view_pointer un view h p =
     (case p of None \<Rightarrow> Some None | Some a \<Rightarrow> do { x \<leftarrow> load un h a; v \<leftarrow> view h x; Some (Some v) })"

fun view_elements :: "('c list \<Rightarrow> 'a \<Rightarrow> 'v option) \<Rightarrow> 'c list \<Rightarrow> 'a list \<Rightarrow> 'v list option" where
  "view_elements view h [] = Some []"
| "view_elements view h (x # xs) =
     do { v \<leftarrow> view h x; vs \<leftarrow> view_elements view h xs; Some (v # vs) }"

definition view_flat :: "'c list \<Rightarrow> 'a \<Rightarrow> 'a option" where
  "view_flat h x = Some x"

definition view_map :: "'c list \<Rightarrow> entries \<Rightarrow> (string \<Rightarrow> string option) option" where
  "view_map h es = (if distinct (map fst es) then Some (map_of es) else None)"

section \<open>Separate copies\<close>

text \<open>
  \<open>separate h h' f v\<close>: \<open>h'\<close> is \<open>h\<close> with new cells, and what \<open>f\<close> reads is \<open>v\<close>, from the new cells alone,
  whatever is written to the cells of \<open>h\<close>.
\<close>

definition separate :: "'c list \<Rightarrow> 'c list \<Rightarrow> ('c list \<Rightarrow> 'v option) \<Rightarrow> 'v \<Rightarrow> bool" where
  "separate h h' f v =
     (prefix h h' \<and> (\<forall>g. length g = length h \<longrightarrow> f (g @ drop (length h) h') = Some v))"

lemma separateD:
  assumes "separate h h' f v"
  shows "prefix h h'" and "length g = length h \<Longrightarrow> f (g @ drop (length h) h') = Some v" and "f h' = Some v"
proof -
  show p: "prefix h h'" and s: "length g = length h \<Longrightarrow> f (g @ drop (length h) h') = Some v" for g
    using assms by (simp_all add: separate_def)
  show "f h' = Some v" using s [of h] p by (auto simp: prefix_def)
qed

lemma separate_widen:
  assumes "separate h1 h2 f v" and "prefix h0 h1" and "prefix h2 h3"
    and "\<And>g e. f g = Some v \<Longrightarrow> f (g @ e) = Some v"
  shows "separate h0 h3 f v"
proof -
  obtain a b c where "h1 = h0 @ a" "h2 = h1 @ b" "h3 = h2 @ c"
    using assms(2,3) separateD(1) [OF assms(1)] by (auto simp: prefix_def)
  then have h: "h1 = h0 @ a" "h2 = h0 @ a @ b" "h3 = h0 @ a @ b @ c" by simp_all
  have "f (g @ a @ b @ c) = Some v" if "length g = length h0" for g
  proof -
    have "f ((g @ a) @ drop (length h1) h2) = Some v" using that h by (intro separateD(2) [OF assms(1)]) simp
    with assms(4) [of "g @ a @ b" c] h show ?thesis by simp
  qed
  with h show ?thesis by (simp add: separate_def)
qed

text \<open>
  The interface of a deep copy \<open>cp\<close> with the view of its type: the view does not depend on cells that
  are allocated later, and the copy has the view of the original, from new cells alone.
\<close>

locale copier =
  fixes cp :: "'c list \<Rightarrow> 'a \<Rightarrow> 'a \<times> 'c list"
    and view :: "'c list \<Rightarrow> 'a \<Rightarrow> 'v option"
  assumes view_grows: "view h x = Some v \<Longrightarrow> view (h @ e) x = Some v"
    and copy_separate: "view h x = Some v \<Longrightarrow> cp h x = (y, h') \<Longrightarrow> separate h h' (\<lambda>g. view g y) v"
begin

lemma view_prefix: "view h x = Some v \<Longrightarrow> prefix h h' \<Longrightarrow> view h' x = Some v"
  using view_grows by (auto simp: prefix_def)

text \<open>One step of a longer copy, from a heap that has grown since the view was taken.\<close>

lemma step:
  assumes "view h0 x = Some v" and "prefix h0 h" and "cp h x = (y, h')"
  shows "separate h h' (\<lambda>g. view g y) v" and "prefix h h'" and "prefix h0 h'"
proof -
  show s: "separate h h' (\<lambda>g. view g y) v" using assms by (blast intro: copy_separate view_prefix)
  show "prefix h h'" by (rule separateD(1) [OF s])
  with assms(2) show "prefix h0 h'" by (rule prefix_order.trans)
qed

lemma widen: "separate h1 h2 (\<lambda>g. view g y) v \<Longrightarrow> prefix h0 h1 \<Longrightarrow> prefix h2 h3 \<Longrightarrow>
    separate h0 h3 (\<lambda>g. view g y) v"
  by (rule separate_widen) (auto intro: view_grows)

text \<open>
  What a client relies on: the copy equals the original; what is written to the copy's cells leaves the
  original, and what is written to the original's cells leaves the copy.
\<close>

lemma isolated:
  assumes "view h x = Some v" and "cp h x = (y, h')"
  obtains e where "h' = h @ e" and "view h' y = Some v" and "\<And>e'. view (h @ e') x = Some v"
    and "\<And>g. length g = length h \<Longrightarrow> view (g @ e) y = Some v"
proof -
  have s: "separate h h' (\<lambda>g. view g y) v" using assms by (rule copy_separate)
  obtain e where e: "h' = h @ e" using separateD(1) [OF s] by (auto simp: prefix_def)
  show thesis
    using e separateD(2,3) [OF s] view_grows [OF assms(1)] by (intro that [of e]) simp_all
qed

end

section \<open>The copies keep the interface\<close>

lemma load_append: "load un h a = Some x \<Longrightarrow> load un (h @ e) a = Some x"
  by (simp add: load_def nth_append split: if_splits)

lemma load_new: "un (mk y) = Some y \<Longrightarrow> length g = n \<Longrightarrow> load un (g @ mk y # e) n = Some y"
  by (auto simp: load_def)

lemma copier_flat: "copier copy_flat view_flat"
  by unfold_locales (simp_all add: copy_flat_def view_flat_def separate_def)

interpretation flat: copier copy_flat view_flat
  by (rule copier_flat)

lemma copy_entries_distinct: "distinct (map fst es) \<Longrightarrow> copy_entries es = es"
proof (induction es rule: rev_induct)
  case Nil
  show ?case by (simp add: copy_entries_def)
next
  case (snoc kv es)
  have "AList.update k v es = es @ [(k, v)]" if "k \<notin> fst ` set es" for k v
    using that by (induction es) auto
  with snoc show ?case by (cases kv) (simp add: copy_entries_def)
qed

text \<open>The order in which \<open>range\<close> yields the entries does not matter.\<close>

lemma copy_entries_any_order:
  assumes "distinct (map fst es)" and "distinct (map fst es')" and "set es' = set es"
  shows "map_of (copy_entries es') = map_of es"
  using assms by (simp add: copy_entries_distinct map_of_inject_set)

interpretation map_entries: copier copy_map_entries view_map
  by unfold_locales
    (auto simp: copy_map_entries_def view_map_def separate_def copy_entries_distinct split: if_splits)

lemma copier_pointer:
  assumes "copier cp view" and un: "\<And>x. un (mk x) = Some x"
  shows "copier (copy_pointer mk un cp) (view_pointer un view)"
proof -
  have grows: "view_pointer un view (h @ e) p = Some v" if "view_pointer un view h p = Some v" for h e p v
    using that copier.view_grows [OF assms(1)] load_append [of un h _ _ e]
    by (fastforce simp: view_pointer_def bind_eq_Some_conv split: option.splits)
  have "separate h h' (\<lambda>g. view_pointer un view g q) v"
    if v: "view_pointer un view h p = Some v" and c: "copy_pointer mk un cp h p = (q, h')" for h h' p q v
  proof (cases p)
    case None
    with v c show ?thesis by (auto simp: copy_pointer_def view_pointer_def separate_def)
  next
    case (Some a)
    with v obtain x w where w: "load un h a = Some x" "view h x = Some w" "v = Some w"
      by (auto simp: view_pointer_def bind_eq_Some_conv)
    obtain y h1 where y: "cp h x = (y, h1)" by (cases "cp h x")
    then have q: "q = Some (length h1)" "h' = h1 @ [mk y]"
      using c Some w(1) by (auto simp: copy_pointer_def alloc_def)
    have s: "separate h h1 (\<lambda>g. view g y) w" by (rule copier.copy_separate [OF assms(1) w(2) y])
    obtain e where e: "h1 = h @ e" using separateD(1) [OF s] by (auto simp: prefix_def)
    have "view_pointer un view (g @ e @ [mk y]) q = Some v" if g: "length g = length h" for g
    proof -
      have "view ((g @ e) @ [mk y]) y = Some w"
        by (rule copier.view_grows [OF assms(1)]) (use separateD(2) [OF s g] e in simp)
      moreover have "load un ((g @ e) @ mk y # []) (length h1) = Some y"
        using g e by (intro load_new un) simp
      ultimately show ?thesis using w(3) q(1) by (simp add: view_pointer_def)
    qed
    with q(2) e show ?thesis by (simp add: separate_def)
  qed
  with grows show ?thesis by unfold_locales
qed

lemma copier_elements:
  assumes "copier cp view"
  shows "copier (copy_elements cp) (view_elements view)"
proof -
  have grows: "view_elements view (h @ e) xs = Some vs" if "view_elements view h xs = Some vs" for h e xs vs
    using that by (induction xs arbitrary: vs)
      (auto simp: bind_eq_Some_conv intro: copier.view_grows [OF assms])
  have "separate h h' (\<lambda>g. view_elements view g ys) vs"
    if "view_elements view h xs = Some vs" and "copy_elements cp h xs = (ys, h')" for h h' xs ys vs
    using that
  proof (induction xs arbitrary: h ys vs)
    case Nil
    then show ?case by (auto simp: separate_def)
  next
    case (Cons x xs)
    from Cons.prems(1) obtain w ws where w: "view h x = Some w" "view_elements view h xs = Some ws" "vs = w # ws"
      by (auto simp: bind_eq_Some_conv)
    from Cons.prems(2) obtain y h1 zs where y: "cp h x = (y, h1)" "copy_elements cp h1 xs = (zs, h')" "ys = y # zs"
      by (auto split: prod.splits)
    note s1 = copier.copy_separate [OF assms w(1) y(1)]
    obtain e where e: "h1 = h @ e" using separateD(1) [OF s1] by (auto simp: prefix_def)
    have s2: "separate h1 h' (\<lambda>g. view_elements view g zs) ws"
      using grows [OF w(2)] y(2) e by (intro Cons.IH) simp_all
    have "separate h h' (\<lambda>g. view g y) w"
      using s1 separateD(1) [OF s2] by (rule copier.widen [OF assms, OF _ prefix_order.refl])
    moreover have "separate h h' (\<lambda>g. view_elements view g zs) ws"
      using s2 separateD(1) [OF s1] by (rule separate_widen) (simp_all add: grows)
    ultimately show ?case using w(3) y(3) by (simp add: separate_def)
  qed
  with grows show ?thesis by unfold_locales
qed

section \<open>Structs\<close>

text \<open>
  A struct is copied field by field: \<open>copy_both\<close> copies two parts one after the other, and \<open>copier_struct\<close>
  takes the copy of the tuple of a struct's fields to the copy of the struct.
\<close>

definition copy_both ::
  "('c list \<Rightarrow> 'a \<Rightarrow> 'a \<times> 'c list) \<Rightarrow> ('c list \<Rightarrow> 'b \<Rightarrow> 'b \<times> 'c list) \<Rightarrow> 'c list \<Rightarrow> 'a \<times> 'b \<Rightarrow> ('a \<times> 'b) \<times> 'c list" where
  "copy_both c d h = (\<lambda>(x, y). let (x', h1) = c h x; (y', h2) = d h1 y in ((x', y'), h2))"

definition view_both ::
  "('c list \<Rightarrow> 'a \<Rightarrow> 'v option) \<Rightarrow> ('c list \<Rightarrow> 'b \<Rightarrow> 'w option) \<Rightarrow> 'c list \<Rightarrow> 'a \<times> 'b \<Rightarrow> ('v \<times> 'w) option" where
  "view_both v w h = (\<lambda>(x, y). do { a \<leftarrow> v h x; b \<leftarrow> w h y; Some (a, b) })"

lemma copier_both:
  assumes "copier c v" and "copier d w"
  shows "copier (copy_both c d) (view_both v w)"
proof
  show "view_both v w (h @ e) x = Some r" if "view_both v w h x = Some r" for h e x r
    using that by (auto simp: view_both_def split_def bind_eq_Some_conv
      copier.view_grows [OF assms(1)] copier.view_grows [OF assms(2)])
  show "separate h h' (\<lambda>g. view_both v w g z) r"
    if r: "view_both v w h x = Some r" and z: "copy_both c d h x = (z, h')" for h h' x z r
  proof -
    from r obtain a b where r: "v h (fst x) = Some a" "w h (snd x) = Some b" "r = (a, b)"
      by (auto simp: view_both_def bind_eq_Some_conv split: prod.splits)
    from z obtain p h1 q where z: "c h (fst x) = (p, h1)" "d h1 (snd x) = (q, h')" "z = (p, q)"
      by (auto simp: copy_both_def split: prod.splits)
    note s1 = copier.step [OF assms(1) r(1) prefix_order.refl z(1)]
    note s2 = copier.step [OF assms(2) r(2) s1(3) z(2)]
    from copier.widen [OF assms(1) s1(1) prefix_order.refl s2(2)]
      copier.widen [OF assms(2) s2(1) s1(3) prefix_order.refl]
    show ?thesis by (simp add: separate_def view_both_def r(3) z(3))
  qed
qed

lemma copier_struct:
  assumes "copier cp view"
    and cp': "\<And>h x. cp' h x = (let (t, h') = cp h (fields x) in (put t x, h'))"
    and view': "\<And>h x. view' h x = map_option (\<lambda>w. mk w x) (view h (fields x))"
    and "\<And>t x. fields (put t x) = t" and "\<And>w t x. mk w (put t x) = mk w x"
  shows "copier cp' view'"
proof
  show "view' (h @ e) x = Some v" if "view' h x = Some v" for h e x v
    using that by (auto simp: view' copier.view_grows [OF assms(1)])
  show "separate h h' (\<lambda>g. view' g y) v" if v: "view' h x = Some v" and y: "cp' h x = (y, h')" for h h' x y v
  proof -
    obtain w t where w: "view h (fields x) = Some w" "v = mk w x" and t: "cp h (fields x) = (t, h')" "y = put t x"
      using v y by (auto simp: view' cp' split: prod.splits)
    from copier.copy_separate [OF assms(1) w(1) t(1)] show ?thesis
      by (simp add: separate_def view' assms(4,5) w(2) t(2))
  qed
qed

end
