(* ===== verification/Deep_Copy.thy ===== *)
theory Deep_Copy
  imports Deep_Copy_Heap API_Types
begin

text \<open>
  The generated deep copies, \<open>api/v1beta1/zz_generated.deepcopy.go\<close>. The structs of
  \<open>api/v1beta1/metallb_types.go\<close> appear here as they are in memory: with a type of pointers for the
  fields that are pointers, maps or slices. The same records with values in place of the pointers are the
  views of the structs.

  The structs of the Kubernetes libraries have a type \<open>'f\<close> of their own, and their \<open>DeepCopyInto\<close> is a
  parameter \<open>K\<close>, for each of the six types used; what is assumed of it is the interface \<open>copier\<close>.
\<close>

section \<open>The structs in memory\<close>

record ('p, 'm) config_struct =
  cfg_PriorityClassName :: string
  cfg_RuntimeClassName :: string
  cfg_Affinity :: 'p
  cfg_Annotations :: 'm
  cfg_Resources :: 'p

record 's frrk8s_struct =
  frr_AlwaysBlock :: 's
  frr_Namespace :: string
  frr_SecretPassthrough :: bool

record ('m, 't, 'c, 'k) spec_struct =
  spec_MetalLBImage :: string
  spec_SpeakerNodeSelector :: 'm
  spec_SpeakerTolerations :: 't
  spec_LogLevel :: string
  spec_LoadBalancerClass :: string
  spec_ControllerNodeSelector :: 'm
  spec_ControllerTolerations :: 't
  spec_ControllerConfig :: 'c
  spec_SpeakerConfig :: 'c
  spec_BGPBackend :: string
  spec_FRRK8SConfig :: 'k

record 's status_struct =
  status_Conditions :: 's

record type_meta =
  meta_Kind :: string
  meta_APIVersion :: string

record ('o, 's, 't) metallb_struct =
  mlb_TypeMeta :: type_meta
  mlb_ObjectMeta :: 'o
  mlb_Spec :: 's
  mlb_Status :: 't

record ('o, 'i) metallb_list_struct =
  list_TypeMeta :: type_meta
  list_ListMeta :: 'o
  list_Items :: 'i

type_synonym config_mem = "(ptr, ptr) config_struct"
type_synonym frrk8s_mem = "ptr frrk8s_struct"
type_synonym spec_mem = "(ptr, ptr, ptr, ptr) spec_struct"
type_synonym status_mem = "ptr status_struct"
type_synonym 'f metallb_mem = "('f, spec_mem, status_mem) metallb_struct"
type_synonym 'f metallb_list_mem = "('f, ptr) metallb_list_struct"

datatype 'f cell =
    EntriesCell entries
  | StringsCell "string list"
  | KubeCell 'f
  | KubeSliceCell "'f list"
  | ConfigCell config_mem
  | FRRK8SConfigCell frrk8s_mem
  | SpecCell spec_mem
  | StatusCell status_mem
  | MetalLBCell "'f metallb_mem"
  | MetalLBSliceCell "'f metallb_mem list"
  | MetalLBListCell "'f metallb_list_mem"

type_synonym 'f heap = "'f cell list"

fun un_entries :: "'f cell \<Rightarrow> entries option" where
  "un_entries (EntriesCell x) = Some x" | "un_entries _ = None"
fun un_strings :: "'f cell \<Rightarrow> string list option" where
  "un_strings (StringsCell x) = Some x" | "un_strings _ = None"
fun un_kube :: "'f cell \<Rightarrow> 'f option" where
  "un_kube (KubeCell x) = Some x" | "un_kube _ = None"
fun un_kube_slice :: "'f cell \<Rightarrow> 'f list option" where
  "un_kube_slice (KubeSliceCell x) = Some x" | "un_kube_slice _ = None"
fun un_config :: "'f cell \<Rightarrow> config_mem option" where
  "un_config (ConfigCell x) = Some x" | "un_config _ = None"
fun un_frrk8s :: "'f cell \<Rightarrow> frrk8s_mem option" where
  "un_frrk8s (FRRK8SConfigCell x) = Some x" | "un_frrk8s _ = None"
fun un_spec :: "'f cell \<Rightarrow> spec_mem option" where
  "un_spec (SpecCell x) = Some x" | "un_spec _ = None"
fun un_status :: "'f cell \<Rightarrow> status_mem option" where
  "un_status (StatusCell x) = Some x" | "un_status _ = None"
fun un_metallb :: "'f cell \<Rightarrow> 'f metallb_mem option" where
  "un_metallb (MetalLBCell x) = Some x" | "un_metallb _ = None"
fun un_metallb_slice :: "'f cell \<Rightarrow> 'f metallb_mem list option" where
  "un_metallb_slice (MetalLBSliceCell x) = Some x" | "un_metallb_slice _ = None"
fun un_metallb_list :: "'f cell \<Rightarrow> 'f metallb_list_mem option" where
  "un_metallb_list (MetalLBListCell x) = Some x" | "un_metallb_list _ = None"

section \<open>The copies\<close>

datatype kube_type = KAffinity | KResourceRequirements | KToleration | KCondition | KObjectMeta | KListMeta

type_synonym 'f kube_copy = "kube_type \<Rightarrow> 'f heap \<Rightarrow> 'f \<Rightarrow> 'f \<times> 'f heap"

text \<open>The block for a map, \<open>if in.F != nil { *out = make(map[string]string, len(*in)) ... }\<close>.\<close>

definition copy_string_map :: "'f heap \<Rightarrow> ptr \<Rightarrow> ptr \<times> 'f heap" where
  "copy_string_map = copy_pointer EntriesCell un_entries copy_map_entries"

text \<open>The block for a slice of structs of the libraries.\<close>

definition copy_kube_slice :: "('f heap \<Rightarrow> 'f \<Rightarrow> 'f \<times> 'f heap) \<Rightarrow> 'f heap \<Rightarrow> ptr \<Rightarrow> ptr \<times> 'f heap" where
  "copy_kube_slice cp = copy_pointer KubeSliceCell un_kube_slice (copy_elements cp)"

definition Config_DeepCopyInto :: "'f kube_copy \<Rightarrow> 'f heap \<Rightarrow> config_mem \<Rightarrow> config_mem \<times> 'f heap" where
  "Config_DeepCopyInto K h0 out =
     (let (aff, h1) = copy_pointer KubeCell un_kube (K KAffinity) h0 (cfg_Affinity out);
          (ann, h2) = copy_string_map h1 (cfg_Annotations out);
          (res, h3) = copy_pointer KubeCell un_kube (K KResourceRequirements) h2 (cfg_Resources out)
      in (out\<lparr>cfg_Affinity := aff, cfg_Annotations := ann, cfg_Resources := res\<rparr>, h3))"

definition Config_DeepCopy :: "'f kube_copy \<Rightarrow> 'f heap \<Rightarrow> ptr \<Rightarrow> ptr \<times> 'f heap" where
  "Config_DeepCopy K = copy_pointer ConfigCell un_config (Config_DeepCopyInto K)"

definition FRRK8SConfig_DeepCopyInto :: "'f heap \<Rightarrow> frrk8s_mem \<Rightarrow> frrk8s_mem \<times> 'f heap" where
  "FRRK8SConfig_DeepCopyInto h0 out =
     (let (block, h1) = copy_pointer StringsCell un_strings copy_flat h0 (frr_AlwaysBlock out)
      in (out\<lparr>frr_AlwaysBlock := block\<rparr>, h1))"

definition FRRK8SConfig_DeepCopy :: "'f heap \<Rightarrow> ptr \<Rightarrow> ptr \<times> 'f heap" where
  "FRRK8SConfig_DeepCopy = copy_pointer FRRK8SConfigCell un_frrk8s FRRK8SConfig_DeepCopyInto"

definition MetalLBSpec_DeepCopyInto :: "'f kube_copy \<Rightarrow> 'f heap \<Rightarrow> spec_mem \<Rightarrow> spec_mem \<times> 'f heap" where
  "MetalLBSpec_DeepCopyInto K h0 out =
     (let (sns, h1) = copy_string_map h0 (spec_SpeakerNodeSelector out);
          (stol, h2) = copy_kube_slice (K KToleration) h1 (spec_SpeakerTolerations out);
          (cns, h3) = copy_string_map h2 (spec_ControllerNodeSelector out);
          (ctol, h4) = copy_kube_slice (K KToleration) h3 (spec_ControllerTolerations out);
          (ccfg, h5) = copy_pointer ConfigCell un_config (Config_DeepCopyInto K) h4 (spec_ControllerConfig out);
          (scfg, h6) = copy_pointer ConfigCell un_config (Config_DeepCopyInto K) h5 (spec_SpeakerConfig out);
          (frr, h7) = copy_pointer FRRK8SConfigCell un_frrk8s FRRK8SConfig_DeepCopyInto h6 (spec_FRRK8SConfig out)
      in (out\<lparr>spec_SpeakerNodeSelector := sns, spec_SpeakerTolerations := stol,
              spec_ControllerNodeSelector := cns, spec_ControllerTolerations := ctol,
              spec_ControllerConfig := ccfg, spec_SpeakerConfig := scfg, spec_FRRK8SConfig := frr\<rparr>, h7))"

definition MetalLBSpec_DeepCopy :: "'f kube_copy \<Rightarrow> 'f heap \<Rightarrow> ptr \<Rightarrow> ptr \<times> 'f heap" where
  "MetalLBSpec_DeepCopy K = copy_pointer SpecCell un_spec (MetalLBSpec_DeepCopyInto K)"

definition MetalLBStatus_DeepCopyInto :: "'f kube_copy \<Rightarrow> 'f heap \<Rightarrow> status_mem \<Rightarrow> status_mem \<times> 'f heap" where
  "MetalLBStatus_DeepCopyInto K h0 out =
     (let (conds, h1) = copy_kube_slice (K KCondition) h0 (status_Conditions out)
      in (out\<lparr>status_Conditions := conds\<rparr>, h1))"

definition MetalLBStatus_DeepCopy :: "'f kube_copy \<Rightarrow> 'f heap \<Rightarrow> ptr \<Rightarrow> ptr \<times> 'f heap" where
  "MetalLBStatus_DeepCopy K = copy_pointer StatusCell un_status (MetalLBStatus_DeepCopyInto K)"

definition MetalLB_DeepCopyInto :: "'f kube_copy \<Rightarrow> 'f heap \<Rightarrow> 'f metallb_mem \<Rightarrow> 'f metallb_mem \<times> 'f heap" where
  "MetalLB_DeepCopyInto K h0 out =
     (let (meta, h1) = K KObjectMeta h0 (mlb_ObjectMeta out);
          (spec, h2) = MetalLBSpec_DeepCopyInto K h1 (mlb_Spec out);
          (status, h3) = MetalLBStatus_DeepCopyInto K h2 (mlb_Status out)
      in (out\<lparr>mlb_ObjectMeta := meta, mlb_Spec := spec, mlb_Status := status\<rparr>, h3))"

definition MetalLB_DeepCopy :: "'f kube_copy \<Rightarrow> 'f heap \<Rightarrow> ptr \<Rightarrow> ptr \<times> 'f heap" where
  "MetalLB_DeepCopy K = copy_pointer MetalLBCell un_metallb (MetalLB_DeepCopyInto K)"

definition MetalLBList_DeepCopyInto ::
  "'f kube_copy \<Rightarrow> 'f heap \<Rightarrow> 'f metallb_list_mem \<Rightarrow> 'f metallb_list_mem \<times> 'f heap" where
  "MetalLBList_DeepCopyInto K h0 out =
     (let (meta, h1) = K KListMeta h0 (list_ListMeta out);
          (items, h2) = copy_pointer MetalLBSliceCell un_metallb_slice (copy_elements (MetalLB_DeepCopyInto K))
                          h1 (list_Items out)
      in (out\<lparr>list_ListMeta := meta, list_Items := items\<rparr>, h2))"

definition MetalLBList_DeepCopy :: "'f kube_copy \<Rightarrow> 'f heap \<Rightarrow> ptr \<Rightarrow> ptr \<times> 'f heap" where
  "MetalLBList_DeepCopy K = copy_pointer MetalLBListCell un_metallb_list (MetalLBList_DeepCopyInto K)"

text \<open>
  A value of the interface \<open>runtime.Object\<close>: nil, or a type with a pointer, which may itself be nil.
\<close>

datatype object_type = MetalLB_type | MetalLBList_type

type_synonym runtime_object = "(object_type \<times> ptr) option"

definition MetalLB_DeepCopyObject :: "'f kube_copy \<Rightarrow> 'f heap \<Rightarrow> ptr \<Rightarrow> runtime_object \<times> 'f heap" where
  "MetalLB_DeepCopyObject K h p =
     (let (c, h') = MetalLB_DeepCopy K h p in
      (if c \<noteq> None then Some (MetalLB_type, c) else None, h'))"

definition MetalLBList_DeepCopyObject :: "'f kube_copy \<Rightarrow> 'f heap \<Rightarrow> ptr \<Rightarrow> runtime_object \<times> 'f heap" where
  "MetalLBList_DeepCopyObject K h p =
     (let (c, h') = MetalLBList_DeepCopy K h p in
      (if c \<noteq> None then Some (MetalLBList_type, c) else None, h'))"

section \<open>Registration\<close>

text \<open>
  \<open>api/v1beta1/groupversion_info.go\<close> and the \<open>init\<close> of \<open>metallb_types.go\<close>: the group's version, and the
  types that the scheme builder is given. Adding them to a scheme is the controller runtime's part.
\<close>

record group_version =
  Group :: string
  Version :: string

definition GroupVersion :: group_version where
  "GroupVersion = \<lparr>Group = ''metallb.io'', Version = ''v1beta1''\<rparr>"

record scheme_builder =
  BuilderGroupVersion :: group_version
  Registered :: "object_type list"

definition SchemeBuilder :: scheme_builder where
  "SchemeBuilder = \<lparr>BuilderGroupVersion = GroupVersion, Registered = []\<rparr>"

definition register_types :: "scheme_builder \<Rightarrow> scheme_builder" where
  "register_types b = b\<lparr>Registered := Registered b @ [MetalLB_type, MetalLBList_type]\<rparr>"

section \<open>Views\<close>

type_synonym ('f, 'v) kube_view = "kube_type \<Rightarrow> 'f heap \<Rightarrow> 'f \<Rightarrow> 'v option"

definition view_string_map :: "'f heap \<Rightarrow> ptr \<Rightarrow> string_map option option" where
  "view_string_map = view_pointer un_entries view_map"

definition view_kube_slice :: "('f heap \<Rightarrow> 'f \<Rightarrow> 'v option) \<Rightarrow> 'f heap \<Rightarrow> ptr \<Rightarrow> 'v list option option" where
  "view_kube_slice view = view_pointer un_kube_slice (view_elements view)"

type_synonym 'v config_view = "('v option, string_map option) config_struct"

definition view_config :: "('f, 'v) kube_view \<Rightarrow> 'f heap \<Rightarrow> config_mem \<Rightarrow> 'v config_view option" where
  "view_config V h s = do {
     aff \<leftarrow> view_pointer un_kube (V KAffinity) h (cfg_Affinity s);
     ann \<leftarrow> view_string_map h (cfg_Annotations s);
     res \<leftarrow> view_pointer un_kube (V KResourceRequirements) h (cfg_Resources s);
     Some \<lparr>cfg_PriorityClassName = cfg_PriorityClassName s, cfg_RuntimeClassName = cfg_RuntimeClassName s,
           cfg_Affinity = aff, cfg_Annotations = ann, cfg_Resources = res\<rparr> }"

type_synonym frrk8s_view = "string list option frrk8s_struct"

definition view_frrk8s :: "'f heap \<Rightarrow> frrk8s_mem \<Rightarrow> frrk8s_view option" where
  "view_frrk8s h s = do {
     block \<leftarrow> view_pointer un_strings view_flat h (frr_AlwaysBlock s);
     Some \<lparr>frr_AlwaysBlock = block, frr_Namespace = frr_Namespace s, frr_SecretPassthrough = frr_SecretPassthrough s\<rparr> }"

type_synonym 'v spec_view =
  "(string_map option, 'v list option, 'v config_view option, frrk8s_view option) spec_struct"

definition view_spec :: "('f, 'v) kube_view \<Rightarrow> 'f heap \<Rightarrow> spec_mem \<Rightarrow> 'v spec_view option" where
  "view_spec V h s = do {
     sns \<leftarrow> view_string_map h (spec_SpeakerNodeSelector s);
     stol \<leftarrow> view_kube_slice (V KToleration) h (spec_SpeakerTolerations s);
     cns \<leftarrow> view_string_map h (spec_ControllerNodeSelector s);
     ctol \<leftarrow> view_kube_slice (V KToleration) h (spec_ControllerTolerations s);
     ccfg \<leftarrow> view_pointer un_config (view_config V) h (spec_ControllerConfig s);
     scfg \<leftarrow> view_pointer un_config (view_config V) h (spec_SpeakerConfig s);
     frr \<leftarrow> view_pointer un_frrk8s view_frrk8s h (spec_FRRK8SConfig s);
     Some \<lparr>spec_MetalLBImage = spec_MetalLBImage s, spec_SpeakerNodeSelector = sns,
           spec_SpeakerTolerations = stol, spec_LogLevel = spec_LogLevel s,
           spec_LoadBalancerClass = spec_LoadBalancerClass s, spec_ControllerNodeSelector = cns,
           spec_ControllerTolerations = ctol, spec_ControllerConfig = ccfg, spec_SpeakerConfig = scfg,
           spec_BGPBackend = spec_BGPBackend s, spec_FRRK8SConfig = frr\<rparr> }"

type_synonym 'v status_view = "'v list option status_struct"

definition view_status :: "('f, 'v) kube_view \<Rightarrow> 'f heap \<Rightarrow> status_mem \<Rightarrow> 'v status_view option" where
  "view_status V h s = do {
     conds \<leftarrow> view_kube_slice (V KCondition) h (status_Conditions s);
     Some \<lparr>status_Conditions = conds\<rparr> }"

type_synonym 'v metallb_view = "('v, 'v spec_view, 'v status_view) metallb_struct"

definition view_metallb :: "('f, 'v) kube_view \<Rightarrow> 'f heap \<Rightarrow> 'f metallb_mem \<Rightarrow> 'v metallb_view option" where
  "view_metallb V h s = do {
     meta \<leftarrow> V KObjectMeta h (mlb_ObjectMeta s);
     spec \<leftarrow> view_spec V h (mlb_Spec s);
     status \<leftarrow> view_status V h (mlb_Status s);
     Some \<lparr>mlb_TypeMeta = mlb_TypeMeta s, mlb_ObjectMeta = meta, mlb_Spec = spec, mlb_Status = status\<rparr> }"

definition view_metallb_list ::
  "('f, 'v) kube_view \<Rightarrow> 'f heap \<Rightarrow> 'f metallb_list_mem \<Rightarrow> ('v, 'v metallb_view list option) metallb_list_struct option" where
  "view_metallb_list V h s = do {
     meta \<leftarrow> V KListMeta h (list_ListMeta s);
     items \<leftarrow> view_pointer un_metallb_slice (view_elements (view_metallb V)) h (list_Items s);
     Some \<lparr>list_TypeMeta = list_TypeMeta s, list_ListMeta = meta, list_Items = items\<rparr> }"

end
