(* ===== verification/Deep_Copy_Contracts.thy ===== *)
theory Deep_Copy_Contracts
  imports Deep_Copy
begin

text \<open>
  That the generated deep copies are deep: every one of them keeps the interface \<open>copier\<close>, if the copies
  of the Kubernetes libraries do. The locale \<open>kube_copiers\<close> states what is assumed of those; it is
  interpreted on a library whose structs are a text and a pointer to another struct.
\<close>

section \<open>Every copy keeps the interface\<close>

lemma string_map_copier: "copier copy_string_map view_string_map"
  unfolding copy_string_map_def view_string_map_def
  by (rule copier_pointer [OF map_entries.copier_axioms]) simp

lemma kube_slice_copier: "copier cp view \<Longrightarrow> copier (copy_kube_slice cp) (view_kube_slice view)"
  unfolding copy_kube_slice_def view_kube_slice_def
  by (rule copier_pointer [OF copier_elements]) simp_all

interpretation string_maps: copier copy_string_map view_string_map
  by (rule string_map_copier)

lemma always_block_copier:
  "copier (copy_pointer StringsCell un_strings copy_flat) (view_pointer un_strings view_flat)"
  by (rule copier_pointer [OF copier_flat]) simp

lemmas struct_simps = copy_both_def view_both_def split_def Let_def map_option_bind comp_def

lemma frrk8s_copier: "copier FRRK8SConfig_DeepCopyInto view_frrk8s"
  by (rule copier_struct [OF always_block_copier, where fields = frr_AlwaysBlock
        and put = "\<lambda>t x. x\<lparr>frr_AlwaysBlock := t\<rparr>"
        and mk = "\<lambda>w x. \<lparr>frr_AlwaysBlock = w, frr_Namespace = frr_Namespace x,
                        frr_SecretPassthrough = frr_SecretPassthrough x\<rparr>"])
    (auto simp: FRRK8SConfig_DeepCopyInto_def view_frrk8s_def struct_simps split: option.splits bind_splits)

interpretation frrk8s_configs: copier FRRK8SConfig_DeepCopyInto view_frrk8s
  by (rule frrk8s_copier)

lemma frrk8s_pointer_copier:
  "copier (copy_pointer FRRK8SConfigCell un_frrk8s FRRK8SConfig_DeepCopyInto) (view_pointer un_frrk8s view_frrk8s)"
  by (rule copier_pointer [OF frrk8s_copier]) simp

section \<open>Copies that call those of the libraries\<close>

locale kube_copiers =
  fixes K :: "'f kube_copy" and V :: "('f, 'v) kube_view"
  assumes kube: "copier (K t) (V t)"
begin

lemma kube_pointer_copier: "copier (copy_pointer KubeCell un_kube (K t)) (view_pointer un_kube (V t))"
  by (rule copier_pointer [OF kube]) simp

lemma config_copier: "copier (Config_DeepCopyInto K) (view_config V)"
  by (rule copier_struct [OF copier_both [OF kube_pointer_copier
          copier_both [OF string_map_copier kube_pointer_copier]],
        where fields = "\<lambda>x. (cfg_Affinity x, cfg_Annotations x, cfg_Resources x)"
        and put = "\<lambda>(a, m, r) x. x\<lparr>cfg_Affinity := a, cfg_Annotations := m, cfg_Resources := r\<rparr>"
        and mk = "\<lambda>(a, m, r) x. \<lparr>cfg_PriorityClassName = cfg_PriorityClassName x,
            cfg_RuntimeClassName = cfg_RuntimeClassName x, cfg_Affinity = a, cfg_Annotations = m, cfg_Resources = r\<rparr>"])
    (auto simp: Config_DeepCopyInto_def view_config_def struct_simps split: option.splits bind_splits)

lemma config_pointer_copier:
  "copier (copy_pointer ConfigCell un_config (Config_DeepCopyInto K)) (view_pointer un_config (view_config V))"
  by (rule copier_pointer [OF config_copier]) simp

lemma spec_copier: "copier (MetalLBSpec_DeepCopyInto K) (view_spec V)"
  by (rule copier_struct [OF
        copier_both [OF string_map_copier copier_both [OF kube_slice_copier [OF kube [of KToleration]]
        copier_both [OF string_map_copier copier_both [OF kube_slice_copier [OF kube [of KToleration]]
        copier_both [OF config_pointer_copier copier_both [OF config_pointer_copier frrk8s_pointer_copier]]]]]],
        where fields = "\<lambda>x. (spec_SpeakerNodeSelector x, spec_SpeakerTolerations x, spec_ControllerNodeSelector x,
            spec_ControllerTolerations x, spec_ControllerConfig x, spec_SpeakerConfig x, spec_FRRK8SConfig x)"
        and put = "\<lambda>(a, b, c, d, e, f, g) x. x\<lparr>spec_SpeakerNodeSelector := a, spec_SpeakerTolerations := b,
            spec_ControllerNodeSelector := c, spec_ControllerTolerations := d, spec_ControllerConfig := e,
            spec_SpeakerConfig := f, spec_FRRK8SConfig := g\<rparr>"
        and mk = "\<lambda>(a, b, c, d, e, f, g) x. \<lparr>spec_MetalLBImage = spec_MetalLBImage x,
            spec_SpeakerNodeSelector = a, spec_SpeakerTolerations = b, spec_LogLevel = spec_LogLevel x,
            spec_LoadBalancerClass = spec_LoadBalancerClass x, spec_ControllerNodeSelector = c,
            spec_ControllerTolerations = d, spec_ControllerConfig = e, spec_SpeakerConfig = f,
            spec_BGPBackend = spec_BGPBackend x, spec_FRRK8SConfig = g\<rparr>"])
    (simp_all add: MetalLBSpec_DeepCopyInto_def view_spec_def struct_simps)

lemma status_copier: "copier (MetalLBStatus_DeepCopyInto K) (view_status V)"
  by (rule copier_struct [OF kube_slice_copier [OF kube [of KCondition]], where fields = status_Conditions
        and put = "\<lambda>t x. x\<lparr>status_Conditions := t\<rparr>" and mk = "\<lambda>w x. \<lparr>status_Conditions = w\<rparr>"])
    (auto simp: MetalLBStatus_DeepCopyInto_def view_status_def struct_simps split: option.splits bind_splits)

lemma metallb_copier: "copier (MetalLB_DeepCopyInto K) (view_metallb V)"
  by (rule copier_struct [OF copier_both [OF kube [of KObjectMeta] copier_both [OF spec_copier status_copier]],
        where fields = "\<lambda>x. (mlb_ObjectMeta x, mlb_Spec x, mlb_Status x)"
        and put = "\<lambda>(o', s, t) x. x\<lparr>mlb_ObjectMeta := o', mlb_Spec := s, mlb_Status := t\<rparr>"
        and mk = "\<lambda>(o', s, t) x. \<lparr>mlb_TypeMeta = mlb_TypeMeta x, mlb_ObjectMeta = o', mlb_Spec = s, mlb_Status = t\<rparr>"])
    (auto simp: MetalLB_DeepCopyInto_def view_metallb_def struct_simps split: option.splits bind_splits)

lemma metallb_slice_copier:
  "copier (copy_pointer MetalLBSliceCell un_metallb_slice (copy_elements (MetalLB_DeepCopyInto K)))
          (view_pointer un_metallb_slice (view_elements (view_metallb V)))"
  by (rule copier_pointer [OF copier_elements [OF metallb_copier]]) simp

lemma metallb_list_copier: "copier (MetalLBList_DeepCopyInto K) (view_metallb_list V)"
  by (rule copier_struct [OF copier_both [OF kube [of KListMeta] metallb_slice_copier],
        where fields = "\<lambda>x. (list_ListMeta x, list_Items x)"
        and put = "\<lambda>(o', i) x. x\<lparr>list_ListMeta := o', list_Items := i\<rparr>"
        and mk = "\<lambda>(o', i) x. \<lparr>list_TypeMeta = list_TypeMeta x, list_ListMeta = o', list_Items = i\<rparr>"])
    (auto simp: MetalLBList_DeepCopyInto_def view_metallb_list_def struct_simps split: option.splits bind_splits)

lemma DeepCopy_copiers:
  "copier (MetalLB_DeepCopy K) (view_pointer un_metallb (view_metallb V))"
  "copier (MetalLBList_DeepCopy K) (view_pointer un_metallb_list (view_metallb_list V))"
  "copier (MetalLBSpec_DeepCopy K) (view_pointer un_spec (view_spec V))"
  "copier (MetalLBStatus_DeepCopy K) (view_pointer un_status (view_status V))"
  "copier (Config_DeepCopy K) (view_pointer un_config (view_config V))"
  unfolding MetalLB_DeepCopy_def MetalLBList_DeepCopy_def MetalLBSpec_DeepCopy_def MetalLBStatus_DeepCopy_def
    Config_DeepCopy_def
  by (simp_all add: copier_pointer metallb_copier metallb_list_copier spec_copier status_copier config_copier)

end

sublocale kube_copiers \<subseteq> resource: copier "MetalLB_DeepCopyInto K" "view_metallb V"
  by (rule metallb_copier)

sublocale kube_copiers \<subseteq> resource_list: copier "MetalLBList_DeepCopyInto K" "view_metallb_list V"
  by (rule metallb_list_copier)

section \<open>Pointers\<close>

lemma pointer_isolated:
  assumes "copier D (view_pointer un view)" and "view_pointer un view h (Some a) = Some (Some v)"
    and "D h (Some a) = (p, h')"
  shows "\<exists>c e. p = Some c \<and> h' = h @ e \<and> view_pointer un view h' p = Some (Some v) \<and>
    (\<forall>e'. view_pointer un view (h @ e') (Some a) = Some (Some v)) \<and>
    (\<forall>g. length g = length h \<longrightarrow> view_pointer un view (g @ e) p = Some (Some v))"
proof (rule copier.isolated [OF assms])
  fix e assume e: "h' = h @ e" and v: "view_pointer un view h' p = Some (Some v)"
    and "\<And>e'. view_pointer un view (h @ e') (Some a) = Some (Some v)"
    and "\<And>g. length g = length h \<Longrightarrow> view_pointer un view (g @ e) p = Some (Some v)"
  moreover from v obtain c where "p = Some c" by (cases p) (simp_all add: view_pointer_def)
  ultimately show ?thesis by (intro exI [of _ c] exI [of _ e]) simp
qed

text \<open>The copy of a nil pointer is the nil value of the interface, not an object with a nil pointer.\<close>

lemma DeepCopyObject_nil:
  "MetalLB_DeepCopyObject K h None = (None, h)" "MetalLBList_DeepCopyObject K h None = (None, h)"
  by (simp_all add: MetalLB_DeepCopyObject_def MetalLB_DeepCopy_def MetalLBList_DeepCopyObject_def
      MetalLBList_DeepCopy_def copy_pointer_def)

text \<open>The registered types, in the group's version, are those that have a copy as objects.\<close>

lemma registered_types:
  "set (Registered (register_types SchemeBuilder)) = UNIV"
  "BuilderGroupVersion (register_types SchemeBuilder) = GroupVersion"
proof -
  have "(UNIV :: object_type set) = {MetalLB_type, MetalLBList_type}" using object_type.exhaust by auto
  then show "set (Registered (register_types SchemeBuilder)) = UNIV"
    "BuilderGroupVersion (register_types SchemeBuilder) = GroupVersion"
    by (simp_all add: register_types_def SchemeBuilder_def)
qed

section \<open>An instance of the libraries\<close>

text \<open>Structs of a text and a pointer to another one, which has no pointer.\<close>

type_synonym example_struct = "string \<times> ptr"

definition view_leaf :: "example_struct heap \<Rightarrow> example_struct \<Rightarrow> string option" where
  "view_leaf h = (\<lambda>(s, p). if p = None then Some s else None)"

definition example_copy :: "example_struct kube_copy" where
  "example_copy t h = (\<lambda>(s, p). let (q, h') = copy_pointer KubeCell un_kube copy_flat h p in ((s, q), h'))"

definition example_view :: "(example_struct, string \<times> string option) kube_view" where
  "example_view t h = (\<lambda>(s, p). map_option (Pair s) (view_pointer un_kube view_leaf h p))"

lemma leaf_copier: "copier (copy_pointer KubeCell un_kube copy_flat) (view_pointer un_kube view_leaf)"
proof -
  have "copier copy_flat view_leaf"
    by unfold_locales (auto simp: copy_flat_def view_leaf_def separate_def split: if_splits)
  then show ?thesis by (rule copier_pointer) simp
qed

lemma example_kube_copiers: "kube_copiers example_copy example_view"
proof (rule kube_copiers.intro)
  show "copier (example_copy t) (example_view t)" for t
    by (rule copier_struct [OF leaf_copier, where fields = snd and put = "\<lambda>q x. (fst x, q)"
          and mk = "\<lambda>w x. (fst x, w)"])
      (auto simp: example_copy_def example_view_def split: prod.splits)
qed

interpretation example: kube_copiers example_copy example_view
  by (rule example_kube_copiers)

text \<open>A resource with a node selector, a toleration, an always-block list and a condition.\<close>

definition example_memory :: "example_struct heap" where
  "example_memory =
     [EntriesCell [(''role'', ''edge''), (''zone'', ''a'')], KubeCell (''300'', None), KubeSliceCell [(''toleration'', Some 1)],
      StringsCell [''10.0.0.0/8''],
      FRRK8SConfigCell \<lparr>frr_AlwaysBlock = Some 3, frr_Namespace = [], frr_SecretPassthrough = False\<rparr>,
      KubeSliceCell [(''Available'', None)],
      MetalLBCell \<lparr>mlb_TypeMeta = \<lparr>meta_Kind = ''MetalLB'', meta_APIVersion = ''metallb.io/v1beta1''\<rparr>,
        mlb_ObjectMeta = (''metallb'', None),
        mlb_Spec = \<lparr>spec_MetalLBImage = [], spec_SpeakerNodeSelector = Some 0, spec_SpeakerTolerations = Some 2,
          spec_LogLevel = ''debug'', spec_LoadBalancerClass = [], spec_ControllerNodeSelector = None,
          spec_ControllerTolerations = None, spec_ControllerConfig = None, spec_SpeakerConfig = None,
          spec_BGPBackend = ''frr-k8s'', spec_FRRK8SConfig = Some 4\<rparr>,
        mlb_Status = \<lparr>status_Conditions = Some 5\<rparr>\<rparr>]"

definition example_list :: "example_struct heap" where
  "example_list = example_memory @
     [MetalLBSliceCell (map the (map (un_metallb \<circ> nth example_memory) [6])),
      MetalLBListCell \<lparr>list_TypeMeta = \<lparr>meta_Kind = ''MetalLBList'', meta_APIVersion = ''metallb.io/v1beta1''\<rparr>,
        list_ListMeta = ([], None), list_Items = Some 7\<rparr>]"

lemmas view_simps = view_metallb_list_def view_metallb_def view_spec_def view_status_def view_config_def
  view_frrk8s_def view_string_map_def view_kube_slice_def view_map_def view_flat_def view_pointer_def load_def

lemma example_memory_view:
  "\<exists>v. view_pointer un_metallb (view_metallb example_view) example_memory (Some 6) = Some (Some v) \<and>
       spec_SpeakerNodeSelector (mlb_Spec v) = Some [''role'' \<mapsto> ''edge'', ''zone'' \<mapsto> ''a''] \<and>
       spec_SpeakerTolerations (mlb_Spec v) = Some [(''toleration'', Some ''300'')]"
  by (simp add: example_memory_def view_simps example_view_def view_leaf_def fun_upd_twist)

lemma example_list_view:
  "\<exists>v. view_pointer un_metallb_list (view_metallb_list example_view) example_list (Some 8) = Some (Some v) \<and>
       list_Items v \<noteq> None"
  by (simp add: example_list_def example_memory_def view_simps example_view_def view_leaf_def)

section \<open>Properties\<close>

text \<open>
  C12. The deep copy of a resource is deep: \<open>DeepCopyObject\<close> returns a new resource equal to the original
  in every field, nil and empty maps and slices told apart; nothing of the old memory changes; no write
  to the memory of the copy changes the original, and no write to the old memory changes the copy.
\<close>

theorem MetalLB_DeepCopyObject_isolated:
  assumes "kube_copiers K V"
    and "view_pointer un_metallb (view_metallb V) h (Some a) = Some (Some v)"
    and "MetalLB_DeepCopyObject K h (Some a) = (obj, h')"
  shows "\<exists>c e. obj = Some (MetalLB_type, Some c) \<and> h' = h @ e \<and>
    view_pointer un_metallb (view_metallb V) h' (Some c) = Some (Some v) \<and>
    (\<forall>e'. view_pointer un_metallb (view_metallb V) (h @ e') (Some a) = Some (Some v)) \<and>
    (\<forall>g. length g = length h \<longrightarrow> view_pointer un_metallb (view_metallb V) (g @ e) (Some c) = Some (Some v))"
proof -
  obtain p where p: "MetalLB_DeepCopy K h (Some a) = (p, h')"
    "obj = (if p \<noteq> None then Some (MetalLB_type, p) else None)"
    using assms(3) by (auto simp: MetalLB_DeepCopyObject_def split: prod.splits)
  from pointer_isolated [OF kube_copiers.DeepCopy_copiers(1) [OF assms(1)] assms(2) p(1)] p(2)
  show ?thesis by auto
qed

theorem MetalLB_DeepCopyObject_isolated_witness:
  "\<exists>v c e. MetalLB_DeepCopyObject example_copy example_memory (Some 6) = (Some (MetalLB_type, Some c), example_memory @ e) \<and>
     view_pointer un_metallb (view_metallb example_view) (replicate 7 (KubeCell ([], None)) @ e) (Some c) = Some (Some v) \<and>
     spec_SpeakerNodeSelector (mlb_Spec v) = Some [''role'' \<mapsto> ''edge'', ''zone'' \<mapsto> ''a''] \<and>
     spec_SpeakerTolerations (mlb_Spec v) = Some [(''toleration'', Some ''300'')]"
proof -
  obtain v where v: "view_pointer un_metallb (view_metallb example_view) example_memory (Some 6) = Some (Some v)"
    "spec_SpeakerNodeSelector (mlb_Spec v) = Some [''role'' \<mapsto> ''edge'', ''zone'' \<mapsto> ''a'']"
    "spec_SpeakerTolerations (mlb_Spec v) = Some [(''toleration'', Some ''300'')]"
    using example_memory_view by blast
  obtain obj h' where c: "MetalLB_DeepCopyObject example_copy example_memory (Some 6) = (obj, h')" by fastforce
  have l: "length (replicate 7 (KubeCell ([], None))) = length example_memory" by (simp add: example_memory_def)
  from MetalLB_DeepCopyObject_isolated [OF example_kube_copiers v(1) c] l c v(2,3) show ?thesis by auto
qed

text \<open>
  The same for a list of resources, whose copy has its own slice of items and its own memory for
  each of them; and the copy of a nil pointer is the nil object.
\<close>

theorem MetalLBList_DeepCopyObject_isolated:
  assumes "kube_copiers K V"
    and "view_pointer un_metallb_list (view_metallb_list V) h (Some a) = Some (Some v)"
    and "MetalLBList_DeepCopyObject K h (Some a) = (obj, h')"
  shows "MetalLBList_DeepCopyObject K h None = (None, h) \<and>
    (\<exists>c e. obj = Some (MetalLBList_type, Some c) \<and> h' = h @ e \<and>
    view_pointer un_metallb_list (view_metallb_list V) h' (Some c) = Some (Some v) \<and>
    (\<forall>e'. view_pointer un_metallb_list (view_metallb_list V) (h @ e') (Some a) = Some (Some v)) \<and>
    (\<forall>g. length g = length h \<longrightarrow>
       view_pointer un_metallb_list (view_metallb_list V) (g @ e) (Some c) = Some (Some v)))"
proof -
  obtain p where p: "MetalLBList_DeepCopy K h (Some a) = (p, h')"
    "obj = (if p \<noteq> None then Some (MetalLBList_type, p) else None)"
    using assms(3) by (auto simp: MetalLBList_DeepCopyObject_def split: prod.splits)
  from pointer_isolated [OF kube_copiers.DeepCopy_copiers(2) [OF assms(1)] assms(2) p(1)] p(2)
  show ?thesis by (auto simp: DeepCopyObject_nil)
qed

theorem MetalLBList_DeepCopyObject_isolated_witness:
  "\<exists>v c e. MetalLBList_DeepCopyObject example_copy example_list (Some 8) = (Some (MetalLBList_type, Some c), example_list @ e) \<and>
     view_pointer un_metallb_list (view_metallb_list example_view) (replicate 9 (KubeCell ([], None)) @ e) (Some c) =
       Some (Some v) \<and> list_Items v \<noteq> None"
proof -
  obtain v where v: "view_pointer un_metallb_list (view_metallb_list example_view) example_list (Some 8) = Some (Some v)"
    "list_Items v \<noteq> None"
    using example_list_view by blast
  obtain obj h' where c: "MetalLBList_DeepCopyObject example_copy example_list (Some 8) = (obj, h')" by fastforce
  have l: "length (replicate 9 (KubeCell ([], None))) = length example_list"
    by (simp add: example_list_def example_memory_def)
  from MetalLBList_DeepCopyObject_isolated [OF example_kube_copiers v(1) c] l c v(2) show ?thesis by auto
qed

end
