(* ===== verification/Unit_Tests.thy ===== *)
theory Unit_Tests
  imports Chart_Rendering Controller_Contracts TLS_Options
begin

text \<open>
  The tables of the repository's unit tests, evaluated on the model: what a test expects of the code, the
  definitions give. \<open>pkg/tlsconfig/tlsopt_test.go\<close>, \<open>pkg/params/params_test.go\<close>,
  \<open>pkg/helm/config_test.go\<close>, \<open>api/v1beta1/metallb_webhook_test.go\<close> and \<open>pkg/status/status_test.go\<close>; of
  \<open>pkg/helm/metallb_test.go\<close> and \<open>frrk8s_test.go\<close> what they expect of values and of the objects' names.
\<close>

section \<open>\<open>TestParseCurvePreferences\<close>\<close>

lemma TrimSpace_leading: "TrimSpace (CHR '' '' # s) = TrimSpace s"
proof -
  have "strip_front space_seqs (CHR '' '' # s) = strip_front space_seqs s"
    by (subst strip_front.simps) (simp add: space_seqs_def)
  then show ?thesis by (simp add: TrimSpace_def)
qed

lemma TrimSpace_word: "list_all plain_char s \<Longrightarrow> TrimSpace s = s"
  by (rule TrimSpace_plain) (simp add: list_all_iff)

lemmas curve_tests = parseCurvePreferences_def tlsCurvePreferences_def TrimSpace_leading TrimSpace_word plain_char_def
  ParseUint_def is_digit_def digit_val_def CurveID_String_def HasPrefix_def

lemma parse_curves_accepted:
  "parseCurvePreferences L [] = Inr None"
  "parseCurvePreferences L ''29'' = Inr (Some [29])"
  "parseCurvePreferences L ''29,23,24'' = Inr (Some [29, 23, 24])"
  "parseCurvePreferences L ''23,24,25,29,4588'' = Inr (Some [23, 24, 25, 29, 4588])"
  "parseCurvePreferences L ''29, 23, 4588'' = Inr (Some [29, 23, 4588])"
  by (simp_all add: curve_tests)

lemma parse_curves_refused:
  "parseCurvePreferences L ''X25519'' =
     Inl (ErrNew (''invalid curve preference '' @ fmt_quote L ''X25519'' @ '': must be a numeric CurveID (0-65535)''))"
  "parseCurvePreferences L ''99999'' =
     Inl (ErrNew (''invalid curve preference '' @ fmt_quote L ''99999'' @ '': must be a numeric CurveID (0-65535)''))"
  "parseCurvePreferences L ''-1'' =
     Inl (ErrNew (''invalid curve preference '' @ fmt_quote L ''-1'' @ '': must be a numeric CurveID (0-65535)''))"
  "parseCurvePreferences L ''0'' = Inl (ErrNew (''curve preference '' @ Itoa 0 @ '' is out of range (must be 1-65535)''))"
  "parseCurvePreferences L ''29,29'' = Inl (ErrNew (''duplicate curve preference '' @ Itoa 29))"
  by (simp_all add: curve_tests)

section \<open>\<open>TestParseTLSVersion\<close> and \<open>TestOptFor\<close>\<close>

lemma parse_version:
  "parseTLSVersion L [] = Inr VersionTLS13"
  "cliflag_TLSVersion L ''VersionTLS12'' = Inr 0x0303 \<Longrightarrow> parseTLSVersion L ''VersionTLS12'' = Inr 0x0303"
  "cliflag_TLSVersion L ''VersionTLS99'' = Inl e \<Longrightarrow> parseTLSVersion L ''VersionTLS99'' = Inl e"
  by (simp_all add: parseTLSVersion_def)

definition empty_tls :: tls_config where
  "empty_tls = \<lparr>CipherSuites = None, CurvePreferences = None, MinVersion = 0, NextProtos = []\<rparr>"

definition test_cipher :: string where
  "test_cipher = ''TLS_ECDHE_RSA_WITH_AES_128_GCM_SHA256''"

lemma no_ciphers: "parseCipherSuites L [] = Inr None"
  by (simp add: parseCipherSuites_def)

lemma test_cipher_parsed:
  "cliflag_TLSCipherSuites L [test_cipher] = Inr (Some [0xc02f]) \<Longrightarrow> parseCipherSuites L test_cipher = Inr (Some [0xc02f])"
  by (simp add: parseCipherSuites_def test_cipher_def TrimSpace_word plain_char_def)

lemma options_applied:
  assumes "cliflag_TLSCipherSuites L [test_cipher] = Inr (Some [0xc02f])"
    and "cliflag_TLSVersion L ''VersionTLS12'' = Inr 0x0303" and "cliflag_TLSVersion L ''VersionTLS13'' = Inr 0x0304"
  shows "map_sum id (\<lambda>f. f empty_tls) (OptFor L [] [] []) = Inr (empty_tls\<lparr>MinVersion := 0x0304\<rparr>)"
    and "map_sum id (\<lambda>f. f empty_tls) (OptFor L test_cipher ''29,4588'' ''VersionTLS12'') =
           Inr \<lparr>CipherSuites = Some [0xc02f], CurvePreferences = Some [29, 4588], MinVersion = 0x0303, NextProtos = []\<rparr>"
    and "map_sum id (\<lambda>f. f empty_tls) (OptFor L [] ''29'' ''VersionTLS13'') =
           Inr \<lparr>CipherSuites = None, CurvePreferences = Some [29], MinVersion = 0x0304, NextProtos = []\<rparr>"
    and "map_sum id (\<lambda>f. f empty_tls) (OptFor L test_cipher [] ''VersionTLS13'') =
           Inr \<lparr>CipherSuites = Some [0xc02f], CurvePreferences = None, MinVersion = 0x0304, NextProtos = []\<rparr>"
  using assms test_cipher_parsed [OF assms(1)]
  by (simp_all add: OptFor_def no_ciphers parseTLSVersion_def VersionTLS13_def empty_tls_def curve_tests)

lemma options_refused:
  "cliflag_TLSCipherSuites L [''FAKE_CIPHER''] = Inl e \<Longrightarrow>
     OptFor L ''FAKE_CIPHER'' [] [] = Inl (ErrorfW ''parsing tls-cipher-suites: '' e)"
  "\<exists>e. OptFor L [] ''X25519'' [] = Inl (ErrorfW ''parsing tls-curve-preferences: '' e)"
  "cliflag_TLSVersion L ''VersionTLS99'' = Inl e \<Longrightarrow>
     OptFor L [] [] ''VersionTLS99'' = Inl (ErrorfW ''parsing tls-min-version: '' e)"
  by (simp_all add: OptFor_def parseCipherSuites_def TrimSpace_word plain_char_def parse_curves_refused
      parse_curves_accepted parseTLSVersion_def)

section \<open>\<open>TestGetImageNameTag\<close>\<close>

text \<open>Both copies of the function are run on the table.\<close>

lemma image_references:
  "list_all (\<lambda>(input, want). getImageNameTag input = want \<and> helm_getImageNameTag input = want)
     [(''quay.io/metallb/speaker:v0.13.9'', (''quay.io/metallb/speaker'', ''v0.13.9'')),
      (''quay.io:5000/metallb/speaker:v0.13.9'', (''quay.io:5000/metallb/speaker'', ''v0.13.9'')),
      (''quay.io/metallb/speaker'', (''quay.io/metallb/speaker'', [])),
      (''quay.io:5000/metallb/speaker'', (''quay.io:5000/metallb/speaker'', [])),
      (''speaker:v0.13.9'', (''speaker'', ''v0.13.9'')), (''speaker'', (''speaker'', []))]"
  by (simp add: getImageNameTag_def helm_getImageNameTag_def Let_def)

section \<open>\<open>TestFromEnvironment\<close>\<close>

definition basics :: environment where
  "basics = [''OPERATOR_NAMESPACE'' \<mapsto> ''test-namespace'', ''CONTROLLER_IMAGE'' \<mapsto> ''test-controller-image:1'',
     ''SPEAKER_IMAGE'' \<mapsto> ''test-speaker-image:2'', ''FRR_IMAGE'' \<mapsto> ''test-frr-image:3'',
     ''FRRK8S_IMAGE'' \<mapsto> ''test-frrk8s-image:5'']"

definition basic_config :: env_config where
  "basic_config =
     \<lparr>EnvNamespace = ''test-namespace'', FRRK8sExternalNamespace = [],
      ControllerImage = \<lparr>Repo = ''test-controller-image'', Tag = ''1''\<rparr>,
      SpeakerImage = \<lparr>Repo = ''test-speaker-image'', Tag = ''2''\<rparr>,
      FRRImage = \<lparr>Repo = ''test-frr-image'', Tag = ''3''\<rparr>,
      FRRK8sImage = \<lparr>Repo = ''test-frrk8s-image'', Tag = ''5''\<rparr>,
      CNOMinFRRK8sVersion = [], MLBindPort = 7946, FRRMetricsPort = 9121, FRRK8sMetricsPort = 7572,
      FRRK8sFRRMetricsPort = 7573, SecureFRRK8sMetricsPort = 9140, SecureFRRK8sFRRMetricsPort = 9141,
      MetricsPort = 9120, LivenessPort = 17472, TLSCipherSuites = [], TLSCurvePreferences = [],
      TLSMinVersion = [], DeployPodMonitors = False, DeployServiceMonitors = False,
      DisableNetworkPolicies = False, IsOpenshift = False, MustDeployFRRK8sFromCNO = False\<rparr>"

lemma test_images:
  "getImageNameTag ''test-controller-image:1'' = (''test-controller-image'', ''1'')"
  "getImageNameTag ''test-speaker-image:2'' = (''test-speaker-image'', ''2'')"
  "getImageNameTag ''test-frr-image:3'' = (''test-frr-image'', ''3'')"
  "getImageNameTag ''test-frrk8s-image:5'' = (''test-frrk8s-image'', ''5'')"
  by (simp_all add: getImageNameTag_def Let_def)

lemmas environment_tests = FromEnvironment_def imageFromEnv_def intValueWithDefault_def test_images validate_def
  Getenv_def basics_def basic_config_def Atoi_def is_digit_def digit_val_def

lemma environment_basics: "FromEnvironment semver basics False = Inr basic_config"
  by (simp add: environment_tests)

lemma environment_ports:
  "FromEnvironment semver (basics(''DEPLOY_SERVICEMONITORS'' \<mapsto> ''true'', ''MEMBER_LIST_BIND_PORT'' \<mapsto> ''1111'',
       ''FRR_METRICS_PORT'' \<mapsto> ''2222'', ''METRICS_PORT'' \<mapsto> ''4444'', ''OPERAND_LIVENESS_PORT'' \<mapsto> ''5555'',
       ''FRRK8S_FRR_METRICS_PORT'' \<mapsto> ''6666'', ''FRRK8S_HTTPS_METRICS_PORT'' \<mapsto> ''7777'',
       ''FRRK8S_FRR_HTTPS_METRICS_PORT'' \<mapsto> ''8888'', ''FRRK8S_METRICS_PORT'' \<mapsto> ''9999'')) False =
     Inr (basic_config\<lparr>MLBindPort := 1111, FRRMetricsPort := 2222, MetricsPort := 4444, LivenessPort := 5555,
       FRRK8sFRRMetricsPort := 6666, SecureFRRK8sMetricsPort := 7777, SecureFRRK8sFRRMetricsPort := 8888,
       FRRK8sMetricsPort := 9999, DeployServiceMonitors := True\<rparr>)"
  by (simp add: environment_tests)

lemma environment_network_policies:
  "FromEnvironment semver (basics(''DISABLE_NETWORK_POLICIES'' \<mapsto> ''true'')) False =
     Inr (basic_config\<lparr>DisableNetworkPolicies := True\<rparr>)"
  by (simp add: environment_tests)

section \<open>\<open>TestValidateFRRK8sConfig\<close>\<close>

definition blocking :: "string list \<Rightarrow> metallb_spec" where
  "blocking cidrs =
     zero_spec\<lparr>FRRK8SConfig := Some \<lparr>AlwaysBlock = cidrs, FRRK8SNamespace = [], SecretPassthrough = False\<rparr>\<rparr>"

lemma test_cidrs:
  "ParseCIDR (TrimSpace ''192.168.0.0/24'') \<noteq> None" "ParseCIDR (TrimSpace ''10.0.0.0/16'') \<noteq> None"
  "ParseCIDR (TrimSpace ''2001:db8::/32'') \<noteq> None" "ParseCIDR (TrimSpace ''2001:db8:85a3::/48'') \<noteq> None"
  "ParseCIDR (TrimSpace ''invalid_cidr'') = None"
  by code_simp+

lemma frrk8s_config_validated:
  "validateFRRK8sConfig ext zero_spec = None"
  "validateFRRK8sConfig ext (blocking [''192.168.0.0/24'', ''10.0.0.0/16'']) = None"
  "validateFRRK8sConfig ext (blocking [''192.168.0.0/24'', ''invalid_cidr'']) =
     Some (ErrNew ''invalid CIDR invalid_cidr in AlwaysBlock'')"
  "validateFRRK8sConfig ext (blocking [''2001:db8::/32'', ''2001:db8:85a3::/48'']) = None"
  using test_cidrs
  by (auto simp: validateFRRK8sConfig_def blocking_def zero_spec_def FRRK8sExternalMode_def cidr_check_def)

lemma external_namespace_validated:
  "validateFRRK8sConfig [] (zero_spec\<lparr>BGPBackend := FRRK8sExternalMode\<rparr>) \<noteq> None"
  "validateFRRK8sConfig [] ((blocking [])\<lparr>BGPBackend := FRRK8sExternalMode\<rparr>) \<noteq> None"
  "validateFRRK8sConfig ''foo'' (zero_spec\<lparr>BGPBackend := FRRK8sExternalMode\<rparr>) = None"
  by (simp_all add: validateFRRK8sConfig_def blocking_def zero_spec_def)

section \<open>\<open>status_test.go\<close>\<close>

lemma conditions_available:
  "map Status (getConditions now ConditionAvailable r m) = [ConditionTrue, ConditionTrue, ConditionFalse, ConditionFalse]"
  "map Message (getConditions now ConditionAvailable r m) = [[], [], [], []]"
  by (simp_all add: getConditions_cases base_condition_def)

lemma conditions_progressing:
  "map Status (getConditions now ConditionProgressing r m) = [ConditionFalse, ConditionFalse, ConditionTrue, ConditionFalse]"
  "map Message (getConditions now ConditionProgressing r m) = [[], [], m, []]"
  "Reason (getConditions now ConditionProgressing r m ! 2) = r"
  by (simp_all add: getConditions_cases base_condition_def)

lemma conditions_degraded:
  "map Status (getConditions now ConditionDegraded r m) = [ConditionFalse, ConditionFalse, ConditionFalse, ConditionTrue]"
  "map Message (getConditions now ConditionDegraded r m) = [[], [], [], m]"
  "Reason (getConditions now ConditionDegraded r m ! 3) = r"
  by (simp_all add: getConditions_cases base_condition_def)

definition ready_speaker :: daemonset where
  "ready_speaker =
     \<lparr>DSGeneration = 1, DSObservedGeneration = 1, DesiredNumberScheduled = 3, CurrentNumberScheduled = 3,
      NumberReady = 3, UpdatedNumberScheduled = 3, DSAffinity = None, DSContainers = [], ds_rest = GNil\<rparr>"

definition ready_controller :: deployment where
  "ready_controller =
     \<lparr>DGeneration = 1, DObservedGeneration = 1, Replicas = Some 2, ReadyReplicas = 2, UpdatedReplicas = 2,
      DAffinity = None, DContainers = [], d_rest = GNil\<rparr>"

lemma daemonset_ready:
  "isDaemonSetReady ready_speaker = None"
  "isDaemonSetReady (ready_speaker\<lparr>DSGeneration := 2\<rparr>) = Some (NotReady ''MetalLB speaker daemonset status is out of date'')"
  "isDaemonSetReady (ready_speaker\<lparr>CurrentNumberScheduled := 1\<rparr>) = Some (NotReady ''MetalLB speaker daemonset not ready'')"
  "isDaemonSetReady (ready_speaker\<lparr>NumberReady := 1\<rparr>) = Some (NotReady ''MetalLB speaker daemonset not ready'')"
  "isDaemonSetReady (ready_speaker\<lparr>UpdatedNumberScheduled := 1\<rparr>) = Some (NotReady ''MetalLB speaker daemonset not ready'')"
  by (simp_all add: isDaemonSetReady_def ready_speaker_def)

lemma deployment_ready:
  "isDeploymentReady ready_controller = None"
  "isDeploymentReady (ready_controller\<lparr>DGeneration := 2\<rparr>) = Some (NotReady ''MetalLB controller deployment status is out of date'')"
  "isDeploymentReady (ready_controller\<lparr>Replicas := None, ReadyReplicas := 1, UpdatedReplicas := 1\<rparr>) = None"
  "isDeploymentReady (ready_controller\<lparr>ReadyReplicas := 0\<rparr>) = Some (NotReady ''MetalLB controller deployment not ready'')"
  "isDeploymentReady (ready_controller\<lparr>UpdatedReplicas := 0\<rparr>) = Some (NotReady ''MetalLB controller deployment not ready'')"
  by (simp_all add: isDeploymentReady_def ready_controller_def)

text \<open>\<open>TestIsMetalLBAvailable\<close>, on a server that has the two workloads or not.\<close>

lemma workloads_available:
  assumes "\<And>h. get_daemonset K h ns ''speaker'' = ds" and "\<And>h. get_deployment K h ns ''controller'' = d"
  shows "ds = Inr ready_speaker \<Longrightarrow> d = Inr ready_controller \<Longrightarrow> fst (IsMetalLBAvailable K ns []) = Ret None"
    and "ds = Inl e \<Longrightarrow> fst (IsMetalLBAvailable K ns []) = Ret (Some e)"
    and "ds = Inr ready_speaker \<Longrightarrow> d = Inl e \<Longrightarrow> fst (IsMetalLBAvailable K ns []) = Ret (Some e)"
    and "ds = Inr (ready_speaker\<lparr>NumberReady := 1\<rparr>) \<Longrightarrow>
           fst (IsMetalLBAvailable K ns []) = Ret (Some (NotReady ''MetalLB speaker daemonset not ready''))"
    and "ds = Inr ready_speaker \<Longrightarrow> d = Inr (ready_controller\<lparr>ReadyReplicas := 0\<rparr>) \<Longrightarrow>
           fst (IsMetalLBAvailable K ns []) = Ret (Some (NotReady ''MetalLB controller deployment not ready''))"
  by (simp_all add: IsMetalLBAvailable_run Let_def assms daemonset_ready deployment_ready)

section \<open>The charts' objects\<close>

text \<open>
  \<open>TestNetworkPolicies\<close>, \<open>TestSecretPassthrough\<close>, and the workloads that
  \<open>TestParseMetalLBChartWithCustomValues\<close> and \<open>TestParseFRRK8SChartWithCustomValues\<close> look for.
\<close>

lemma secret_passthrough:
  fixes env b
  defines "vals \<equiv> metalLBFrrk8sValues env (zero_spec\<lparr>BGPBackend := FRRK8sExternalMode, FRRK8SConfig := Some
    \<lparr>AlwaysBlock = [], FRRK8SNamespace = ''frr-k8s-external-namespace'', SecretPassthrough = b\<rparr>\<rparr>)"
  shows "vals ''secretPassthrough'' = Some (GBool b)"
    and "vals ''namespace'' = Some (GStr ''frr-k8s-external-namespace'')" and "vals ''external'' = Some (GBool True)"
  by (simp_all add: vals_def metalLBFrrk8sValues_def BGPType_def zero_spec_def FRRK8sExternalMode_def)

abbreviation values_over :: "env_config \<Rightarrow> metallb_spec \<Rightarrow> obj" where
  "values_over env spec \<equiv> coalesce_values (patchMetalLBChartValues env spec Map.empty) metallb_defaults"

lemma network_policies:
  assumes "render rel (values_over env spec) metallb_templates = Inr ids"
  shows "(''NetworkPolicy'', ''controller'') \<in> set ids \<longleftrightarrow> \<not> DisableNetworkPolicies env"
    and "netpolValues env = [''enabled'' \<mapsto> GBool (\<not> DisableNetworkPolicies env)]"
  using assms unfolding metallb_chart_renders [OF chart_values.coalesce_laws_axioms]
  by (auto simp: netpolValues_def metallb_ids_def metallb_base_ids_def metallb_monitor_ids_def split: if_splits)

lemma workloads_rendered:
  assumes "render rel (values_over env spec) metallb_templates = Inr ids"
  shows "filter (\<lambda>(k, n). k = ''DaemonSet'' \<or> k = ''Deployment'') ids = [(''Deployment'', ''controller''), (''DaemonSet'', ''speaker'')]"
  using assms unfolding metallb_chart_renders [OF chart_values.coalesce_laws_axioms]
  by (auto simp: metallb_ids_def metallb_base_ids_def metallb_monitor_ids_def split: if_splits)

end
