(* ===== verification/Workload_Template.thy ===== *)
theory Workload_Template
  imports Chart_Template Go_Strings
begin

text \<open>
  The containers in the templates of the charts' workloads: their names, images, arguments and
  environment. The theory has the language for them, and the four workloads, \<open>speaker.yaml\<close> and
  \<open>controller.yaml\<close> of the MetalLB chart, \<open>controller.yaml\<close> and \<open>status-cleaner.yaml\<close> of the frr-k8s
  chart. The texts are those of the lines, before they are read as YAML. Commands, volumes, ports, probes,
  resources and security contexts are left out; so are \<open>extraContainers\<close>, which no value of the operator
  sets.
\<close>

section \<open>Lists with conditions\<close>

datatype 'a guarded =
    Item 'a
  | When texpr "'a guarded list"

text \<open>The items whose conditions hold, each made by \<open>f\<close>; None where rendering fails.\<close>

fun expand :: "('a \<Rightarrow> 'b option) \<Rightarrow> obj \<Rightarrow> 'a guarded list \<Rightarrow> 'b list option" where
  "expand f vals [] = Some []"
| "expand f vals (Item x # gs) =
     Option.bind (f x) (\<lambda>y. map_option (\<lambda>ys. y # ys) (expand f vals gs))"
| "expand f vals (When c bs # gs) =
     (case holds vals c of
        None \<Rightarrow> None
      | Some False \<Rightarrow> expand f vals gs
      | Some True \<Rightarrow> Option.bind (expand f vals bs) (\<lambda>xs. map_option (\<lambda>ys. xs @ ys) (expand f vals gs)))"

section \<open>Texts\<close>

text \<open>A release, with the chart's \<open>appVersion\<close>.\<close>

record chart_release = release +
  AppVersion :: string

text \<open>
  \<open>PValue\<close> is a value, \<open>PRequired\<close> one that must not be empty; \<open>PName\<close> is \<open>include "<chart>.name"\<close>, and
  \<open>PSecretName\<close> is \<open>include "metallb.secretName"\<close>.
\<close>

datatype tpiece =
    PText string
  | PValue "string list"
  | PRequired "string list"
  | PName
  | PSecretName

text \<open>What the template prints of a value; Helm prints nothing for one that is missing.\<close>

fun print_value :: "gval \<Rightarrow> string option" where
  "print_value GNil = Some []"
| "print_value (GBool b) = Some (if b then ''true'' else ''false'')"
| "print_value (GInt i) = Some (Itoa i)"
| "print_value (GFloat t) = Some t"
| "print_value (GStr s) = Some s"
| "print_value v = None"

definition chart_name :: "release \<Rightarrow> obj \<Rightarrow> string" where
  "chart_name rel vals =
     trunc_name (if text_at vals ''nameOverride'' \<noteq> [] then text_at vals ''nameOverride'' else ChartNameOf rel)"

fun print_piece :: "chart_release \<Rightarrow> obj \<Rightarrow> tpiece \<Rightarrow> string option" where
  "print_piece rel vals (PText s) = Some s"
| "print_piece rel vals (PValue p) = Option.bind (value_at vals p) print_value"
| "print_piece rel vals (PRequired p) =
     Option.bind (value_at vals p) (\<lambda>v. if v = GNil \<or> v = GStr [] then None else print_value v)"
| "print_piece rel vals PName = Some (chart_name (release.truncate rel) vals)"
| "print_piece rel vals PSecretName =
     Option.bind (value_at vals [''speaker'', ''secretName'']) (\<lambda>v. map_option trunc_name
       (if truth v then print_value v else Some (fullname (release.truncate rel) vals @ ''-memberlist'')))"

fun print_line :: "chart_release \<Rightarrow> obj \<Rightarrow> tpiece list \<Rightarrow> string option" where
  "print_line rel vals [] = Some []"
| "print_line rel vals (p # ps) =
     Option.bind (print_piece rel vals p) (\<lambda>s. map_option (\<lambda>t. s @ t) (print_line rel vals ps))"

section \<open>Containers\<close>

text \<open>A variable of the environment has a text, or is a field of the pod.\<close>

datatype env_source = FromText "tpiece list" | FromField string

record container_template =
  TplName :: string
  TplImage :: "string list"
  TplArgs :: "tpiece list guarded list"
  TplEnv :: "(string \<times> env_source) guarded list"

datatype env_value = Text string | Field string

record pod_container =
  PodContainerName :: string
  PodImage :: string
  PodArgs :: "string list"
  PodEnv :: "(string \<times> env_value) list"

text \<open>\<open>{{ repository }}:{{ tag | default .Chart.AppVersion }}\<close>\<close>

definition print_image :: "chart_release \<Rightarrow> obj \<Rightarrow> string list \<Rightarrow> string option" where
  "print_image rel vals p =
     Option.bind (Option.bind (value_at vals (p @ [''repository''])) print_value) (\<lambda>repo.
     Option.bind (value_at vals (p @ [''tag''])) (\<lambda>t.
     map_option (\<lambda>tag. repo @ '':'' @ tag) (if truth t then print_value t else Some (AppVersion rel))))"

fun print_env :: "chart_release \<Rightarrow> obj \<Rightarrow> string \<times> env_source \<Rightarrow> (string \<times> env_value) option" where
  "print_env rel vals (n, FromText ps) = map_option (\<lambda>s. (n, Text s)) (print_line rel vals ps)"
| "print_env rel vals (n, FromField f) = Some (n, Field f)"

definition print_container :: "chart_release \<Rightarrow> obj \<Rightarrow> container_template \<Rightarrow> pod_container option" where
  "print_container rel vals c =
     Option.bind (print_image rel vals (TplImage c)) (\<lambda>img.
     Option.bind (expand (print_line rel vals) vals (TplArgs c)) (\<lambda>args.
     map_option (\<lambda>env. \<lparr>PodContainerName = TplName c, PodImage = img, PodArgs = args, PodEnv = env\<rparr>)
       (expand (print_env rel vals) vals (TplEnv c))))"

text \<open>A workload's init containers and containers.\<close>

type_synonym workload_template = "container_template guarded list \<times> container_template guarded list"

definition print_workload ::
  "chart_release \<Rightarrow> obj \<Rightarrow> workload_template \<Rightarrow> (pod_container list \<times> pod_container list) option" where
  "print_workload rel vals w =
     Option.bind (expand (print_container rel vals) vals (fst w)) (\<lambda>init.
     map_option (\<lambda>run. (init, run)) (expand (print_container rel vals) vals (snd w)))"

section \<open>The containers of the charts\<close>

text \<open>The two charts as the reconciler installs them, each under its own name.\<close>

definition metallb_release :: chart_release where
  "metallb_release = \<lparr>ReleaseNameOf = ''metallb'', ChartNameOf = ''metallb'', AppVersion = ''v0.0.0''\<rparr>"

definition frrk8s_release :: chart_release where
  "frrk8s_release = \<lparr>ReleaseNameOf = ''frr-k8s'', ChartNameOf = ''frr-k8s'', AppVersion = ''v0.0.25''\<rparr>"

definition plain_container :: "string \<Rightarrow> string list \<Rightarrow> container_template" where
  "plain_container n p = \<lparr>TplName = n, TplImage = p, TplArgs = [], TplEnv = []\<rparr>"

text \<open>The lines on TLS, the same ones wherever there are some.\<close>

definition tls_lines :: "tpiece list guarded list" where
  "tls_lines =
    [When (TVal [''tls'', ''cipherSuites''])
       [Item [PText ''--tls-cipher-suites='', PValue [''tls'', ''cipherSuites'']]],
     When (TVal [''tls'', ''curvePreferences''])
       [Item [PText ''--tls-curve-preferences='', PValue [''tls'', ''curvePreferences'']]],
     When (TVal [''tls'', ''minVersion''])
       [Item [PText ''--tls-min-version='', PValue [''tls'', ''minVersion'']]]]"

text \<open>\<open>speaker.yaml\<close>: the speaker, then what runs beside it in frr mode.\<close>

definition speaker_container :: container_template where
  "speaker_container = \<lparr>TplName = ''speaker'', TplImage = [''speaker'', ''image''],
     TplArgs =
       [Item [PText ''--port='', PValue [''prometheus'', ''metricsPort'']],
        Item [PText ''--health-probe-port='', PValue [''speaker'', ''livenessProbe'', ''port'']],
        When (TVal [''speaker'', ''logLevel'']) [Item [PText ''--log-level='', PValue [''speaker'', ''logLevel'']]],
        When (TVal [''loadBalancerClass'']) [Item [PText ''--lb-class='', PValue [''loadBalancerClass'']]],
        When (TVal [''speaker'', ''wanConfig'']) [Item [PText ''--ml-wan-config'']],
        When (TVal [''speaker'', ''ignoreExcludeLB'']) [Item [PText ''--ignore-exclude-lb'']],
        When (TVal [''speaker'', ''bgpDebounceTimeout''])
          [Item [PText ''--bgp-debounce-timeout='', PValue [''speaker'', ''bgpDebounceTimeout'']]],
        When (TVal [''frrk8s'', ''external''])
          [Item [PText ''--frrk8s-namespace='', PRequired [''frrk8s'', ''namespace'']],
           When (TVal [''frrk8s'', ''secretPassthrough'']) [Item [PText ''--frrk8s-secret-passthrough'']]]] @
       tls_lines @
       [When (TVal [''tls'', ''speakerMetricsTLSSecret'']) [Item [PText ''--metrics-cert-dir=/etc/metrics'']]],
     TplEnv =
       [Item (''METALLB_NODE_NAME'', FromField ''spec.nodeName''),
        Item (''METALLB_HOST'', FromField ''status.hostIP''),
        When (TVal [''speaker'', ''memberlist'', ''enabled''])
          [When (TVal [''speaker'', ''memberlist'', ''mlBindAddrOverride''])
             [Item (''METALLB_ML_BIND_ADDR'', FromText [PValue [''speaker'', ''memberlist'', ''mlBindAddrOverride'']])],
           When (TNot (TVal [''speaker'', ''memberlist'', ''mlBindAddrOverride'']))
             [Item (''METALLB_ML_BIND_ADDR'', FromField ''status.podIP'')],
           Item (''METALLB_ML_LABELS'', FromText [PText ''app='', PName, PText '',component=speaker'']),
           Item (''METALLB_ML_BIND_PORT'', FromText [PValue [''speaker'', ''memberlist'', ''mlBindPort'']]),
           Item (''METALLB_ML_SECRET_KEY_PATH'', FromText [PValue [''speaker'', ''memberlist'', ''mlSecretKeyPath'']])],
        When (TVal [''speaker'', ''frr'', ''enabled''])
          [Item (''FRR_CONFIG_FILE'', FromText [PText ''/etc/frr_reloader/frr.conf'']),
           Item (''FRR_RELOADER_PID_FILE'', FromText [PText ''/etc/frr_reloader/reloader.pid'']),
           Item (''METALLB_BGP_TYPE'', FromText [PText ''frr''])],
        When (TOr (TVal [''frrk8s'', ''enabled'']) (TVal [''frrk8s'', ''external'']))
          [Item (''METALLB_BGP_TYPE'', FromText [PText ''frr-k8s''])],
        Item (''METALLB_POD_NAME'', FromField ''metadata.name'')]\<rparr>"

definition speaker_frr_container :: container_template where
  "speaker_frr_container = (plain_container ''frr'' [''speaker'', ''frr'', ''image''])
     \<lparr>TplEnv := [Item (''TINI_SUBREAPER'', FromText [PText ''true''])]\<rparr>"

definition speaker_metrics_container :: container_template where
  "speaker_metrics_container = \<lparr>TplName = ''frr-metrics'', TplImage = [''speaker'', ''frr'', ''image''],
     TplArgs =
       [Item [PText ''--metrics-port='', PValue [''speaker'', ''frr'', ''metricsPort'']],
        Item [PText ''--metrics-bind-address=0.0.0.0''],
        When (TVal [''tls'', ''speakerMetricsTLSSecret''])
          [Item [PText ''--tls-cert-file=/etc/metrics/tls.crt''],
           Item [PText ''--tls-private-key-file=/etc/metrics/tls.key'']]] @
       tls_lines,
     TplEnv = [Item (''VTYSH_HISTFILE'', FromText [PText ''/dev/null''])]\<rparr>"

definition speaker_workload :: workload_template where
  "speaker_workload =
    ([When (TVal [''speaker'', ''frr'', ''enabled''])
        [Item (plain_container ''cp-frr-files'' [''speaker'', ''frr'', ''image'']),
         Item (plain_container ''cp-reloader'' [''speaker'', ''image'']),
         Item (plain_container ''cp-metrics'' [''speaker'', ''image''])]],
     [Item speaker_container,
      When (TVal [''speaker'', ''frr'', ''enabled''])
        [Item speaker_frr_container,
         Item (plain_container ''reloader'' [''speaker'', ''frr'', ''image'']),
         Item speaker_metrics_container]])"

text \<open>\<open>controller.yaml\<close> of the MetalLB chart.\<close>

definition controller_container :: container_template where
  "controller_container = \<lparr>TplName = ''controller'', TplImage = [''controller'', ''image''],
     TplArgs =
       [Item [PText ''--port='', PValue [''prometheus'', ''metricsPort'']],
        Item [PText ''--health-probe-port='', PValue [''controller'', ''livenessProbe'', ''port'']],
        When (TVal [''controller'', ''logLevel'']) [Item [PText ''--log-level='', PValue [''controller'', ''logLevel'']]],
        When (TVal [''loadBalancerClass'']) [Item [PText ''--lb-class='', PValue [''loadBalancerClass'']]],
        When (TVal [''controller'', ''webhookMode''])
          [Item [PText ''--webhook-mode='', PValue [''controller'', ''webhookMode'']]]] @
       tls_lines @
       [When (TVal [''tls'', ''controllerMetricsTLSSecret'']) [Item [PText ''--metrics-cert-dir=/etc/metrics'']]],
     TplEnv =
       [Item (''METALLB_POD_NAME'', FromField ''metadata.name''),
        When (TAnd (TVal [''speaker'', ''enabled'']) (TVal [''speaker'', ''memberlist'', ''enabled'']))
          [Item (''METALLB_ML_SECRET_NAME'', FromText [PSecretName]),
           Item (''METALLB_DEPLOYMENT'', FromText [PText ''controller''])],
        When (TAnd (TVal [''speaker'', ''enabled'']) (TVal [''speaker'', ''frr'', ''enabled'']))
          [Item (''METALLB_BGP_TYPE'', FromText [PText ''frr''])],
        When (TOr (TVal [''frrk8s'', ''enabled'']) (TVal [''frrk8s'', ''external'']))
          [Item (''METALLB_BGP_TYPE'', FromText [PText ''frr-k8s''])]]\<rparr>"

definition controller_workload :: workload_template where
  "controller_workload = ([], [Item controller_container])"

text \<open>\<open>controller.yaml\<close> of the frr-k8s chart: the daemon.\<close>

definition daemon_container :: container_template where
  "daemon_container = \<lparr>TplName = ''controller'', TplImage = [''frrk8s'', ''image''],
     TplArgs =
       [Item [PText ''--node-name=$(NODE_NAME)''], Item [PText ''--namespace=$(NAMESPACE)''],
        Item [PText ''--metrics-bind-address=0.0.0.0:'', PValue [''prometheus'', ''secureMetricsPort'']],
        When (TVal [''frrk8s'', ''logLevel'']) [Item [PText ''--log-level='', PValue [''frrk8s'', ''logLevel'']]],
        When (TVal [''frrk8s'', ''alwaysBlock'']) [Item [PText ''--always-block='', PValue [''frrk8s'', ''alwaysBlock'']]],
        When (TVal [''frrk8s'', ''bgpDebounceTimeout''])
          [Item [PText ''--bgp-debounce-timeout='', PValue [''frrk8s'', ''bgpDebounceTimeout'']]]] @
       tls_lines @
       [When (TVal [''tls'', ''metricsTLSSecret'']) [Item [PText ''--metrics-cert-dir=/etc/metrics'']]],
     TplEnv =
       [Item (''FRR_CONFIG_FILE'', FromText [PText ''/etc/frr_reloader/frr.conf'']),
        Item (''FRR_RELOADER_PID_FILE'', FromText [PText ''/etc/frr_reloader/reloader.pid'']),
        Item (''NODE_NAME'', FromField ''spec.nodeName''), Item (''NAMESPACE'', FromField ''metadata.namespace'')]\<rparr>"

definition daemon_frr_container :: container_template where
  "daemon_frr_container = (plain_container ''frr'' [''frrk8s'', ''frr'', ''image''])
     \<lparr>TplEnv := [Item (''TINI_SUBREAPER'', FromText [PText ''true''])]\<rparr>"

definition daemon_metrics_container :: container_template where
  "daemon_metrics_container = \<lparr>TplName = ''frr-metrics'', TplImage = [''frrk8s'', ''frr'', ''image''],
     TplArgs =
       [Item [PText ''--metrics-port='', PValue [''frrk8s'', ''frr'', ''secureMetricsPort'']],
        Item [PText ''--metrics-bind-address=0.0.0.0''],
        When (TVal [''tls'', ''metricsTLSSecret''])
          [Item [PText ''--tls-cert-file=/etc/metrics/tls.crt''],
           Item [PText ''--tls-private-key-file=/etc/metrics/tls.key'']]] @
       tls_lines,
     TplEnv = []\<rparr>"

definition daemon_status_container :: container_template where
  "daemon_status_container = \<lparr>TplName = ''frr-status'', TplImage = [''frrk8s'', ''frr'', ''image''],
     TplArgs =
       [Item [PText ''--node-name=$(NODE_NAME)''], Item [PText ''--namespace=$(NAMESPACE)''],
        Item [PText ''--pod-name=$(POD_NAME)''],
        When (TVal [''frrk8s'', ''logLevel'']) [Item [PText ''--log-level='', PValue [''frrk8s'', ''logLevel'']]],
        When (TVal [''frrk8s'', ''frrStatus'', ''pollInterval''])
          [Item [PText ''--poll-interval='', PValue [''frrk8s'', ''frrStatus'', ''pollInterval'']]]],
     TplEnv =
       [Item (''NODE_NAME'', FromField ''spec.nodeName''), Item (''NAMESPACE'', FromField ''metadata.namespace''),
        Item (''POD_NAME'', FromField ''metadata.name'')]\<rparr>"

definition daemon_workload :: workload_template where
  "daemon_workload =
    ([Item (plain_container ''cp-frr-files'' [''frrk8s'', ''frr'', ''image'']),
      Item (plain_container ''cp-reloader'' [''frrk8s'', ''image'']),
      Item (plain_container ''cp-metrics'' [''frrk8s'', ''image'']),
      Item (plain_container ''cp-frr-status'' [''frrk8s'', ''image''])],
     [Item daemon_container, Item daemon_frr_container,
      Item (plain_container ''reloader'' [''frrk8s'', ''frr'', ''image'']),
      Item daemon_metrics_container, Item daemon_status_container])"

text \<open>\<open>status-cleaner.yaml\<close>\<close>

definition statuscleaner_container :: container_template where
  "statuscleaner_container = \<lparr>TplName = ''frr-k8s-statuscleaner'', TplImage = [''frrk8s'', ''image''],
     TplArgs =
       [Item [PText ''--webhook-port='', PValue [''frrk8s'', ''webhookPort'']],
        When (TVal [''frrk8s'', ''logLevel'']) [Item [PText ''--log-level='', PValue [''frrk8s'', ''logLevel'']]],
        When (TVal [''frrk8s'', ''disableCertRotation'']) [Item [PText ''--disable-cert-rotation=true'']],
        When (TVal [''frrk8s'', ''restartOnRotatorSecretRefresh''])
          [Item [PText ''--restart-on-rotator-secret-refresh=true'']],
        Item [PText ''--namespace=$(NAMESPACE)'']] @
       tls_lines,
     TplEnv = [Item (''NAMESPACE'', FromField ''metadata.namespace'')]\<rparr>"

definition statuscleaner_workload :: workload_template where
  "statuscleaner_workload = ([], [Item statuscleaner_container])"

end
