(* ===== verification/Workload_Contracts.thy ===== *)
theory Workload_Contracts
  imports Workload_Template Chart_Rendering_FRRK8s
begin

text \<open>
  The containers that the charts' workloads get from the operator's values, and what follows for the
  configuration: one backend in all pods, one set of TLS settings, and the images of the environment.
\<close>

section \<open>What the templates find\<close>

lemma metallb_container_laid:
  "laid_at (metallb_values env spec) metallb_defaults [''prometheus'', ''metricsPort''] = Some (GInt (MetricsPort env))"
  "laid_at (metallb_values env spec) metallb_defaults [''loadBalancerClass''] = Some (GStr (LoadBalancerClass spec))"
  "laid_at (metallb_values env spec) metallb_defaults [''controller'', ''livenessProbe'', ''port''] =
     Some (GInt (LivenessPort env))"
  "laid_at (metallb_values env spec) metallb_defaults [''controller'', ''logLevel''] = Some (GStr (logLevelValue spec))"
  "laid_at (metallb_values env spec) metallb_defaults [''controller'', ''image'', ''repository''] =
     Some (GStr (Repo (ControllerImage env)))"
  "laid_at (metallb_values env spec) metallb_defaults [''controller'', ''image'', ''tag''] =
     Some (GStr (Tag (ControllerImage env)))"
  "laid_at (metallb_values env spec) metallb_defaults [''speaker'', ''livenessProbe'', ''port''] =
     Some (GInt (LivenessPort env))"
  "laid_at (metallb_values env spec) metallb_defaults [''speaker'', ''logLevel''] = Some (GStr (logLevelValue spec))"
  "laid_at (metallb_values env spec) metallb_defaults [''speaker'', ''image'', ''repository''] =
     Some (GStr (Repo (SpeakerImage env)))"
  "laid_at (metallb_values env spec) metallb_defaults [''speaker'', ''image'', ''tag''] =
     Some (GStr (Tag (SpeakerImage env)))"
  "laid_at (metallb_values env spec) metallb_defaults [''speaker'', ''frr'', ''image'', ''repository''] =
     Some (GStr (Repo (FRRImage env)))"
  "laid_at (metallb_values env spec) metallb_defaults [''speaker'', ''frr'', ''image'', ''tag''] =
     Some (GStr (Tag (FRRImage env)))"
  "laid_at (metallb_values env spec) metallb_defaults [''speaker'', ''frr'', ''metricsPort''] =
     Some (GInt (FRRMetricsPort env))"
  "laid_at (metallb_values env spec) metallb_defaults [''speaker'', ''wanConfig''] = Some GNil"
  "laid_at (metallb_values env spec) metallb_defaults [''speaker'', ''ignoreExcludeLB''] = Some (GBool False)"
  "laid_at (metallb_values env spec) metallb_defaults [''speaker'', ''bgpDebounceTimeout''] = Some GNil"
  "laid_at (metallb_values env spec) metallb_defaults [''speaker'', ''secretName''] = Some GNil"
  "laid_at (metallb_values env spec) metallb_defaults [''speaker'', ''memberlist'', ''mlBindAddrOverride''] =
     Some (GStr [])"
  "laid_at (metallb_values env spec) metallb_defaults [''speaker'', ''memberlist'', ''mlBindPort''] =
     Some (GInt (MLBindPort env))"
  "laid_at (metallb_values env spec) metallb_defaults [''speaker'', ''memberlist'', ''mlSecretKeyPath''] =
     Some (GStr ''/etc/ml_secret_key'')"
  "laid_at (metallb_values env spec) metallb_defaults [''nameOverride''] = Some (GStr [])"
  "laid_at (metallb_values env spec) metallb_defaults [''fullnameOverride''] = Some (GStr [])"
  by (simp_all add: metallb_parts metallb_default_parts loadBalancerClassValue_def)

definition secret_passthrough :: "metallb_spec \<Rightarrow> bool" where
  "secret_passthrough spec = (case FRRK8SConfig spec of None \<Rightarrow> False | Some c \<Rightarrow> SecretPassthrough c)"

lemma metallb_settings_laid:
  "laid_at (metallb_values env spec) metallb_defaults [''frrk8s'', ''secretPassthrough''] =
     Some (GBool (secret_passthrough spec))"
  "laid_at (metallb_values env spec) metallb_defaults [''tls'', ''cipherSuites''] = Some (GStr (TLSCipherSuites env))"
  "laid_at (metallb_values env spec) metallb_defaults [''tls'', ''curvePreferences''] =
     Some (GStr (TLSCurvePreferences env))"
  "laid_at (metallb_values env spec) metallb_defaults [''tls'', ''minVersion''] = Some (GStr (TLSMinVersion env))"
  "laid_at (metallb_values env spec) metallb_defaults [''tls'', ''controllerMetricsTLSSecret''] =
     Some (GStr (if IsOpenshift env then controllerCertsSecret else []))"
  "laid_at (metallb_values env spec) metallb_defaults [''tls'', ''speakerMetricsTLSSecret''] =
     Some (GStr (if IsOpenshift env then speakerCertsSecret else []))"
  by (simp_all add: metallb_parts metallb_default_parts secret_passthrough_def)

section \<open>What the containers are to be\<close>

definition opt_flag :: "string \<Rightarrow> string \<Rightarrow> string list" where
  "opt_flag f s = (if s = [] then [] else [f @ s])"

text \<open>The flags for the TLS settings of the environment.\<close>

definition tls_flags :: "env_config \<Rightarrow> string list" where
  "tls_flags env =
     opt_flag ''--tls-cipher-suites='' (TLSCipherSuites env) @
     opt_flag ''--tls-curve-preferences='' (TLSCurvePreferences env) @
     opt_flag ''--tls-min-version='' (TLSMinVersion env)"

text \<open>An image with the tag of the environment, or the application version of the chart if it has none.\<close>

definition image_of :: "string \<Rightarrow> image_info \<Rightarrow> string" where
  "image_of app i = Repo i @ '':'' @ (if Tag i = [] then app else Tag i)"

definition backend_variable :: "env_config \<Rightarrow> metallb_spec \<Rightarrow> (string \<times> env_value) list" where
  "backend_variable env spec =
     (if BGPType spec env = FRRMode then [(''METALLB_BGP_TYPE'', Text ''frr'')]
      else if BGPType spec env \<in> {FRRK8sMode, FRRK8sExternalMode} then [(''METALLB_BGP_TYPE'', Text ''frr-k8s'')]
      else [])"

definition controller_pod :: "env_config \<Rightarrow> metallb_spec \<Rightarrow> pod_container" where
  "controller_pod env spec =
     \<lparr>PodContainerName = ''controller'', PodImage = image_of ''v0.0.0'' (ControllerImage env),
      PodArgs =
        [''--port='' @ Itoa (MetricsPort env), ''--health-probe-port='' @ Itoa (LivenessPort env),
         ''--log-level='' @ logLevelValue spec] @
        opt_flag ''--lb-class='' (LoadBalancerClass spec) @
        [''--webhook-mode=disabled''] @ tls_flags env @
        (if IsOpenshift env then [''--metrics-cert-dir=/etc/metrics''] else []),
      PodEnv =
        [(''METALLB_POD_NAME'', Field ''metadata.name''),
         (''METALLB_ML_SECRET_NAME'', Text ''metallb-memberlist''), (''METALLB_DEPLOYMENT'', Text ''controller'')] @
        backend_variable env spec\<rparr>"

definition speaker_pod :: "env_config \<Rightarrow> metallb_spec \<Rightarrow> pod_container" where
  "speaker_pod env spec =
     \<lparr>PodContainerName = ''speaker'', PodImage = image_of ''v0.0.0'' (SpeakerImage env),
      PodArgs =
        [''--port='' @ Itoa (MetricsPort env), ''--health-probe-port='' @ Itoa (LivenessPort env),
         ''--log-level='' @ logLevelValue spec] @
        opt_flag ''--lb-class='' (LoadBalancerClass spec) @
        (if BGPType spec env = FRRK8sExternalMode
         then (''--frrk8s-namespace='' @ frrk8s_namespace_value env spec) #
              (if secret_passthrough spec then [''--frrk8s-secret-passthrough''] else [])
         else []) @
        tls_flags env @
        (if IsOpenshift env then [''--metrics-cert-dir=/etc/metrics''] else []),
      PodEnv =
        [(''METALLB_NODE_NAME'', Field ''spec.nodeName''), (''METALLB_HOST'', Field ''status.hostIP''),
         (''METALLB_ML_BIND_ADDR'', Field ''status.podIP''),
         (''METALLB_ML_LABELS'', Text ''app=metallb,component=speaker''),
         (''METALLB_ML_BIND_PORT'', Text (Itoa (MLBindPort env))),
         (''METALLB_ML_SECRET_KEY_PATH'', Text ''/etc/ml_secret_key'')] @
        (if BGPType spec env = FRRMode
         then [(''FRR_CONFIG_FILE'', Text ''/etc/frr_reloader/frr.conf''),
               (''FRR_RELOADER_PID_FILE'', Text ''/etc/frr_reloader/reloader.pid'')] else []) @
        backend_variable env spec @ [(''METALLB_POD_NAME'', Field ''metadata.name'')]\<rparr>"

definition plain_pod :: "string \<Rightarrow> string \<Rightarrow> pod_container" where
  "plain_pod n i = \<lparr>PodContainerName = n, PodImage = i, PodArgs = [], PodEnv = []\<rparr>"

text \<open>The exporter of FRR's metrics, which serves TLS from a secret that only OpenShift has.\<close>

definition metrics_pod :: "env_config \<Rightarrow> string \<Rightarrow> int \<Rightarrow> (string \<times> env_value) list \<Rightarrow> pod_container" where
  "metrics_pod env i port vars =
     \<lparr>PodContainerName = ''frr-metrics'', PodImage = i,
      PodArgs =
        [''--metrics-port='' @ Itoa port, ''--metrics-bind-address=0.0.0.0''] @
        (if IsOpenshift env
         then [''--tls-cert-file=/etc/metrics/tls.crt'', ''--tls-private-key-file=/etc/metrics/tls.key''] else []) @
        tls_flags env,
      PodEnv = vars\<rparr>"

text \<open>What runs in a pod with FRR, before its main container and beside it.\<close>

definition frr_init_pods :: "string \<Rightarrow> string \<Rightarrow> pod_container list" where
  "frr_init_pods own frr = [plain_pod ''cp-frr-files'' frr, plain_pod ''cp-reloader'' own, plain_pod ''cp-metrics'' own]"

definition frr_pods :: "string \<Rightarrow> pod_container list" where
  "frr_pods frr = [(plain_pod ''frr'' frr)\<lparr>PodEnv := [(''TINI_SUBREAPER'', Text ''true'')]\<rparr>, plain_pod ''reloader'' frr]"

definition speaker_pods :: "env_config \<Rightarrow> metallb_spec \<Rightarrow> pod_container list \<times> pod_container list" where
  "speaker_pods env spec =
     (let frr = image_of ''v0.0.0'' (FRRImage env) in
      if BGPType spec env = FRRMode
      then (frr_init_pods (image_of ''v0.0.0'' (SpeakerImage env)) frr,
            speaker_pod env spec # frr_pods frr @
              [metrics_pod env frr (FRRMetricsPort env) [(''VTYSH_HISTFILE'', Text ''/dev/null'')]])
      else ([], [speaker_pod env spec]))"

section \<open>What they are\<close>

lemma expand_append:
  "expand f vals (gs @ hs) =
     Option.bind (expand f vals gs) (\<lambda>xs. map_option (\<lambda>ys. xs @ ys) (expand f vals hs))"
  by (induction f vals gs rule: expand.induct)
    (auto simp: map_option_case split: option.splits bool.splits Option.bind_split)

lemma logLevelValue_not_Nil [simp]: "logLevelValue spec \<noteq> []"
  by (simp add: logLevelValue_def LogLevelInfo_def)

text \<open>The lines on TLS, in any chart whose values have the settings.\<close>

lemma tls_lines_print:
  assumes "value_at vals [''tls'', ''cipherSuites''] = Some (GStr (TLSCipherSuites env))"
    and "value_at vals [''tls'', ''curvePreferences''] = Some (GStr (TLSCurvePreferences env))"
    and "value_at vals [''tls'', ''minVersion''] = Some (GStr (TLSMinVersion env))"
  shows "expand (print_line rel vals) vals tls_lines = Some (tls_flags env)"
  by (cases "TLSCipherSuites env = []"; cases "TLSCurvePreferences env = []"; cases "TLSMinVersion env = []")
    (simp_all add: tls_lines_def tls_flags_def opt_flag_def assms del: value_at.simps)

lemma print_image_of:
  assumes "value_at vals (p @ [''repository'']) = Some (GStr (Repo i))"
    and "value_at vals (p @ [''tag'']) = Some (GStr (Tag i))"
  shows "print_image rel vals p = Some (image_of (AppVersion rel) i)"
  by (simp add: print_image_def image_of_def assms del: value_at.simps)

lemma text_at_value: "value_at vals [k] = Some (GStr s) \<Longrightarrow> text_at vals k = s"
  by (auto simp: text_at_def split: option.splits)

text \<open>The names that the MetalLB chart makes of its own one.\<close>

lemma metallb_names:
  assumes "value_at vals [''nameOverride''] = Some (GStr [])" and "value_at vals [''fullnameOverride''] = Some (GStr [])"
  shows "chart_name (release.truncate metallb_release) vals = ''metallb''"
    and "trunc_name (fullname (release.truncate metallb_release) vals @ ''-memberlist'') = ''metallb-memberlist''"
proof -
  have r: "release.truncate metallb_release = \<lparr>ReleaseNameOf = ''metallb'', ChartNameOf = ''metallb''\<rparr>"
    by (simp add: metallb_release_def release.truncate_def)
  show "chart_name (release.truncate metallb_release) vals = ''metallb''"
    by (simp add: r chart_name_def trunc_name_def Let_def assms [THEN text_at_value])
  have "fullname (release.truncate metallb_release) vals = ''metallb''"
    by (simp add: r fullname_def trunc_name_def Let_def assms [THEN text_at_value])
  then show "trunc_name (fullname (release.truncate metallb_release) vals @ ''-memberlist'') = ''metallb-memberlist''"
    by (simp add: trunc_name_def Let_def)
qed

text \<open>How the containers are printed, from what is known of the values.\<close>

lemmas printing = print_container_def print_image_of expand_append opt_flag_def

lemma app_versions [simp]: "AppVersion metallb_release = ''v0.0.0''" "AppVersion frrk8s_release = ''v0.0.25''"
  by (simp_all add: metallb_release_def frrk8s_release_def)

lemma metallb_containers_print:
  fixes coalesce env spec
  defines "vals \<equiv> coalesce (metallb_values env spec) metallb_defaults"
  assumes "coalesce_laws coalesce"
  shows "print_container metallb_release vals controller_container = Some (controller_pod env spec)" (is ?controller)
    and "\<not> (BGPType spec env = FRRK8sExternalMode \<and> frrk8s_namespace_value env spec = []) \<Longrightarrow>
           print_container metallb_release vals speaker_container = Some (speaker_pod env spec)" (is "?named \<Longrightarrow> ?speaker")
    and "print_container metallb_release vals speaker_metrics_container =
           Some (metrics_pod env (image_of ''v0.0.0'' (FRRImage env)) (FRRMetricsPort env)
             [(''VTYSH_HISTFILE'', Text ''/dev/null'')])" (is ?metrics)
proof -
  note laid = metallb_laid [where env = env and spec = spec, THEN coalesce_laws.coalesce_laid_at [OF assms(2)],
      folded vals_def]
    metallb_container_laid [where env = env and spec = spec, THEN coalesce_laws.coalesce_laid_at [OF assms(2)],
      folded vals_def]
    metallb_settings_laid [where env = env and spec = spec, THEN coalesce_laws.coalesce_laid_at [OF assms(2)],
      folded vals_def]
  note tls = tls_lines_print [where env = env and vals = vals, OF laid(45,46,47)]
  note texts = metallb_names [OF laid(42,43)]
  show ?controller
    by (cases "BGPType spec env = FRRMode"; cases "BGPType spec env = FRRK8sMode";
        cases "BGPType spec env = FRRK8sExternalMode"; cases "LoadBalancerClass spec = []"; cases "IsOpenshift env")
      (simp_all add: printing controller_container_def controller_pod_def laid tls texts backend_variable_def
        backends controllerCertsSecret_def del: value_at.simps)
  show ?speaker if ?named
    using that
    by (cases "BGPType spec env = FRRMode"; cases "BGPType spec env = FRRK8sMode";
        cases "BGPType spec env = FRRK8sExternalMode"; cases "LoadBalancerClass spec = []"; cases "IsOpenshift env")
      (simp_all add: printing speaker_container_def speaker_pod_def laid tls texts backend_variable_def
        backends speakerCertsSecret_def del: value_at.simps)
  show ?metrics
    by (cases "IsOpenshift env")
      (simp_all add: printing speaker_metrics_container_def metrics_pod_def laid tls speakerCertsSecret_def
        del: value_at.simps)
qed

section \<open>The frr-k8s chart\<close>

definition always_block_value :: "metallb_spec \<Rightarrow> string" where
  "always_block_value spec =
     (case FRRK8SConfig spec of None \<Rightarrow> [] | Some c \<Rightarrow> Join '','' (SortStrings (AlwaysBlock c)))"

lemma frrk8sValues_settings:
  assumes "frrk8sValues env spec = Inr w"
  shows "w ''logLevel'' = Some (GStr (logLevelValue spec)) \<and>
     w ''alwaysBlock'' = (if FRRK8SConfig spec = None then None else Some (GStr (always_block_value spec))) \<and>
     w ''disableCertRotation'' = (if IsOpenshift env then Some (GBool True) else None) \<and>
     w ''restartOnRotatorSecretRefresh'' = Some (if IsOpenshift env then GNil else GBool True) \<and>
     w ''webhookPort'' = None \<and> w ''bgpDebounceTimeout'' = None"
  using assms
  by (cases "FRRK8SConfig spec"; cases "SpeakerConfig spec"; cases "IsOpenshift env")
    (auto simp: frrk8sValues_def Let_def bindE_eq_Inr always_block_value_def alwaysBlockToString_Inr)

lemma frrk8s_container_laid:
  assumes "patchChartValues env spec Map.empty = Inr v"
  shows "laid_at v frrk8s_defaults [''prometheus'', ''secureMetricsPort''] = Some (GInt (SecureFRRK8sMetricsPort env))"
    and "laid_at v frrk8s_defaults [''frrk8s'', ''logLevel''] = Some (GStr (logLevelValue spec))"
    and "laid_at v frrk8s_defaults [''frrk8s'', ''alwaysBlock''] = Some (GStr (always_block_value spec))"
    and "laid_at v frrk8s_defaults [''frrk8s'', ''bgpDebounceTimeout''] = Some GNil"
    and "laid_at v frrk8s_defaults [''frrk8s'', ''webhookPort''] = Some (GInt 19443)"
    and "laid_at v frrk8s_defaults [''frrk8s'', ''disableCertRotation''] = Some (GBool (IsOpenshift env))"
    and "laid_at v frrk8s_defaults [''frrk8s'', ''restartOnRotatorSecretRefresh''] =
           Some (if IsOpenshift env then GNil else GBool True)"
    and "laid_at v frrk8s_defaults [''frrk8s'', ''frrStatus'', ''pollInterval''] = Some (GStr ''2m'')"
    and "laid_at v frrk8s_defaults [''frrk8s'', ''frr'', ''image'', ''repository''] = Some (GStr (Repo (FRRImage env)))"
    and "laid_at v frrk8s_defaults [''frrk8s'', ''frr'', ''image'', ''tag''] = Some (GStr (Tag (FRRImage env)))"
    and "laid_at v frrk8s_defaults [''frrk8s'', ''frr'', ''secureMetricsPort''] =
           Some (GInt (SecureFRRK8sFRRMetricsPort env))"
    and "laid_at v frrk8s_defaults [''frrk8s'', ''image'', ''repository''] =
           Some (GStr (if Repo (FRRK8sImage env) \<noteq> [] then Repo (FRRK8sImage env) else ''quay.io/metallb/frr-k8s''))"
    and "laid_at v frrk8s_defaults [''frrk8s'', ''image'', ''tag''] =
           Some (if Repo (FRRK8sImage env) \<noteq> [] then GStr (Tag (FRRK8sImage env)) else GNil)"
    and "laid_at v frrk8s_defaults [''tls'', ''cipherSuites''] = Some (GStr (TLSCipherSuites env))"
    and "laid_at v frrk8s_defaults [''tls'', ''curvePreferences''] = Some (GStr (TLSCurvePreferences env))"
    and "laid_at v frrk8s_defaults [''tls'', ''minVersion''] = Some (GStr (TLSMinVersion env))"
    and "laid_at v frrk8s_defaults [''tls'', ''metricsTLSSecret''] =
           Some (GStr (if IsOpenshift env then frrk8sCertsSecret else []))"
proof -
  obtain w where w: "frrk8sValues env spec = Inr w" and v: "v = [''frrk8s'' \<mapsto> GMap w,
      ''prometheus'' \<mapsto> GMap (prometheusValues env), ''tls'' \<mapsto> GMap (frrk8sTLSHelmValues env)]"
    using assms by (rule frrk8s_values_parts)
  note parts = v prometheusValues_def frrk8sTLSHelmValues_def Let_def frrk8s_defaults_def frrk8s_prometheus_defaults_def
    frrk8s_frrk8s_defaults_def frrk8sValues_keys [OF w] frrk8sValues_settings [OF w] image_val_def
  show "laid_at v frrk8s_defaults [''prometheus'', ''secureMetricsPort''] = Some (GInt (SecureFRRK8sMetricsPort env))" by (simp add: parts)
  show "laid_at v frrk8s_defaults [''frrk8s'', ''logLevel''] = Some (GStr (logLevelValue spec))" by (simp add: parts)
  show "laid_at v frrk8s_defaults [''frrk8s'', ''alwaysBlock''] = Some (GStr (always_block_value spec))"
    by (simp add: parts always_block_value_def)
  show "laid_at v frrk8s_defaults [''frrk8s'', ''bgpDebounceTimeout''] = Some GNil" by (simp add: parts)
  show "laid_at v frrk8s_defaults [''frrk8s'', ''webhookPort''] = Some (GInt 19443)" by (simp add: parts)
  show "laid_at v frrk8s_defaults [''frrk8s'', ''disableCertRotation''] = Some (GBool (IsOpenshift env))" by (simp add: parts)
  show "laid_at v frrk8s_defaults [''frrk8s'', ''restartOnRotatorSecretRefresh''] =
      Some (if IsOpenshift env then GNil else GBool True)" by (simp add: parts)
  show "laid_at v frrk8s_defaults [''frrk8s'', ''frrStatus'', ''pollInterval''] = Some (GStr ''2m'')" by (simp add: parts)
  show "laid_at v frrk8s_defaults [''frrk8s'', ''frr'', ''image'', ''repository''] = Some (GStr (Repo (FRRImage env)))" by (simp add: parts)
  show "laid_at v frrk8s_defaults [''frrk8s'', ''frr'', ''image'', ''tag''] = Some (GStr (Tag (FRRImage env)))" by (simp add: parts)
  show "laid_at v frrk8s_defaults [''frrk8s'', ''frr'', ''secureMetricsPort''] =
      Some (GInt (SecureFRRK8sFRRMetricsPort env))" by (simp add: parts)
  show "laid_at v frrk8s_defaults [''frrk8s'', ''image'', ''repository''] =
      Some (GStr (if Repo (FRRK8sImage env) \<noteq> [] then Repo (FRRK8sImage env) else ''quay.io/metallb/frr-k8s''))" by (simp add: parts)
  show "laid_at v frrk8s_defaults [''frrk8s'', ''image'', ''tag''] =
      Some (if Repo (FRRK8sImage env) \<noteq> [] then GStr (Tag (FRRK8sImage env)) else GNil)" by (simp add: parts)
  show "laid_at v frrk8s_defaults [''tls'', ''cipherSuites''] = Some (GStr (TLSCipherSuites env))" by (simp add: parts)
  show "laid_at v frrk8s_defaults [''tls'', ''curvePreferences''] = Some (GStr (TLSCurvePreferences env))" by (simp add: parts)
  show "laid_at v frrk8s_defaults [''tls'', ''minVersion''] = Some (GStr (TLSMinVersion env))" by (simp add: parts)
  show "laid_at v frrk8s_defaults [''tls'', ''metricsTLSSecret''] =
      Some (GStr (if IsOpenshift env then frrk8sCertsSecret else []))" by (simp add: parts)
qed

text \<open>What its containers are to be; an image that the environment does not name is that of the chart.\<close>

definition frrk8s_image :: "env_config \<Rightarrow> string" where
  "frrk8s_image env =
     (if Repo (FRRK8sImage env) = [] then ''quay.io/metallb/frr-k8s:v0.0.25'' else image_of ''v0.0.25'' (FRRK8sImage env))"

definition daemon_pod :: "env_config \<Rightarrow> metallb_spec \<Rightarrow> pod_container" where
  "daemon_pod env spec =
     \<lparr>PodContainerName = ''controller'', PodImage = frrk8s_image env,
      PodArgs =
        [''--node-name=$(NODE_NAME)'', ''--namespace=$(NAMESPACE)'',
         ''--metrics-bind-address=0.0.0.0:'' @ Itoa (SecureFRRK8sMetricsPort env),
         ''--log-level='' @ logLevelValue spec] @
        opt_flag ''--always-block='' (always_block_value spec) @ tls_flags env @
        (if IsOpenshift env then [''--metrics-cert-dir=/etc/metrics''] else []),
      PodEnv =
        [(''FRR_CONFIG_FILE'', Text ''/etc/frr_reloader/frr.conf''),
         (''FRR_RELOADER_PID_FILE'', Text ''/etc/frr_reloader/reloader.pid''),
         (''NODE_NAME'', Field ''spec.nodeName''), (''NAMESPACE'', Field ''metadata.namespace'')]\<rparr>"

definition status_pod :: "env_config \<Rightarrow> metallb_spec \<Rightarrow> pod_container" where
  "status_pod env spec =
     \<lparr>PodContainerName = ''frr-status'', PodImage = image_of ''v0.0.25'' (FRRImage env),
      PodArgs =
        [''--node-name=$(NODE_NAME)'', ''--namespace=$(NAMESPACE)'', ''--pod-name=$(POD_NAME)'',
         ''--log-level='' @ logLevelValue spec, ''--poll-interval=2m''],
      PodEnv =
        [(''NODE_NAME'', Field ''spec.nodeName''), (''NAMESPACE'', Field ''metadata.namespace''),
         (''POD_NAME'', Field ''metadata.name'')]\<rparr>"

definition statuscleaner_pod :: "env_config \<Rightarrow> metallb_spec \<Rightarrow> pod_container" where
  "statuscleaner_pod env spec =
     \<lparr>PodContainerName = ''frr-k8s-statuscleaner'', PodImage = frrk8s_image env,
      PodArgs =
        [''--webhook-port=19443'', ''--log-level='' @ logLevelValue spec,
         (if IsOpenshift env then ''--disable-cert-rotation=true'' else ''--restart-on-rotator-secret-refresh=true''),
         ''--namespace=$(NAMESPACE)''] @ tls_flags env,
      PodEnv = [(''NAMESPACE'', Field ''metadata.namespace'')]\<rparr>"

definition daemon_pods :: "env_config \<Rightarrow> metallb_spec \<Rightarrow> pod_container list \<times> pod_container list" where
  "daemon_pods env spec =
     (let frr = image_of ''v0.0.25'' (FRRImage env) in
      (frr_init_pods (frrk8s_image env) frr @ [plain_pod ''cp-frr-status'' (frrk8s_image env)],
       daemon_pod env spec # frr_pods frr @
         [metrics_pod env frr (SecureFRRK8sFRRMetricsPort env) [], status_pod env spec]))"

lemma webhook_port_text [simp]: "Itoa 19443 = ''19443''"
  by (simp add: Itoa_def nat_digits_step nat_digits_small, code_simp)

lemma frrk8s_containers_print:
  fixes coalesce v
  defines "vals \<equiv> coalesce v frrk8s_defaults"
  assumes "coalesce_laws coalesce" and "patchChartValues env spec Map.empty = Inr v"
  shows "print_image frrk8s_release vals [''frrk8s'', ''image''] = Some (frrk8s_image env)" (is ?image)
    and "print_container frrk8s_release vals daemon_container = Some (daemon_pod env spec)" (is ?daemon)
    and "print_container frrk8s_release vals daemon_metrics_container =
           Some (metrics_pod env (image_of ''v0.0.25'' (FRRImage env)) (SecureFRRK8sFRRMetricsPort env) [])" (is ?metrics)
    and "print_container frrk8s_release vals daemon_status_container = Some (status_pod env spec)" (is ?status)
    and "print_container frrk8s_release vals statuscleaner_container = Some (statuscleaner_pod env spec)" (is ?cleaner)
proof -
  note laid = frrk8s_container_laid [OF assms(3), THEN coalesce_laws.coalesce_laid_at [OF assms(2)], folded vals_def]
  note tls = tls_lines_print [where env = env and vals = vals, OF laid(14,15,16)]
  show im: ?image
    by (simp add: print_image_def laid frrk8s_image_def image_of_def del: value_at.simps)
  show ?daemon
    by (cases "always_block_value spec = []"; cases "IsOpenshift env")
      (simp_all add: printing im daemon_container_def daemon_pod_def laid tls frrk8sCertsSecret_def del: value_at.simps)
  show ?metrics
    by (cases "IsOpenshift env")
      (simp_all add: printing daemon_metrics_container_def metrics_pod_def laid tls frrk8sCertsSecret_def
        del: value_at.simps)
  show ?status
    by (simp add: printing daemon_status_container_def status_pod_def laid del: value_at.simps)
  show ?cleaner
    by (cases "IsOpenshift env")
      (simp_all add: printing im statuscleaner_container_def statuscleaner_pod_def laid tls del: value_at.simps)
qed

section \<open>The workloads\<close>

lemma plain_container_prints:
  "print_image rel vals p = Some i \<Longrightarrow> print_container rel vals (plain_container n p) = Some (plain_pod n i)"
  by (simp add: print_container_def plain_container_def plain_pod_def)

lemma frr_container_prints:
  assumes "print_image rel vals p = Some i"
  shows "print_container rel vals ((plain_container ''frr'' p)\<lparr>TplEnv := [Item (''TINI_SUBREAPER'', FromText [PText ''true''])]\<rparr>) =
     Some ((plain_pod ''frr'' i)\<lparr>PodEnv := [(''TINI_SUBREAPER'', Text ''true'')]\<rparr>)"
  using assms by (simp add: print_container_def plain_container_def plain_pod_def)

text \<open>A flag whose value must not be empty.\<close>

lemma print_container_fails:
  "expand (print_line rel vals) vals (TplArgs c) = None \<Longrightarrow> print_container rel vals c = None"
  by (simp add: print_container_def bind_eq_None_conv)

lemma metallb_images_print:
  assumes "coalesce_laws coalesce"
  shows "print_image metallb_release (coalesce (metallb_values env spec) metallb_defaults) [''controller'', ''image''] =
           Some (image_of ''v0.0.0'' (ControllerImage env))"
    and "print_image metallb_release (coalesce (metallb_values env spec) metallb_defaults) [''speaker'', ''image''] =
           Some (image_of ''v0.0.0'' (SpeakerImage env))"
    and "print_image metallb_release (coalesce (metallb_values env spec) metallb_defaults) [''speaker'', ''frr'', ''image''] =
           Some (image_of ''v0.0.0'' (FRRImage env))"
  by (simp_all add: print_image_of metallb_container_laid [THEN coalesce_laws.coalesce_laid_at [OF assms]] del: value_at.simps)

lemma speaker_fails_unnamed:
  assumes "coalesce_laws coalesce" and "BGPType spec env = FRRK8sExternalMode" and "frrk8s_namespace_value env spec = []"
  shows "print_container metallb_release (coalesce (metallb_values env spec) metallb_defaults) speaker_container = None"
proof (rule print_container_fails)
  let ?vals = "coalesce (metallb_values env spec) metallb_defaults"
  note laid = metallb_laid [where env = env and spec = spec, THEN coalesce_laws.coalesce_laid_at [OF assms(1)]]
    metallb_container_laid [where env = env and spec = spec, THEN coalesce_laws.coalesce_laid_at [OF assms(1)]]
    metallb_settings_laid [where env = env and spec = spec, THEN coalesce_laws.coalesce_laid_at [OF assms(1)]]
  show "expand (print_line metallb_release ?vals) ?vals (TplArgs speaker_container) = None"
    by (cases "LoadBalancerClass spec = []") (simp_all add: speaker_container_def laid assms(2,3) del: value_at.simps)
qed

lemma metallb_workloads_print:
  fixes coalesce env spec
  defines "vals \<equiv> coalesce (metallb_values env spec) metallb_defaults"
  assumes "coalesce_laws coalesce"
  shows "print_workload metallb_release vals controller_workload = Some ([], [controller_pod env spec])" (is ?controller)
    and "print_workload metallb_release vals speaker_workload =
           (if BGPType spec env = FRRK8sExternalMode \<and> frrk8s_namespace_value env spec = [] then None
            else Some (speaker_pods env spec))" (is ?speaker)
proof -
  note pods = metallb_containers_print [OF assms(2), where env = env and spec = spec, folded vals_def]
  note images = metallb_images_print [OF assms(2), where env = env and spec = spec, folded vals_def]
  note on = metallb_laid(9) [where env = env and spec = spec, THEN coalesce_laws.coalesce_laid_at [OF assms(2)], folded vals_def]
  show ?controller by (simp add: print_workload_def controller_workload_def pods)
  show ?speaker
  proof (cases "BGPType spec env = FRRK8sExternalMode \<and> frrk8s_namespace_value env spec = []")
    case True
    then have "print_container metallb_release vals speaker_container = None"
      unfolding vals_def using speaker_fails_unnamed [OF assms(2)] by blast
    with True show ?thesis
      by (simp add: print_workload_def speaker_workload_def bind_eq_None_conv)
  next
    case False
    then have "print_container metallb_release vals speaker_container = Some (speaker_pod env spec)" by (rule pods(2))
    with False show ?thesis
      by (cases "BGPType spec env = FRRMode")
        (simp_all add: print_workload_def speaker_workload_def speaker_frr_container_def on pods(3) images
          plain_container_prints frr_container_prints speaker_pods_def frr_pods_def frr_init_pods_def Let_def
          del: value_at.simps)
  qed
qed

lemma frrk8s_workloads_print:
  fixes coalesce v
  defines "vals \<equiv> coalesce v frrk8s_defaults"
  assumes "coalesce_laws coalesce" and "patchChartValues env spec Map.empty = Inr v"
  shows "print_workload frrk8s_release vals daemon_workload = Some (daemon_pods env spec)" (is ?daemon)
    and "print_workload frrk8s_release vals statuscleaner_workload = Some ([], [statuscleaner_pod env spec])" (is ?cleaner)
proof -
  note pods = frrk8s_containers_print [OF assms(2,3), folded vals_def]
  have frr: "print_image frrk8s_release vals [''frrk8s'', ''frr'', ''image''] = Some (image_of ''v0.0.25'' (FRRImage env))"
    using frrk8s_container_laid(9,10) [OF assms(3), THEN coalesce_laws.coalesce_laid_at [OF assms(2)], folded vals_def]
    by (simp add: print_image_of del: value_at.simps)
  show ?daemon
    by (simp add: print_workload_def daemon_workload_def daemon_frr_container_def pods frr plain_container_prints
        frr_container_prints daemon_pods_def frr_pods_def frr_init_pods_def Let_def)
  show ?cleaner by (simp add: print_workload_def statuscleaner_workload_def pods)
qed

end
