(* ===== verification/Workload_Properties.thy ===== *)
theory Workload_Properties
  imports Workload_Contracts Main_Contracts
begin

text \<open>
  What the containers of the workloads show of the operator's configuration, from the environment of its
  process and the resource to the arguments in the pods.
\<close>

section \<open>Facts\<close>

text \<open>What a container is told of the backend, and of TLS.\<close>

definition told_backend :: "pod_container \<Rightarrow> env_value list" where
  "told_backend c = map snd (filter (\<lambda>e. fst e = ''METALLB_BGP_TYPE'') (PodEnv c))"

definition is_tls_setting :: "string \<Rightarrow> bool" where
  "is_tls_setting a \<longleftrightarrow>
     prefix ''--tls-cipher-suites='' a \<or> prefix ''--tls-curve-preferences='' a \<or> prefix ''--tls-min-version='' a"

definition tls_settings :: "pod_container \<Rightarrow> string list" where
  "tls_settings c = filter is_tls_setting (PodArgs c)"

text \<open>The containers that serve TLS.\<close>

definition serves_tls :: "pod_container \<Rightarrow> bool" where
  "serves_tls c \<longleftrightarrow> PodContainerName c \<in> {''controller'', ''speaker'', ''frr-metrics'', ''frr-k8s-statuscleaner''}"

lemma filter_tls_flags: "filter is_tls_setting (tls_flags env) = tls_flags env"
  by (simp add: tls_flags_def opt_flag_def is_tls_setting_def)

lemma filter_opt_flag:
  "filter is_tls_setting (opt_flag ''--lb-class='' s) = []" "filter is_tls_setting (opt_flag ''--always-block='' s) = []"
  by (simp_all add: opt_flag_def is_tls_setting_def)

lemma tls_settings_pods:
  "tls_settings (controller_pod env spec) = tls_flags env"
  "tls_settings (speaker_pod env spec) = tls_flags env"
  "tls_settings (metrics_pod env i port vars) = tls_flags env"
  "tls_settings (daemon_pod env spec) = tls_flags env"
  "tls_settings (statuscleaner_pod env spec) = tls_flags env"
  "tls_settings (status_pod env spec) = []"
  "tls_settings (plain_pod n i) = []"
  "tls_settings (plain_pod n i\<lparr>PodEnv := vars\<rparr>) = []"
  by (simp_all add: tls_settings_def controller_pod_def speaker_pod_def metrics_pod_def daemon_pod_def
      statuscleaner_pod_def status_pod_def plain_pod_def filter_tls_flags filter_opt_flag)
    (simp_all add: is_tls_setting_def)

lemma serves_tls_pods:
  "serves_tls (controller_pod env spec)" "serves_tls (speaker_pod env spec)" "serves_tls (metrics_pod env i port vars)"
  "serves_tls (daemon_pod env spec)" "serves_tls (statuscleaner_pod env spec)" "\<not> serves_tls (status_pod env spec)"
  "serves_tls (plain_pod n i) \<longleftrightarrow> n \<in> {''controller'', ''speaker'', ''frr-metrics'', ''frr-k8s-statuscleaner''}"
  "serves_tls (plain_pod n i\<lparr>PodEnv := vars\<rparr>) \<longleftrightarrow>
     n \<in> {''controller'', ''speaker'', ''frr-metrics'', ''frr-k8s-statuscleaner''}"
  by (simp_all add: serves_tls_def controller_pod_def speaker_pod_def metrics_pod_def daemon_pod_def
      statuscleaner_pod_def status_pod_def plain_pod_def)

lemma pods_tls:
  assumes "c \<in> set (fst (speaker_pods env spec)) \<union> set (snd (speaker_pods env spec)) \<union> {controller_pod env spec} \<union>
     set (fst (daemon_pods env spec)) \<union> set (snd (daemon_pods env spec)) \<union> {statuscleaner_pod env spec}"
  shows "tls_settings c = (if serves_tls c then tls_flags env else [])"
  using assms
  by (auto simp: speaker_pods_def daemon_pods_def frr_init_pods_def frr_pods_def Let_def tls_settings_pods
      serves_tls_pods split: if_splits)

lemma told_backend_pods:
  "told_backend (controller_pod env spec) = map snd (backend_variable env spec)"
  "told_backend (speaker_pod env spec) = map snd (backend_variable env spec)"
  by (simp_all add: told_backend_def controller_pod_def speaker_pod_def backend_variable_def)

text \<open>The image of a reference with a tag, and of one without.\<close>

lemma image_of_reference:
  assumes "imageFromEnv e v = Inr i" and "d = [] \<or> last d = CHR ''/''" and "set u \<inter> {CHR ''/'', CHR '':''} = {}"
  shows "e v = Some (d @ u) \<Longrightarrow> image_of app i = d @ u @ '':'' @ app"
    and "e v = Some (d @ u @ '':'' @ t) \<Longrightarrow> t \<noteq> [] \<Longrightarrow> set t \<inter> {CHR ''/'', CHR '':''} = {} \<Longrightarrow>
           image_of app i = d @ u @ '':'' @ t"
proof -
  have u: "CHR ''/'' \<notin> set u" "CHR '':'' \<notin> set u" using assms(3) by auto
  show "image_of app i = d @ u @ '':'' @ app" if "e v = Some (d @ u)"
    using assms(1) that by (auto simp: imageFromEnv_def getImageNameTag_cut [OF assms(2) u(1)] Split_no_sep [OF u(2)] image_of_def)
  show "image_of app i = d @ u @ '':'' @ t"
    if "e v = Some (d @ u @ '':'' @ t)" and "t \<noteq> []" and "set t \<inter> {CHR ''/'', CHR '':''} = {}"
  proof -
    have t: "CHR ''/'' \<notin> set (u @ '':'' @ t)" "CHR '':'' \<notin> set t" using that(3) u by auto
    have "Split (CHR '':'') (Join '':'' [u, t]) = [u, t]" using u(2) t(2) by (intro Split_Join) auto
    then have "getImageNameTag (d @ u @ '':'' @ t) = (d @ u, t)"
      unfolding getImageNameTag_cut [OF assms(2) t(1)] by simp
    then show ?thesis using assms(1) that(1,2) by (auto simp: imageFromEnv_def image_of_def)
  qed
qed

section \<open>Properties\<close>

text \<open>
  The containers of the MetalLB chart's workloads, completely: what the operator's values make of
  their names, images, arguments and environment. Only an external backend without a namespace has no
  speaker; everything else has a controller and a speaker, and what runs FRR beside it in frr mode.
\<close>

theorem metallb_workloads_as_configured:
  assumes "coalesce_laws coalesce"
  shows "print_workload metallb_release (coalesce (patchMetalLBChartValues env spec Map.empty) metallb_defaults)
           controller_workload = Some ([], [controller_pod env spec]) \<and>
         print_workload metallb_release (coalesce (patchMetalLBChartValues env spec Map.empty) metallb_defaults)
           speaker_workload =
           (if BGPType spec env = FRRK8sExternalMode \<and> frrk8s_namespace_value env spec = [] then None
            else Some (speaker_pods env spec))"
  using metallb_workloads_print [OF assms] by blast

theorem metallb_workloads_as_configured_witness:
  "\<exists>ps s rest. print_workload metallb_release
       (coalesce_values (patchMetalLBChartValues (example_config False) zero_spec Map.empty) metallb_defaults)
       speaker_workload = Some (ps, s # rest) \<and> PodImage s = ''quay.io/metallb/speaker:main'' \<and>
     map PodContainerName (ps @ rest) =
       [''cp-frr-files'', ''cp-reloader'', ''cp-metrics'', ''frr'', ''reloader'', ''frr-metrics'']"
  using metallb_workloads_as_configured [OF chart_values.coalesce_laws_axioms, of "example_config False" zero_spec]
  by (simp add: BGPType_def zero_spec_def speaker_pods_def Let_def speaker_pod_def image_of_def example_config_def
      frr_init_pods_def frr_pods_def plain_pod_def metrics_pod_def)

text \<open>
  The containers of the frr-k8s chart's workloads, completely, for every resource whose values can be
  built. Of the environment's four ports for frr-k8s they have the two secure ones.
\<close>

theorem frrk8s_workloads_as_configured:
  assumes "coalesce_laws coalesce" and "patchChartValues env spec Map.empty = Inr v"
  shows "print_workload frrk8s_release (coalesce v frrk8s_defaults) daemon_workload = Some (daemon_pods env spec) \<and>
         print_workload frrk8s_release (coalesce v frrk8s_defaults) statuscleaner_workload =
           Some ([], [statuscleaner_pod env spec])"
  using frrk8s_workloads_print [OF assms] by blast

theorem frrk8s_workloads_as_configured_witness:
  "\<exists>v c. patchChartValues (example_config True) zero_spec Map.empty = Inr v \<and>
     print_workload frrk8s_release (coalesce_values v frrk8s_defaults) statuscleaner_workload = Some ([], [c]) \<and>
     PodImage c = ''quay.io/metallb/frr-k8s:v0.0.25'' \<and> ''--disable-cert-rotation=true'' \<in> set (PodArgs c)"
proof -
  obtain v where v: "patchChartValues (example_config True) zero_spec Map.empty = Inr v"
    using patchChartValues_Inr_iff [of "example_config True" zero_spec] by (auto simp: zero_spec_def)
  from frrk8s_workloads_as_configured [OF chart_values.coalesce_laws_axioms v] v show ?thesis
    by (simp add: statuscleaner_pod_def frrk8s_image_def example_config_def zero_image_def)
qed

text \<open>
  C4. All pods run the same backend. For an admitted resource, the rendered speaker and the rendered
  controller are told the same value of METALLB_BGP_TYPE, which is that of the resource's backend, or none in
  native mode; and FRR runs beside the speaker exactly in frr mode.
\<close>

theorem pods_agree_on_backend:
  assumes "coalesce_laws coalesce" and "Validate ext spec = None"
    and "print_workload metallb_release (coalesce (patchMetalLBChartValues env spec Map.empty) metallb_defaults)
           speaker_workload = Some (si, s # others)"
    and "print_workload metallb_release (coalesce (patchMetalLBChartValues env spec Map.empty) metallb_defaults)
           controller_workload = Some (ci, [c])"
  shows "told_backend s = told_backend c \<and>
         told_backend c =
           (if BGPType spec env = NativeMode then [] else if BGPType spec env = FRRMode then [Text ''frr'']
            else [Text ''frr-k8s'']) \<and>
         (others \<noteq> []) = (BGPType spec env = FRRMode)"
proof -
  have b: "BGPType spec env \<in> {NativeMode, FRRMode, FRRK8sMode, FRRK8sExternalMode}"
    using assms(2) unfolding Validate_None_iff by (auto simp: valid_spec_alt BGPType_def known_backend_def)
  have "c = controller_pod env spec" and "s = speaker_pod env spec" and "(others \<noteq> []) = (BGPType spec env = FRRMode)"
    using assms(3,4) metallb_workloads_print [OF assms(1), of env spec]
    by (auto simp: speaker_pods_def Let_def split: if_splits)
  with b show ?thesis by (auto simp: told_backend_pods backend_variable_def mode_defs)
qed

theorem pods_agree_on_backend_witness:
  "\<exists>si s others ci c.
     print_workload metallb_release
       (coalesce_values (patchMetalLBChartValues (example_config True) zero_spec Map.empty) metallb_defaults)
       speaker_workload = Some (si, s # others) \<and>
     print_workload metallb_release
       (coalesce_values (patchMetalLBChartValues (example_config True) zero_spec Map.empty) metallb_defaults)
       controller_workload = Some (ci, [c]) \<and>
     told_backend s = [Text ''frr-k8s''] \<and> told_backend c = [Text ''frr-k8s''] \<and> others = []"
proof -
  let ?vals = "coalesce_values (patchMetalLBChartValues (example_config True) zero_spec Map.empty) metallb_defaults"
  have b: "BGPType zero_spec (example_config True) = FRRK8sMode"
    by (simp add: BGPType_def zero_spec_def example_config_def)
  have v: "Validate [] zero_spec = None"
    by (simp add: Validate_None_iff valid_spec_alt zero_spec_def preferred_terms_def known_backend_def)
  obtain si s others ci c where
    "print_workload metallb_release ?vals speaker_workload = Some (si, s # others)" and
    "print_workload metallb_release ?vals controller_workload = Some (ci, [c])"
    using metallb_workloads_print [OF chart_values.coalesce_laws_axioms, of "example_config True" zero_spec] b
    by (auto simp: speaker_pods_def backends)
  with pods_agree_on_backend [OF chart_values.coalesce_laws_axioms v this] b show ?thesis by (auto simp: mode_defs)
qed

text \<open>
  C19. One set of TLS settings in every pod. When the operator has started, every container that it lets the
  charts render and that serves TLS gets the settings of the operator's environment as its arguments, each
  one that is set and no other, and no other container gets any; and these settings parse, to the ones the
  operator's own webhook server was started with.
\<close>

theorem started_operator_tls_in_every_pod:
  assumes "coalesce_laws coalesce" and "main M fl h = (Ret (R, server), h')"
    and "patchChartValues (EnvConfig R) spec Map.empty = Inr v"
    and "(rel, vals, w) \<in>
           {metallb_release} \<times> {coalesce (patchMetalLBChartValues (EnvConfig R) spec Map.empty) metallb_defaults} \<times>
             {speaker_workload, controller_workload} \<union>
           {frrk8s_release} \<times> {coalesce v frrk8s_defaults} \<times> {daemon_workload, statuscleaner_workload}"
    and "print_workload rel vals w = Some (init, run)" and "c \<in> set (init @ run)"
  shows "\<exists>f. OptFor (MTLSLib M) (TLSCipherSuites (EnvConfig R)) (TLSCurvePreferences (EnvConfig R))
               (TLSMinVersion (EnvConfig R)) = Inr f \<and>
             TLSOpts server = [disableHTTP2 (WithWebhookHTTP2 fl), f] \<and>
             tls_settings c = (if serves_tls c then tls_flags (EnvConfig R) else [])"
proof -
  obtain env ocpTLS tlsOpt where k: "startup_config M = Inr (env, ocpTLS, tlsOpt)" and
    e: "EnvConfig R = env" "server = webhookServer 9443 (WithWebhookHTTP2 fl) tlsOpt"
    using assms(2) by (rule main_Ret)
  obtain q where q: "q \<in> {speaker_pods (EnvConfig R) spec, ([], [controller_pod (EnvConfig R) spec]),
      daemon_pods (EnvConfig R) spec, ([], [statuscleaner_pod (EnvConfig R) spec])}" "init = fst q" "run = snd q"
    using assms(4,5) metallb_workloads_print [OF assms(1), of "EnvConfig R" spec] frrk8s_workloads_print [OF assms(1,3)]
    by (cases "print_workload rel vals w") (fastforce split: if_splits)+
  have "tls_settings c = (if serves_tls c then tls_flags (EnvConfig R) else [])"
    by (rule pods_tls [where spec = spec]) (use q assms(6) in auto)
  with startup_config_Inr(1) [OF k] e show ?thesis by (simp add: webhookServer_def)
qed

theorem started_operator_tls_in_every_pod_witness:
  "\<exists>R server h' v c. main example_main example_flags [] = (Ret (R, server), h') \<and>
     print_workload frrk8s_release (coalesce_values v frrk8s_defaults) statuscleaner_workload = Some ([], [c]) \<and>
     tls_settings c = tls_flags (EnvConfig R)"
proof -
  obtain R server h' where m: "main example_main example_flags [] = (Ret (R, server), h')"
    using example_start by blast
  obtain v where v: "patchChartValues (EnvConfig R) zero_spec Map.empty = Inr v"
    using patchChartValues_Inr_iff [of "EnvConfig R" zero_spec] by (auto simp: zero_spec_def)
  have p: "print_workload frrk8s_release (coalesce_values v frrk8s_defaults) statuscleaner_workload =
      Some ([], [statuscleaner_pod (EnvConfig R) zero_spec])"
    by (rule frrk8s_workloads_print(2) [OF chart_values.coalesce_laws_axioms v])
  from started_operator_tls_in_every_pod [OF chart_values.coalesce_laws_axioms m v _ p] m p
  show ?thesis by (auto simp: serves_tls_pods)
qed

lemma reference_repo:
  assumes "imageFromEnv e v = Inr i" and "d = [] \<or> last d = CHR ''/''" and "set u \<inter> {CHR ''/'', CHR '':''} = {}"
  shows "e v = Some (d @ u) \<Longrightarrow> Repo i = d @ u"
    and "e v = Some (d @ u @ '':'' @ t) \<Longrightarrow> set t \<inter> {CHR ''/'', CHR '':''} = {} \<Longrightarrow> Repo i = d @ u"
proof -
  have u: "CHR ''/'' \<notin> set u" "CHR '':'' \<notin> set u" using assms(3) by auto
  show "Repo i = d @ u" if "e v = Some (d @ u)"
    using assms(1) that by (auto simp: imageFromEnv_def getImageNameTag_cut [OF assms(2) u(1)] Split_no_sep [OF u(2)])
  show "Repo i = d @ u" if "e v = Some (d @ u @ '':'' @ t)" and "set t \<inter> {CHR ''/'', CHR '':''} = {}"
  proof -
    have t: "CHR ''/'' \<notin> set (u @ '':'' @ t)" "CHR '':'' \<notin> set t" using that(2) u by auto
    have "Split (CHR '':'') (Join '':'' [u, t]) = [u, t]" using u(2) t(2) by (intro Split_Join) auto
    then have "getImageNameTag (d @ u @ '':'' @ t) = (d @ u, t)"
      unfolding getImageNameTag_cut [OF assms(2) t(1)] by simp
    then show ?thesis using assms(1) that(1) by (auto simp: imageFromEnv_def)
  qed
qed

text \<open>The images of the frr-k8s chart.\<close>

lemma FromEnvironment_FRRK8sImage:
  "FromEnvironment semver e openshift = Inr env \<Longrightarrow>
     FRRK8sImage env = (case imageFromEnv e ''FRRK8S_IMAGE'' of Inl _ \<Rightarrow> zero_image | Inr i \<Rightarrow> i)"
  by (auto simp: FromEnvironment_def Let_def result_simps split: option.splits)

lemma frrk8s_images_print:
  assumes "coalesce_laws coalesce" and "patchChartValues env spec Map.empty = Inr w"
  shows "print_image frrk8s_release (coalesce w frrk8s_defaults) [''frrk8s'', ''frr'', ''image''] =
           Some (image_of ''v0.0.25'' (FRRImage env))"
    and "print_image frrk8s_release (coalesce w frrk8s_defaults) [''frrk8s'', ''image''] =
           Some (if Repo (FRRK8sImage env) = [] then ''quay.io/metallb/frr-k8s:v0.0.25''
                 else image_of ''v0.0.25'' (FRRK8sImage env))"
proof -
  note laid = frrk8s_container_laid [OF assms(2), THEN coalesce_laws.coalesce_laid_at [OF assms(1)]]
  show "print_image frrk8s_release (coalesce w frrk8s_defaults) [''frrk8s'', ''frr'', ''image''] =
      Some (image_of ''v0.0.25'' (FRRImage env))"
    by (simp add: print_image_of laid(9,10) del: value_at.simps)
qed (simp add: frrk8s_containers_print(1) [OF assms] frrk8s_image_def)

text \<open>
  C35. The four image variables of the environment reach the pods of both charts. A reference with a tag or
  with a digest, whatever the registry and its port, is the image that the chart prints, character by
  character; one with neither gets the application version of the chart; and where no image of frr-k8s is
  named, its chart's own is taken. References with both a tag and a digest are left out, since the code loses
  their digest.
\<close>

theorem images_reach_the_pods:
  assumes "coalesce_laws coalesce" and "FromEnvironment semver e openshift = Inr env"
    and "(v, rel, vals, p) \<in>
           (let vals1 = coalesce (patchMetalLBChartValues env spec Map.empty) metallb_defaults in
            {(''CONTROLLER_IMAGE'', metallb_release, vals1, [''controller'', ''image'']),
             (''SPEAKER_IMAGE'', metallb_release, vals1, [''speaker'', ''image'']),
             (''FRR_IMAGE'', metallb_release, vals1, [''speaker'', ''frr'', ''image''])}) \<or>
         (\<exists>w. patchChartValues env spec Map.empty = Inr w \<and> (v, rel, vals, p) \<in>
           {(''FRR_IMAGE'', frrk8s_release, coalesce w frrk8s_defaults, [''frrk8s'', ''frr'', ''image'']),
            (''FRRK8S_IMAGE'', frrk8s_release, coalesce w frrk8s_defaults, [''frrk8s'', ''image''])})"
    and "d = [] \<or> last d = CHR ''/''" and "set u \<inter> {CHR ''/'', CHR '':''} = {}" and "u \<noteq> []"
    and "set t \<inter> {CHR ''/'', CHR '':''} = {}" and "t \<noteq> []"
  shows "(e v = Some (d @ u @ '':'' @ t) \<longrightarrow> print_image rel vals p = Some (d @ u @ '':'' @ t)) \<and>
         (e v = Some (d @ u) \<longrightarrow> print_image rel vals p = Some (d @ u @ '':'' @ AppVersion rel)) \<and>
         (e v = None \<longrightarrow> v = ''FRRK8S_IMAGE'' \<and> print_image rel vals p = Some ''quay.io/metallb/frr-k8s:v0.0.25'')"
proof -
  have named: ?thesis if i: "imageFromEnv e v = Inr i"
    and p: "Repo i \<noteq> [] \<Longrightarrow> print_image rel vals p = Some (image_of (AppVersion rel) i)" for i
    using p image_of_reference(1) [OF i assms(4,5), where app = "AppVersion rel"]
      image_of_reference(2) [OF i assms(4,5), where app = "AppVersion rel" and t = t]
      reference_repo(1) [OF i assms(4,5)] reference_repo(2) [OF i assms(4,5), of t] assms(6-8) i
    by (auto simp: imageFromEnv_def simp del: append.simps)
  note mandatory = FromEnvironment_InrD(2-4) [OF assms(2)]
  consider (metallb) i where "imageFromEnv e v = Inr i" "print_image rel vals p = Some (image_of (AppVersion rel) i)"
    | (frrk8s) w where "patchChartValues env spec Map.empty = Inr w" "v = ''FRRK8S_IMAGE''" "rel = frrk8s_release"
        "vals = coalesce w frrk8s_defaults" "p = [''frrk8s'', ''image'']"
    using assms(3) mandatory metallb_images_print [OF assms(1), of env spec] frrk8s_images_print(1) [OF assms(1)]
    by (auto simp: Let_def)
  then show ?thesis
  proof cases
    case metallb
    then show ?thesis by (rule named)
  next
    case frrk8s
    note p = frrk8s_images_print(2) [OF assms(1) frrk8s(1), folded frrk8s(3-5)]
    show ?thesis
    proof (cases "imageFromEnv e v")
      case (Inl err)
      then have "Repo (FRRK8sImage env) = []"
        using FromEnvironment_FRRK8sImage [OF assms(2)] frrk8s(2) by (simp add: zero_image_def)
      with Inl p frrk8s(2) show ?thesis by (auto simp: imageFromEnv_def split: option.splits prod.splits)
    next
      case (Inr i)
      then have "FRRK8sImage env = i"
        using FromEnvironment_FRRK8sImage [OF assms(2)] frrk8s(2) by simp
      with p frrk8s(3) show ?thesis by (intro named [OF Inr]) simp
    qed
  qed
qed

theorem images_reach_the_pods_witness:
  "\<exists>env. FromEnvironment (\<lambda>_. None) example_environment False = Inr env \<and>
     print_image metallb_release
       (coalesce_values (patchMetalLBChartValues env zero_spec Map.empty) metallb_defaults) [''speaker'', ''frr'', ''image''] =
       Some ''test-frr-image:3''"
proof -
  obtain env where env: "FromEnvironment (\<lambda>_. None) example_environment False = Inr env"
    using FromEnvironment_Inr_iff example_environment_ok by blast
  have "example_environment ''FRR_IMAGE'' = Some ([] @ ''test-frr-image'' @ '':'' @ ''3'')"
    by (simp add: example_environment_def)
  with images_reach_the_pods [OF chart_values.coalesce_laws_axioms env,
      where spec = zero_spec and v = "''FRR_IMAGE''" and rel = metallb_release and d = "[]" and u = "''test-frr-image''" and t = "''3''"
        and vals = "coalesce_values (patchMetalLBChartValues env zero_spec Map.empty) metallb_defaults"
        and p = "[''speaker'', ''frr'', ''image'']"] env
  show ?thesis by (auto simp: Let_def)
qed

end
