(* ===== verification/Spec2Isabelle.thy ===== *)
theory Spec2Isabelle
  imports Operator_Process Permissions Deep_Copy_Contracts Unit_Tests Workload_Properties
begin

text \<open>
  A model of metallb-operator, the Kubernetes operator that deploys MetalLB, with the properties that
  make it correct.

  The program. The operator watches one resource, \<open>MetalLB\<close>, named metallb. A webhook
  (\<open>api/v1beta1/metallb_webhook.go\<close>) refuses invalid resources. The reconciler
  (\<open>controllers/metallb_controller.go\<close>) renders two Helm charts with values computed from the resource
  and the operator's environment (\<open>pkg/helm\<close>, \<open>pkg/params\<close>), edits the rendered objects, deletes those
  that must not exist and applies the others, and reports in the resource's status (\<open>pkg/status\<close>) what
  came of it. On OpenShift it may ask the cluster's network operator to deploy frr-k8s
  (\<open>pkg/openshift\<close>). \<open>main.go\<close> finds out the platform (\<open>pkg/platform\<close>), settles the TLS settings
  (\<open>pkg/tlsconfig\<close>), publishes them, and starts everything.

  The theories, in the order they build on one another:
  \<^item> \<open>Operator_Prelude\<close>: Go's errors and the outcomes of a call (a value, an error, a panic, a loop that
    runs forever), how they are sequenced, and the interface of a loop that stops at the first error.
  \<^item> \<open>Go_Strings\<close>, \<open>Go_Net\<close>, \<open>Go_Values\<close>: what the program uses of Go's standard library (splitting,
    trimming, numbers, \<open>net.ParseCIDR\<close>) and the dynamically typed values of charts and objects.
  \<^item> \<open>API_Types\<close>, \<open>Webhook\<close>: the resource, its validation and the admission handlers.
  \<^item> \<open>Deep_Copy_Heap\<close>, \<open>Deep_Copy\<close>, \<open>Deep_Copy_Contracts\<close>: the resource in memory, with its pointers, maps
    and slices, and the generated deep copies (\<open>zz_generated.deepcopy.go\<close>); that a copy is equal to the
    original and shares no memory with it.
  \<^item> \<open>Params\<close>: the operator's environment, image references, the effective BGP backend.
  \<^item> \<open>TLS_Options\<close>: parsing cipher suites, curves (16 and 32 bit integers) and the minimum version.
  \<^item> \<open>Unstructured\<close>: the interface of the Kubernetes libraries on unstructured objects.
  \<^item> \<open>Helm_Values\<close>, \<open>Helm_Objects\<close>: the chart values, parsing a manifest, the edits and overrides of
    objects, the two charts. \<open>Helm_Edits\<close> and \<open>Helm_Contracts\<close>: what the edits do and the properties.
  \<^item> \<open>Chart_Schema\<close>, \<open>Chart_Data\<close>, \<open>Values_Schema\<close>: the JSON schemas and the default values of the charts
    (\<open>bindata/deployment/helm\<close>), how Helm lays values over defaults, and that the values the operator
    computes match the schemas.
  \<^item> \<open>Chart_Template\<close>, \<open>Template_Data\<close>: the language of the charts' templates, a checker that finds what of
    a template can fail or render an object, and the twelve templates of the two charts.
    \<open>Chart_Rendering\<close>, \<open>Chart_Rendering_FRRK8s\<close>, \<open>Helm_Rendering\<close>: that the templates render on the values
    that the operator computes, and which objects they render.
  \<^item> \<open>Workload_Template\<close>, \<open>Workload_Contracts\<close>, \<open>Workload_Properties\<close>: the containers in the templates of
    the four workloads (\<open>speaker.yaml\<close>, \<open>status-cleaner.yaml\<close> and the two \<open>controller.yaml\<close>), what the operator's
    values make of them, and that the backend, the TLS settings and the images in the pods are the
    configured ones.
  \<^item> \<open>Openshift_SCC\<close>, \<open>Openshift_Client\<close>: \<open>pkg/openshift\<close> and \<open>pkg/platform\<close>.
  \<^item> \<open>Kube_Client\<close>: the API server and computations that call it. \<open>Operator_Status\<close>: \<open>pkg/status\<close>.
  \<^item> \<open>Controller\<close>, \<open>Controller_Contracts\<close>: the reconciler, and which calls it makes and what it reports.
  \<^item> \<open>API_Server\<close>: a server that honours the calls: an application is a server-side apply, of which only is
    known that the applied fields take effect, and kinds without a namespace are stored without one.
    \<open>Convergence\<close>: the cluster as a state machine, and the state a synchronisation leaves behind.
  \<^item> \<open>Progress\<close>: the work queue on a working server, with the events of the watch on the resource: when the
    resource is Available, and why the queue does not come to rest.
  \<^item> \<open>Rendered_State\<close>: the reconciler with the repository's own charts: the objects by kind and name that
    a synchronisation leaves in the cluster, and two cases in which the rendered objects get in its way.
  \<^item> \<open>Operator_Main\<close>, \<open>Main_Contracts\<close>: the start of the operator. \<open>Operator_Process\<close>: the running
    operator as a state machine, with the goroutine that registers the webhook, the worker, the admission
    requests and the TLS watcher in any order.
  \<^item> \<open>Unit_Tests\<close>: the tables of the repository's unit tests, evaluated on the model.
  \<^item> \<open>Permissions\<close>: the operator's role (the \<open>kubebuilder:rbac\<close> markers and \<open>config/rbac/role.yaml\<close>), and
    which of the operator's calls, at its start and in a reconciliation, it covers. The requests for the TLS
    profile and for the watches, which leave no call in a trace, are listed there.

  How code is modelled. A definition has the name of the function it models, where it can; structs are
  records, nil pointers, maps and slices that the code tells apart from empty ones are options. A Go map
  is a partial function. Functions that only compute return \<open>go_error + 'a\<close>, or an \<open>outcome\<close> where a
  panic or a loop without end is possible. Functions that talk to the API server take the trace of the
  calls made so far and return it extended; what the server answers is an arbitrary function of the
  trace, so the properties hold whatever happens in the cluster meanwhile. Code that is not in the
  repository (Helm, the YAML decoder, the unstructured and conversion libraries, semantic versions,
  cipher names, owner references, the controller runtime) is a field of a record that the definitions
  take; what is assumed of it is stated in the locales \<open>unstructured_laws\<close> and \<open>workload_laws\<close>, which
  \<open>workload_lib\<close> satisfies, and \<open>helm_renders\<close>, which the rendering of \<open>Helm_Rendering\<close> satisfies.

  Templates. A template is the tree of its conditions, the objects between them by kind and name, and the
  values that the text of each object uses. Rendering is Helm's: a path that goes through a value that is
  no map fails, and so do \<open>fail\<close> and \<open>required\<close>. The values are the charts' defaults with the computed
  values laid over them.

  Objects are changed through pointers. In \<open>MetalLBChart.Objects\<close> the loop variable and the slot of the
  slice start as the same object and part when an override returns a new one; the model keeps both, and
  the theorems on the OpenShift edits show the consequence.

  The deep copies are modelled on a heap, a list of cells with allocation at its end. A struct's copy
  returns the value of the struct that it fills, and the grown heap.

  Loops. All loops but one are structural recursions. \<open>parseManifest\<close> reads until the decoder reports an
  end, so its loop is a partial function, and the theorem on it says when it returns and when it does
  not. The work queue of \<open>Progress\<close> has fuel, the number of reconciliations; \<open>eventually_available\<close> says how
  much is enough for the resource to be Available and stay so: more than the number of calls until the
  workloads are ready. No fuel makes the queue come to rest where reconciling takes its time:
  \<open>status_writes_keep_queue_busy\<close>.

  Interfaces. \<open>first_error_loop\<close> (loops that validate, interpreted on the loops of the webhook, of the
  always-block list and of the schemes), \<open>effect_loop\<close> (loops with calls, interpreted on the deletions, the
  applications and the pods), \<open>unstructured_laws\<close> and \<open>workload_laws\<close>, \<open>coalesce_laws\<close> (laying values over
  defaults, interpreted on the model of it), \<open>copier\<close> (a deep copy and the view it keeps, interpreted on
  maps, lists and every struct) and \<open>kube_copiers\<close> (the copies of the Kubernetes libraries),
  \<open>helm_renders\<close> (Helm on the charts' files, interpreted on the model of the templates),
  \<open>rendering_reconciler\<close> (a reconciler with the repository's charts), \<open>applying_server\<close> (what an
  application leaves on the server, interpreted on a server that merges maps) and \<open>rbac_authorizer\<close> (what
  the rules of a role must grant, interpreted on the rules of the markers).

  Not modelled: logging, the parsing of the command line (the model has the flags), the body of the
  readiness endpoint, the text of a rendered object beyond its kind, its name, the values it uses and,
  for the workloads, the names, images, arguments and environment of the containers (Helm and the YAML
  decoder are parameters), the requests that leader election, the certificate rotator and the discovery of
  the platform make inside their libraries, and the end-to-end tests, which are not part of the operator.
  The formatted text of an object in the error of a failed status update is left out, and texts of errors
  of other packages are parameters.
\<close>

end
